(* ===== verification/Prelude.thy ===== *)
theory Prelude
  imports "HOL-Library.Word" "HOL-Library.State_Monad"
begin

unbundle bit_operations_syntax

text \<open>
  Shared vocabulary of the development: the machine types of the driver (the kernel's u8, s16,
  s32 and so on, kept at their width), the kernel's error numbers, a preservation calculus for
  the state monad the driver's functions are written in, and generic lemmas on words and lists.
  Nothing here models a particular source file.
\<close>

section \<open>Machine integers\<close>

type_synonym u8 = "8 word"
type_synonym u16 = "16 word"
type_synonym s16 = "16 word"
type_synonym u32 = "32 word"
type_synonym s32 = "32 word"
type_synonym u64 = "64 word"

text \<open>
  C's integer promotion of an unsigned byte: an \<open>int\<close> with the same value.  Shifts and masks
  of the source are computed at this width, and assignment to a \<open>u8\<close> truncates with
  \<open>ucast\<close>.
\<close>

abbreviation promote :: "u8 \<Rightarrow> s32" where
  "promote b \<equiv> ucast b"

abbreviation truncate_u8 :: "s32 \<Rightarrow> u8" where
  "truncate_u8 v \<equiv> ucast v"

text \<open>The Linux error numbers the driver returns (negated, as \<open>int\<close>).\<close>

abbreviation (input) EIO :: s32 where "EIO \<equiv> 5"
abbreviation (input) ENOMEM :: s32 where "ENOMEM \<equiv> 12"
abbreviation (input) ENODEV :: s32 where "ENODEV \<equiv> 19"
abbreviation (input) EINVAL :: s32 where "EINVAL \<equiv> 22"
abbreviation (input) ENOSYS :: s32 where "ENOSYS \<equiv> 38"

text \<open>
  A C pointer as the driver tests it: NULL, an error pointer (\<open>ERR_PTR\<close>), or an object.
  \<open>IS_ERR\<close> and \<open>PTR_ERR\<close> are the kernel's macros of \<open>linux/err.h\<close>.
\<close>

datatype 'a ref = Null | Err s32 | Obj (deref: 'a)

type_synonym ptr = "unit ref"

fun IS_ERR :: "'a ref \<Rightarrow> bool" where
  "IS_ERR (Err e) = True"
| "IS_ERR p = False"

fun PTR_ERR :: "'a ref \<Rightarrow> s32" where
  "PTR_ERR (Err e) = e"
| "PTR_ERR p = 0"

lemma IS_ERR_Obj [simp]: "IS_ERR p \<Longrightarrow> p \<noteq> Obj x"
  by (cases p) auto

section \<open>Words and bytes\<close>

lemma promote_inject [simp]: "promote a = promote b \<longleftrightarrow> a = b"
  by (rule inj_eq) (simp add: inj_on_def bit_eq_iff bit_simps)

lemma truncate_promote [simp]: "truncate_u8 (promote b) = b"
  by (simp add: bit_eq_iff bit_simps)

lemma promote_eq_0 [simp]: "promote b = 0 \<longleftrightarrow> b = 0"
  using promote_inject [of b 0] by simp

text \<open>
  Equations between byte and \<open>int\<close> values that masks and shifts compute are decided bit by bit.
\<close>

lemma all_less_8: "(\<forall>n<8. P n) \<longleftrightarrow> P 0 \<and> P 1 \<and> P 2 \<and> P 3 \<and> P 4 \<and> P 5 \<and> P 6 \<and> P (7::nat)"
  by (auto simp: All_less_Suc numeral_eq_Suc)

lemma all_less_add: "(\<forall>n<a + b. P n) \<longleftrightarrow> (\<forall>n<a. P n) \<and> (\<forall>n<b. P (a + n))" for a b :: nat
  by (auto, metis le_add_diff_inverse nat_add_left_cancel_less not_le)

lemma all_less_32: "(\<forall>n<32. P n) \<longleftrightarrow>
    (\<forall>n<8. P n) \<and> (\<forall>n<8. P (8 + n)) \<and> (\<forall>n<8. P (16 + n)) \<and> (\<forall>n<8. P (24 + (n::nat)))"
  using all_less_add [of 8 24 P] all_less_add [of 8 16 "\<lambda>n. P (8 + n)"]
    all_less_add [of 8 8 "\<lambda>n. P (16 + n)"] by (simp add: add.assoc [symmetric])

lemma u8_bits: "(a::u8) = b \<longleftrightarrow> (\<forall>n<8. bit a n = bit b n)"
  using bit_word_eqI [of a b] by auto

lemma s32_bits: "(a::s32) = b \<longleftrightarrow> (\<forall>n<32. bit a n = bit b n)"
  using bit_word_eqI [of a b] by auto

lemma bit_u8_beyond: "8 \<le> n \<Longrightarrow> bit (v::u8) n = False"
  using bit_imp_le_length [of v n] by auto

lemmas byte_bits = bit_u8_beyond u8_bits s32_bits all_less_32 all_less_8 bit_simps

section \<open>The state monad: running and preservation\<close>

named_theorems neutral_rules \<open>functions and constructs that neither acquire nor give back a resource\<close>
named_theorems quiet_rules \<open>activities that leave the driver's data alone\<close>

definition gets :: "('s \<Rightarrow> 'a) \<Rightarrow> ('s, 'a) state" where
  "gets f = State (\<lambda>s. (f s, s))"

lemma run_state_gets [simp]: "run_state (gets f) s = (f s, s)"
  by (simp add: gets_def)

definition whenM :: "bool \<Rightarrow> ('s, unit) state \<Rightarrow> ('s, unit) state" where
  "whenM b m = (if b then m else State_Monad.return ())"

text \<open>
  \<open>keeps R m\<close>: every run of \<open>m\<close> relates its first and last state by \<open>R\<close>.  With a reflexive
  and transitive \<open>R\<close> this composes over the constructs of the monad, whatever the values
  computed on the way: frame properties and invariants of long functions are proved by
  structure, without enumerating their paths.
\<close>

definition keeps :: "('s \<Rightarrow> 's \<Rightarrow> bool) \<Rightarrow> ('s, 'a) state \<Rightarrow> bool" where
  "keeps R m \<longleftrightarrow> (\<forall>s. R s (snd (run_state m s)))"

lemma keepsI: "(\<And>s a s'. run_state m s = (a, s') \<Longrightarrow> R s s') \<Longrightarrow> keeps R m"
  by (metis keeps_def prod.collapse)

lemma keepsD: "keeps R m \<Longrightarrow> run_state m s = (a, s') \<Longrightarrow> R s s'"
  by (metis keeps_def snd_conv)

lemma keeps_return: "reflp R \<Longrightarrow> keeps R (State_Monad.return a)"
  by (simp add: keeps_def reflp_def)

lemma keeps_gets: "reflp R \<Longrightarrow> keeps R (gets f)"
  by (simp add: keeps_def reflp_def)

lemma keeps_bind:
  "transp R \<Longrightarrow> keeps R m \<Longrightarrow> (\<And>a. keeps R (f a)) \<Longrightarrow> keeps R (State_Monad.bind m f)"
  by (rule keepsI) (auto split: prod.splits dest: keepsD transpD)

lemma keeps_if: "keeps R m1 \<Longrightarrow> keeps R m2 \<Longrightarrow> keeps R (if b then m1 else m2)"
  by simp

lemma keeps_Let: "keeps R (f a) \<Longrightarrow> keeps R (let x = a in f x)"
  by simp

lemma keeps_case_prod: "(\<And>a b. keeps R (f a b)) \<Longrightarrow> keeps R (case p of (a, b) \<Rightarrow> f a b)"
  by (simp split: prod.split)

lemma keeps_case_ref:
  "keeps R m1 \<Longrightarrow> (\<And>e. keeps R (m2 e)) \<Longrightarrow> (\<And>x. keeps R (m3 x)) \<Longrightarrow>
   keeps R (case p of Null \<Rightarrow> m1 | Err e \<Rightarrow> m2 e | Obj x \<Rightarrow> m3 x)"
  by (cases p) auto

lemma keeps_whenM: "reflp R \<Longrightarrow> keeps R m \<Longrightarrow> keeps R (whenM b m)"
  by (simp add: whenM_def keeps_return)

section \<open>Lists\<close>

text \<open>What a copy into a fixed buffer leaves: the new bytes, then the old tail.\<close>

definition overwrite :: "'a list \<Rightarrow> 'a list \<Rightarrow> 'a list" where
  "overwrite new old = new @ drop (length new) old"

lemma length_overwrite [simp]: "length new \<le> length old \<Longrightarrow> length (overwrite new old) = length old"
  by (simp add: overwrite_def)

lemma overwrite_full [simp]: "length new = length old \<Longrightarrow> overwrite new old = new"
  by (simp add: overwrite_def)

lemma take_overwrite [simp]: "take (length new) (overwrite new old) = new"
  by (simp add: overwrite_def)

end
