(* ===== verification/Kernel.thy ===== *)
theory Kernel
  imports Prelude
begin

text \<open>
  The interface between the driver and everything that is not under \<open>src/\<close>: the Linux kernel,
  the I2C bus and the device behind it.  Every call of the driver into that environment is an
  event; its answer is computed by a parameter \<open>E :: env\<close> from the history of all previous
  events, so a theorem over an arbitrary \<open>E\<close> holds for every (deterministic, history
  dependent) behaviour of the environment.  The driver's own data, the structures of
  olimex_mod_mpu6050_types.h, netlink.h, server.h and wq.h, form the state record.

  A run of the driver that reaches undefined behaviour of C (a null pointer, an index or a copy
  outside an array) or that never returns (a self deadlock, a loop that ran through the whole
  bound the model gives it) is \<open>halted\<close>: nothing the halted run does afterwards changes
  the state or reaches the environment.
\<close>

section \<open>Calls into the environment\<close>

text \<open>
  Pins are named by the driver's constants for them: the label is what the gpio functions of the
  sunxi kernel take, the number what the generic gpio functions take.
\<close>

datatype pin = Led_pin | Int_pin

datatype i2c_call =
    Read_byte u8 | Write_byte u8 u8 | Read_word u8 | Read_block u8 u8
  | Xfer_read_byte u16 | Check_functionality | Set_clientdata | Add_driver | Del_driver

datatype gpio_call =
    Gpio_is_valid pin | Script_parser_fetch pin | Gpio_request_ex pin | Gpio_release u32
  | Gpio_write u32 bool | Gpio_read u32 | Gpio_unexport pin | Gpio_free pin | Gpio_to_irq pin
  | Pinctrl_get | Pinctrl_lookup_state | Pinctrl_select_state | Pinctrl_put

text \<open>
  The heap objects the driver allocates.  \<open>Kfree_task\<close> is \<open>kfree\<close> of a thread's task structure,
  which belongs to the kernel.
\<close>

datatype heap_object = Client_data | Netlink_server | Udp_server

datatype dev_id = Dev_null | Dev_client

datatype thread = Netlink_thread | Udp_thread

datatype sys_call =
    Kzalloc heap_object | Kfree heap_object | Kfree_task thread
  | Mutex_init | Mutex_lock | Mutex_unlock | Mutex_destroy
  | Create_workqueue | Destroy_workqueue | Queue_work | Init_work
  | Request_irq s32 dev_id | Free_irq s32 dev_id
  | Hrtimer_init | Hrtimer_start nat | Hrtimer_cancel | Hrtimer_forward_now nat
  | Sysfs_create_bin_file | Sysfs_remove_bin_file
  | Kthread_run thread | Send_sigkill thread | Daemonize | Allow_sigkill | Signal_pending
  | Ktime_get_real | Msleep nat

datatype net_call =
    Netlink_kernel_create | Netlink_kernel_release
  | Genl_register_family_with_ops | Genl_unregister_family
  | Genl_register_mc_group | Genl_unregister_mc_group | Genl_unregister_ops
  | Genlmsg_new | Genlmsg_put s32 | Nla_put_u16 nat u16 | Genlmsg_end | Genlmsg_multicast
  | Genlmsg_cancel | Nlmsg_free | Kfree_skb
  | In_aton string | Sock_create | Sock_connect u32 u16 | Sock_sk
  | Sock_sendmsg "u8 list" int | Sock_recvmsg int | Sock_release

text \<open>The warnings (\<open>pr_warn\<close>) of the driver; its other diagnostic output is not modelled.\<close>

datatype warning =
    Warn_reset_incomplete | Warn_workqueue_initialized | Warn_short_read s32 s32
  | Warn_netlink_initialized | Warn_server_initialized | Warn_thread_running thread
  | Warn_slot_unused int | Warn_slot_incomplete int int | Warn_slot_no_timestamp int

datatype kcall =
    I2C i2c_call | Gpio gpio_call | Sys sys_call | Net net_call | Warn warning

text \<open>
  One answer serves all calls: a call that returns an \<open>int\<close> uses \<open>ret\<close>, one that returns a
  pointer \<open>pt\<close>, one that fills a buffer \<open>bytes\<close>, one that returns a 64 bit value \<open>val64\<close>.
\<close>

record reply =
  ret :: s32
  pt :: ptr
  bytes :: "u8 list"
  val64 :: u64

type_synonym event = "kcall \<times> reply"

text \<open>
  The environment: its answers, and the byte order of the processor the driver runs on.
\<close>

datatype byte_order = Little_endian | Big_endian

record env =
  answer :: "event list \<Rightarrow> kcall \<Rightarrow> reply"
  order :: byte_order

definition no_reply :: reply where
  "no_reply = \<lparr>ret = 0, pt = Null, bytes = [], val64 = 0\<rparr>"

definition int_reply :: "s32 \<Rightarrow> reply" where
  "int_reply e = \<lparr>ret = e, pt = Null, bytes = [], val64 = 0\<rparr>"

definition ptr_reply :: "ptr \<Rightarrow> reply" where
  "ptr_reply p = \<lparr>ret = 0, pt = p, bytes = [], val64 = 0\<rparr>"

lemma reply_sel [simp]:
  "ret no_reply = 0" "pt no_reply = Null" "bytes no_reply = []"
  "ret (int_reply e) = e" "pt (int_reply e) = Null"
  "ret (ptr_reply p) = 0" "pt (ptr_reply p) = p"
  by (simp_all add: no_reply_def int_reply_def ptr_reply_def)

section \<open>The driver's data\<close>

text \<open>\<open>struct i2c_mpu6050_wq_ringbuffer_entry_t\<close> of olimex_mod_mpu6050_wq.h.\<close>

record ringbuffer_entry =
  used :: int
  data :: "u8 list"
  entry_size :: int
  timestamp :: u64

text \<open>\<open>struct i2c_mpu6050_netlink_server_t\<close> of olimex_mod_mpu6050_netlink.h.\<close>

record netlink_server =
  nl_running :: int
  nl_socket :: ptr
  nl_thread :: ptr

text \<open>\<open>struct i2c_mpu6050_server_t\<close> of olimex_mod_mpu6050_server.h.\<close>

record udp_server =
  srv_thread :: ptr
  srv_socket_send :: ptr
  srv_address_send :: "u32 \<times> u16"
  srv_running :: int

text \<open>
  \<open>struct i2c_mpu6050_client_data_t\<close> of olimex_mod_mpu6050_types.h.  \<open>client_irq\<close> is the field
  \<open>irq\<close> of the \<open>struct i2c_client\<close> that \<open>client\<close> points to; \<open>sync_lock\<close> tells whether the
  mutex is held.
\<close>

record client_data =
  pin_ctrl :: ptr
  gpio_int_handle :: u32
  gpio_led_handle :: u32
  client_irq :: s32
  workqueue :: ptr
  work_read_client :: ptr
  ringbuffer :: "ringbuffer_entry list"
  ringbufferpos :: int
  sync_lock :: bool
  netlink_server :: "netlink_server ref"
  server :: "udp_server ref"

text \<open>The module parameters of olimex_mod_mpu6050_main.c.\<close>

record module_params =
  noirq :: int
  nofifo :: int
  nonetlink :: int
  noserver :: int
  peer :: string
  port :: s16

datatype fault =
    Null_dereference | Index_out_of_range int | Buffer_overflow | Self_deadlock | Never_returns

text \<open>
  \<open>drvdata\<close> is the pointer \<open>i2c_set_clientdata\<close> stores and \<open>i2c_get_clientdata\<close> returns;
  \<open>netlink_seq\<close> is \<open>i2c_mpu6050_netlink_sequence_number\<close>.
\<close>

record kst =
  trace :: "event list"
  params :: module_params
  cd :: client_data
  drvdata :: ptr
  netlink_seq :: s32
  halted :: "fault option"

type_synonym 'a driver = "(kst, 'a) state"

text \<open>
  The zeroed memory \<open>kzalloc\<close> returns for a client, and the state before the driver has done
  anything, for given module parameters.  \<open>default_params\<close> are the values the parameters are
  declared with.
\<close>

definition blank_entry :: ringbuffer_entry where
  "blank_entry = \<lparr>used = 0, data = replicate 14 0, entry_size = 0, timestamp = 0\<rparr>"

definition blank_client_data :: client_data where
  "blank_client_data =
     \<lparr>pin_ctrl = Null, gpio_int_handle = 0, gpio_led_handle = 0, client_irq = 0, workqueue = Null,
      work_read_client = Null, ringbuffer = replicate 64 blank_entry, ringbufferpos = 0,
      sync_lock = False, netlink_server = Null, server = Null\<rparr>"

text \<open>What an assignment of a fresh allocation to a typed pointer stores.\<close>

fun as_ref :: "'a \<Rightarrow> ptr \<Rightarrow> 'a ref" where
  "as_ref x (Obj u) = Obj x"
| "as_ref x (Err e) = Err e"
| "as_ref x Null = Null"

definition default_params :: module_params where
  "default_params = \<lparr>noirq = 0, nofifo = 0, nonetlink = 0, noserver = 1, peer = [], port = 10001\<rparr>"

definition initial_kst :: "module_params \<Rightarrow> kst" where
  "initial_kst p = \<lparr>trace = [], params = p, cd = blank_client_data, drvdata = Null, netlink_seq = 0, halted = None\<rparr>"

lemma initial_kst_sel [simp]:
  "halted (initial_kst p) = None" "trace (initial_kst p) = []" "params (initial_kst p) = p"
  "cd (initial_kst p) = blank_client_data"
  by (simp_all add: initial_kst_def)

section \<open>The primitives of the driver's functions\<close>

definition ask :: "env \<Rightarrow> kcall \<Rightarrow> reply driver" where
  "ask E c = State (\<lambda>s. if halted s = None then let r = answer E (trace s) c in (r, s\<lparr>trace := (c, r) # trace s\<rparr>)
                        else (no_reply, s))"

definition upd :: "(kst \<Rightarrow> kst) \<Rightarrow> unit driver" where
  "upd f = State (\<lambda>s. ((), if halted s = None then f s else s))"

definition upd_cd :: "(client_data \<Rightarrow> client_data) \<Rightarrow> unit driver" where
  "upd_cd f = upd (\<lambda>s. s\<lparr>cd := f (cd s)\<rparr>)"

definition fault :: "fault \<Rightarrow> unit driver" where
  "fault x = upd (\<lambda>s. s\<lparr>halted := Some x\<rparr>)"

definition call :: "env \<Rightarrow> kcall \<Rightarrow> s32 driver" where
  "call E c = do { r \<leftarrow> ask E c; State_Monad.return (ret r) }"

definition call_ptr :: "env \<Rightarrow> kcall \<Rightarrow> ptr driver" where
  "call_ptr E c = do { r \<leftarrow> ask E c; State_Monad.return (pt r) }"

definition exec :: "env \<Rightarrow> kcall \<Rightarrow> unit driver" where
  "exec E c = do { _ \<leftarrow> ask E c; State_Monad.return () }"

text \<open>
  The mutex \<open>sync_lock\<close>.  The driver's threads exclude each other with it, so one handler sees
  it held at its own \<open>mutex_lock\<close> only when it already holds it: a self deadlock.
\<close>

definition mutex_lock :: "env \<Rightarrow> unit driver" where
  "mutex_lock E = do {
     held \<leftarrow> gets (\<lambda>s. sync_lock (cd s));
     if held then fault Self_deadlock
     else do { exec E (Sys Mutex_lock); upd_cd (\<lambda>c. c\<lparr>sync_lock := True\<rparr>) } }"

definition mutex_unlock :: "env \<Rightarrow> unit driver" where
  "mutex_unlock E = do { exec E (Sys Mutex_unlock); upd_cd (\<lambda>c. c\<lparr>sync_lock := False\<rparr>) }"

definition get_cd :: "(client_data \<Rightarrow> 'a) \<Rightarrow> 'a driver" where
  "get_cd f = gets (\<lambda>s. f (cd s))"

definition get_param :: "(module_params \<Rightarrow> 'a) \<Rightarrow> 'a driver" where
  "get_param f = gets (\<lambda>s. f (params s))"


text \<open>Running the primitives.\<close>

lemma run_ask [simp]:
  "run_state (ask E c) s =
     (if halted s = None then (answer E (trace s) c, s\<lparr>trace := (c, answer E (trace s) c) # trace s\<rparr>)
      else (no_reply, s))"
  by (simp add: ask_def Let_def)

lemma run_upd [simp]: "run_state (upd f) s = ((), if halted s = None then f s else s)"
  by (simp add: upd_def)

lemma run_upd_cd [simp]:
  "run_state (upd_cd f) s = ((), if halted s = None then s\<lparr>cd := f (cd s)\<rparr> else s)"
  by (simp add: upd_cd_def)

lemma run_fault [simp]:
  "run_state (fault x) s = ((), if halted s = None then s\<lparr>halted := Some x\<rparr> else s)"
  by (simp add: fault_def)

lemma run_call [simp]:
  "run_state (call E c) s =
     (if halted s = None then (ret (answer E (trace s) c), s\<lparr>trace := (c, answer E (trace s) c) # trace s\<rparr>)
      else (0, s))"
  by (simp add: call_def)

lemma run_call_ptr [simp]:
  "run_state (call_ptr E c) s =
     (if halted s = None then (pt (answer E (trace s) c), s\<lparr>trace := (c, answer E (trace s) c) # trace s\<rparr>)
      else (Null, s))"
  by (simp add: call_ptr_def)

lemma run_exec [simp]:
  "run_state (exec E c) s =
     ((), if halted s = None then s\<lparr>trace := (c, answer E (trace s) c) # trace s\<rparr> else s)"
  by (simp add: exec_def)

lemma run_get_cd [simp]: "run_state (get_cd f) s = (f (cd s), s)"
  by (simp add: get_cd_def)

lemma run_get_param [simp]: "run_state (get_param f) s = (f (params s), s)"
  by (simp add: get_param_def)

lemma run_mutex_lock [simp]:
  "run_state (mutex_lock E) s =
     ((), if halted s \<noteq> None then s
          else if sync_lock (cd s) then s\<lparr>halted := Some Self_deadlock\<rparr>
          else s\<lparr>trace := (Sys Mutex_lock, answer E (trace s) (Sys Mutex_lock)) # trace s,
                 cd := (cd s)\<lparr>sync_lock := True\<rparr>\<rparr>)"
  by (simp add: mutex_lock_def)

lemma run_mutex_unlock [simp]:
  "run_state (mutex_unlock E) s =
     ((), if halted s \<noteq> None then s
          else s\<lparr>trace := (Sys Mutex_unlock, answer E (trace s) (Sys Mutex_unlock)) # trace s,
                 cd := (cd s)\<lparr>sync_lock := False\<rparr>\<rparr>)"
  by (simp add: mutex_unlock_def)

text \<open>Updates of different fields of the state, in the order of their declaration.\<close>

lemma kst_order:
  fixes s :: kst
  shows "s\<lparr>cd := c, trace := t\<rparr> = s\<lparr>trace := t, cd := c\<rparr>"
    "s\<lparr>netlink_seq := q, trace := t\<rparr> = s\<lparr>trace := t, netlink_seq := q\<rparr>"
    "s\<lparr>halted := h, trace := t\<rparr> = s\<lparr>trace := t, halted := h\<rparr>"
    "s\<lparr>drvdata := d, trace := t\<rparr> = s\<lparr>trace := t, drvdata := d\<rparr>"
    "s\<lparr>drvdata := d, cd := c\<rparr> = s\<lparr>cd := c, drvdata := d\<rparr>"
    "s\<lparr>netlink_seq := q, cd := c\<rparr> = s\<lparr>cd := c, netlink_seq := q\<rparr>"
    "s\<lparr>halted := h, cd := c\<rparr> = s\<lparr>cd := c, halted := h\<rparr>"
    "s\<lparr>halted := h, netlink_seq := q\<rparr> = s\<lparr>netlink_seq := q, halted := h\<rparr>"
  by simp_all

section \<open>What a function leaves alone\<close>

text \<open>
  \<open>talks P\<close>: the function only extends the trace, by calls that satisfy \<open>P\<close>; the driver's
  data are untouched and it does not halt.
\<close>

definition talks :: "(kcall \<Rightarrow> bool) \<Rightarrow> kst \<Rightarrow> kst \<Rightarrow> bool" where
  "talks P s s' \<longleftrightarrow> (\<exists>es. list_all (\<lambda>e. P (fst e)) es \<and> s' = s\<lparr>trace := es @ trace s\<rparr>)"

lemma talks_refl: "talks P s s"
  unfolding talks_def by (rule exI [of _ "[]"]) simp

lemma talks_trans: "talks P s s' \<Longrightarrow> talks P s' s'' \<Longrightarrow> talks P s s''"
  unfolding talks_def by clarify (rule exI [of _ "_ @ _"], auto simp: list_all_append)

lemma talks_event: "P c \<Longrightarrow> talks P s (s\<lparr>trace := (c, r) # trace s\<rparr>)"
  unfolding talks_def by (rule exI [of _ "[(c, r)]"]) simp

lemma talks_reflp: "reflp (talks P)" and talks_transp: "transp (talks P)"
  by (auto intro: reflpI transpI talks_refl talks_trans)

lemma talks_fields:
  assumes "talks P s s'"
  shows "cd s' = cd s" "params s' = params s" "drvdata s' = drvdata s"
    "netlink_seq s' = netlink_seq s" "halted s' = halted s"
  using assms by (auto simp: talks_def)

lemma talks_ask: "P c \<Longrightarrow> keeps (talks P) (ask E c)"
  by (rule keepsI) (auto simp: talks_refl talks_event split: if_splits)

lemma talks_call: "P c \<Longrightarrow> keeps (talks P) (call E c)"
  by (rule keepsI) (auto simp: talks_refl talks_event split: if_splits)

lemma talks_call_ptr: "P c \<Longrightarrow> keeps (talks P) (call_ptr E c)"
  by (rule keepsI) (auto simp: talks_refl talks_event split: if_splits)

lemma talks_exec: "P c \<Longrightarrow> keeps (talks P) (exec E c)"
  by (rule keepsI) (auto simp: talks_refl talks_event split: if_splits)

lemma talks_get_cd: "keeps (talks P) (get_cd f)"
  and talks_get_param: "keeps (talks P) (get_param g)"
  by (auto intro!: keepsI simp: talks_refl)

lemmas talks_intros = talks_ask talks_call talks_call_ptr talks_exec talks_get_cd talks_get_param
  keeps_return [OF talks_reflp] keeps_gets [OF talks_reflp] keeps_bind [OF talks_transp]
  keeps_whenM [OF talks_reflp] keeps_if keeps_Let keeps_case_prod keeps_case_ref

text \<open>A halted run changes nothing: every function of the driver is \<open>inert\<close> once halted.\<close>

definition inert :: "kst \<Rightarrow> kst \<Rightarrow> bool" where
  "inert s s' \<longleftrightarrow> (halted s \<noteq> None \<longrightarrow> s' = s)"

lemma inert_reflp: "reflp inert" and inert_transp: "transp inert"
  by (auto simp: inert_def reflp_def transp_def)

lemma inert_upd: "keeps inert (upd f)" and inert_ask: "keeps inert (ask E c)"
  and inert_upd_cd: "keeps inert (upd_cd g)" and inert_fault: "keeps inert (fault x)"
  and inert_call: "keeps inert (call E c)" and inert_call_ptr: "keeps inert (call_ptr E c)"
  and inert_exec: "keeps inert (exec E c)" and inert_get_cd: "keeps inert (get_cd h)"
  and inert_get_param: "keeps inert (get_param k)"
  and inert_lock: "keeps inert (mutex_lock E)" and inert_unlock: "keeps inert (mutex_unlock E)"
  by (auto intro!: keepsI simp: inert_def split: if_splits)

lemmas inert_intros = inert_upd inert_ask inert_upd_cd inert_fault inert_call inert_call_ptr
  inert_exec inert_get_cd inert_get_param inert_lock inert_unlock
  keeps_return [OF inert_reflp] keeps_gets [OF inert_reflp] keeps_bind [OF inert_transp]
  keeps_whenM [OF inert_reflp] keeps_if keeps_Let keeps_case_prod keeps_case_ref

section \<open>The use of the mutex\<close>

definition not_mutex :: "event \<Rightarrow> bool" where
  "not_mutex e \<longleftrightarrow> fst e \<notin> {Sys Mutex_lock, Sys Mutex_unlock}"

text \<open>What a call sequence of the mutex may look like: lock and unlock in turn, nothing nested.\<close>

fun lock_state :: "event list \<Rightarrow> bool \<Rightarrow> bool option" where
  "lock_state [] b = Some b"
| "lock_state (e # es) b =
     (case lock_state es b of
        None \<Rightarrow> None
      | Some h \<Rightarrow> (if fst e = Sys Mutex_lock then (if h then None else Some True)
                   else if fst e = Sys Mutex_unlock then (if h then Some False else None)
                   else Some h))"

lemma lock_state_append: "lock_state (es @ es') b = (case lock_state es' b of None \<Rightarrow> None | Some h \<Rightarrow> lock_state es h)"
  by (induction es) (auto split: option.splits)

lemma lock_state_not_mutex: "list_all not_mutex es \<Longrightarrow> lock_state es b = Some b"
  by (induction es) (auto simp: not_mutex_def)

end
