(* ===== verification/Registers.thy ===== *)
theory Registers
  imports Prelude
begin

text \<open>
  The register map of the MPU6050, as the driver includes it from 3rd_party/i2cdevlib/MPU6050.h:
  register addresses, bit numbers, field widths and field values, under their source names.
  Abbreviations, so that the definitions that use them compute with the numbers.
\<close>

section \<open>Register addresses\<close>

abbreviation (input) MPU6050_ADDRESS_AD0_LOW :: s32 where "MPU6050_ADDRESS_AD0_LOW \<equiv> 0x68"
abbreviation (input) MPU6050_RA_SMPLRT_DIV :: u8 where "MPU6050_RA_SMPLRT_DIV \<equiv> 0x19"
abbreviation (input) MPU6050_RA_CONFIG :: u8 where "MPU6050_RA_CONFIG \<equiv> 0x1A"
abbreviation (input) MPU6050_RA_GYRO_CONFIG :: u8 where "MPU6050_RA_GYRO_CONFIG \<equiv> 0x1B"
abbreviation (input) MPU6050_RA_ACCEL_CONFIG :: u8 where "MPU6050_RA_ACCEL_CONFIG \<equiv> 0x1C"
abbreviation (input) MPU6050_RA_FIFO_EN :: u8 where "MPU6050_RA_FIFO_EN \<equiv> 0x23"
abbreviation (input) MPU6050_RA_I2C_MST_CTRL :: u8 where "MPU6050_RA_I2C_MST_CTRL \<equiv> 0x24"
abbreviation (input) MPU6050_RA_INT_PIN_CFG :: u8 where "MPU6050_RA_INT_PIN_CFG \<equiv> 0x37"
abbreviation (input) MPU6050_RA_INT_ENABLE :: u8 where "MPU6050_RA_INT_ENABLE \<equiv> 0x38"
abbreviation (input) MPU6050_RA_ACCEL_XOUT_H :: u8 where "MPU6050_RA_ACCEL_XOUT_H \<equiv> 0x3B"
abbreviation (input) MPU6050_RA_USER_CTRL :: u8 where "MPU6050_RA_USER_CTRL \<equiv> 0x6A"
abbreviation (input) MPU6050_RA_PWR_MGMT_1 :: u8 where "MPU6050_RA_PWR_MGMT_1 \<equiv> 0x6B"
abbreviation (input) MPU6050_RA_PWR_MGMT_2 :: u8 where "MPU6050_RA_PWR_MGMT_2 \<equiv> 0x6C"
abbreviation (input) MPU6050_RA_FIFO_COUNTH :: u8 where "MPU6050_RA_FIFO_COUNTH \<equiv> 0x72"
abbreviation (input) MPU6050_RA_FIFO_R_W :: u8 where "MPU6050_RA_FIFO_R_W \<equiv> 0x74"
abbreviation (input) MPU6050_RA_WHO_AM_I :: u8 where "MPU6050_RA_WHO_AM_I \<equiv> 0x75"

section \<open>Bit numbers, field widths and field values\<close>

abbreviation (input) MPU6050_CFG_DLPF_CFG_LENGTH :: nat where "MPU6050_CFG_DLPF_CFG_LENGTH \<equiv> 3"
abbreviation (input) MPU6050_DLPF_BW_256 :: s32 where "MPU6050_DLPF_BW_256 \<equiv> 0"
abbreviation (input) MPU6050_GCONFIG_FS_SEL_BIT :: nat where "MPU6050_GCONFIG_FS_SEL_BIT \<equiv> 4"
abbreviation (input) MPU6050_GCONFIG_FS_SEL_LENGTH :: nat where "MPU6050_GCONFIG_FS_SEL_LENGTH \<equiv> 2"
abbreviation (input) MPU6050_GYRO_FS_2000 :: s32 where "MPU6050_GYRO_FS_2000 \<equiv> 3"
abbreviation (input) MPU6050_ACONFIG_AFS_SEL_BIT :: nat where "MPU6050_ACONFIG_AFS_SEL_BIT \<equiv> 4"
abbreviation (input) MPU6050_ACONFIG_AFS_SEL_LENGTH :: nat where "MPU6050_ACONFIG_AFS_SEL_LENGTH \<equiv> 2"
abbreviation (input) MPU6050_ACCEL_FS_16 :: s32 where "MPU6050_ACCEL_FS_16 \<equiv> 3"
abbreviation (input) MPU6050_TEMP_FIFO_EN_BIT :: nat where "MPU6050_TEMP_FIFO_EN_BIT \<equiv> 7"
abbreviation (input) MPU6050_XG_FIFO_EN_BIT :: nat where "MPU6050_XG_FIFO_EN_BIT \<equiv> 6"
abbreviation (input) MPU6050_YG_FIFO_EN_BIT :: nat where "MPU6050_YG_FIFO_EN_BIT \<equiv> 5"
abbreviation (input) MPU6050_ZG_FIFO_EN_BIT :: nat where "MPU6050_ZG_FIFO_EN_BIT \<equiv> 4"
abbreviation (input) MPU6050_ACCEL_FIFO_EN_BIT :: nat where "MPU6050_ACCEL_FIFO_EN_BIT \<equiv> 3"
abbreviation (input) MPU6050_WAIT_FOR_ES_BIT :: nat where "MPU6050_WAIT_FOR_ES_BIT \<equiv> 6"
abbreviation (input) MPU6050_INTCFG_INT_LEVEL_BIT :: nat where "MPU6050_INTCFG_INT_LEVEL_BIT \<equiv> 7"
abbreviation (input) MPU6050_INTCFG_INT_OPEN_BIT :: nat where "MPU6050_INTCFG_INT_OPEN_BIT \<equiv> 6"
abbreviation (input) MPU6050_INTCFG_LATCH_INT_EN_BIT :: nat where "MPU6050_INTCFG_LATCH_INT_EN_BIT \<equiv> 5"
abbreviation (input) MPU6050_INTCFG_INT_RD_CLEAR_BIT :: nat where "MPU6050_INTCFG_INT_RD_CLEAR_BIT \<equiv> 4"
abbreviation (input) MPU6050_INTERRUPT_FIFO_OFLOW_BIT :: nat where "MPU6050_INTERRUPT_FIFO_OFLOW_BIT \<equiv> 4"
abbreviation (input) MPU6050_INTERRUPT_DATA_RDY_BIT :: nat where "MPU6050_INTERRUPT_DATA_RDY_BIT \<equiv> 0"
abbreviation (input) MPU6050_USERCTRL_FIFO_EN_BIT :: nat where "MPU6050_USERCTRL_FIFO_EN_BIT \<equiv> 6"
abbreviation (input) MPU6050_USERCTRL_FIFO_RESET_BIT :: nat where "MPU6050_USERCTRL_FIFO_RESET_BIT \<equiv> 2"
abbreviation (input) MPU6050_USERCTRL_SIG_COND_RESET_BIT :: nat where "MPU6050_USERCTRL_SIG_COND_RESET_BIT \<equiv> 0"
abbreviation (input) MPU6050_PWR1_DEVICE_RESET_BIT :: nat where "MPU6050_PWR1_DEVICE_RESET_BIT \<equiv> 7"
abbreviation (input) MPU6050_PWR1_SLEEP_BIT :: nat where "MPU6050_PWR1_SLEEP_BIT \<equiv> 6"
abbreviation (input) MPU6050_PWR1_CYCLE_BIT :: nat where "MPU6050_PWR1_CYCLE_BIT \<equiv> 5"
abbreviation (input) MPU6050_PWR1_TEMP_DIS_BIT :: nat where "MPU6050_PWR1_TEMP_DIS_BIT \<equiv> 3"
abbreviation (input) MPU6050_PWR1_CLKSEL_LENGTH :: nat where "MPU6050_PWR1_CLKSEL_LENGTH \<equiv> 3"
abbreviation (input) MPU6050_CLOCK_PLL_XGYRO :: s32 where "MPU6050_CLOCK_PLL_XGYRO \<equiv> 1"
abbreviation (input) MPU6050_PWR2_LP_WAKE_CTRL_BIT :: nat where "MPU6050_PWR2_LP_WAKE_CTRL_BIT \<equiv> 7"
abbreviation (input) MPU6050_PWR2_STBY_XG_BIT :: nat where "MPU6050_PWR2_STBY_XG_BIT \<equiv> 2"
abbreviation (input) MPU6050_PWR2_STBY_YG_BIT :: nat where "MPU6050_PWR2_STBY_YG_BIT \<equiv> 1"
abbreviation (input) MPU6050_PWR2_STBY_ZG_BIT :: nat where "MPU6050_PWR2_STBY_ZG_BIT \<equiv> 0"
abbreviation (input) MPU6050_WAKE_FREQ_1P25 :: s32 where "MPU6050_WAKE_FREQ_1P25 \<equiv> 0"
abbreviation (input) MPU6050_WHO_AM_I_BIT :: nat where "MPU6050_WHO_AM_I_BIT \<equiv> 6"

section \<open>The driver's own constants (olimex_mod_mpu6050_defines.h)\<close>

abbreviation (input) DEVICE_RESET_DELAY_MS :: nat where "DEVICE_RESET_DELAY_MS \<equiv> 100"
abbreviation (input) DEVICE_BLOCK_LENGTH :: nat where "DEVICE_BLOCK_LENGTH \<equiv> 14"
abbreviation (input) DEVICE_ACCEL_SENSITIVITY :: s32 where "DEVICE_ACCEL_SENSITIVITY \<equiv> MPU6050_ACCEL_FS_16"
abbreviation (input) DEVICE_GYRO_SENSITIVITY :: s32 where "DEVICE_GYRO_SENSITIVITY \<equiv> MPU6050_GYRO_FS_2000"
abbreviation (input) RINGBUFFER_SIZE :: nat where "RINGBUFFER_SIZE \<equiv> 64"
abbreviation (input) RINGBUFFER_DATA_SIZE :: nat where "RINGBUFFER_DATA_SIZE \<equiv> DEVICE_BLOCK_LENGTH"
abbreviation (input) TIMER_DELAY_MS :: nat where "TIMER_DELAY_MS \<equiv> 10"

end
