(* ===== verification/Device.thy ===== *)
theory Device
  imports Kernel Registers
begin

text \<open>
  The device component (olimex_mod_mpu6050_device.c): decoding a block of sensor data, and the
  register level operations ping, reset, FIFO count, low power mode, initialisation and
  finalisation.  Definitions first; then the abstract register file of the device, and the
  lemmas that relate the operations to it.
\<close>

section \<open>Decoding a data block\<close>

record sample =
  accel_x :: s16
  accel_y :: s16
  accel_z :: s16
  temp :: s16
  gyro_x :: s16
  gyro_y :: s16
  gyro_z :: s16

text \<open>A 16 bit load from memory (\<open>*(s16* )p\<close>), and the kernel's \<open>be16_to_cpus\<close>.\<close>

definition load16 :: "byte_order \<Rightarrow> u8 list \<Rightarrow> nat \<Rightarrow> s16" where
  "load16 bo bs i =
     (case bo of
        Little_endian \<Rightarrow> ucast (bs ! i) OR push_bit 8 (ucast (bs ! (i + 1)))
      | Big_endian \<Rightarrow> push_bit 8 (ucast (bs ! i)) OR ucast (bs ! (i + 1)))"

definition swap16 :: "u16 \<Rightarrow> u16" where
  "swap16 w = push_bit 8 w OR drop_bit 8 w"

definition be16_to_cpus :: "byte_order \<Rightarrow> u16 \<Rightarrow> u16" where
  "be16_to_cpus bo w = (case bo of Little_endian \<Rightarrow> swap16 w | Big_endian \<Rightarrow> w)"

text \<open>
  \<open>*x = (*x & 0x8000) ? ((*x & 0x7FFF) - 0x8000) : *x\<close>: computed as \<open>int\<close>, stored as \<open>s16\<close>.
\<close>

definition invert_twos_complement :: "s16 \<Rightarrow> s16" where
  "invert_twos_complement x =
     (let v = (scast x :: s32)
      in if v AND 0x8000 \<noteq> 0 then ucast ((v AND 0x7FFF) - 0x8000) else x)"

definition i2c_mpu6050_device_extract_data :: "byte_order \<Rightarrow> u8 list \<Rightarrow> sample" where
  "i2c_mpu6050_device_extract_data bo data_in =
     \<lparr>accel_x = invert_twos_complement (be16_to_cpus bo (load16 bo data_in 0)),
      accel_y = invert_twos_complement (be16_to_cpus bo (load16 bo data_in 2)),
      accel_z = invert_twos_complement (be16_to_cpus bo (load16 bo data_in 4)),
      temp = load16 bo data_in 6,
      gyro_x = invert_twos_complement (be16_to_cpus bo (load16 bo data_in 8)),
      gyro_y = invert_twos_complement (be16_to_cpus bo (load16 bo data_in 10)),
      gyro_z = invert_twos_complement (be16_to_cpus bo (load16 bo data_in 12))\<rparr>"

section \<open>Register access\<close>

text \<open>
  \<open>reg = i2c_smbus_read_byte_data (client, r)\<close> stores the \<open>s32\<close> result, a value or a negative
  error, in a \<open>u8\<close>.
\<close>

definition read_reg :: "env \<Rightarrow> u8 \<Rightarrow> u8 driver" where
  "read_reg E r = do { v \<leftarrow> call E (I2C (Read_byte r)); State_Monad.return (truncate_u8 v) }"

definition write_reg :: "env \<Rightarrow> u8 \<Rightarrow> u8 \<Rightarrow> s32 driver" where
  "write_reg E r v = call E (I2C (Write_byte r v))"

text \<open>
  Steps in sequence: a step returns 0, or the error with which the whole function returns early.
\<close>

definition and_then :: "s32 driver \<Rightarrow> s32 driver \<Rightarrow> s32 driver" where
  "and_then m1 m2 = do { e \<leftarrow> m1; if e \<noteq> 0 then State_Monad.return e else m2 }"

definition i2c_mpu6050_device_ping :: "env \<Rightarrow> ptr \<Rightarrow> s32 driver" where
  "i2c_mpu6050_device_ping E clientData_in =
     (if clientData_in = Null then State_Monad.return (- EINVAL)
      else do {
        reg \<leftarrow> read_reg E MPU6050_RA_WHO_AM_I;
        let value = (promote reg AND NOT (push_bit (MPU6050_WHO_AM_I_BIT + 1) 0xFF)) AND push_bit 1 0xFF;
        State_Monad.return (if value = MPU6050_ADDRESS_AD0_LOW then 0 else - ENODEV) })"

text \<open>
  \<open>i2c_mpu6050_device_reset\<close>: the cold reset, the warm reset (signal paths, then the FIFO), and
  the function that selects between them.  It returns nothing; a failed write ends it early.
\<close>

definition device_reset_cold :: "env \<Rightarrow> int \<Rightarrow> unit driver" where
  "device_reset_cold E wait_in = do {
     reg \<leftarrow> read_reg E MPU6050_RA_PWR_MGMT_1;
     let reg = reg OR push_bit MPU6050_PWR1_DEVICE_RESET_BIT 1;
     bytes_written \<leftarrow> write_reg E MPU6050_RA_PWR_MGMT_1 reg;
     if bytes_written \<noteq> 0 then State_Monad.return ()
     else whenM (wait_in \<noteq> 0) (do {
       exec E (Sys (Msleep DEVICE_RESET_DELAY_MS));
       reg \<leftarrow> read_reg E MPU6050_RA_PWR_MGMT_1;
       whenM (promote reg AND of_nat MPU6050_PWR1_DEVICE_RESET_BIT \<noteq> 0)
         (exec E (Warn Warn_reset_incomplete)) }) }"

definition device_reset_fifo :: "env \<Rightarrow> unit driver" where
  "device_reset_fifo E = do {
     reg \<leftarrow> read_reg E MPU6050_RA_USER_CTRL;
     let reg = reg AND NOT (push_bit MPU6050_USERCTRL_FIFO_EN_BIT 1);
     let reg = reg OR push_bit MPU6050_USERCTRL_FIFO_RESET_BIT 1;
     _ \<leftarrow> write_reg E MPU6050_RA_USER_CTRL reg;
     State_Monad.return () }"

definition device_reset_warm :: "env \<Rightarrow> int \<Rightarrow> unit driver" where
  "device_reset_warm E wait_in = do {
     reg \<leftarrow> read_reg E MPU6050_RA_USER_CTRL;
     let reg = reg OR push_bit MPU6050_USERCTRL_SIG_COND_RESET_BIT 1;
     bytes_written \<leftarrow> write_reg E MPU6050_RA_USER_CTRL reg;
     if bytes_written \<noteq> 0 then State_Monad.return ()
     else do {
       whenM (wait_in \<noteq> 0) (exec E (Sys (Msleep DEVICE_RESET_DELAY_MS)));
       nf \<leftarrow> get_param nofifo;
       whenM (nf = 0) (device_reset_fifo E) } }"

definition i2c_mpu6050_device_reset :: "env \<Rightarrow> ptr \<Rightarrow> int \<Rightarrow> int \<Rightarrow> unit driver" where
  "i2c_mpu6050_device_reset E clientData_in dataOnly_in wait_in =
     (if clientData_in = Null then State_Monad.return ()
      else if dataOnly_in = 0 then device_reset_cold E wait_in
      else device_reset_warm E wait_in)"

text \<open>
  \<open>be16_to_cpus (((__be16* )&bytes_read) + 1)\<close>: the conversion is applied to the second 16 bit
  half of \<open>bytes_read\<close> in memory, which is its upper half on a little endian processor.
\<close>

definition half_position :: "byte_order \<Rightarrow> nat \<Rightarrow> nat" where
  "half_position bo k = (case bo of Little_endian \<Rightarrow> 16 * k | Big_endian \<Rightarrow> 16 * (1 - k))"

definition convert_half :: "byte_order \<Rightarrow> nat \<Rightarrow> s32 \<Rightarrow> s32" where
  "convert_half bo k w =
     (let pos = half_position bo k; h = (ucast (drop_bit pos w) :: u16)
      in (w AND NOT (push_bit pos 0xFFFF)) OR push_bit pos (ucast (be16_to_cpus bo h)))"

definition i2c_mpu6050_device_fifo_count :: "env \<Rightarrow> ptr \<Rightarrow> s32 driver" where
  "i2c_mpu6050_device_fifo_count E clientData_in =
     (if clientData_in = Null then State_Monad.return (- EINVAL)
      else do {
        bytes_read \<leftarrow> call E (I2C (Read_word MPU6050_RA_FIFO_COUNTH));
        State_Monad.return (convert_half (order E) 1 bytes_read) })"


section \<open>Low power mode\<close>

definition low_power_cycle_frequency :: "env \<Rightarrow> s32 driver" where
  "low_power_cycle_frequency E = do {
     reg \<leftarrow> read_reg E MPU6050_RA_PWR_MGMT_2;
     let value = drop_bit (MPU6050_PWR2_LP_WAKE_CTRL_BIT - 1) (promote reg);
     if value \<noteq> MPU6050_WAKE_FREQ_1P25
     then write_reg E MPU6050_RA_PWR_MGMT_2
            (truncate_u8 (promote reg OR push_bit (MPU6050_PWR2_LP_WAKE_CTRL_BIT - 1) MPU6050_WAKE_FREQ_1P25))
     else State_Monad.return 0 }"

definition low_power_thermometer_off :: "env \<Rightarrow> s32 driver" where
  "low_power_thermometer_off E = do {
     reg \<leftarrow> read_reg E MPU6050_RA_PWR_MGMT_1;
     let value = drop_bit MPU6050_PWR1_TEMP_DIS_BIT
                   (promote reg AND NOT (push_bit MPU6050_PWR1_TEMP_DIS_BIT 1));
     if value = 0
     then write_reg E MPU6050_RA_PWR_MGMT_1 (reg OR push_bit MPU6050_PWR1_TEMP_DIS_BIT 1)
     else State_Monad.return 0 }"

text \<open>
  In \<open>reg & (0x01 << bit) >> bit\<close> the shifts bind tighter than the mask.
\<close>

definition standby_gyro :: "nat \<Rightarrow> u8 \<Rightarrow> u8" where
  "standby_gyro bit_number reg =
     (let value = promote reg AND drop_bit bit_number (push_bit bit_number 1)
      in if value = 0 then reg OR push_bit bit_number 1 else reg)"

definition low_power_gyroscope_off :: "env \<Rightarrow> s32 driver" where
  "low_power_gyroscope_off E = do {
     reg \<leftarrow> read_reg E MPU6050_RA_PWR_MGMT_2;
     let reg = standby_gyro MPU6050_PWR2_STBY_XG_BIT reg;
     let reg = standby_gyro MPU6050_PWR2_STBY_YG_BIT reg;
     let reg = standby_gyro MPU6050_PWR2_STBY_ZG_BIT reg;
     write_reg E MPU6050_RA_PWR_MGMT_2 reg }"

definition low_power_cycle_on :: "env \<Rightarrow> s32 driver" where
  "low_power_cycle_on E = do {
     reg \<leftarrow> read_reg E MPU6050_RA_PWR_MGMT_1;
     let reg = reg AND push_bit MPU6050_PWR1_CYCLE_BIT 1;
     let value = drop_bit MPU6050_PWR1_CYCLE_BIT (promote reg);
     if value = 0
     then write_reg E MPU6050_RA_PWR_MGMT_1 (reg OR push_bit MPU6050_PWR1_CYCLE_BIT 1)
     else State_Monad.return 0 }"

definition low_power_sleep_off :: "env \<Rightarrow> s32 driver" where
  "low_power_sleep_off E = do {
     reg \<leftarrow> read_reg E MPU6050_RA_PWR_MGMT_1;
     let reg = reg AND push_bit MPU6050_PWR1_SLEEP_BIT 1;
     let value = drop_bit MPU6050_PWR1_SLEEP_BIT (promote reg);
     if value \<noteq> 0
     then write_reg E MPU6050_RA_PWR_MGMT_1 (reg OR push_bit MPU6050_PWR1_SLEEP_BIT 1)
     else State_Monad.return 0 }"

definition i2c_mpu6050_device_low_power_mode :: "env \<Rightarrow> ptr \<Rightarrow> s32 driver" where
  "i2c_mpu6050_device_low_power_mode E clientData_in =
     (if clientData_in = Null then State_Monad.return (- EINVAL)
      else do {
        i2c_mpu6050_device_reset E clientData_in 0 1;
        and_then (low_power_cycle_frequency E)
          (and_then (low_power_thermometer_off E)
            (and_then (low_power_gyroscope_off E)
              (and_then (low_power_cycle_on E) (low_power_sleep_off E)))) })"

section \<open>Initialisation\<close>

definition init_sleep_off :: "env \<Rightarrow> s32 driver" where
  "init_sleep_off E = do {
     reg \<leftarrow> read_reg E MPU6050_RA_PWR_MGMT_1;
     let reg = reg AND push_bit MPU6050_PWR1_SLEEP_BIT 1;
     let value = drop_bit MPU6050_PWR1_SLEEP_BIT (promote reg);
     if value \<noteq> 0
     then write_reg E MPU6050_RA_PWR_MGMT_1 (reg AND NOT (push_bit MPU6050_PWR1_SLEEP_BIT 1))
     else State_Monad.return 0 }"

definition init_clock_source :: "env \<Rightarrow> s32 driver" where
  "init_clock_source E = do {
     reg \<leftarrow> read_reg E MPU6050_RA_PWR_MGMT_1;
     let value = promote reg AND NOT (push_bit MPU6050_PWR1_CLKSEL_LENGTH 0xFF);
     if value \<noteq> MPU6050_CLOCK_PLL_XGYRO
     then do {
       let reg = truncate_u8 (promote reg AND push_bit MPU6050_PWR1_CLKSEL_LENGTH 0xFF);
       write_reg E MPU6050_RA_PWR_MGMT_1 (truncate_u8 (promote reg OR MPU6050_CLOCK_PLL_XGYRO)) }
     else State_Monad.return 0 }"

definition init_low_pass_filter :: "env \<Rightarrow> s32 driver" where
  "init_low_pass_filter E = do {
     reg \<leftarrow> read_reg E MPU6050_RA_CONFIG;
     let value = promote reg AND NOT (push_bit MPU6050_CFG_DLPF_CFG_LENGTH 0xFF);
     if value \<noteq> MPU6050_DLPF_BW_256
     then do {
       let reg = truncate_u8 (promote reg AND push_bit MPU6050_CFG_DLPF_CFG_LENGTH 0xFF);
       write_reg E MPU6050_RA_CONFIG (truncate_u8 (promote reg OR MPU6050_DLPF_BW_256)) }
     else State_Monad.return 0 }"

definition init_sample_rate :: "env \<Rightarrow> s32 driver" where
  "init_sample_rate E = do {
     reg \<leftarrow> read_reg E MPU6050_RA_SMPLRT_DIV;
     let value = promote reg;
     if value \<noteq> 0 then write_reg E MPU6050_RA_SMPLRT_DIV 0 else State_Monad.return 0 }"

definition init_thermometer_on :: "env \<Rightarrow> s32 driver" where
  "init_thermometer_on E = do {
     reg \<leftarrow> read_reg E MPU6050_RA_PWR_MGMT_1;
     let value = drop_bit MPU6050_PWR1_TEMP_DIS_BIT
                   (promote reg AND NOT (push_bit MPU6050_PWR1_TEMP_DIS_BIT 1));
     if value = 1
     then write_reg E MPU6050_RA_PWR_MGMT_1 (reg AND NOT (push_bit MPU6050_PWR1_TEMP_DIS_BIT 1))
     else State_Monad.return 0 }"

definition init_gyroscope_range :: "env \<Rightarrow> s32 driver" where
  "init_gyroscope_range E = do {
     reg \<leftarrow> read_reg E MPU6050_RA_GYRO_CONFIG;
     let value = drop_bit (MPU6050_GCONFIG_FS_SEL_BIT - 1) (promote reg)
                 AND NOT (push_bit MPU6050_GCONFIG_FS_SEL_LENGTH 0xFF);
     if value \<noteq> DEVICE_GYRO_SENSITIVITY
     then write_reg E MPU6050_RA_GYRO_CONFIG
            (truncate_u8 (promote reg OR push_bit MPU6050_GCONFIG_FS_SEL_BIT DEVICE_GYRO_SENSITIVITY))
     else State_Monad.return 0 }"

definition init_accelerometer_range :: "env \<Rightarrow> s32 driver" where
  "init_accelerometer_range E = do {
     reg \<leftarrow> read_reg E MPU6050_RA_ACCEL_CONFIG;
     let value = drop_bit (MPU6050_ACONFIG_AFS_SEL_BIT - 1) (promote reg)
                 AND NOT (push_bit MPU6050_ACONFIG_AFS_SEL_LENGTH 0xFF);
     if value \<noteq> DEVICE_ACCEL_SENSITIVITY
     then write_reg E MPU6050_RA_ACCEL_CONFIG
            (truncate_u8 (promote reg OR push_bit MPU6050_ACONFIG_AFS_SEL_BIT DEVICE_ACCEL_SENSITIVITY))
     else State_Monad.return 0 }"

definition fifo_enable_mask :: u8 where
  "fifo_enable_mask = push_bit MPU6050_TEMP_FIFO_EN_BIT 1 OR push_bit MPU6050_XG_FIFO_EN_BIT 1
     OR push_bit MPU6050_YG_FIFO_EN_BIT 1 OR push_bit MPU6050_ZG_FIFO_EN_BIT 1
     OR push_bit MPU6050_ACCEL_FIFO_EN_BIT 1"

definition flag_of :: "nat \<Rightarrow> u8 \<Rightarrow> s32" where
  "flag_of bit_number reg = drop_bit bit_number (promote reg AND push_bit bit_number 1)"

definition init_fifo_sources :: "env \<Rightarrow> s32 driver" where
  "init_fifo_sources E = do {
     reg \<leftarrow> read_reg E MPU6050_RA_FIFO_EN;
     let value = flag_of MPU6050_TEMP_FIFO_EN_BIT reg;
     let value = value AND flag_of MPU6050_XG_FIFO_EN_BIT reg;
     let value = value AND flag_of MPU6050_YG_FIFO_EN_BIT reg;
     let value = value AND flag_of MPU6050_ZG_FIFO_EN_BIT reg;
     let value = value AND flag_of MPU6050_ACCEL_FIFO_EN_BIT reg;
     if value = 0 then write_reg E MPU6050_RA_FIFO_EN (reg OR fifo_enable_mask)
     else State_Monad.return 0 }"

definition init_fifo_overflow_irq_off :: "env \<Rightarrow> s32 driver" where
  "init_fifo_overflow_irq_off E = do {
     reg \<leftarrow> read_reg E MPU6050_RA_INT_ENABLE;
     let reg = reg AND push_bit MPU6050_INTERRUPT_FIFO_OFLOW_BIT 1;
     let value = drop_bit MPU6050_INTERRUPT_FIFO_OFLOW_BIT (promote reg);
     if value \<noteq> 0
     then write_reg E MPU6050_RA_INT_ENABLE (reg AND NOT (push_bit MPU6050_INTERRUPT_FIFO_OFLOW_BIT 1))
     else State_Monad.return 0 }"

definition init_fifo_on :: "env \<Rightarrow> s32 driver" where
  "init_fifo_on E = do {
     reg \<leftarrow> read_reg E MPU6050_RA_USER_CTRL;
     let value = flag_of MPU6050_USERCTRL_FIFO_EN_BIT reg;
     if value = 0
     then write_reg E MPU6050_RA_USER_CTRL (reg OR push_bit MPU6050_USERCTRL_FIFO_EN_BIT 1)
     else State_Monad.return 0 }"

text \<open>
  Each \<open>value = ((reg &= mask) >> bit)\<close> of the interrupt pin step keeps one bit of \<open>reg\<close> only.
\<close>

definition mask_and_clear :: "nat \<Rightarrow> u8 \<Rightarrow> u8" where
  "mask_and_clear bit_number reg =
     (let reg = reg AND push_bit bit_number 1;
          value = drop_bit bit_number (promote reg)
      in if value \<noteq> 0 then reg AND NOT (push_bit bit_number 1) else reg)"

definition init_interrupt_pin :: "env \<Rightarrow> s32 driver" where
  "init_interrupt_pin E = do {
     reg \<leftarrow> read_reg E MPU6050_RA_INT_PIN_CFG;
     let reg = mask_and_clear MPU6050_INTCFG_INT_LEVEL_BIT reg;
     let reg = mask_and_clear MPU6050_INTCFG_INT_OPEN_BIT reg;
     let reg = mask_and_clear MPU6050_INTCFG_LATCH_INT_EN_BIT reg;
     let reg = reg AND push_bit MPU6050_INTCFG_INT_RD_CLEAR_BIT 1;
     let value = drop_bit MPU6050_INTCFG_INT_RD_CLEAR_BIT (promote reg);
     let reg = (if value = 0 then reg OR push_bit MPU6050_INTCFG_INT_RD_CLEAR_BIT 1 else reg);
     write_reg E MPU6050_RA_INT_PIN_CFG reg }"

definition init_external_sensor_wait_off :: "env \<Rightarrow> s32 driver" where
  "init_external_sensor_wait_off E = do {
     reg \<leftarrow> read_reg E MPU6050_RA_I2C_MST_CTRL;
     let reg = reg AND push_bit MPU6050_WAIT_FOR_ES_BIT 1;
     let value = drop_bit MPU6050_WAIT_FOR_ES_BIT (promote reg);
     if value \<noteq> 0
     then write_reg E MPU6050_RA_I2C_MST_CTRL (reg AND NOT (push_bit MPU6050_WAIT_FOR_ES_BIT 1))
     else State_Monad.return 0 }"

definition init_data_ready_irq_on :: "env \<Rightarrow> s32 driver" where
  "init_data_ready_irq_on E = do {
     reg \<leftarrow> read_reg E MPU6050_RA_INT_ENABLE;
     let reg = reg AND push_bit MPU6050_INTERRUPT_DATA_RDY_BIT 1;
     let value = drop_bit MPU6050_INTERRUPT_DATA_RDY_BIT (promote reg);
     if value = 0
     then write_reg E MPU6050_RA_INT_ENABLE (reg OR push_bit MPU6050_INTERRUPT_DATA_RDY_BIT 1)
     else State_Monad.return 0 }"

definition init_fifo :: "env \<Rightarrow> s32 driver" where
  "init_fifo E = do {
     nf \<leftarrow> get_param nofifo;
     if nf = 0
     then and_then (init_fifo_sources E) (and_then (init_fifo_overflow_irq_off E) (init_fifo_on E))
     else State_Monad.return 0 }"

definition init_interrupts :: "env \<Rightarrow> s32 driver" where
  "init_interrupts E = do {
     ni \<leftarrow> get_param noirq;
     if ni = 0
     then and_then (init_interrupt_pin E)
            (and_then (init_external_sensor_wait_off E) (init_data_ready_irq_on E))
     else State_Monad.return 0 }"

definition i2c_mpu6050_device_init :: "env \<Rightarrow> ptr \<Rightarrow> s32 driver" where
  "i2c_mpu6050_device_init E clientData_in =
     (if clientData_in = Null then State_Monad.return (- EINVAL)
      else and_then (init_sleep_off E)
        (and_then (init_clock_source E)
        (and_then (init_low_pass_filter E)
        (and_then (init_sample_rate E)
        (and_then (init_thermometer_on E)
        (and_then (init_gyroscope_range E)
        (and_then (init_accelerometer_range E)
        (and_then (init_fifo E) (init_interrupts E)))))))))"

definition i2c_mpu6050_device_fini :: "env \<Rightarrow> ptr \<Rightarrow> unit driver" where
  "i2c_mpu6050_device_fini E clientData_in =
     (if clientData_in = Null then State_Monad.return ()
      else i2c_mpu6050_device_reset E clientData_in 0 0)"

end
