(* ===== verification/Device_Spec.thy ===== *)
theory Device_Spec
  imports Device
begin

text \<open>
  What the operations of olimex_mod_mpu6050_device.c do to the device: the register file of an
  MPU6050 as a function of the calls made so far, the refinement of each initialisation step to
  an update of that register file, and the properties of the component.
\<close>

section \<open>Decoding\<close>

lemma bit_7FFF: "bit (0x7FFF :: s32) n \<longleftrightarrow> n < 15"
  using bit_mask_iff [of 15 n, where 'a = s32] by (auto simp: mask_eq_exp_minus_1)

lemma bit_8000: "bit (0x8000 :: s32) n \<longleftrightarrow> n = 15"
  using bit_exp_iff [of 15 n, where 'a = s32] by (auto)

lemma scast_high_bits:
  fixes x :: s16
  assumes "bit x 15"
  shows "(scast x :: s32) AND NOT 0x7FFF = NOT 0x7FFF"
proof (rule bit_word_eqI)
  fix n assume "n < LENGTH(32)"
  then show "bit ((scast x :: s32) AND NOT 0x7FFF) n = bit (NOT 0x7FFF :: s32) n"
    unfolding bit_and_iff bit_not_iff bit_7FFF using assms by (auto simp: bit_simps min_def)
qed

lemma ucast_scast_s32: "(ucast (scast (x::s16) :: s32) :: s16) = x"
proof (rule bit_word_eqI)
  fix n assume n: "n < LENGTH(16)"
  show "bit (ucast (scast x :: s32) :: s16) n = bit x n"
    using n by (cases "n = 15") (auto simp: bit_simps)
qed

lemma invert_id: "invert_twos_complement x = x"
proof (cases "bit x 15")
  case True
  let ?v = "scast x :: s32"
  have "?v = (?v AND 0x7FFF) OR (?v AND NOT 0x7FFF)"
    by (rule bit_word_eqI) (auto simp: bit_simps)
  also have "\<dots> = (?v AND 0x7FFF) + (?v AND NOT 0x7FFF)"
    by (rule disjunctive_add_eq_or [symmetric]) (rule bit_word_eqI, auto simp: bit_simps)
  also have "\<dots> = (?v AND 0x7FFF) - 0x8000"
    unfolding scast_high_bits [OF True] by simp
  finally have v: "(?v AND 0x7FFF) - 0x8000 = ?v" by simp
  show ?thesis
    unfolding invert_twos_complement_def Let_def v ucast_scast_s32 by (rule if_cancel)
next
  case False
  have "(scast x :: s32) AND 0x8000 = 0"
    by (rule bit_word_eqI) (unfold bit_and_iff bit_8000, use False in \<open>auto simp: bit_simps\<close>)
  then show ?thesis by (simp add: invert_twos_complement_def Let_def)
qed

lemma swap16_bytes:
  "swap16 (push_bit 8 (ucast (h::u8)) OR ucast (l::u8)) = push_bit 8 (ucast l) OR ucast h"
proof (rule bit_word_eqI)
  fix n assume "n < LENGTH(16)"
  then show "bit (swap16 (push_bit 8 (ucast h) OR ucast l)) n = bit (push_bit 8 (ucast l) OR ucast h :: u16) n"
    using bit_imp_le_length [of h n] bit_imp_le_length [of l n]  bit_imp_le_length [of l "n - 8"]
     bit_imp_le_length [of l "8+n"]
    by (cases "n < 8") (auto simp: swap16_def bit_simps)
qed

lemma be16_load: "be16_to_cpus bo (load16 bo bs i) = push_bit 8 (ucast (bs ! i)) OR ucast (bs ! (i + 1))"
  using swap16_bytes [of "bs ! (i + 1)" "bs ! i"]
  by (cases bo) (simp_all add: load16_def be16_to_cpus_def or.commute)

section \<open>The register file\<close>

type_synonym regs = "u8 \<Rightarrow> u8"

definition power_on_regs :: regs where
  "power_on_regs = (\<lambda>_. 0)(MPU6050_RA_PWR_MGMT_1 := 0x40, MPU6050_RA_WHO_AM_I := 0x68)"

definition store_reg :: "u8 \<Rightarrow> u8 \<Rightarrow> regs \<Rightarrow> regs" where
  "store_reg r v f =
     (if r = MPU6050_RA_PWR_MGMT_1 \<and> bit v 7 then power_on_regs
      else f(r := (if r = MPU6050_RA_USER_CTRL then v AND 0xF8 else v)))"

fun reg_event :: "kcall \<Rightarrow> regs \<Rightarrow> regs" where
  "reg_event (I2C (Write_byte r v)) f = store_reg r v f"
| "reg_event c f = f"

fun regs_of :: "regs \<Rightarrow> event list \<Rightarrow> regs" where
  "regs_of f0 [] = f0"
| "regs_of f0 (e # es) = reg_event (fst e) (regs_of f0 es)"

definition settled :: "regs \<Rightarrow> bool" where
  "settled f \<longleftrightarrow> \<not> bit (f MPU6050_RA_PWR_MGMT_1) 7 \<and> f MPU6050_RA_USER_CTRL AND 0xF8 = f MPU6050_RA_USER_CTRL"

definition mpu6050 :: "regs \<Rightarrow> env \<Rightarrow> bool" where
  "mpu6050 f0 E \<longleftrightarrow> settled f0 \<and>
     (\<forall>tr r. ret (answer E tr (I2C (Read_byte r))) = promote (regs_of f0 tr r)) \<and>
     (\<forall>tr r v. ret (answer E tr (I2C (Write_byte r v))) = 0)"

fun device_answer :: "regs \<Rightarrow> event list \<Rightarrow> kcall \<Rightarrow> reply" where
  "device_answer f0 tr (I2C (Read_byte r)) = int_reply (promote (regs_of f0 tr r))"
| "device_answer f0 tr c = no_reply"

definition device_env :: "regs \<Rightarrow> env" where
  "device_env f0 = \<lparr>answer = device_answer f0, order = Little_endian\<rparr>"

lemma mpu6050_device_env: "settled f0 \<Longrightarrow> mpu6050 f0 (device_env f0)"
  by (simp add: mpu6050_def device_env_def)

lemma settled_power_on: "settled power_on_regs"
  by (simp add: settled_def power_on_regs_def)

lemma settled_store: "settled f \<Longrightarrow> settled (store_reg r v f)"
  by (auto simp: settled_def store_reg_def settled_power_on [unfolded settled_def] and.assoc)

lemma settled_regs_of: "settled f0 \<Longrightarrow> settled (regs_of f0 tr)"
proof (induction tr)
  case (Cons e tr)
  then show ?case by (cases "(fst e, regs_of f0 tr)" rule: reg_event.cases) (auto intro: settled_store)
qed simp

definition modify_reg :: "u8 \<Rightarrow> (u8 \<Rightarrow> u8) \<Rightarrow> regs \<Rightarrow> regs" where
  "modify_reg r k f = f(r := k (f r))"

definition drives :: "regs \<Rightarrow> env \<Rightarrow> (module_params \<Rightarrow> regs \<Rightarrow> regs) \<Rightarrow> s32 driver \<Rightarrow> bool" where
  "drives f0 E g m \<longleftrightarrow> (\<forall>s. halted s = None \<longrightarrow>
     (\<exists>es. run_state m s = (0, s\<lparr>trace := es @ trace s\<rparr>) \<and>
           regs_of f0 (es @ trace s) = g (params s) (regs_of f0 (trace s))))"

lemma drivesI:
  assumes "\<And>s. halted s = None \<Longrightarrow> \<exists>es. run_state m s = (0, s\<lparr>trace := es @ trace s\<rparr>) \<and>
           regs_of f0 (es @ trace s) = g (params s) (regs_of f0 (trace s))"
  shows "drives f0 E g m"
  using assms unfolding drives_def by blast

lemma drivesD:
  assumes "drives f0 E g m" "halted s = None"
  obtains es where "run_state m s = (0, s\<lparr>trace := es @ trace s\<rparr>)"
    "regs_of f0 (es @ trace s) = g (params s) (regs_of f0 (trace s))"
  using assms unfolding drives_def by blast

lemma run_and_then_0:
  "run_state m1 s = (0, s') \<Longrightarrow> run_state (and_then m1 m2) s = run_state m2 s'"
  by (simp add: and_then_def)

lemma drives_and_then:
  assumes 1: "drives f0 E g1 m1" and 2: "drives f0 E g2 m2"
  shows "drives f0 E (\<lambda>p f. g2 p (g1 p f)) (and_then m1 m2)"
proof (rule drivesI)
  fix s :: kst assume h: "halted s = None"
  from drivesD [OF 1 h] obtain es1
    where 1: "run_state m1 s = (0, s\<lparr>trace := es1 @ trace s\<rparr>)"
      "regs_of f0 (es1 @ trace s) = g1 (params s) (regs_of f0 (trace s))" .
  let ?s = "s\<lparr>trace := es1 @ trace s\<rparr>"
  from h have h1: "halted ?s = None" by simp
  from drivesD [OF 2 h1] obtain es2
    where 2: "run_state m2 ?s = (0, ?s\<lparr>trace := es2 @ trace ?s\<rparr>)"
      "regs_of f0 (es2 @ trace ?s) = g2 (params ?s) (regs_of f0 (trace ?s))" .
  show "\<exists>es. run_state (and_then m1 m2) s = (0, s\<lparr>trace := es @ trace s\<rparr>) \<and>
      regs_of f0 (es @ trace s) = g2 (params s) (g1 (params s) (regs_of f0 (trace s)))"
    using 2 1 by (intro exI [of _ "es2 @ es1"]) (simp add: run_and_then_0)
qed

lemma drives_param:
  assumes "drives f0 E g m"
  shows "drives f0 E (\<lambda>p f. if k p = 0 then g p f else f)
           (do { v \<leftarrow> get_param k; if v = 0 then m else State_Monad.return 0 })"
proof (rule drivesI)
  fix s :: kst assume h: "halted s = None"
  show "\<exists>es. run_state (do { v \<leftarrow> get_param k; if v = 0 then m else State_Monad.return 0 }) s
          = (0, s\<lparr>trace := es @ trace s\<rparr>) \<and>
      regs_of f0 (es @ trace s) = (if k (params s) = 0 then g (params s) (regs_of f0 (trace s)) else regs_of f0 (trace s))"
    using assms h by (cases "k (params s) = 0") (auto simp: drives_def intro: exI [of _ "[]"])
qed

lemma drives_update:
  assumes E: "mpu6050 f0 E"
    and k: "\<And>v. k v = (if c v then h v else v)"
    and st: "\<And>f. settled f \<Longrightarrow> store_reg r (k (f r)) f = modify_reg r k f"
  shows "drives f0 E (\<lambda>p. modify_reg r k)
           (do { reg \<leftarrow> read_reg E r; if c reg then write_reg E r (h reg) else State_Monad.return 0 })"
proof (rule drivesI)
  fix s :: kst assume h: "halted s = None"
  let ?f = "regs_of f0 (trace s)"
  let ?rd = "(I2C (Read_byte r), answer E (trace s) (I2C (Read_byte r)))"
  let ?tr = "?rd # trace s"
  let ?wr = "(I2C (Write_byte r (h (?f r))), answer E ?tr (I2C (Write_byte r (h (?f r)))))"
  have set: "settled ?f" using E settled_regs_of by (simp add: mpu6050_def)
  show "\<exists>es. run_state (do { reg \<leftarrow> read_reg E r; if c reg then write_reg E r (h reg) else State_Monad.return 0 }) s
          = (0, s\<lparr>trace := es @ trace s\<rparr>) \<and>
      regs_of f0 (es @ trace s) = modify_reg r k ?f"
  proof (cases "c (?f r)")
    case True
    show ?thesis
      using E h True k [of "?f r"] st [OF set]
      by (intro exI [of _ "[?wr, ?rd]"]) (simp add: read_reg_def write_reg_def mpu6050_def modify_reg_def)
  next
    case False
    show ?thesis
      using E h False k [of "?f r"]
      by (intro exI [of _ "[?rd]"]) (simp add: read_reg_def write_reg_def mpu6050_def modify_reg_def)
  qed
qed

lemma drives_write:
  assumes E: "mpu6050 f0 E"
    and st: "\<And>f. settled f \<Longrightarrow> store_reg r (h (f r)) f = modify_reg r h f"
  shows "drives f0 E (\<lambda>p. modify_reg r h) (do { reg \<leftarrow> read_reg E r; write_reg E r (h reg) })"
  using drives_update [OF E, of h "\<lambda>_. True" h r] st by simp

lemma store_plain:
  "r \<noteq> MPU6050_RA_PWR_MGMT_1 \<Longrightarrow> r \<noteq> MPU6050_RA_USER_CTRL \<Longrightarrow> store_reg r v f = f(r := v)"
  by (simp add: store_reg_def)

lemma store_power:
  assumes "settled f" "\<And>v. \<not> bit v 7 \<Longrightarrow> \<not> bit (k v) 7"
  shows "store_reg MPU6050_RA_PWR_MGMT_1 (k (f MPU6050_RA_PWR_MGMT_1)) f
           = modify_reg MPU6050_RA_PWR_MGMT_1 k f"
  using assms by (simp add: store_reg_def settled_def modify_reg_def)


lemma store_user:
  assumes "settled f" "\<And>v. v AND 0xF8 = v \<Longrightarrow> k v AND 0xF8 = k v"
  shows "store_reg MPU6050_RA_USER_CTRL (k (f MPU6050_RA_USER_CTRL)) f
           = modify_reg MPU6050_RA_USER_CTRL k f"
  using assms by (simp add: store_reg_def settled_def modify_reg_def)

lemma drives_cong: "drives f0 E g m \<Longrightarrow> (\<And>p f. g p f = g' p f) \<Longrightarrow> drives f0 E g' m"
  by (simp add: drives_def)

lemma drives_sleep_off:
  assumes E: "mpu6050 f0 E"
  shows "drives f0 E (\<lambda>p. modify_reg 0x6B (\<lambda>v. if bit v 6 then 0 else v)) (init_sleep_off E)"
  unfolding init_sleep_off_def Let_def
  by (rule drives_update [OF E, where k = "\<lambda>v. if bit v 6 then 0 else v"], simp add: byte_bits)
     (rule store_power, auto)

lemma drives_clock_source:
  assumes E: "mpu6050 f0 E"
  shows "drives f0 E (\<lambda>p. modify_reg 0x6B (\<lambda>v. (v AND 0xF8) OR 1)) (init_clock_source E)"
  unfolding init_clock_source_def Let_def
  by (rule drives_update [OF E, where k = "\<lambda>v. (v AND 0xF8) OR 1"], simp add: byte_bits)
     (rule store_power, auto simp: byte_bits)

lemma drives_low_pass_filter:
  assumes E: "mpu6050 f0 E"
  shows "drives f0 E (\<lambda>p. modify_reg 0x1A (\<lambda>v. v AND 0xF8)) (init_low_pass_filter E)"
  unfolding init_low_pass_filter_def Let_def
  by (rule drives_update [OF E, where k = "\<lambda>v. v AND 0xF8"], simp add: byte_bits)
     (simp add: store_plain modify_reg_def)

lemma drives_sample_rate:
  assumes E: "mpu6050 f0 E"
  shows "drives f0 E (\<lambda>p. modify_reg 0x19 (\<lambda>v. 0)) (init_sample_rate E)"
  unfolding init_sample_rate_def Let_def
  by (rule drives_update [OF E, where k = "\<lambda>v. 0"]) (simp_all add: store_plain modify_reg_def)

lemma drives_thermometer_on:
  assumes E: "mpu6050 f0 E"
  shows "drives f0 E (\<lambda>p f. f) (init_thermometer_on E)"
  unfolding init_thermometer_on_def Let_def
  by (rule drives_cong, rule drives_update [OF E, where k = "\<lambda>v. v"], simp add: byte_bits)
     (rule store_power, auto simp: modify_reg_def)

lemma drives_gyroscope_range:
  assumes E: "mpu6050 f0 E"
  shows "drives f0 E (\<lambda>p. modify_reg 0x1B (\<lambda>v. if v AND 0x18 = 0x18 then v else v OR 0x30)) (init_gyroscope_range E)"
  unfolding init_gyroscope_range_def Let_def
  by (rule drives_update [OF E, where k = "\<lambda>v. if v AND 0x18 = 0x18 then v else v OR 0x30"], simp add: byte_bits)
     (simp add: store_plain modify_reg_def)

lemma drives_accelerometer_range:
  assumes E: "mpu6050 f0 E"
  shows "drives f0 E (\<lambda>p. modify_reg 0x1C (\<lambda>v. if v AND 0x18 = 0x18 then v else v OR 0x30)) (init_accelerometer_range E)"
  unfolding init_accelerometer_range_def Let_def
  by (rule drives_update [OF E, where k = "\<lambda>v. if v AND 0x18 = 0x18 then v else v OR 0x30"], simp add: byte_bits)
     (simp add: store_plain modify_reg_def)

lemma drives_fifo_sources:
  assumes E: "mpu6050 f0 E"
  shows "drives f0 E (\<lambda>p. modify_reg 0x23 (\<lambda>v. v OR 0xF8)) (init_fifo_sources E)"
  unfolding init_fifo_sources_def Let_def
  by (rule drives_update [OF E, where k = "\<lambda>v. v OR 0xF8"], simp add: flag_of_def fifo_enable_mask_def, auto simp: byte_bits)
     (simp add: store_plain modify_reg_def)

lemma drives_fifo_overflow_irq_off:
  assumes E: "mpu6050 f0 E"
  shows "drives f0 E (\<lambda>p. modify_reg 0x38 (\<lambda>v. if bit v 4 then 0 else v)) (init_fifo_overflow_irq_off E)"
  unfolding init_fifo_overflow_irq_off_def Let_def
  by (rule drives_update [OF E, where k = "\<lambda>v. if bit v 4 then 0 else v"], simp add: byte_bits)
     (simp add: store_plain modify_reg_def)

lemma drives_fifo_on:
  assumes E: "mpu6050 f0 E"
  shows "drives f0 E (\<lambda>p. modify_reg 0x6A (\<lambda>v. v OR 0x40)) (init_fifo_on E)"
  unfolding init_fifo_on_def Let_def
  by (rule drives_update [OF E, where k = "\<lambda>v. v OR 0x40"], simp add: byte_bits flag_of_def)
     (rule store_user, auto simp: byte_bits)

lemma mask_and_clear_0:
  "mask_and_clear 7 reg = 0" "mask_and_clear 6 reg = 0" "mask_and_clear 5 reg = 0"
  by (simp_all add: mask_and_clear_def Let_def byte_bits)

lemma drives_interrupt_pin:
  assumes E: "mpu6050 f0 E"
  shows "drives f0 E (\<lambda>p. modify_reg 0x37 (\<lambda>v. 0x10)) (init_interrupt_pin E)"
  unfolding init_interrupt_pin_def Let_def
  by (rule drives_cong, rule drives_write [OF E], simp add: store_plain modify_reg_def)
     (simp add: mask_and_clear_0 modify_reg_def byte_bits)

lemma drives_external_sensor_wait_off:
  assumes E: "mpu6050 f0 E"
  shows "drives f0 E (\<lambda>p. modify_reg 0x24 (\<lambda>v. if bit v 6 then 0 else v)) (init_external_sensor_wait_off E)"
  unfolding init_external_sensor_wait_off_def Let_def
  by (rule drives_update [OF E, where k = "\<lambda>v. if bit v 6 then 0 else v"], simp add: byte_bits)
     (simp add: store_plain modify_reg_def)

lemma drives_data_ready_irq_on:
  assumes E: "mpu6050 f0 E"
  shows "drives f0 E (\<lambda>p. modify_reg 0x38 (\<lambda>v. if bit v 0 then v else 1)) (init_data_ready_irq_on E)"
  unfolding init_data_ready_irq_on_def Let_def
  by (rule drives_update [OF E, where k = "\<lambda>v. if bit v 0 then v else 1"], simp add: byte_bits)
     (simp add: store_plain modify_reg_def)


lemmas drives_init_steps = drives_sleep_off drives_clock_source drives_low_pass_filter
  drives_sample_rate drives_thermometer_on drives_gyroscope_range drives_accelerometer_range
  drives_fifo_sources drives_fifo_overflow_irq_off drives_fifo_on drives_interrupt_pin
  drives_external_sensor_wait_off drives_data_ready_irq_on

definition configured :: "module_params \<Rightarrow> regs \<Rightarrow> regs" where
  "configured p f =
     (let full_scale = (\<lambda>v. if v AND 0x18 = 0x18 then v else v OR 0x30);
          ints = (if nofifo p = 0 \<and> bit (f MPU6050_RA_INT_ENABLE) 4 then 0 else f MPU6050_RA_INT_ENABLE)
      in f(MPU6050_RA_PWR_MGMT_1 :=
             ((if bit (f MPU6050_RA_PWR_MGMT_1) 6 then 0 else f MPU6050_RA_PWR_MGMT_1) AND 0xF8) OR 1,
           MPU6050_RA_CONFIG := f MPU6050_RA_CONFIG AND 0xF8,
           MPU6050_RA_SMPLRT_DIV := 0,
           MPU6050_RA_GYRO_CONFIG := full_scale (f MPU6050_RA_GYRO_CONFIG),
           MPU6050_RA_ACCEL_CONFIG := full_scale (f MPU6050_RA_ACCEL_CONFIG),
           MPU6050_RA_FIFO_EN := (if nofifo p = 0 then f MPU6050_RA_FIFO_EN OR 0xF8 else f MPU6050_RA_FIFO_EN),
           MPU6050_RA_USER_CTRL := (if nofifo p = 0 then f MPU6050_RA_USER_CTRL OR 0x40 else f MPU6050_RA_USER_CTRL),
           MPU6050_RA_INT_PIN_CFG := (if noirq p = 0 then 0x10 else f MPU6050_RA_INT_PIN_CFG),
           MPU6050_RA_I2C_MST_CTRL :=
             (if noirq p = 0 \<and> bit (f MPU6050_RA_I2C_MST_CTRL) 6 then 0 else f MPU6050_RA_I2C_MST_CTRL),
           MPU6050_RA_INT_ENABLE := (if noirq p \<noteq> 0 \<or> bit ints 0 then ints else 1)))"

lemma modify_reg_same: "modify_reg r k f r = k (f r)"
  and modify_reg_other: "x \<noteq> r \<Longrightarrow> modify_reg r k f x = f x"
  by (simp_all add: modify_reg_def)

lemma drives_init:
  assumes E: "mpu6050 f0 E" and c: "c \<noteq> Null"
  shows "drives f0 E configured (i2c_mpu6050_device_init E c)"
proof -
  note steps = drives_init_steps [OF E]
  show ?thesis
    unfolding i2c_mpu6050_device_init_def init_fifo_def init_interrupts_def using c
    apply simp
    apply (rule drives_cong)
    apply (rule drives_and_then drives_param steps)+
    subgoal for p f
      apply (rule ext)
      subgoal for x
        by (cases "x \<in> {0x6B, 0x1A, 0x19, 0x1B, 0x1C, 0x23, 0x6A, 0x37, 0x24, 0x38}"; cases "nofifo p = 0"; cases "noirq p = 0")
           (auto simp: configured_def Let_def modify_reg_same modify_reg_other cong: if_cong split del: if_split)
      done
    done
qed

section \<open>Errors\<close>

fun write_ok :: "event \<Rightarrow> bool" where
  "write_ok (I2C (Write_byte r v), rep) \<longleftrightarrow> ret rep = 0"
| "write_ok (I2C (Read_byte r), rep) \<longleftrightarrow> True"
| "write_ok (c, rep) \<longleftrightarrow> False"

definition failed_write :: "s32 \<Rightarrow> event list \<Rightarrow> bool" where
  "failed_write e es \<longleftrightarrow>
     (case es of (I2C (Write_byte r v), rep) # es' \<Rightarrow> ret rep = e \<and> list_all write_ok es' | _ \<Rightarrow> False)"

definition fail_stop :: "s32 driver \<Rightarrow> bool" where
  "fail_stop m \<longleftrightarrow> (\<forall>s. halted s = None \<longrightarrow>
     (\<exists>e es. run_state m s = (e, s\<lparr>trace := es @ trace s\<rparr>) \<and>
             (if e = 0 then list_all write_ok es else failed_write e es)))"

lemma failed_write_append: "failed_write e es \<Longrightarrow> list_all write_ok es' \<Longrightarrow> failed_write e (es @ es')"
  by (auto simp: failed_write_def list_all_append split: list.splits prod.splits kcall.splits i2c_call.splits)

lemma fail_stop_and_then:
  assumes 1: "fail_stop m1" and 2: "fail_stop m2"
  shows "fail_stop (and_then m1 m2)"
  unfolding fail_stop_def
proof (intro allI impI)
  fix s :: kst assume h: "halted s = None"
  from 1 h obtain e1 es1 where r1: "run_state m1 s = (e1, s\<lparr>trace := es1 @ trace s\<rparr>)"
    and ok1: "if e1 = 0 then list_all write_ok es1 else failed_write e1 es1"
    unfolding fail_stop_def by blast
  let ?s = "s\<lparr>trace := es1 @ trace s\<rparr>"
  from h have "halted ?s = None" by simp
  with 2 obtain e2 es2 where r2: "run_state m2 ?s = (e2, ?s\<lparr>trace := es2 @ trace ?s\<rparr>)"
    and ok2: "if e2 = 0 then list_all write_ok es2 else failed_write e2 es2"
    unfolding fail_stop_def by blast
  show "\<exists>e es. run_state (and_then m1 m2) s = (e, s\<lparr>trace := es @ trace s\<rparr>) \<and>
          (if e = 0 then list_all write_ok es else failed_write e es)"
  proof (cases "e1 = 0")
    case True
    then show ?thesis using r1 r2 ok1 ok2
      by (intro exI [of _ e2] exI [of _ "es2 @ es1"])
         (auto simp: run_and_then_0 list_all_append failed_write_append)
  next
    case False
    then show ?thesis using r1 ok1
      by (intro exI [of _ e1] exI [of _ es1]) (auto simp: and_then_def)
  qed
qed

lemma fail_stop_return: "fail_stop (State_Monad.return 0)"
  unfolding fail_stop_def by (intro allI impI exI [of _ 0] exI [of _ "[]"]) simp

lemma fail_stop_param:
  "fail_stop m \<Longrightarrow> fail_stop (do { v \<leftarrow> get_param k; if v = 0 then m else State_Monad.return 0 })"
  unfolding fail_stop_def
proof (intro allI impI)
  fix s :: kst assume m: "\<forall>s. halted s = None \<longrightarrow>
     (\<exists>e es. run_state m s = (e, s\<lparr>trace := es @ trace s\<rparr>) \<and>
             (if e = 0 then list_all write_ok es else failed_write e es))" and h: "halted s = None"
  show "\<exists>e es. run_state (do { v \<leftarrow> get_param k; if v = 0 then m else State_Monad.return 0 }) s
           = (e, s\<lparr>trace := es @ trace s\<rparr>) \<and>
          (if e = 0 then list_all write_ok es else failed_write e es)"
    using m [rule_format, OF h] by (cases "k (params s) = 0") (auto intro: exI [of _ "[]"])
qed

lemma fail_stop_step:
  "fail_stop (do { reg \<leftarrow> read_reg E r; if c reg then write_reg E r (h reg) else State_Monad.return 0 })"
  unfolding fail_stop_def
proof (intro allI impI)
  fix s :: kst assume h: "halted s = None"
  let ?a = "answer E (trace s) (I2C (Read_byte r))"
  let ?v = "truncate_u8 (ret ?a)"
  let ?tr = "(I2C (Read_byte r), ?a) # trace s"
  let ?w = "I2C (Write_byte r (h ?v))"
  show "\<exists>e es. run_state (do { reg \<leftarrow> read_reg E r; if c reg then write_reg E r (h reg) else State_Monad.return 0 }) s
           = (e, s\<lparr>trace := es @ trace s\<rparr>) \<and>
          (if e = 0 then list_all write_ok es else failed_write e es)"
  proof (cases "c ?v")
    case True
    then show ?thesis using h
      by (intro exI [of _ "ret (answer E ?tr ?w)"] exI [of _ "[(?w, answer E ?tr ?w), (I2C (Read_byte r), ?a)]"])
         (simp add: read_reg_def write_reg_def failed_write_def)
  next
    case False
    then show ?thesis using h
      by (intro exI [of _ 0] exI [of _ "[(I2C (Read_byte r), ?a)]"]) (simp add: read_reg_def)
  qed
qed

lemma fail_stop_write: "fail_stop (do { reg \<leftarrow> read_reg E r; write_reg E r (h reg) })"
  using fail_stop_step [of E r "\<lambda>_. True" h] by simp

lemmas fail_stop_intros = fail_stop_and_then fail_stop_param fail_stop_return fail_stop_step fail_stop_write


lemmas init_step_defs = init_sleep_off_def init_clock_source_def init_low_pass_filter_def
  init_sample_rate_def init_thermometer_on_def init_gyroscope_range_def init_accelerometer_range_def
  init_fifo_def init_fifo_sources_def init_fifo_overflow_irq_off_def init_fifo_on_def
  init_interrupts_def init_interrupt_pin_def init_external_sensor_wait_off_def init_data_ready_irq_on_def

section \<open>Reset\<close>

lemma cold_reset_run:
  assumes E: "mpu6050 f0 E" and h: "halted s = None"
  shows "\<exists>es. run_state (device_reset_cold E wait) s = ((), s\<lparr>trace := es @ trace s\<rparr>) \<and>
     regs_of f0 (es @ trace s) = power_on_regs \<and> (\<forall>w. Warn w \<notin> fst ` set es)"
proof -
  let ?f = "regs_of f0 (trace s)"
  let ?rd = "I2C (Read_byte 0x6B)"
  let ?e1 = "(?rd, answer E (trace s) ?rd)"
  let ?wr = "I2C (Write_byte 0x6B (?f 0x6B OR 0x80))"
  let ?e2 = "(?wr, answer E (?e1 # trace s) ?wr)"
  let ?e3 = "(Sys (Msleep 100), answer E (?e2 # ?e1 # trace s) (Sys (Msleep 100)))"
  let ?e4 = "(?rd, answer E (?e3 # ?e2 # ?e1 # trace s) ?rd)"
  have st: "store_reg 0x6B (?f 0x6B OR 0x80) ?f = power_on_regs"
    by (simp add: store_reg_def bit_simps)
  have pw: "(0x40 :: s32) AND 7 = 0" by simp
  show ?thesis
  proof (cases "wait = 0")
    case True
    then show ?thesis using E h st
      by (intro exI [of _ "[?e2, ?e1]"]) (simp add: device_reset_cold_def read_reg_def write_reg_def mpu6050_def whenM_def)
  next
    case False
    then show ?thesis using E h st
      by (intro exI [of _ "[?e4, ?e3, ?e2, ?e1]"])
         (simp add: device_reset_cold_def read_reg_def write_reg_def mpu6050_def whenM_def power_on_regs_def)
  qed
qed

lemma drives_wake_frequency:
  assumes E: "mpu6050 f0 E"
  shows "drives f0 E (\<lambda>p f. f) (low_power_cycle_frequency E)"
  unfolding low_power_cycle_frequency_def Let_def
  by (rule drives_cong, rule drives_update [OF E, where k = "\<lambda>v. v"], simp add: byte_bits)
     (auto simp: store_plain modify_reg_def)

lemma drives_thermometer_off:
  assumes E: "mpu6050 f0 E"
  shows "drives f0 E (\<lambda>p. modify_reg 0x6B (\<lambda>v. if v AND 0xF0 = 0 then v OR 8 else v)) (low_power_thermometer_off E)"
  unfolding low_power_thermometer_off_def Let_def
  by (rule drives_update [OF E, where k = "\<lambda>v. if v AND 0xF0 = 0 then v OR 8 else v"], simp add: byte_bits)
     (rule store_power, auto simp: byte_bits)

lemma drives_gyroscope_off:
  assumes E: "mpu6050 f0 E"
  shows "drives f0 E (\<lambda>p. modify_reg 0x6C (\<lambda>v. standby_gyro 0 (standby_gyro 1 (standby_gyro 2 v)))) (low_power_gyroscope_off E)"
  unfolding low_power_gyroscope_off_def Let_def
  by (rule drives_write [OF E]) (simp add: store_plain modify_reg_def)

lemma drives_cycle_on:
  assumes E: "mpu6050 f0 E"
  shows "drives f0 E (\<lambda>p. modify_reg 0x6B (\<lambda>v. if bit v 5 then v else 0x20)) (low_power_cycle_on E)"
  unfolding low_power_cycle_on_def Let_def
  by (rule drives_update [OF E, where k = "\<lambda>v. if bit v 5 then v else 0x20"], simp add: byte_bits)
     (rule store_power, auto simp: byte_bits)

lemma drives_low_power_sleep_off:
  assumes E: "mpu6050 f0 E"
  shows "drives f0 E (\<lambda>p. modify_reg 0x6B (\<lambda>v. if bit v 6 then 0x40 else v)) (low_power_sleep_off E)"
  unfolding low_power_sleep_off_def Let_def
  by (rule drives_update [OF E, where k = "\<lambda>v. if bit v 6 then 0x40 else v"], simp add: byte_bits)
     (rule store_power, auto simp: byte_bits)


lemma drives_low_power_chain:
  assumes E: "mpu6050 f0 E"
  shows "drives f0 E (\<lambda>p f. modify_reg 0x6B (\<lambda>v. if bit v 6 then 0x40 else v)
       (modify_reg 0x6B (\<lambda>v. if bit v 5 then v else 0x20)
       (modify_reg 0x6C (\<lambda>v. standby_gyro 0 (standby_gyro 1 (standby_gyro 2 v)))
       (modify_reg 0x6B (\<lambda>v. if v AND 0xF0 = 0 then v OR 8 else v) f))))
     (and_then (low_power_cycle_frequency E) (and_then (low_power_thermometer_off E)
         (and_then (low_power_gyroscope_off E) (and_then (low_power_cycle_on E) (low_power_sleep_off E)))))"
  by (rule drives_cong [OF drives_and_then [OF drives_wake_frequency [OF E] drives_and_then
      [OF drives_thermometer_off [OF E] drives_and_then [OF drives_gyroscope_off [OF E]
        drives_and_then [OF drives_cycle_on [OF E] drives_low_power_sleep_off [OF E]]]]]]) simp

section \<open>Encoding a sample\<close>

text \<open>The data block the device delivers for a sample: seven big endian words.\<close>

definition be_bytes :: "s16 \<Rightarrow> u8 list" where
  "be_bytes x = [ucast (drop_bit 8 x), ucast x]"

definition encode_sample :: "sample \<Rightarrow> u8 list" where
  "encode_sample m = be_bytes (accel_x m) @ be_bytes (accel_y m) @ be_bytes (accel_z m) @ be_bytes (temp m)
     @ be_bytes (gyro_x m) @ be_bytes (gyro_y m) @ be_bytes (gyro_z m)"

lemma be_bytes_join: "push_bit 8 (ucast (ucast (drop_bit 8 x) :: u8)) OR ucast (ucast x :: u8) = x" for x :: s16
proof (rule bit_word_eqI)
  fix n assume "n < LENGTH(16)"
  then show "bit (push_bit 8 (ucast (ucast (drop_bit 8 x) :: u8)) OR ucast (ucast x :: u8) :: s16) n = bit x n"
    by (cases "n < 8") (auto simp: bit_simps)
qed

lemma swap16_swap16: "swap16 (swap16 x) = x"
proof (rule bit_word_eqI)
  fix n assume n: "n < LENGTH(16)"
  show "bit (swap16 (swap16 x)) n = bit x n"
    using n bit_imp_le_length [of x "16 + (n - 8)"]  bit_imp_le_length [of x "16 + n"]
    by (cases "n < 8") (auto simp: swap16_def bit_simps)
qed

lemma load16_unfold: "load16 bo bs i = be16_to_cpus bo (be16_to_cpus bo (load16 bo bs i))"
  by (cases bo) (simp_all add: be16_to_cpus_def swap16_swap16)

lemma length_encode_sample: "length (encode_sample m) = 14"
  by (simp add: encode_sample_def be_bytes_def)

lemma encoded_loads:
  fixes rest
  defines "ds m \<equiv> encode_sample m @ rest"
  shows "be16_to_cpus bo (load16 bo (ds m) 0) = accel_x m" "be16_to_cpus bo (load16 bo (ds m) 2) = accel_y m"
    "be16_to_cpus bo (load16 bo (ds m) 4) = accel_z m" "be16_to_cpus bo (load16 bo (ds m) 6) = temp m"
    "be16_to_cpus bo (load16 bo (ds m) 8) = gyro_x m" "be16_to_cpus bo (load16 bo (ds m) 10) = gyro_y m"
    "be16_to_cpus bo (load16 bo (ds m) 12) = gyro_z m"
  by (simp_all add: be16_load ds_def encode_sample_def be_bytes_def be_bytes_join)

section \<open>The FIFO count\<close>

lemma convert_half_word:
  "convert_half bo 1 (ucast (h :: u8) OR push_bit 8 (ucast (l :: u8))) = ucast h OR push_bit 8 (ucast l)"
proof -
  define v :: s32 where v: "v = ucast h OR push_bit 8 (ucast l)"
  have z: "(ucast (drop_bit 16 v) :: u16) = 0"
    unfolding v by (rule bit_word_eqI) (auto simp: bit_simps bit_u8_beyond)
  have "convert_half bo 1 v = v"
  proof (cases bo)
    case Little_endian
    have "v AND NOT (push_bit 16 0xFFFF) = v" unfolding v by (simp add: byte_bits)
    then show ?thesis using Little_endian z
      by (simp add: convert_half_def half_position_def be16_to_cpus_def swap16_def)
  next
    case Big_endian
    have "v AND NOT 0xFFFF OR ucast (ucast v :: u16) = v" unfolding v by (simp add: byte_bits)
    then show ?thesis using Big_endian
      by (simp add: convert_half_def half_position_def be16_to_cpus_def)
  qed
  then show ?thesis by (simp add: v)
qed

section \<open>Properties\<close>

text \<open>Refinement of the whole initialisation. On a device that behaves as documented, \<open>i2c_mpu6050_device_init\<close> returns 0, changes nothing of the driver, and leaves the register file as \<open>configured\<close> says, whatever the registers held before and whichever of the FIFO and interrupt branches the module parameters select.\<close>

theorem device_init_configures:
  assumes "mpu6050 f0 E" "c \<noteq> Null" "halted s = None"
  shows "\<exists>es. run_state (i2c_mpu6050_device_init E c) s = (0, s\<lparr>trace := es @ trace s\<rparr>) \<and>
     regs_of f0 (es @ trace s) = configured (params s) (regs_of f0 (trace s))"
  using drives_init [OF assms(1,2)] assms(3) unfolding drives_def by blast

theorem device_init_configures_witness:
  "\<exists>es. run_state (i2c_mpu6050_device_init (device_env power_on_regs) (Obj ())) (initial_kst default_params)
        = (0, (initial_kst default_params)\<lparr>trace := es\<rparr>) \<and>
     regs_of power_on_regs es = configured default_params power_on_regs"
  using device_init_configures [of power_on_regs "device_env power_on_regs" "Obj ()" "initial_kst default_params"]
  by (simp add: mpu6050_device_env settled_power_on)

text \<open>Fail-stop. Against any I2C bus whatsoever, the initialisation stops at its first failing write and returns that write's error: when it returns 0 every write it made was answered with 0; when it returns an error, the last event is the write that failed with it and all writes before succeeded.\<close>

theorem device_init_fail_stop:
  assumes "c \<noteq> Null" "halted s = None"
  shows "\<exists>e es. run_state (i2c_mpu6050_device_init E c) s = (e, s\<lparr>trace := es @ trace s\<rparr>) \<and>
           (if e = 0 then list_all write_ok es else failed_write e es)"
proof -
  have "fail_stop (i2c_mpu6050_device_init E c)"
    unfolding i2c_mpu6050_device_init_def init_step_defs Let_def if_not_P [OF assms(1)]
    by (intro fail_stop_intros)
  with assms(2) show ?thesis by (simp add: fail_stop_def)
qed

theorem device_init_fail_stop_witness:
  "\<exists>e es. run_state (i2c_mpu6050_device_init \<lparr>answer = (\<lambda>_ _. int_reply 0xFFFFFFFB), order = Little_endian\<rparr> (Obj ()))
            (initial_kst default_params) = (e, (initial_kst default_params)\<lparr>trace := es\<rparr>) \<and>
          (if e = 0 then list_all write_ok es else failed_write e es)"
  using device_init_fail_stop [of "Obj ()" "initial_kst default_params"
      "\<lparr>answer = (\<lambda>_ _. int_reply 0xFFFFFFFB), order = Little_endian\<rparr>"] by simp

text \<open>What the initialisation makes of a device that has just been powered on: awake, clocked by the X gyroscope, no filter, sample rate divider 0; but both full scale fields hold 2, not the intended 3, and the self test bit of one axis is set in each of the two registers.\<close>

theorem power_on_init_ranges:
  assumes "mpu6050 f0 E" "c \<noteq> Null" "halted s = None" "regs_of f0 (trace s) = power_on_regs"
  shows "\<exists>es. run_state (i2c_mpu6050_device_init E c) s = (0, s\<lparr>trace := es @ trace s\<rparr>) \<and>
     (let f = regs_of f0 (es @ trace s)
      in f MPU6050_RA_PWR_MGMT_1 = 1 \<and> f MPU6050_RA_CONFIG = 0 \<and> f MPU6050_RA_SMPLRT_DIV = 0 \<and>
         drop_bit 3 (f MPU6050_RA_GYRO_CONFIG) AND 3 = 2 \<and> bit (f MPU6050_RA_GYRO_CONFIG) 5 \<and>
         drop_bit 3 (f MPU6050_RA_ACCEL_CONFIG) AND 3 = 2 \<and> bit (f MPU6050_RA_ACCEL_CONFIG) 5)"
proof -
  from drivesD [OF drives_init [OF assms(1,2)] assms(3)] obtain es
    where "run_state (i2c_mpu6050_device_init E c) s = (0, s\<lparr>trace := es @ trace s\<rparr>)"
      and "regs_of f0 (es @ trace s) = configured (params s) power_on_regs" using assms(4) by auto
  moreover have "bit (0x30 :: u8) 5" by simp
  ultimately show ?thesis by (intro exI [of _ es]) (simp add: configured_def Let_def power_on_regs_def)
qed

theorem power_on_init_ranges_witness:
  "\<exists>es. run_state (i2c_mpu6050_device_init (device_env power_on_regs) (Obj ())) (initial_kst default_params)
        = (0, (initial_kst default_params)\<lparr>trace := es\<rparr>) \<and>
     drop_bit 3 (regs_of power_on_regs es MPU6050_RA_GYRO_CONFIG) AND 3 = 2"
  using power_on_init_ranges [of power_on_regs "device_env power_on_regs" "Obj ()" "initial_kst default_params"]
  by (auto simp: mpu6050_device_env settled_power_on Let_def)

text \<open>Low power mode on the documented device: it returns 0 from any register contents, and leaves the device reset, cycling, and with the three gyroscopes in standby; the thermometer, which the code means to switch off, stays on (bit 3 of PWR_MGMT_1 is clear).\<close>

theorem low_power_mode_registers:
  assumes E: "mpu6050 f0 E" and c: "c \<noteq> Null" and h: "halted s = None"
  shows "\<exists>es. run_state (i2c_mpu6050_device_low_power_mode E c) s = (0, s\<lparr>trace := es @ trace s\<rparr>) \<and>
     regs_of f0 (es @ trace s) = power_on_regs(MPU6050_RA_PWR_MGMT_1 := 0x20, MPU6050_RA_PWR_MGMT_2 := 7)"
proof -
  from cold_reset_run [OF E h] obtain es1
    where r1: "run_state (device_reset_cold E 1) s = ((), s\<lparr>trace := es1 @ trace s\<rparr>)"
      and f1: "regs_of f0 (es1 @ trace s) = power_on_regs" by blast
  have h': "halted (s\<lparr>trace := es1 @ trace s\<rparr>) = None" using h by simp
  obtain es2 where r2: "run_state (and_then (low_power_cycle_frequency E) (and_then (low_power_thermometer_off E)
         (and_then (low_power_gyroscope_off E) (and_then (low_power_cycle_on E) (low_power_sleep_off E)))))
           (s\<lparr>trace := es1 @ trace s\<rparr>) = (0, s\<lparr>trace := es2 @ es1 @ trace s\<rparr>)"
    and f2: "regs_of f0 (es2 @ es1 @ trace s) = modify_reg 0x6B (\<lambda>v. if bit v 6 then 0x40 else v)
       (modify_reg 0x6B (\<lambda>v. if bit v 5 then v else 0x20)
       (modify_reg 0x6C (\<lambda>v. standby_gyro 0 (standby_gyro 1 (standby_gyro 2 v)))
       (modify_reg 0x6B (\<lambda>v. if v AND 0xF0 = 0 then v OR 8 else v) power_on_regs)))"
    using drivesD [OF drives_low_power_chain [OF E] h'] f1 by auto
  have "regs_of f0 (es2 @ es1 @ trace s) = power_on_regs(MPU6050_RA_PWR_MGMT_1 := 0x20, MPU6050_RA_PWR_MGMT_2 := 7)"
    unfolding f2 by (simp add: modify_reg_def fun_eq_iff power_on_regs_def standby_gyro_def)
  with r1 r2 show ?thesis using c
    by (intro exI [of _ "es2 @ es1"])
       (simp add: i2c_mpu6050_device_low_power_mode_def i2c_mpu6050_device_reset_def)
qed

theorem low_power_mode_registers_witness:
  "\<exists>es. run_state (i2c_mpu6050_device_low_power_mode (device_env power_on_regs) (Obj ())) (initial_kst default_params)
        = (0, (initial_kst default_params)\<lparr>trace := es\<rparr>) \<and>
     regs_of power_on_regs es = power_on_regs(MPU6050_RA_PWR_MGMT_1 := 0x20, MPU6050_RA_PWR_MGMT_2 := 7)"
  using low_power_mode_registers [of power_on_regs "device_env power_on_regs" "Obj ()" "initial_kst default_params"]
  by (simp add: mpu6050_device_env settled_power_on)

text \<open>A cold reset returns the documented device to its power on state, whether or not the caller waits for it, and without the warning that the reset did not complete.\<close>

theorem cold_reset_power_on:
  assumes "mpu6050 f0 E" "c \<noteq> Null" "halted s = None"
  shows "\<exists>es. run_state (i2c_mpu6050_device_reset E c 0 wait) s = ((), s\<lparr>trace := es @ trace s\<rparr>) \<and>
     regs_of f0 (es @ trace s) = power_on_regs \<and> (\<forall>w. Warn w \<notin> fst ` set es)"
  using cold_reset_run [OF assms(1,3)] assms(2) by (simp add: i2c_mpu6050_device_reset_def)

theorem cold_reset_power_on_witness:
  "\<exists>es. run_state (i2c_mpu6050_device_reset (device_env (power_on_regs(0x1B := 8))) (Obj ()) 0 1) (initial_kst default_params)
        = ((), (initial_kst default_params)\<lparr>trace := es\<rparr>) \<and>
     regs_of (power_on_regs(0x1B := 8)) es = power_on_regs \<and> (\<forall>w. Warn w \<notin> fst ` set es)"
  using cold_reset_power_on [of "power_on_regs(0x1B := 8)" "device_env (power_on_regs(0x1B := 8))" "Obj ()"
      "initial_kst default_params" 1]
  by (simp add: mpu6050_device_env settled_def power_on_regs_def)

text \<open>The completion check of the cold reset looks at the clock select bits, not at the reset bit: when the power register reads back as \<open>v\<close>, the warning is given exactly if \<open>v\<close> has one of its bits 0 to 2, whatever its reset bit 7 is.\<close>

theorem reset_check_tests_clock_bits:
  assumes "halted s = None" "wait \<noteq> 0"
    and w: "\<And>tr r v. ret (answer E tr (I2C (Write_byte r v))) = 0"
    and r: "\<And>tr. ret (answer E tr (I2C (Read_byte MPU6050_RA_PWR_MGMT_1))) = promote v"
  shows "(\<exists>rep. (Warn Warn_reset_incomplete, rep) \<in> set (trace (snd (run_state (i2c_mpu6050_device_reset E (Obj ()) 0 wait) s))))
     \<longleftrightarrow> v AND 7 \<noteq> 0 \<or> (\<exists>rep. (Warn Warn_reset_incomplete, rep) \<in> set (trace s))"
proof -
  have "promote v AND 7 = 0 \<longleftrightarrow> v AND 7 = 0" by (simp add: byte_bits)
  then show ?thesis using assms
    by (auto simp: i2c_mpu6050_device_reset_def device_reset_cold_def read_reg_def write_reg_def whenM_def)
qed

theorem reset_check_tests_clock_bits_witness:
  "\<not> (\<exists>rep. (Warn Warn_reset_incomplete, rep) \<in> set (trace (snd (run_state (i2c_mpu6050_device_reset
       \<lparr>answer = (\<lambda>_ c. if c = I2C (Read_byte 0x6B) then int_reply (promote 0x80) else int_reply 0), order = Little_endian\<rparr>
       (Obj ()) 0 1) (initial_kst default_params)))))"
  using reset_check_tests_clock_bits [of "initial_kst default_params" 1
      "\<lparr>answer = (\<lambda>_ c. if c = I2C (Read_byte 0x6B) then int_reply (promote 0x80) else int_reply 0), order = Little_endian\<rparr>" "0x80"]
  by simp

text \<open>Identification. The ping reads WHO_AM_I once and succeeds exactly when bits 1 to 6 of the byte read are those of the device address 0x68; every other answer, bus errors included as far as their low byte says so, is ENODEV.\<close>

theorem ping_answers:
  assumes "c \<noteq> Null" "halted s = None"
  shows "run_state (i2c_mpu6050_device_ping E c) s =
     (let who = I2C (Read_byte MPU6050_RA_WHO_AM_I); a = answer E (trace s) who
      in (if truncate_u8 (ret a) AND 0x7E = 0x68 then 0 else - ENODEV, s\<lparr>trace := (who, a) # trace s\<rparr>))"
proof -
  have "(promote v AND NOT (push_bit (MPU6050_WHO_AM_I_BIT + 1) 0xFF)) AND push_bit 1 0xFF = MPU6050_ADDRESS_AD0_LOW
      \<longleftrightarrow> v AND 0x7E = 0x68" for v :: u8
    by (simp add: byte_bits)
  then show ?thesis using assms by (simp add: i2c_mpu6050_device_ping_def read_reg_def Let_def)
qed

theorem ping_answers_witness:
  "fst (run_state (i2c_mpu6050_device_ping (device_env power_on_regs) (Obj ())) (initial_kst default_params)) = 0"
  using ping_answers [of "Obj ()" "initial_kst default_params" "device_env power_on_regs"]
  by (simp add: device_env_def power_on_regs_def Let_def)

text \<open>Decoding inverts the encoding of the device. All six accelerations and angular velocities come back exactly, on either byte order (the two's complement step is the identity); the temperature comes back with its bytes exchanged on a little endian processor.\<close>

theorem extract_data_roundtrip:
  "i2c_mpu6050_device_extract_data bo (encode_sample m @ rest) =
     m\<lparr>temp := (case bo of Little_endian \<Rightarrow> swap16 (temp m) | Big_endian \<Rightarrow> temp m)\<rparr>"
proof -
  have "load16 bo (encode_sample m @ rest) 6 = (case bo of Little_endian \<Rightarrow> swap16 (temp m) | Big_endian \<Rightarrow> temp m)"
    by (subst load16_unfold, subst encoded_loads) (simp add: be16_to_cpus_def)
  then show ?thesis
    by (simp add: i2c_mpu6050_device_extract_data_def invert_id encoded_loads)
qed

text \<open>The FIFO count is not converted from the device byte order. SMBus delivers the high byte \<open>h\<close> first, as the low byte of the word; the function returns the word as it came, \<open>h + 256 l\<close>, on either byte order.\<close>

theorem fifo_count_answer_unswapped:
  assumes "c \<noteq> Null" "halted s = None"
    and "ret (answer E (trace s) (I2C (Read_word MPU6050_RA_FIFO_COUNTH))) = ucast (h :: u8) OR push_bit 8 (ucast (l :: u8))"
  shows "fst (run_state (i2c_mpu6050_device_fifo_count E c) s) = ucast h OR push_bit 8 (ucast l)"
  using assms by (simp add: i2c_mpu6050_device_fifo_count_def convert_half_word [simplified])

theorem fifo_count_answer_unswapped_witness:
  "fst (run_state (i2c_mpu6050_device_fifo_count \<lparr>answer = (\<lambda>_ _. int_reply 0x0E00), order = Little_endian\<rparr> (Obj ()))
     (initial_kst default_params)) = 0x0E00"
  using fifo_count_answer_unswapped [of "Obj ()" "initial_kst default_params"
      "\<lparr>answer = (\<lambda>_ _. int_reply 0x0E00), order = Little_endian\<rparr>" 0 "0x0E"] by simp

text \<open>The step that should switch the thermometer on never writes: for every value of the power register, and on any bus, it reads the register once and returns 0.\<close>

theorem thermometer_on_never_writes:
  assumes "halted s = None"
  shows "run_state (init_thermometer_on E) s =
     (let rd = I2C (Read_byte MPU6050_RA_PWR_MGMT_1) in (0, s\<lparr>trace := (rd, answer E (trace s) rd) # trace s\<rparr>))"
proof -
  have "drop_bit MPU6050_PWR1_TEMP_DIS_BIT (promote v AND NOT (push_bit MPU6050_PWR1_TEMP_DIS_BIT 1)) \<noteq> 1" for v
    by (simp add: byte_bits)
  with assms show ?thesis by (simp add: init_thermometer_on_def read_reg_def Let_def)
qed

theorem thermometer_on_never_writes_witness:
  "trace (snd (run_state (init_thermometer_on (device_env (power_on_regs(0x6B := 0x48)))) (initial_kst default_params)))
     = [(I2C (Read_byte 0x6B), int_reply 0x48)]"
  using thermometer_on_never_writes [of "initial_kst default_params" "device_env (power_on_regs(0x6B := 0x48))"]
  by (simp add: Let_def device_env_def)

end
