(* ===== verification/Ledger.thy ===== *)
theory Ledger
  imports Kernel "HOL-Library.Multiset"
begin

text \<open>
  What the driver holds: the resources its calls have acquired from the kernel and not given back
  yet, computed from the trace.  The contract of a component that is set up and torn down is the
  locale \<open>lifecycle\<close>.
\<close>

section \<open>Resources\<close>

datatype resource =
    Heap heap_object | Sysfs_file | Workqueue | Timer | Irq_line s32 dev_id | Pinctrl
  | Gpio_handle u32 | Netlink_socket | Netlink_family | Multicast_group | Running thread | Mutex

text \<open>What an event acquires, its answer considered, and what it gives back.\<close>

fun acquired :: "event \<Rightarrow> resource multiset" where
  "acquired (Sys (Kzalloc h), r) = (case pt r of Obj _ \<Rightarrow> {#Heap h#} | _ \<Rightarrow> {#})"
| "acquired (Sys Mutex_init, r) = {#Mutex#}"
| "acquired (Sys Sysfs_create_bin_file, r) = (if ret r = 0 then {#Sysfs_file#} else {#})"
| "acquired (Sys Create_workqueue, r) = (case pt r of Obj _ \<Rightarrow> {#Workqueue#} | _ \<Rightarrow> {#})"
| "acquired (Sys (Hrtimer_start n), r) = (if ret r = 0 then {#Timer#} else {#})"
| "acquired (Sys (Request_irq i d), r) = (if ret r = 0 then {#Irq_line i d#} else {#})"
| "acquired (Sys (Kthread_run t), r) = (case pt r of Obj _ \<Rightarrow> {#Running t#} | _ \<Rightarrow> {#})"
| "acquired (Gpio Pinctrl_get, r) = (case pt r of Obj _ \<Rightarrow> {#Pinctrl#} | _ \<Rightarrow> {#})"
| "acquired (Gpio (Gpio_request_ex p), r) = (if ret r \<noteq> 0 then {#Gpio_handle (ret r)#} else {#})"
| "acquired (Net Netlink_kernel_create, r) = (case pt r of Obj _ \<Rightarrow> {#Netlink_socket#} | _ \<Rightarrow> {#})"
| "acquired (Net Genl_register_family_with_ops, r) = (if ret r = 0 then {#Netlink_family#} else {#})"
| "acquired (Net Genl_register_mc_group, r) = (if ret r = 0 then {#Multicast_group#} else {#})"
| "acquired e = {#}"

fun given_back :: "event \<Rightarrow> resource multiset" where
  "given_back (Sys (Kfree h), r) = {#Heap h#}"
| "given_back (Sys Mutex_destroy, r) = {#Mutex#}"
| "given_back (Sys Sysfs_remove_bin_file, r) = {#Sysfs_file#}"
| "given_back (Sys Destroy_workqueue, r) = {#Workqueue#}"
| "given_back (Sys Hrtimer_cancel, r) = (if sint (ret r) < 0 then {#} else {#Timer#})"
| "given_back (Sys (Free_irq i d), r) = {#Irq_line i d#}"
| "given_back (Sys (Send_sigkill t), r) = (if sint (ret r) < 0 then {#} else {#Running t#})"
| "given_back (Gpio Pinctrl_put, r) = {#Pinctrl#}"
| "given_back (Gpio (Gpio_release h), r) = {#Gpio_handle h#}"
| "given_back (Net Netlink_kernel_release, r) = {#Netlink_socket#}"
| "given_back (Net Genl_unregister_family, r) = {#Netlink_family#}"
| "given_back (Net Genl_unregister_mc_group, r) = {#Multicast_group#}"
| "given_back e = {#}"

primrec held :: "event list \<Rightarrow> resource multiset" where
  "held [] = {#}"
| "held (e # es) = held es + acquired e - given_back e"

text \<open>Calls that neither acquire nor give back.\<close>

definition neutral :: "kcall \<Rightarrow> bool" where
  "neutral c \<longleftrightarrow> (\<forall>r. acquired (c, r) = {#} \<and> given_back (c, r) = {#})"

lemma held_neutral: "list_all (\<lambda>e. neutral (fst e)) es \<Longrightarrow> held (es @ tr) = held tr"
proof (induction es)
  case (Cons e es)
  then show ?case by (cases e) (simp add: neutral_def)
qed simp

lemma held_talks: "talks neutral s s' \<Longrightarrow> held (trace s') = held (trace s)"
  by (auto simp: talks_def held_neutral)

lemma neutral_calls [simp]:
  "neutral (I2C c)" "neutral (Warn w)" "neutral (Sys (Msleep n))" "neutral (Sys Queue_work)"
  "neutral (Sys Init_work)" "neutral (Gpio (Gpio_write h b))" "neutral (Gpio (Gpio_read h))"
  by (simp_all add: neutral_def)

text \<open>
  An environment in which a call that returns a pointer returns an object or an error pointer
  with a code, as the callers in the driver assume, and never NULL.
\<close>

definition object_or_error :: "env \<Rightarrow> kcall \<Rightarrow> bool" where
  "object_or_error E c \<longleftrightarrow> (\<forall>tr. case pt (answer E tr c) of Null \<Rightarrow> False | Err e \<Rightarrow> e \<noteq> 0 | Obj _ \<Rightarrow> True)"

lemma object_or_errorE:
  assumes "object_or_error E c"
  obtains "pt (answer E tr c) = Obj ()" | e where "pt (answer E tr c) = Err e" "e \<noteq> 0"
  using assms unfolding object_or_error_def by (cases "pt (answer E tr c)") (auto split: ref.splits dest: spec [of _ tr])

section \<open>The contract\<close>

text \<open>
  A component is \<open>init\<close> and \<open>fini\<close>, with a condition \<open>good\<close> on the environment, the condition
  \<open>idle\<close> on the driver's data in which it may be set up, the condition \<open>up\<close> that holds when it has
  been, what it \<open>owns\<close> then, and the part of the data it leaves \<open>untouched\<close>.
\<close>

definition same_context :: "(client_data \<Rightarrow> 'u) \<Rightarrow> kst \<Rightarrow> kst \<Rightarrow> bool" where
  "same_context f s s' \<longleftrightarrow> halted s' = None \<and> drvdata s' = drvdata s \<and> params s' = params s \<and> f (cd s') = f (cd s)"

text \<open>The pins and the interrupt line of the client.\<close>

definition pins_of :: "client_data \<Rightarrow> u32 \<times> u32 \<times> s32" where
  [simp]: "pins_of c = (gpio_led_handle c, gpio_int_handle c, client_irq c)"

locale lifecycle =
  fixes init :: "env \<Rightarrow> s32 driver" and fini :: "env \<Rightarrow> unit driver"
    and good :: "env \<Rightarrow> bool" and idle :: "client_data \<Rightarrow> bool" and up :: "client_data \<Rightarrow> bool"
    and owns :: "resource multiset" and untouched :: "client_data \<Rightarrow> 'u"
  assumes init_law: "good E \<Longrightarrow> halted s = None \<Longrightarrow> idle (cd s) \<Longrightarrow>
      let (e, s') = run_state (init E) s
      in same_context untouched s s' \<and>
         (if e = 0 then up (cd s') \<and> held (trace s') = held (trace s) + owns
          else held (trace s') = held (trace s))"
    and fini_law: "good E \<Longrightarrow> halted s = None \<Longrightarrow> up (cd s) \<Longrightarrow>
      let s' = snd (run_state (fini E) s)
      in same_context untouched s s' \<and> held (trace s') = held (trace s) - owns"
begin

text \<open>
  The two laws in the form the callers use: with what else is held, \<open>B\<close>, kept apart.
\<close>

lemma init_succeeds:
  assumes "good E" "halted s = None" "idle (cd s)" "held (trace s) = B" "run_state (init E) s = (0, s')"
  shows "same_context untouched s s'" "up (cd s')" "held (trace s') = B + owns"
  using init_law [OF assms(1-3)] assms(4,5) by auto

lemma init_fails:
  assumes "good E" "halted s = None" "idle (cd s)" "held (trace s) = B" "run_state (init E) s = (e, s')" "e \<noteq> 0"
  shows "same_context untouched s s'" "held (trace s') = B"
  using init_law [OF assms(1-3)] assms(4-6) by auto

lemma fini_releases:
  assumes "good E" "halted s = None" "up (cd s)" "held (trace s) = B + owns" "run_state (fini E) s = (u, s')"
  shows "same_context untouched s s'" "held (trace s') = B"
  using fini_law [OF assms(1-3)] assms(4,5) by (auto simp: Let_def)

end

end
