(* ===== verification/Wq.thy ===== *)
theory Wq
  imports Device_Spec Ledger
begin

text \<open>
  The work queue component (olimex_mod_mpu6050_wq.c): the handler that reads the sensor data
  into the ring buffer, the dump of a slot, and the set up and tear down of the work queue.
  The ring buffer is the list \<open>ringbuffer\<close> of 64 slots and the index \<open>ringbufferpos\<close> of the
  slot written last, -1 before the first.
\<close>

section \<open>Slots\<close>

text \<open>\<open>client_data_p->ringbuffer[i]\<close>: an index outside the array ends the run.\<close>

definition in_ring :: "int \<Rightarrow> bool" where
  "in_ring i \<longleftrightarrow> 0 \<le> i \<and> i < int RINGBUFFER_SIZE"

definition get_slot :: "int \<Rightarrow> ringbuffer_entry driver" where
  "get_slot i =
     (if in_ring i then get_cd (\<lambda>c. ringbuffer c ! nat i)
      else do { fault (Index_out_of_range i); State_Monad.return blank_entry })"

definition upd_slot :: "int \<Rightarrow> (ringbuffer_entry \<Rightarrow> ringbuffer_entry) \<Rightarrow> unit driver" where
  "upd_slot i f =
     (if in_ring i then upd_cd (\<lambda>c. c\<lparr>ringbuffer := (ringbuffer c)[nat i := f (ringbuffer c ! nat i)]\<rparr>)
      else fault (Index_out_of_range i))"

definition this_slot :: "ringbuffer_entry driver" where
  "this_slot = do { pos \<leftarrow> get_cd ringbufferpos; get_slot pos }"

definition upd_this :: "(ringbuffer_entry \<Rightarrow> ringbuffer_entry) \<Rightarrow> unit driver" where
  "upd_this f = do { pos \<leftarrow> get_cd ringbufferpos; upd_slot pos f }"

section \<open>The read handler\<close>

text \<open>
  \<open>i2c_smbus_read_i2c_block_data\<close> with the data of the current slot as its buffer.  The length
  parameter is a \<open>u8\<close>.  A non-negative result is the number of bytes the kernel has copied to
  the buffer, which it does not know the size of.
\<close>

definition block_bytes :: "reply \<Rightarrow> u8 list" where
  "block_bytes r = (let n = nat (sint (ret r)) in take n (bytes r @ replicate n 0))"

definition copy_block :: "reply \<Rightarrow> unit driver" where
  "copy_block r = do {
     e \<leftarrow> this_slot;
     if sint (ret r) \<le> int (length (data e))
     then upd_this (\<lambda>e. e\<lparr>data := overwrite (block_bytes r) (data e)\<rparr>)
     else fault Buffer_overflow }"

definition read_block :: "env \<Rightarrow> u8 \<Rightarrow> s32 \<Rightarrow> s32 driver" where
  "read_block E reg len = do {
     r \<leftarrow> ask E (I2C (Read_block reg (truncate_u8 len)));
     copy_block r;
     State_Monad.return (ret r) }"

definition write_led :: "env \<Rightarrow> bool \<Rightarrow> unit driver" where
  "write_led E b = do { h \<leftarrow> get_cd gpio_led_handle; exec E (Gpio (Gpio_write h b)) }"

text \<open>
  The loop of the FIFO branch: one block read per round, until \<open>size\<close> has reached
  \<open>bytes_to_read\<close>.  The result tells whether the function went to \<open>clean_up\<close>.  The source
  bounds nothing: the fuel does, and a run that uses it up counts as one that never returns.
\<close>

primrec fifo_loop :: "nat \<Rightarrow> env \<Rightarrow> s32 \<Rightarrow> bool driver" where
  "fifo_loop 0 E bytes_to_read = do { fault Never_returns; State_Monad.return False }"
| "fifo_loop (Suc fuel) E bytes_to_read = do {
     e \<leftarrow> this_slot;
     if entry_size e < sint bytes_to_read
     then do {
       write_led E True;
       err \<leftarrow> read_block E MPU6050_RA_FIFO_R_W bytes_to_read;
       write_led E False;
       if sint err < 0 then State_Monad.return True
       else do {
         upd_this (\<lambda>e. e\<lparr>entry_size := entry_size e + sint err\<rparr>);
         nf \<leftarrow> get_param nofifo;
         e \<leftarrow> this_slot;
         if nf = 0 \<and> entry_size e < sint bytes_to_read then fifo_loop fuel E bytes_to_read
         else State_Monad.return False } }
     else State_Monad.return False }"

definition read_fifo :: "nat \<Rightarrow> env \<Rightarrow> bool driver" where
  "read_fifo fuel E = do {
     bytes_to_read \<leftarrow> i2c_mpu6050_device_fifo_count E (Obj ());
     if sint bytes_to_read < 0 then State_Monad.return True
     else if bytes_to_read = 0 then State_Monad.return True
     else fifo_loop fuel E bytes_to_read }"

definition read_registers :: "env \<Rightarrow> bool driver" where
  "read_registers E = do {
     write_led E True;
     r \<leftarrow> read_block E MPU6050_RA_ACCEL_XOUT_H (of_nat DEVICE_BLOCK_LENGTH);
     upd_this (\<lambda>e. e\<lparr>entry_size := sint r\<rparr>);
     write_led E False;
     whenM (sint r \<noteq> int DEVICE_BLOCK_LENGTH) (exec E (Warn (Warn_short_read r (of_nat DEVICE_BLOCK_LENGTH))));
     State_Monad.return False }"

definition next_slot :: "unit driver" where
  "next_slot = do {
     upd_cd (\<lambda>c. c\<lparr>ringbufferpos := ringbufferpos c + 1\<rparr>);
     pos \<leftarrow> get_cd ringbufferpos;
     whenM (pos = int RINGBUFFER_SIZE) (upd_cd (\<lambda>c. c\<lparr>ringbufferpos := 0\<rparr>)) }"

definition fill_slot :: "nat \<Rightarrow> env \<Rightarrow> unit driver" where
  "fill_slot fuel E = do {
     upd_this (\<lambda>e. e\<lparr>used := 1\<rparr>);
     upd_this (\<lambda>e. e\<lparr>entry_size := 0\<rparr>);
     t \<leftarrow> ask E (Sys Ktime_get_real);
     upd_this (\<lambda>e. e\<lparr>timestamp := val64 t\<rparr>);
     nf \<leftarrow> get_param nofifo;
     clean_up \<leftarrow> (if nf = 0 then read_fifo fuel E else read_registers E);
     whenM clean_up (upd_this (\<lambda>e. e\<lparr>used := 0\<rparr>)) }"

text \<open>
  \<open>container_of\<close> of the work item, the first member of its structure, is NULL exactly when the
  work item is.
\<close>

definition i2c_mpu6050_wq_read_handler :: "nat \<Rightarrow> env \<Rightarrow> ptr \<Rightarrow> unit driver" where
  "i2c_mpu6050_wq_read_handler fuel E work_in =
     (if work_in = Null then State_Monad.return ()
      else do {
        client_data_p \<leftarrow> gets drvdata;
        case client_data_p of
          Null \<Rightarrow> fault Null_dereference
        | Err e \<Rightarrow> State_Monad.return ()
        | Obj _ \<Rightarrow> do {
            mutex_lock E;
            next_slot;
            fill_slot fuel E;
            mutex_unlock E } })"

section \<open>Dump, set up, tear down\<close>

text \<open>The sample is what the dump prints.\<close>

definition dump_warnings :: "env \<Rightarrow> int \<Rightarrow> ringbuffer_entry \<Rightarrow> unit driver" where
  "dump_warnings E slot_in e = do {
     whenM (used e = 0) (exec E (Warn (Warn_slot_unused slot_in)));
     whenM (entry_size e < int DEVICE_BLOCK_LENGTH)
       (exec E (Warn (Warn_slot_incomplete slot_in (entry_size e))));
     whenM (timestamp e = 0) (exec E (Warn (Warn_slot_no_timestamp slot_in))) }"

definition i2c_mpu6050_wq_dump :: "env \<Rightarrow> int \<Rightarrow> int \<Rightarrow> sample driver" where
  "i2c_mpu6050_wq_dump E slot_in lock_in = do {
     whenM (lock_in \<noteq> 0) (mutex_lock E);
     e \<leftarrow> get_slot slot_in;
     dump_warnings E slot_in e;
     let m = i2c_mpu6050_device_extract_data (order E) (data e);
     whenM (lock_in \<noteq> 0) (mutex_unlock E);
     State_Monad.return m }"

definition i2c_mpu6050_wq_init :: "env \<Rightarrow> ptr \<Rightarrow> s32 driver" where
  "i2c_mpu6050_wq_init E clientData_in =
     (if clientData_in = Null then State_Monad.return (- EINVAL)
      else do {
        wq \<leftarrow> get_cd workqueue;
        if wq \<noteq> Null then do { exec E (Warn Warn_workqueue_initialized); State_Monad.return 0 }
        else do {
          wq \<leftarrow> call_ptr E (Sys Create_workqueue);
          upd_cd (\<lambda>c. c\<lparr>workqueue := wq\<rparr>);
          if IS_ERR wq then State_Monad.return (PTR_ERR wq)
          else do {
            exec E (Sys Init_work);
            upd_cd (\<lambda>c. c\<lparr>work_read_client := Obj ()\<rparr>);
            State_Monad.return 0 } } })"

definition i2c_mpu6050_wq_fini :: "env \<Rightarrow> ptr \<Rightarrow> unit driver" where
  "i2c_mpu6050_wq_fini E clientData_in =
     (if clientData_in = Null then State_Monad.return () else exec E (Sys Destroy_workqueue))"

section \<open>The ring as a history\<close>

text \<open>
  The shape invariant of the ring, and its abstraction: the 64 slots in the order of their age,
  the newest first.  Writing the next slot pushes onto that history.
\<close>

definition ring_ok :: "client_data \<Rightarrow> bool" where
  "ring_ok c \<longleftrightarrow> length (ringbuffer c) = 64 \<and> - 1 \<le> ringbufferpos c \<and> ringbufferpos c < 64 \<and>
     list_all (\<lambda>e. length (data e) = 14) (ringbuffer c)"

definition newest_first :: "client_data \<Rightarrow> ringbuffer_entry list" where
  "newest_first c = map (\<lambda>k. ringbuffer c ! nat ((ringbufferpos c - int k) mod 64)) [0..<64]"

definition advance :: "int \<Rightarrow> int" where
  "advance pos = (if pos + 1 = 64 then 0 else pos + 1)"

lemma advance_range: "- 1 \<le> pos \<Longrightarrow> pos < 64 \<Longrightarrow> 0 \<le> advance pos \<and> advance pos < 64"
  by (auto simp: advance_def)

lemma advance_back: "(advance pos - int (Suc j)) mod 64 = (pos - int j) mod 64"
proof -
  have "advance pos mod 64 = (pos + 1) mod 64" by (auto simp: advance_def)
  then have "(advance pos - int (Suc j)) mod 64 = (pos + 1 - int (Suc j)) mod 64"
    by (metis mod_diff_left_eq)
  then show ?thesis by simp
qed

lemma advance_distinct:
  assumes "- 1 \<le> pos" "pos < 64" "j < 63"
  shows "(pos - int j) mod 64 \<noteq> advance pos"
proof
  assume eq: "(pos - int j) mod 64 = advance pos"
  have "advance pos mod 64 = advance pos" using advance_range [OF assms(1,2)] by simp
  with eq advance_back [of pos j] have "(advance pos - int (Suc j)) mod 64 = advance pos mod 64" by simp
  then have "64 dvd (advance pos - int (Suc j)) - advance pos" by (simp only: mod_eq_dvd_iff)
  moreover have "(advance pos - int (Suc j)) - advance pos = - int (Suc j)" by simp
  ultimately have "64 dvd int (Suc j)" by (simp only: dvd_minus_iff)
  with assms(3) show False using zdvd_imp_le [of 64 "int (Suc j)"] by simp
qed

lemma newest_first_push:
  assumes ok: "ring_ok c" and pos: "ringbufferpos c' = advance (ringbufferpos c)"
    and rb: "ringbuffer c' = (ringbuffer c)[nat (advance (ringbufferpos c)) := e]"
  shows "newest_first c' = e # take 63 (newest_first c)"
proof (rule nth_equalityI)
  let ?p = "ringbufferpos c"
  have r: "- 1 \<le> ?p" "?p < 64" and len: "length (ringbuffer c) = 64" using ok by (auto simp: ring_ok_def)
  note a = advance_range [OF r]
  fix i assume "i < length (newest_first c')"
  then have i: "i < 64" by (simp add: newest_first_def)
  show "newest_first c' ! i = (e # take 63 (newest_first c)) ! i"
  proof (cases i)
    case 0
    then show ?thesis using a len by (simp add: newest_first_def pos rb nat_less_iff)
  next
    case (Suc j)
    with i have j: "j < 63" by simp
    have "nat ((?p - int j) mod 64) \<noteq> nat (advance ?p)"
      using advance_distinct [OF r j] a pos_mod_sign [of 64 "?p - int j"]
      by (simp add: nat_eq_iff2) 
    then show ?thesis using Suc j len advance_back [of ?p j]
      by (simp add: newest_first_def pos rb nth_list_update_neq [symmetric])
  qed
qed (simp add: newest_first_def)

text \<open>
  What everything the handler does under the lock may change: the current slot, whose data keep
  their length, the trace, and, by an overflow of the buffer or an endless loop, \<open>halted\<close>.
\<close>

definition fills :: "kst \<Rightarrow> kst \<Rightarrow> bool" where
  "fills s s' \<longleftrightarrow>
     (if halted s \<noteq> None then s' = s
      else ring_ok (cd s) \<and> in_ring (ringbufferpos (cd s)) \<longrightarrow>
        (\<exists>es h e. s' = s\<lparr>trace := es @ trace s, halted := h,
             cd := (cd s)\<lparr>ringbuffer := (ringbuffer (cd s))[nat (ringbufferpos (cd s)) := e]\<rparr>\<rparr> \<and>
           h \<in> {None, Some Buffer_overflow, Some Never_returns} \<and> length (data e) = 14))"

lemma ring_ok_nth: "ring_ok c \<Longrightarrow> in_ring i \<Longrightarrow> length (data (ringbuffer c ! nat i)) = 14"
  by (auto simp: ring_ok_def list_all_length in_ring_def)

lemma ring_ok_update:
  "ring_ok c \<Longrightarrow> length (data e) = 14 \<Longrightarrow> ring_ok (c\<lparr>ringbuffer := (ringbuffer c)[i := e]\<rparr>)"
  by (auto simp: ring_ok_def list_all_iff dest: set_update_subset_insert [THEN subsetD])

lemma fills_refl: "fills s s"
  unfolding fills_def
  by (auto intro!: exI [of _ "[]"] exI [of _ "halted s"] exI [of _ "ringbuffer (cd s) ! nat (ringbufferpos (cd s))"]
      simp: ring_ok_nth)

lemma fills_trans:
  assumes 1: "fills s s'" and 2: "fills s' s''"
  shows "fills s s''"
proof (cases "halted s = None \<and> ring_ok (cd s) \<and> in_ring (ringbufferpos (cd s))")
  case True
  with 1 obtain es h e where s': "s' = s\<lparr>trace := es @ trace s, halted := h,
             cd := (cd s)\<lparr>ringbuffer := (ringbuffer (cd s))[nat (ringbufferpos (cd s)) := e]\<rparr>\<rparr>"
    and h: "h \<in> {None, Some Buffer_overflow, Some Never_returns}" and e: "length (data e) = 14"
    unfolding fills_def by auto
  show ?thesis
  proof (cases h)
    case None
    with 2 True e s' obtain es2 h2 e2 where "s'' = s'\<lparr>trace := es2 @ trace s', halted := h2,
             cd := (cd s')\<lparr>ringbuffer := (ringbuffer (cd s'))[nat (ringbufferpos (cd s')) := e2]\<rparr>\<rparr>"
      and "h2 \<in> {None, Some Buffer_overflow, Some Never_returns}" and "length (data e2) = 14"
      unfolding fills_def by (auto simp: ring_ok_update)
    with True s' show ?thesis unfolding fills_def
      by (auto intro!: exI [of _ "es2 @ es"] exI [of _ h2] exI [of _ e2])
  next
    case (Some x)
    with 2 s' have "s'' = s'" by (simp add: fills_def)
    with 1 show ?thesis by simp
  qed
next
  case False
  with 1 2 show ?thesis unfolding fills_def by auto
qed

lemma fills_reflp: "reflp fills" and fills_transp: "transp fills"
  by (auto intro: reflpI transpI fills_refl fills_trans)

lemma fills_talks: "keeps (talks P) m \<Longrightarrow> keeps inert m \<Longrightarrow> keeps fills m"
proof (rule keepsI)
  fix s a s' assume m: "keeps (talks P) m" "keeps inert m" "run_state m s = (a, s')"
  from keepsD [OF m(1,3)] obtain es where "s' = s\<lparr>trace := es @ trace s\<rparr>" by (auto simp: talks_def)
  moreover have "halted s \<noteq> None \<Longrightarrow> s' = s" using keepsD [OF m(2,3)] by (simp add: inert_def)
  ultimately show "fills s s'" unfolding fills_def
    by (auto intro!: exI [of _ es] exI [of _ "halted s"] exI [of _ "ringbuffer (cd s) ! nat (ringbufferpos (cd s))"]
        simp: ring_ok_nth)
qed


lemma fills_ask: "keeps fills (ask E c)" and fills_exec: "keeps fills (exec E c)"
  and fills_call: "keeps fills (call E c)" and fills_get_cd: "keeps fills (get_cd f)"
  and fills_get_param: "keeps fills (get_param g)"
  by (rule fills_talks [where P = "\<lambda>_. True"]; intro talks_intros inert_intros TrueI)+

lemma fills_this_slot: "keeps fills this_slot"
proof (rule keepsI)
  fix s a s' assume "run_state this_slot s = (a, s')"
  then show "fills s s'"
    by (cases "in_ring (ringbufferpos (cd s))")
       (auto simp: this_slot_def get_slot_def fills_refl, auto simp: fills_def)
qed

lemma fills_upd_this:
  assumes "\<And>e. length (data (f e)) = length (data e)"
  shows "keeps fills (upd_this f)"
proof (rule keepsI)
  fix s a s' assume r: "run_state (upd_this f) s = (a, s')"
  show "fills s s'"
  proof (cases "halted s = None \<and> in_ring (ringbufferpos (cd s))")
    case True
    with r have "s' = s\<lparr>cd := (cd s)\<lparr>ringbuffer := (ringbuffer (cd s))[nat (ringbufferpos (cd s)) :=
        f (ringbuffer (cd s) ! nat (ringbufferpos (cd s)))]\<rparr>\<rparr>"
      by (auto simp: upd_this_def upd_slot_def)
    with True show ?thesis unfolding fills_def
      by (auto intro!: exI [of _ "[]"] exI [of _ None] exI [of _ "f (ringbuffer (cd s) ! nat (ringbufferpos (cd s)))"]
        simp: assms ring_ok_nth)
  next
    case False
    with r show ?thesis unfolding fills_def by (auto simp: upd_this_def upd_slot_def split: if_splits)
  qed
qed

lemma fills_fault: "x \<in> {Buffer_overflow, Never_returns} \<Longrightarrow> keeps fills (fault x)"
  by (rule keepsI) (auto simp: fills_def intro!: exI [of _ "[]"] exI [of _ "Some x"]
      exI [of _ "ringbuffer (cd s) ! nat (ringbufferpos (cd s))" for s] ring_ok_nth)

lemma length_block_bytes: "length (block_bytes r) = nat (sint (ret r))"
  by (simp add: block_bytes_def Let_def)

lemma fills_copy_block: "keeps fills (copy_block r)"
proof (rule keepsI)
  fix s a s' assume r: "run_state (copy_block r) s = (a, s')"
  let ?p = "nat (ringbufferpos (cd s))"
  let ?e = "ringbuffer (cd s) ! ?p"
  show "fills s s'"
  proof (cases "halted s = None \<and> ring_ok (cd s) \<and> in_ring (ringbufferpos (cd s)) \<and> sint (ret r) \<le> int (length (data ?e))")
    case True
    with r have "s' = s\<lparr>cd := (cd s)\<lparr>ringbuffer := (ringbuffer (cd s))[?p := ?e\<lparr>data := overwrite (block_bytes r) (data ?e)\<rparr>]\<rparr>\<rparr>"
      by (auto simp: copy_block_def this_slot_def get_slot_def upd_this_def upd_slot_def)
    moreover have "length (overwrite (block_bytes r) (data ?e)) = 14"
      using True by (subst length_overwrite) (auto simp: length_block_bytes ring_ok_nth)
    ultimately show ?thesis using True unfolding fills_def
      by (auto intro!: exI [of _ "[]"] exI [of _ None] exI [of _ "?e\<lparr>data := overwrite (block_bytes r) (data ?e)\<rparr>"])
  next
    case False
    have "halted s = None \<Longrightarrow> ring_ok (cd s) \<Longrightarrow> in_ring (ringbufferpos (cd s)) \<Longrightarrow> fills s s'"
      using r False keepsD [OF fills_fault [of Buffer_overflow], of s a s']
      by (auto simp: copy_block_def this_slot_def get_slot_def)
    moreover have "halted s \<noteq> None \<Longrightarrow> s' = s"
      using r by (auto simp: copy_block_def this_slot_def get_slot_def upd_this_def upd_slot_def split: if_splits)
    ultimately show ?thesis by (auto simp: fills_def)
  qed
qed


lemmas fills_structure = fills_ask fills_exec fills_call fills_get_cd fills_get_param fills_this_slot
  fills_copy_block keeps_return [OF fills_reflp] keeps_gets [OF fills_reflp] keeps_bind [OF fills_transp]
  keeps_whenM [OF fills_reflp] keeps_if keeps_Let

lemma fills_write_led: "keeps fills (write_led E b)"
  unfolding write_led_def by (intro fills_structure)

lemma fills_read_block: "keeps fills (read_block E reg len)"
  unfolding read_block_def by (intro fills_structure)

lemma fills_fifo_loop: "keeps fills (fifo_loop fuel E n)"
proof (induction fuel)
  case 0
  show ?case unfolding fifo_loop.simps by (intro fills_structure fills_fault) simp
next
  case (Suc fuel)
  show ?case unfolding fifo_loop.simps
    by (intro fills_structure fills_write_led fills_read_block Suc fills_upd_this) simp
qed

lemma fills_fifo_count: "keeps fills (i2c_mpu6050_device_fifo_count E c)"
  unfolding i2c_mpu6050_device_fifo_count_def by (intro fills_structure)

lemma fills_fill_slot: "keeps fills (fill_slot fuel E)"
  unfolding fill_slot_def read_fifo_def read_registers_def
  by (intro fills_structure fills_write_led fills_read_block fills_fifo_loop fills_fifo_count fills_upd_this) simp_all

lemma run_next_slot:
  "halted s = None \<Longrightarrow> run_state next_slot s = ((), s\<lparr>cd := (cd s)\<lparr>ringbufferpos := advance (ringbufferpos (cd s))\<rparr>\<rparr>)"
  by (simp add: next_slot_def whenM_def advance_def)

section \<open>Running on the current slot\<close>

definition cur :: "kst \<Rightarrow> ringbuffer_entry" where
  "cur s = ringbuffer (cd s) ! nat (ringbufferpos (cd s))"

definition put_cur :: "ringbuffer_entry \<Rightarrow> kst \<Rightarrow> kst" where
  "put_cur e s = s\<lparr>cd := (cd s)\<lparr>ringbuffer := (ringbuffer (cd s))[nat (ringbufferpos (cd s)) := e]\<rparr>\<rparr>"

definition on_slot :: "kst \<Rightarrow> bool" where
  "on_slot s \<longleftrightarrow> halted s = None \<and> length (ringbuffer (cd s)) = 64 \<and> in_ring (ringbufferpos (cd s))"

lemma on_slot_simps [simp]:
  "on_slot (put_cur e s) \<longleftrightarrow> on_slot s" "on_slot (s\<lparr>trace := t\<rparr>) \<longleftrightarrow> on_slot s"
  "cur (s\<lparr>trace := t\<rparr>) = cur s"
  "params (put_cur e s) = params s" "halted (put_cur e s) = halted s" "trace (put_cur e s) = trace s"
  "put_cur e (s\<lparr>trace := t\<rparr>) = (put_cur e s)\<lparr>trace := t\<rparr>"
  "gpio_led_handle (cd (put_cur e s)) = gpio_led_handle (cd s)"
  "put_cur e (put_cur e' s) = put_cur e s" "netlink_seq (put_cur e s) = netlink_seq s"
  by (simp_all add: on_slot_def put_cur_def cur_def)

lemma cur_put_cur [simp]: "on_slot s \<Longrightarrow> cur (put_cur e s) = e"
  by (simp add: on_slot_def put_cur_def cur_def in_ring_def nat_less_iff)

lemma on_slot_halted: "on_slot s \<Longrightarrow> halted s = None"
  by (simp add: on_slot_def)

lemma run_this_slot: "on_slot s \<Longrightarrow> run_state this_slot s = (cur s, s)"
  by (simp add: this_slot_def get_slot_def on_slot_def cur_def)

lemma run_upd_this: "on_slot s \<Longrightarrow> run_state (upd_this f) s = ((), put_cur (f (cur s)) s)"
  by (simp add: upd_this_def upd_slot_def on_slot_def cur_def put_cur_def)

lemma run_write_led: "on_slot s \<Longrightarrow> run_state (write_led E b) s =
   ((), let g = Gpio (Gpio_write (gpio_led_handle (cd s)) b) in s\<lparr>trace := (g, answer E (trace s) g) # trace s\<rparr>)"
  by (simp add: write_led_def on_slot_def Let_def)

lemma run_copy_block:
  "on_slot s \<Longrightarrow> sint (ret r) \<le> int (length (data (cur s))) \<Longrightarrow>
   run_state (copy_block r) s = ((), put_cur ((cur s)\<lparr>data := overwrite (block_bytes r) (data (cur s))\<rparr>) s)"
  by (simp add: copy_block_def run_this_slot run_upd_this)

lemma run_read_block:
  assumes "on_slot s"
    and "sint (ret (answer E (trace s) (I2C (Read_block reg (truncate_u8 len))))) \<le> int (length (data (cur s)))"
  shows "run_state (read_block E reg len) s =
   (let c = I2C (Read_block reg (truncate_u8 len)); r = answer E (trace s) c
    in (ret r, put_cur ((cur s)\<lparr>data := overwrite (block_bytes r) (data (cur s))\<rparr>) (s\<lparr>trace := (c, r) # trace s\<rparr>)))"
  using assms by (simp add: read_block_def on_slot_halted run_copy_block Let_def)

lemmas run_slot = run_this_slot run_upd_this run_write_led run_read_block on_slot_halted

section \<open>Termination\<close>

definition block_reads_progress :: "env \<Rightarrow> bool" where
  "block_reads_progress E \<longleftrightarrow>
     (\<forall>tr reg len. let n = sint (ret (answer E tr (I2C (Read_block reg len)))) in n < 0 \<or> 0 < n \<and> n \<le> 14)"

lemma length_overwrite_block:
  "length d = 14 \<Longrightarrow> sint (ret r) \<le> 14 \<Longrightarrow> length (overwrite (block_bytes r) d) = 14"
  by (subst length_overwrite) (auto simp: length_block_bytes)

lemma fifo_loop_returns:
  assumes "block_reads_progress E"
  shows "on_slot s \<Longrightarrow> length (data (cur s)) = 14 \<Longrightarrow> nat (sint n - entry_size (cur s)) < fuel \<Longrightarrow>
     on_slot (snd (run_state (fifo_loop fuel E n) s))"
proof (induction fuel arbitrary: s)
  case (Suc fuel)
  let ?g = "Gpio (Gpio_write (gpio_led_handle (cd s)) True)"
  let ?s1 = "s\<lparr>trace := (?g, answer E (trace s) ?g) # trace s\<rparr>"
  let ?c = "I2C (Read_block MPU6050_RA_FIFO_R_W (truncate_u8 n))"
  let ?r = "answer E (trace ?s1) ?c"
  let ?d = "overwrite (block_bytes ?r) (data (cur s))"
  let ?h = "Gpio (Gpio_write (gpio_led_handle (cd s)) False)"
  have pr: "sint (ret ?r) < 0 \<or> 0 < sint (ret ?r) \<and> sint (ret ?r) \<le> 14"
    using assms unfolding block_reads_progress_def Let_def by blast
  then have le: "sint (ret ?r) \<le> int (length (data (cur s)))" using Suc.prems(2) by auto
  show ?case
  proof (cases "entry_size (cur s) < sint n \<and> 0 \<le> sint (ret ?r)")
    case True
    have d: "length ?d = 14" using Suc.prems(2) pr by (intro length_overwrite_block) auto
    show ?thesis
      using True Suc.prems le pr d
      by (auto simp: run_slot Let_def intro!: Suc.IH)
  next
    case False
    then show ?thesis using Suc.prems(1) le by (auto simp: run_slot Let_def not_less)
  qed
qed simp


section \<open>The handler as a whole\<close>

definition ready :: "kst \<Rightarrow> bool" where
  "ready s \<longleftrightarrow> halted s = None \<and> ring_ok (cd s) \<and> \<not> sync_lock (cd s) \<and> drvdata s = Obj ()"

text \<open>The state in which the handler fills the slot: lock taken, position advanced.\<close>

definition entered :: "env \<Rightarrow> kst \<Rightarrow> kst" where
  "entered E s = s\<lparr>trace := (Sys Mutex_lock, answer E (trace s) (Sys Mutex_lock)) # trace s,
     cd := (cd s)\<lparr>sync_lock := True, ringbufferpos := advance (ringbufferpos (cd s))\<rparr>\<rparr>"

lemma run_handler:
  assumes "ready s" "w \<noteq> Null"
  shows "run_state (i2c_mpu6050_wq_read_handler fuel E w) s =
     run_state (mutex_unlock E) (snd (run_state (fill_slot fuel E) (entered E s)))"
  using assms by (simp add: i2c_mpu6050_wq_read_handler_def run_next_slot ready_def entered_def split: prod.split)

lemma entered_on_slot: "ready s \<Longrightarrow> on_slot (entered E s) \<and> length (data (cur (entered E s))) = 14"
  using advance_range [of "ringbufferpos (cd s)"]
  by (auto simp: ready_def entered_def on_slot_def ring_ok_def in_ring_def cur_def list_all_length nat_less_iff)

lemma ring_ok_entered: "ready s \<Longrightarrow> ring_ok (cd (entered E s))"
  using advance_range [of "ringbufferpos (cd s)"] by (auto simp: ready_def entered_def ring_ok_def)

lemma newest_first_put:
  assumes "ready s"
  shows "newest_first (cd (put_cur e (entered E s))) = e # take 63 (newest_first (cd s))"
  using assms by (intro newest_first_push) (auto simp: ready_def put_cur_def entered_def)

definition stamped :: "env \<Rightarrow> kst \<Rightarrow> kst" where
  "stamped E s = (let t = answer E (trace s) (Sys Ktime_get_real)
     in put_cur \<lparr>used = 1, data = data (cur s), entry_size = 0, timestamp = val64 t\<rparr>
          (s\<lparr>trace := (Sys Ktime_get_real, t) # trace s\<rparr>))"

lemma run_fill_slot:
  assumes "on_slot s"
  shows "run_state (fill_slot fuel E) s =
     run_state (do { clean_up \<leftarrow> (if nofifo (params s) = 0 then read_fifo fuel E else read_registers E);
                     whenM clean_up (upd_this (\<lambda>e. e\<lparr>used := 0\<rparr>)) }) (stamped E s)"
  using assms by (cases "cur s") (simp add: fill_slot_def run_slot stamped_def Let_def)

lemma stamped_on_slot: "on_slot s \<Longrightarrow> on_slot (stamped E s)"
  and params_stamped: "params (stamped E s) = params s"
  and cur_stamped: "on_slot s \<Longrightarrow> cur (stamped E s) =
       \<lparr>used = 1, data = data (cur s), entry_size = 0, timestamp = val64 (answer E (trace s) (Sys Ktime_get_real))\<rparr>"
  by (simp_all add: stamped_def Let_def)

lemma on_slot_cleanup: "on_slot (snd (run_state m s)) \<Longrightarrow>
   on_slot (snd (run_state (do { b \<leftarrow> m; whenM b (upd_this g) }) s))"
  by (auto simp: whenM_def run_slot split: prod.split)

lemma read_fifo_returns:
  assumes E: "block_reads_progress E" and s: "on_slot s" "length (data (cur s)) = 14" "entry_size (cur s) = 0"
    and f: "2 ^ 31 \<le> fuel"
  shows "on_slot (snd (run_state (read_fifo fuel E) s))"
proof -
  let ?w = "I2C (Read_word MPU6050_RA_FIFO_COUNTH)"
  let ?n = "convert_half (order E) 1 (ret (answer E (trace s) ?w))"
  let ?s = "s\<lparr>trace := (?w, answer E (trace s) ?w) # trace s\<rparr>"
  have "sint ?n < 2 ^ 31" using sint_less [of ?n] by simp
  then have "nat (sint ?n) < 2 ^ 31" by (simp add: nat_less_iff)
  with s f have "on_slot (snd (run_state (fifo_loop fuel E ?n) ?s))"
    by (intro fifo_loop_returns [OF E]) auto
  with s show ?thesis
    by (simp add: read_fifo_def i2c_mpu6050_device_fifo_count_def on_slot_halted)
qed

lemma read_registers_returns:
  assumes E: "block_reads_progress E" and s: "on_slot s" "length (data (cur s)) = 14"
  shows "on_slot (snd (run_state (read_registers E) s))"
proof -
  have "sint (ret (answer E tr (I2C (Read_block r l)))) \<le> 14" for tr r l
    using E unfolding block_reads_progress_def Let_def by (meson less_imp_le order_trans zero_le_numeral)
  with s show ?thesis by (simp add: read_registers_def run_slot Let_def whenM_def)
qed

lemma fill_slot_returns:
  assumes E: "block_reads_progress E" and s: "on_slot s" "length (data (cur s)) = 14" and f: "2 ^ 31 \<le> fuel"
  shows "on_slot (snd (run_state (fill_slot fuel E) s))"
  unfolding run_fill_slot [OF s(1)] using s f
  by (intro on_slot_cleanup) (auto intro!: read_fifo_returns [OF E] read_registers_returns [OF E]
       simp: stamped_on_slot cur_stamped params_stamped)

section \<open>Divergence\<close>

lemma fifo_loop_diverges:
  assumes z: "\<And>tr. ret (answer E tr (I2C (Read_block MPU6050_RA_FIFO_R_W (truncate_u8 n)))) = 0"
  shows "on_slot s \<Longrightarrow> entry_size (cur s) < sint n \<Longrightarrow> nofifo (params s) = 0 \<Longrightarrow>
    halted (snd (run_state (fifo_loop fuel E n) s)) = Some Never_returns"
proof (induction fuel arbitrary: s)
  case 0
  then show ?case by (simp add: on_slot_halted)
next
  case (Suc fuel)
  have "block_bytes (answer E tr (I2C (Read_block MPU6050_RA_FIFO_R_W (truncate_u8 n)))) = []" for tr
    using z [of tr] by (simp add: block_bytes_def Let_def)
  with Suc.prems show ?case
    by (simp add: run_slot Let_def z Suc.IH)
qed


lemma count_word:
  fixes l :: u8
  shows "truncate_u8 (push_bit 8 (promote l)) = 0" and "l \<noteq> 0 \<Longrightarrow> 0 < sint (push_bit 8 (promote l))"
proof -
  show "truncate_u8 (push_bit 8 (promote l)) = 0" by (simp add: byte_bits)
  assume l: "l \<noteq> 0"
  have "\<not> bit (push_bit 8 (promote l)) 31" by (simp add: bit_simps bit_u8_beyond)
  then have "0 \<le> sint (push_bit 8 (promote l))" using bit_last_iff [of "push_bit 8 (promote l)"] by simp
  moreover have "push_bit 8 (promote l) \<noteq> 0" using l by (simp add: byte_bits)
  then have "sint (push_bit 8 (promote l)) \<noteq> 0" using signed_word_eqI [of "push_bit 8 (promote l)" 0] by auto
  ultimately show "0 < sint (push_bit 8 (promote l))" by simp
qed


section \<open>A FIFO of more than one sample\<close>

text \<open>If every block read of the loop delivers something, the loop ends with the size at least the count.\<close>

lemma fifo_loop_fills:
  assumes p: "\<And>tr. 0 < sint (ret (answer E tr (I2C (Read_block MPU6050_RA_FIFO_R_W (truncate_u8 n))))) \<and>
      sint (ret (answer E tr (I2C (Read_block MPU6050_RA_FIFO_R_W (truncate_u8 n))))) \<le> 14"
  shows "on_slot s \<Longrightarrow> length (data (cur s)) = 14 \<Longrightarrow> nofifo (params s) = 0 \<Longrightarrow> entry_size (cur s) < sint n \<Longrightarrow>
     nat (sint n - entry_size (cur s)) < fuel \<Longrightarrow>
     let (b, s') = run_state (fifo_loop fuel E n) s
     in \<not> b \<and> on_slot s' \<and> length (data (cur s')) = 14 \<and> sint n \<le> entry_size (cur s') \<and> used (cur s') = used (cur s)"
proof (induction fuel arbitrary: s)
  case (Suc fuel)
  let ?g = "Gpio (Gpio_write (gpio_led_handle (cd s)) True)"
  let ?s1 = "s\<lparr>trace := (?g, answer E (trace s) ?g) # trace s\<rparr>"
  let ?c = "I2C (Read_block MPU6050_RA_FIFO_R_W (truncate_u8 n))"
  let ?r = "answer E (trace ?s1) ?c"
  let ?h = "Gpio (Gpio_write (gpio_led_handle (cd s)) False)"
  let ?d = "overwrite (block_bytes ?r) (data (cur s))"
  let ?e = "(cur s)\<lparr>data := ?d, entry_size := entry_size (cur s) + sint (ret ?r)\<rparr>"
  let ?t = "(?c, ?r) # trace ?s1"
  let ?s2 = "put_cur ?e (s\<lparr>trace := (?h, answer E ?t ?h) # ?t\<rparr>)"
  have pr: "0 < sint (ret ?r)" "sint (ret ?r) \<le> 14" using p by auto
  have d: "length ?d = 14" using Suc.prems(2) pr(2) by (intro length_overwrite_block) auto
  have on: "on_slot ?s2" "cur ?s2 = ?e" "params ?s2 = params s" using Suc.prems(1) by simp_all
  have run: "run_state (fifo_loop (Suc fuel) E n) s =
      (if entry_size ?e < sint n then run_state (fifo_loop fuel E n) ?s2 else (False, ?s2))"
    using Suc.prems(1-4) pr by (simp add: run_slot Let_def)
  show ?case
  proof (cases "entry_size ?e < sint n")
    case True
    have "nat (sint n - entry_size ?e) < fuel" using Suc.prems(5) pr True by (simp add: nat_less_iff)
    from Suc.IH [of ?s2] this Suc.prems(3) True d on show ?thesis unfolding run by (simp add: Let_def)
  next
    case False
    then show ?thesis using d on unfolding run by simp
  qed
qed simp

text \<open>A count of at least 256 whose high byte is at most 14.\<close>

lemma big_count:
  fixes h l :: u8
  assumes l: "l \<noteq> 0" and n: "n = promote h OR push_bit 8 (promote l)"
  shows "truncate_u8 n = h" and "256 \<le> sint n" and "sint n < 2 ^ 16"
proof -
  show "truncate_u8 n = h" unfolding n by (simp add: byte_bits)
  have "take_bit 16 n = n" unfolding n by (simp add: byte_bits)
  then have "uint n = take_bit 16 (uint n)" using unsigned_take_bit_eq [of 16 n, where 'a = int] by simp
  then have u: "uint n < 2 ^ 16" using take_bit_int_less_exp [of 16 "uint n"] by simp
  then have "take_bit 31 (uint n) = uint n" by (simp add: take_bit_int_eq_self)
  moreover have "\<not> bit (uint n) 31" unfolding n by (simp add: bit_simps bit_u8_beyond)
  ultimately have s: "sint n = uint n" by (simp add: sint_uint signed_take_bit_eq_if_positive)
  show "sint n < 2 ^ 16" using u by (simp add: s)
  have d: "drop_bit 8 n = promote l" unfolding n by (simp add: byte_bits)
  have "take_bit 32 (uint n) = uint n" using u by (simp add: take_bit_int_eq_self)
  then have "drop_bit 8 (uint n) = uint (drop_bit 8 n)" by (simp add: unsigned_drop_bit_eq)
  moreover have "uint (promote l) \<noteq> 0" using l promote_eq_0 [of l] unfolding uint_0_iff by simp
  ultimately have "drop_bit 8 (uint n) \<noteq> 0" by (simp only: d not_False_eq_True)
  then show "256 \<le> sint n" unfolding s using div_pos_pos_trivial [of "uint n" 256]
    by (cases "256 \<le> uint n") (simp_all add: drop_bit_eq_div)
qed

section \<open>One complete sample\<close>

text \<open>The slot a successful read leaves, and what it decodes to.\<close>

definition sample_entry :: "u8 list \<Rightarrow> u64 \<Rightarrow> ringbuffer_entry" where
  "sample_entry bs t = \<lparr>used = 1, data = bs, entry_size = 14, timestamp = t\<rparr>"


section \<open>The warnings of the dump\<close>

lemma run_dump_warnings:
  assumes "halted s = None"
  shows "\<exists>es. run_state (dump_warnings E i e) s = ((), s\<lparr>trace := es @ trace s\<rparr>) \<and>
     Sys Mutex_lock \<notin> fst ` set es \<and> Sys Mutex_unlock \<notin> fst ` set es \<and>
     (Warn (Warn_slot_unused i) \<in> fst ` set es \<longleftrightarrow> used e = 0)"
proof -
  let ?a = "\<lambda>c s. (c, answer E (trace s) c)"
  let ?add = "\<lambda>b c s. if b then s\<lparr>trace := ?a c s # trace s\<rparr> else s"
  have w: "run_state (whenM b (exec E c)) s = ((), if b then s\<lparr>trace := ?a c s # trace s\<rparr> else s)"
    if "halted s = None" for b c s using that by (simp add: whenM_def)
  show ?thesis
    using assms
    by (cases "used e = 0"; cases "entry_size e < 14"; cases "timestamp e = 0")
       (simp_all add: dump_warnings_def w, auto intro: exI [of _ "[]"] exI [of _ "[_]"] exI [of _ "[_, _]"] exI [of _ "[_, _, _]"])
qed

section \<open>Contract\<close>

definition workqueue_env :: "env \<Rightarrow> bool" where
  "workqueue_env E \<longleftrightarrow> object_or_error E (Sys Create_workqueue)"

interpretation wq: lifecycle "\<lambda>E. i2c_mpu6050_wq_init E (Obj ())" "\<lambda>E. i2c_mpu6050_wq_fini E (Obj ())"
  workqueue_env "\<lambda>c. workqueue c = Null" "\<lambda>_. True" "{#Workqueue#}"
  "\<lambda>c. (pins_of c, netlink_server c, server c)"
proof
  fix E and s :: kst assume "workqueue_env E" and s: "halted s = None" "workqueue (cd s) = Null"
  then show "let (e, s') = run_state (i2c_mpu6050_wq_init E (Obj ())) s
      in same_context (\<lambda>c. (pins_of c, netlink_server c, server c)) s s' \<and>
         (if e = 0 then True \<and> held (trace s') = held (trace s) + {#Workqueue#}
          else held (trace s') = held (trace s))"
    unfolding workqueue_env_def
    by (elim object_or_errorE [of E "Sys Create_workqueue" "trace s"])
       (simp_all add: i2c_mpu6050_wq_init_def same_context_def)
qed (simp add: i2c_mpu6050_wq_fini_def same_context_def Let_def)

section \<open>Properties\<close>

text \<open>A concrete device for the witnesses, in register mode and in FIFO mode.\<close>

definition demo_sample :: sample where
  "demo_sample = \<lparr>accel_x = 1, accel_y = 0xFFFF, accel_z = 0x4000, temp = 0x1234, gyro_x = 2, gyro_y = 3, gyro_z = 0x8000\<rparr>"

definition demo_kst :: "module_params \<Rightarrow> kst" where
  "demo_kst p = (initial_kst p)\<lparr>drvdata := Obj (), cd := blank_client_data\<lparr>ringbufferpos := -1\<rparr>\<rparr>"

definition polling_params :: module_params where
  "polling_params = default_params\<lparr>nofifo := 1, noirq := 1\<rparr>"

definition demo_block_env :: env where
  "demo_block_env = \<lparr>answer = (\<lambda>_ c. case c of
       I2C (Read_block r n) \<Rightarrow> \<lparr>ret = (if n = 14 then 14 else 1), pt = Null, bytes = encode_sample demo_sample, val64 = 0\<rparr>
     | _ \<Rightarrow> no_reply), order = Little_endian\<rparr>"

lemma ready_demo: "ready (demo_kst p)"
  by (simp add: ready_def demo_kst_def ring_ok_def blank_client_data_def blank_entry_def initial_kst_def list_all_iff)

lemma params_demo [simp]: "params (demo_kst p) = p"
  by (simp add: demo_kst_def)

lemma handler_pushes:
  assumes s: "ready s" "w \<noteq> Null"
  shows "let s' = snd (run_state (i2c_mpu6050_wq_read_handler fuel E w) s)
     in ring_ok (cd s') \<and>
        (case halted s' of
           None \<Rightarrow> \<not> sync_lock (cd s') \<and> (\<exists>e. newest_first (cd s') = e # take 63 (newest_first (cd s)))
         | Some x \<Rightarrow> x \<in> {Buffer_overflow, Never_returns} \<and> sync_lock (cd s'))"
proof -
  let ?s = "entered E s"
  obtain s2 where r2: "run_state (fill_slot fuel E) ?s = ((), s2)" by (cases "run_state (fill_slot fuel E) ?s") auto
  note on = entered_on_slot [OF s(1), of E] and ok = ring_ok_entered [OF s(1), of E]
  from keepsD [OF fills_fill_slot r2] on ok obtain es x e
    where s2': "s2 = ?s\<lparr>trace := es @ trace ?s, halted := x,
        cd := (cd ?s)\<lparr>ringbuffer := (ringbuffer (cd ?s))[nat (ringbufferpos (cd ?s)) := e]\<rparr>\<rparr>"
      and x: "x \<in> {None, Some Buffer_overflow, Some Never_returns}" and e: "length (data e) = 14"
    unfolding fills_def on_slot_def by auto
  have s2: "s2 = (put_cur e ?s)\<lparr>trace := es @ trace ?s, halted := x\<rparr>" by (simp add: s2' put_cur_def)
  have "ring_ok (cd s2)" using ok e ring_ok_update by (simp add: s2 put_cur_def)
  moreover have "newest_first (cd s2) = e # take 63 (newest_first (cd s))"
    using newest_first_put [OF s(1), of e E] by (simp add: s2)
  moreover have "sync_lock (cd s2)" by (simp add: s2 put_cur_def entered_def)
  ultimately show ?thesis
    using x by (auto simp: run_handler [OF s] r2 s2 Let_def ring_ok_def newest_first_def)
qed

text \<open>C4: Functional refinement of the read handler, against any environment. Started with the lock free, the handler keeps the ring well formed, and if it completes it has released the lock and pushed exactly one entry onto the history; the only ways not to complete are an overflow of the slot's buffer and the endless FIFO loop, and then the lock is still held.\<close>

theorem read_handler_pushes:
  assumes s: "ready s" "w \<noteq> Null"
  shows "let s' = snd (run_state (i2c_mpu6050_wq_read_handler fuel E w) s)
     in ring_ok (cd s') \<and>
        (case halted s' of
           None \<Rightarrow> \<not> sync_lock (cd s') \<and> (\<exists>e. newest_first (cd s') = e # take 63 (newest_first (cd s)))
         | Some x \<Rightarrow> x \<in> {Buffer_overflow, Never_returns} \<and> sync_lock (cd s'))"
  by (fact handler_pushes [OF assms])

theorem read_handler_pushes_witness:
  "let s' = snd (run_state (i2c_mpu6050_wq_read_handler 5 demo_block_env (Obj ())) (demo_kst default_params))
   in ring_ok (cd s')"
  using read_handler_pushes [of "demo_kst default_params" "Obj ()" 5 demo_block_env] ready_demo by (simp add: Let_def)

lemma handler_returns:
  assumes "block_reads_progress E" "ready s" "w \<noteq> Null" "2 ^ 31 \<le> fuel"
  shows "let s' = snd (run_state (i2c_mpu6050_wq_read_handler fuel E w) s) in halted s' = None \<and> \<not> sync_lock (cd s')"
  using fill_slot_returns [OF assms(1) _ _ assms(4), of "entered E s"] entered_on_slot [OF assms(2), of E]
  by (simp add: run_handler [OF assms(2,3)] Let_def on_slot_halted)



text \<open>C39: The handler hangs on a FIFO that holds between 1 and 255 bytes (one sample has 14). The count arrives with its bytes exchanged, its truncation to the \<open>u8\<close> length parameter is 0, and on an adapter that answers a read of length 0 with 0 bytes the loop makes no progress: whatever the fuel, the run never returns, with the lock held.\<close>

theorem short_fifo_never_returns:
  assumes s: "ready s" "w \<noteq> Null" "nofifo (params s) = 0" and l: "l \<noteq> 0"
    and n: "\<And>tr. ret (answer E tr (I2C (Read_word MPU6050_RA_FIFO_COUNTH))) = push_bit 8 (promote l)"
    and z: "\<And>tr. ret (answer E tr (I2C (Read_block MPU6050_RA_FIFO_R_W 0))) = 0"
  shows "let s' = snd (run_state (i2c_mpu6050_wq_read_handler fuel E w) s)
     in halted s' = Some Never_returns \<and> sync_lock (cd s')"
proof -
  let ?s = "entered E s"
  let ?n = "push_bit 8 (promote l)"
  note on = entered_on_slot [OF s(1), of E]
  have pos: "nofifo (params ?s) = 0" using s(3) by (simp add: entered_def)
  have "?n \<noteq> 0" using count_word(2) [OF l] by auto
  moreover have "convert_half (order E) 1 ?n = ?n" using convert_half_word [of "order E" 0 l] by simp
  ultimately have "run_state (read_fifo fuel E) (stamped E ?s) = run_state (fifo_loop fuel E ?n)
      ((stamped E ?s)\<lparr>trace := (I2C (Read_word MPU6050_RA_FIFO_COUNTH),
         answer E (trace (stamped E ?s)) (I2C (Read_word MPU6050_RA_FIFO_COUNTH))) # trace (stamped E ?s)\<rparr>)"
    using on count_word(2) [OF l] stamped_on_slot [of ?s E]
    by (simp add: read_fifo_def i2c_mpu6050_device_fifo_count_def on_slot_halted n)
  moreover have "halted (snd (run_state (fifo_loop fuel E ?n) ((stamped E ?s)\<lparr>trace := tr\<rparr>))) = Some Never_returns" for tr
    using on pos count_word(2) [OF l]
    by (intro fifo_loop_diverges) (simp_all add: count_word(1) z stamped_on_slot cur_stamped params_stamped)
  ultimately have nev: "halted (snd (run_state (read_fifo fuel E) (stamped E ?s))) = Some Never_returns" by simp
  then have h: "halted (snd (run_state (fill_slot fuel E) ?s)) = Some Never_returns"
    using on pos by (auto simp: run_fill_slot whenM_def upd_this_def upd_slot_def split: prod.split)
  have "sync_lock (cd (snd (run_state (fill_slot fuel E) ?s)))"
    using keepsD [OF fills_fill_slot, of fuel E ?s] on ring_ok_entered [OF s(1), of E]
    by (cases "run_state (fill_slot fuel E) ?s") (auto simp: fills_def on_slot_def entered_def)
  with h show ?thesis by (simp add: run_handler [OF s(1,2)] Let_def)
qed

theorem short_fifo_never_returns_witness:
  "halted (snd (run_state (i2c_mpu6050_wq_read_handler 1000
      \<lparr>answer = (\<lambda>_ c. if c = I2C (Read_word 0x72) then int_reply 0x0E00 else no_reply), order = Little_endian\<rparr> (Obj ()))
      (demo_kst default_params))) = Some Never_returns"
  using short_fifo_never_returns [of "demo_kst default_params" "Obj ()" 14
      "\<lparr>answer = (\<lambda>_ c. if c = I2C (Read_word 0x72) then int_reply 0x0E00 else no_reply), order = Little_endian\<rparr>" 1000]
    ready_demo by (simp add: Let_def default_params_def)

lemma register_mode_fills:
  assumes s: "ready s" "w \<noteq> Null" "nofifo (params s) \<noteq> 0"
    and b: "\<And>tr. ret (answer E tr (I2C (Read_block MPU6050_RA_ACCEL_XOUT_H 14))) = 14"
    and d: "\<And>tr. bytes (answer E tr (I2C (Read_block MPU6050_RA_ACCEL_XOUT_H 14))) = encode_sample m"
  shows "\<exists>t tr. snd (run_state (fill_slot fuel E) (entered E s)) =
     put_cur (sample_entry (encode_sample m) t) ((entered E s)\<lparr>trace := tr\<rparr>)"
proof -
  let ?s = "entered E s"
  note on = entered_on_slot [OF s(1), of E]
  have nf: "nofifo (params ?s) \<noteq> 0" using s(3) by (simp add: entered_def)
  have bl: "block_bytes (answer E tr (I2C (Read_block MPU6050_RA_ACCEL_XOUT_H 14))) = encode_sample m" for tr
    by (simp add: block_bytes_def b d length_encode_sample Let_def)
  have ov: "overwrite (encode_sample m) (data (cur ?s)) = encode_sample m"
    using on by (simp add: length_encode_sample)
  show ?thesis
    using on nf stamped_on_slot [of ?s E]
    by (simp add: run_fill_slot read_registers_def run_slot Let_def whenM_def cur_stamped b bl ov)
      (auto simp add: stamped_def Let_def sample_entry_def)
qed

text \<open>In register mode the handler stores the sample the device delivers. On a device whose data registers hold the encoding of \<open>m\<close>, a run completes with the lock released, and the newest entry of the history is in use, complete, and holds exactly that block.\<close>

theorem register_mode_stores_sample:
  assumes s: "ready s" "w \<noteq> Null" "nofifo (params s) \<noteq> 0"
    and b: "\<And>tr. ret (answer E tr (I2C (Read_block MPU6050_RA_ACCEL_XOUT_H 14))) = 14"
    and d: "\<And>tr. bytes (answer E tr (I2C (Read_block MPU6050_RA_ACCEL_XOUT_H 14))) = encode_sample m"
  shows "\<exists>t. let s' = snd (run_state (i2c_mpu6050_wq_read_handler fuel E w) s)
     in halted s' = None \<and> \<not> sync_lock (cd s') \<and>
        newest_first (cd s') = sample_entry (encode_sample m) t # take 63 (newest_first (cd s))"
proof -
  have "newest_first (c\<lparr>sync_lock := b\<rparr>) = newest_first c" for c b by (simp add: newest_first_def)
  with register_mode_fills [OF assms, of fuel] newest_first_put [OF s(1), of _ E] entered_on_slot [OF s(1), of E] show ?thesis
    by (fastforce simp: run_handler [OF s(1,2)] Let_def on_slot_halted)
qed

theorem register_mode_stores_sample_witness:
  "\<exists>t. hd (newest_first (cd (snd (run_state (i2c_mpu6050_wq_read_handler 1 demo_block_env (Obj ())) (demo_kst polling_params)))))
      = sample_entry (encode_sample demo_sample) t"
  using register_mode_stores_sample [of "demo_kst polling_params" "Obj ()" demo_block_env demo_sample 1] ready_demo
  by (auto simp: Let_def demo_block_env_def polling_params_def)

text \<open>The dump takes and releases the lock when asked to and never otherwise, changes nothing but the trace, and prints the decoding of the slot; it warns about an unused, an incomplete and an unstamped slot but decodes it all the same.\<close>

theorem dump_balanced:
  assumes "halted s = None" "in_ring i" "\<not> sync_lock (cd s)"
  shows "\<exists>es. run_state (i2c_mpu6050_wq_dump E i lock) s =
     (i2c_mpu6050_device_extract_data (order E) (data (ringbuffer (cd s) ! nat i)), s\<lparr>trace := es @ trace s\<rparr>) \<and>
     (Sys Mutex_lock \<in> fst ` set es \<longleftrightarrow> lock \<noteq> 0) \<and> (Sys Mutex_unlock \<in> fst ` set es \<longleftrightarrow> lock \<noteq> 0) \<and>
     (Warn (Warn_slot_unused i) \<in> fst ` set es \<longleftrightarrow> used (ringbuffer (cd s) ! nat i) = 0)"
proof (cases "lock = 0")
  case True
  from run_dump_warnings [OF assms(1), of E i "ringbuffer (cd s) ! nat i"] show ?thesis
    using True assms(1,2) by (auto simp: i2c_mpu6050_wq_dump_def get_slot_def whenM_def)
next
  case False
  let ?s = "s\<lparr>trace := (Sys Mutex_lock, answer E (trace s) (Sys Mutex_lock)) # trace s, cd := (cd s)\<lparr>sync_lock := True\<rparr>\<rparr>"
  have cdl: "(cd s)\<lparr>sync_lock := False\<rparr> = cd s" using assms(3) by (cases "cd s") simp
  have "halted ?s = None" using assms(1) by simp
  from run_dump_warnings [OF this, of E i "ringbuffer (cd s) ! nat i"] obtain es where
    "run_state (dump_warnings E i (ringbuffer (cd s) ! nat i)) ?s = ((), ?s\<lparr>trace := es @ trace ?s\<rparr>)"
    "Sys Mutex_lock \<notin> fst ` set es" "Sys Mutex_unlock \<notin> fst ` set es"
    "Warn (Warn_slot_unused i) \<in> fst ` set es \<longleftrightarrow> used (ringbuffer (cd s) ! nat i) = 0" by auto
  then show ?thesis using False assms cdl
    by (intro exI [of _ "(Sys Mutex_unlock, answer E (es @ trace ?s) (Sys Mutex_unlock)) # es @
          [(Sys Mutex_lock, answer E (trace s) (Sys Mutex_lock))]"])
       (auto simp: i2c_mpu6050_wq_dump_def get_slot_def whenM_def)
qed

theorem dump_balanced_witness:
  "sync_lock (cd (snd (run_state (i2c_mpu6050_wq_dump demo_block_env 3 1) (demo_kst default_params)))) = False"
  using dump_balanced [of "demo_kst default_params" 3 demo_block_env 1] ready_demo [of default_params]
  by (auto simp: ready_def in_ring_def)

text \<open>A work queue that could not be created is not noticed: the kernel reports the failure by NULL, the check is for an error pointer, so the initialisation succeeds and the work queue stays NULL. An error pointer would be reported, with its code.\<close>

theorem wq_init_answers:
  assumes "halted s = None" "c \<noteq> Null" "workqueue (cd s) = Null"
  shows "let p = pt (answer E (trace s) (Sys Create_workqueue)); (e, s') = run_state (i2c_mpu6050_wq_init E c) s
     in workqueue (cd s') = p \<and> e = PTR_ERR p \<and> (work_read_client (cd s') = Obj () \<longleftrightarrow> \<not> IS_ERR p \<or> work_read_client (cd s) = Obj ())"
  using assms by (cases "pt (answer E (trace s) (Sys Create_workqueue))") (auto simp: i2c_mpu6050_wq_init_def Let_def)

theorem wq_init_answers_witness:
  "fst (run_state (i2c_mpu6050_wq_init demo_block_env (Obj ())) (demo_kst default_params)) = 0 \<and>
   workqueue (cd (snd (run_state (i2c_mpu6050_wq_init demo_block_env (Obj ())) (demo_kst default_params)))) = Null"
  using wq_init_answers [of "demo_kst default_params" "Obj ()" demo_block_env] ready_demo [of default_params]
  by (auto simp: Let_def ready_def demo_kst_def blank_client_data_def demo_block_env_def split: prod.splits)

end
