(* ===== verification/Poll.thy ===== *)
theory Poll
  imports Wq
begin

text \<open>
  The polling loop the two server threads share: \<open>i2c_mpu6050_netlink_run\<close> and
  \<open>i2c_mpu6050_server_run\<close> have the same loop and differ in what they do with a sample.  The
  loop here takes that as a parameter, a \<open>sink\<close>; the locale \<open>sample_sink\<close> states what the loop
  needs of it, and its lemmas are the properties of the loop.
\<close>

section \<open>The loop\<close>

text \<open>One round: look at the newest slot under the lock and hand it to the sink if it is in use.\<close>

definition poll_once :: "env \<Rightarrow> (int \<Rightarrow> unit driver) \<Rightarrow> unit driver" where
  "poll_once E sink = do {
     mutex_lock E;
     pos \<leftarrow> get_cd ringbufferpos;
     if pos = - 1 then mutex_unlock E
     else do {
       e \<leftarrow> get_slot pos;
       if used e = 0 then mutex_unlock E
       else do {
         i \<leftarrow> get_cd ringbufferpos;
         e \<leftarrow> get_slot i;
         whenM (used e \<noteq> 0) (sink i);
         mutex_unlock E;
         exec E (Sys (Msleep TIMER_DELAY_MS)) } } }"

text \<open>Rounds until a signal is pending; the fuel bounds their number.\<close>

primrec poll_loop :: "nat \<Rightarrow> env \<Rightarrow> (int \<Rightarrow> unit driver) \<Rightarrow> unit driver" where
  "poll_loop 0 E sink = fault Never_returns"
| "poll_loop (Suc fuel) E sink = do {
     pending \<leftarrow> call E (Sys Signal_pending);
     if pending \<noteq> 0 then State_Monad.return ()
     else do { poll_once E sink; poll_loop fuel E sink } }"

section \<open>What the loop needs of a sink\<close>

text \<open>
  \<open>speaks\<close>: calls other than those of the mutex are made, and messages numbered; nothing else
  changes.
\<close>

definition speaks :: "kst \<Rightarrow> kst \<Rightarrow> bool" where
  "speaks s s' \<longleftrightarrow> (\<exists>es q. s' = s\<lparr>trace := es @ trace s, netlink_seq := q\<rparr> \<and> list_all not_mutex es)"

lemma speaks_refl: "speaks s s"
  unfolding speaks_def by (rule exI [of _ "[]"], rule exI [of _ "netlink_seq s"]) simp

lemma speaks_trans: "speaks s s' \<Longrightarrow> speaks s' s'' \<Longrightarrow> speaks s s''"
  unfolding speaks_def by (clarify, rule_tac x = "esa @ es" in exI, rule_tac x = qa in exI) simp

lemma speaks_reflp: "reflp speaks" and speaks_transp: "transp speaks"
  by (auto intro: reflpI transpI speaks_refl speaks_trans)

lemma speaks_talks:
  assumes "talks P s s'" "\<And>c. P c \<Longrightarrow> c \<notin> {Sys Mutex_lock, Sys Mutex_unlock}"
  shows "speaks s s'"
proof -
  from assms(1) obtain es where "s' = s\<lparr>trace := es @ trace s\<rparr>" "list_all (\<lambda>e. P (fst e)) es"
    by (auto simp: talks_def)
  moreover have "list_all (\<lambda>e. P (fst e)) es \<Longrightarrow> list_all not_mutex es"
    using assms(2) by (auto simp: list_all_iff not_mutex_def)
  ultimately show ?thesis unfolding speaks_def
    by (intro exI [of _ es] exI [of _ "netlink_seq s"]) simp
qed

lemma speaks_ask: "c \<notin> {Sys Mutex_lock, Sys Mutex_unlock} \<Longrightarrow> keeps speaks (ask E c)"
  and speaks_call: "c \<notin> {Sys Mutex_lock, Sys Mutex_unlock} \<Longrightarrow> keeps speaks (call E c)"
  and speaks_call_ptr: "c \<notin> {Sys Mutex_lock, Sys Mutex_unlock} \<Longrightarrow> keeps speaks (call_ptr E c)"
  and speaks_exec: "c \<notin> {Sys Mutex_lock, Sys Mutex_unlock} \<Longrightarrow> keeps speaks (exec E c)"
  by (auto intro!: keepsI speaks_talks [of "\<lambda>x. x = c"] talks_event talks_refl split: if_splits)

lemma speaks_get_cd: "keeps speaks (get_cd f)" and speaks_get_param: "keeps speaks (get_param g)"
  by (auto intro!: keepsI simp: speaks_refl)

lemmas speaks_intros = speaks_ask speaks_call speaks_call_ptr speaks_exec speaks_get_cd speaks_get_param
  keeps_return [OF speaks_reflp] keeps_gets [OF speaks_reflp] keeps_bind [OF speaks_transp]
  keeps_whenM [OF speaks_reflp] keeps_if keeps_Let keeps_case_prod keeps_case_ref

text \<open>A state in which a thread may poll: running, lock free, position in the ring or before it.\<close>

definition pollable :: "kst \<Rightarrow> bool" where
  "pollable s \<longleftrightarrow> halted s = None \<and> \<not> sync_lock (cd s) \<and> (ringbufferpos (cd s) = - 1 \<or> in_ring (ringbufferpos (cd s)))"

definition polls :: "kst \<Rightarrow> kst \<Rightarrow> bool" where
  "polls s s' \<longleftrightarrow> (\<exists>es q. s' = s\<lparr>trace := es @ trace s, netlink_seq := q\<rparr> \<and> lock_state es False = Some False)"

lemma polls_trans:
  assumes "polls s s'" "polls s' s''"
  shows "polls s s''"
proof -
  from assms obtain es q es' q' where "s' = s\<lparr>trace := es @ trace s, netlink_seq := q\<rparr>" "lock_state es False = Some False"
    "s'' = s'\<lparr>trace := es' @ trace s', netlink_seq := q'\<rparr>" "lock_state es' False = Some False"
    unfolding polls_def by blast
  then show ?thesis unfolding polls_def
    by (intro exI [of _ "es' @ es"] exI [of _ q']) (simp add: lock_state_append)
qed

lemma polls_pollable: "polls s s' \<Longrightarrow> pollable s \<Longrightarrow> pollable s'"
  by (auto simp: polls_def pollable_def)

lemma polls_event: "fst e \<notin> {Sys Mutex_lock, Sys Mutex_unlock} \<Longrightarrow> polls s (s\<lparr>trace := e # trace s\<rparr>)"
  unfolding polls_def by (intro exI [of _ "[e]"] exI [of _ "netlink_seq s"]) simp

locale sample_sink =
  fixes sink :: "env \<Rightarrow> int \<Rightarrow> unit driver"
    and live :: "client_data \<Rightarrow> bool"
  assumes sink_speaks: "halted s = None \<Longrightarrow> in_ring i \<Longrightarrow> live (cd s) \<Longrightarrow> speaks s (snd (run_state (sink E i) s))"
    and live_lock: "live (c\<lparr>sync_lock := b\<rparr>) = live c"
begin

lemma poll_once_polls:
  assumes s: "pollable s" "live (cd s)"
  shows "polls s (snd (run_state (poll_once E (sink E)) s))"
proof -
  let ?lk = "(Sys Mutex_lock, answer E (trace s) (Sys Mutex_lock))"
  let ?s = "s\<lparr>trace := ?lk # trace s, cd := (cd s)\<lparr>sync_lock := True\<rparr>\<rparr>"
  have cdl: "(cd s)\<lparr>sync_lock := False\<rparr> = cd s" using s(1) by (cases "cd s") (simp add: pollable_def)
  let ?idle = "ringbufferpos (cd s) = - 1 \<or> used (ringbuffer (cd s) ! nat (ringbufferpos (cd s))) = 0"
  show ?thesis
  proof (cases ?idle)
    case True
    let ?un = "(Sys Mutex_unlock, answer E (?lk # trace s) (Sys Mutex_unlock))"
    have "run_state (poll_once E (sink E)) s = ((), s\<lparr>trace := ?un # ?lk # trace s\<rparr>)"
      using s(1) True cdl by (auto simp: poll_once_def pollable_def get_slot_def)
    then show ?thesis unfolding polls_def
      by (intro exI [of _ "[?un, ?lk]"] exI [of _ "netlink_seq s"]) simp
  next
    case False
    with s(1) have i: "in_ring (ringbufferpos (cd s))" by (auto simp: pollable_def)
    have "speaks ?s (snd (run_state (sink E (ringbufferpos (cd s))) ?s))"
      using s i by (intro sink_speaks) (auto simp: live_lock pollable_def)
    then obtain es q where s2: "snd (run_state (sink E (ringbufferpos (cd s))) ?s) = ?s\<lparr>trace := es @ trace ?s, netlink_seq := q\<rparr>"
      and es: "list_all not_mutex es" unfolding speaks_def by blast
    let ?un = "(Sys Mutex_unlock, answer E (es @ ?lk # trace s) (Sys Mutex_unlock))"
    let ?sl = "(Sys (Msleep 10), answer E (?un # es @ ?lk # trace s) (Sys (Msleep 10)))"
    have "snd (run_state (poll_once E (sink E)) s) = s\<lparr>trace := ?sl # ?un # es @ ?lk # trace s, netlink_seq := q\<rparr>"
      using s(1) False i s2 cdl
      by (cases "run_state (sink E (ringbufferpos (cd s))) ?s")
         (auto simp: poll_once_def pollable_def get_slot_def whenM_def)
    then show ?thesis using lock_state_not_mutex [OF es]
      unfolding polls_def by (intro exI [of _ "?sl # ?un # es @ [?lk]"] exI [of _ q]) (simp add: lock_state_append)
  qed
qed

lemma poll_loop_polls:
  assumes sig: "\<And>tr. N \<le> length tr \<Longrightarrow> ret (answer E tr (Sys Signal_pending)) \<noteq> 0"
  shows "pollable s \<Longrightarrow> live (cd s) \<Longrightarrow> N - length (trace s) < fuel \<Longrightarrow>
    polls s (snd (run_state (poll_loop fuel E (sink E)) s))"
proof (induction fuel arbitrary: s)
  case (Suc fuel)
  let ?e = "(Sys Signal_pending, answer E (trace s) (Sys Signal_pending))"
  let ?s = "s\<lparr>trace := ?e # trace s\<rparr>"
  let ?s' = "snd (run_state (poll_once E (sink E)) ?s)"
  have 1: "polls s ?s" by (rule polls_event) simp
  have h: "halted s = None" using Suc.prems(1) by (simp add: pollable_def)
  show ?case
  proof (cases "ret (snd ?e) = 0")
    case False
    then show ?thesis using 1 h by simp
  next
    case True
    have p: "pollable ?s" using 1 Suc.prems(1) by (rule polls_pollable)
    have 2: "polls ?s ?s'" using p Suc.prems(2) by (intro poll_once_polls) simp_all
    then obtain es q where s': "?s' = ?s\<lparr>trace := es @ trace ?s, netlink_seq := q\<rparr>" unfolding polls_def by blast
    have "length (trace s) < N" using sig [of "trace s"] True by (cases "N \<le> length (trace s)") auto
    then have "N - length (trace ?s') < fuel" using Suc.prems(3) by (simp add: s')
    moreover have "live (cd ?s')" using Suc.prems(2) by (simp add: s')
    ultimately have "polls ?s' (snd (run_state (poll_loop fuel E (sink E)) ?s'))"
      using polls_pollable [OF 2 p] by (intro Suc.IH)
    then have "polls s (snd (run_state (poll_loop fuel E (sink E)) ?s'))"
      using polls_trans [OF 1 polls_trans [OF 2]] by blast
    moreover have "snd (run_state (poll_loop (Suc fuel) E (sink E)) s) = snd (run_state (poll_loop fuel E (sink E)) ?s')"
      using True h by (simp split: prod.split)
    ultimately show ?thesis by simp
  qed
qed simp

end

text \<open>
  An environment for witnesses: every call succeeds, and a signal is pending from the twentieth
  event on.
\<close>

definition demo_env :: env where
  "demo_env = \<lparr>answer = (\<lambda>tr c. \<lparr>ret = (if c = Sys Signal_pending \<and> 20 \<le> length tr then 1 else 0),
     pt = Obj (), bytes = [], val64 = 1\<rparr>), order = Little_endian\<rparr>"

end
