(* ===== verification/Netlink.thy ===== *)
theory Netlink
  imports Poll
begin

text \<open>
  The netlink component (olimex_mod_mpu6050_netlink.c): forwarding a sample as a generic netlink
  message, the callbacks for incoming messages, the server thread, and its set up and tear down.
\<close>

section \<open>Data\<close>

text \<open>\<open>enum i2c_mpu6050_netlink_attributes_t\<close> and \<open>enum i2c_mpu6050_netlink_commands_t\<close>.\<close>

datatype netlink_attribute =
    NETLINK_ATTRIBUTE_INVALID | NETLINK_ATTRIBUTE_ACCEL_X | NETLINK_ATTRIBUTE_ACCEL_Y
  | NETLINK_ATTRIBUTE_ACCEL_Z | NETLINK_ATTRIBUTE_TEMP | NETLINK_ATTRIBUTE_GYRO_X
  | NETLINK_ATTRIBUTE_GYRO_Y | NETLINK_ATTRIBUTE_GYRO_Z | NETLINK_ATTRIBUTE_MAX

primrec attribute_code :: "netlink_attribute \<Rightarrow> nat" where
  "attribute_code NETLINK_ATTRIBUTE_INVALID = 0"
| "attribute_code NETLINK_ATTRIBUTE_ACCEL_X = 1"
| "attribute_code NETLINK_ATTRIBUTE_ACCEL_Y = 2"
| "attribute_code NETLINK_ATTRIBUTE_ACCEL_Z = 3"
| "attribute_code NETLINK_ATTRIBUTE_TEMP = 4"
| "attribute_code NETLINK_ATTRIBUTE_GYRO_X = 5"
| "attribute_code NETLINK_ATTRIBUTE_GYRO_Y = 6"
| "attribute_code NETLINK_ATTRIBUTE_GYRO_Z = 7"
| "attribute_code NETLINK_ATTRIBUTE_MAX = 8"

text \<open>The attributes in the order of their numbers, which is the order of the enumeration.\<close>

instantiation netlink_attribute :: linorder
begin

definition less_eq_netlink_attribute :: "netlink_attribute \<Rightarrow> netlink_attribute \<Rightarrow> bool" where
  "less_eq_netlink_attribute a b \<longleftrightarrow> attribute_code a \<le> attribute_code b"

definition less_netlink_attribute :: "netlink_attribute \<Rightarrow> netlink_attribute \<Rightarrow> bool" where
  "less_netlink_attribute a b \<longleftrightarrow> attribute_code a < attribute_code b"

instance
proof
  fix a b :: netlink_attribute
  assume "a \<le> b" "b \<le> a"
  then show "a = b" by (cases a; cases b) (simp_all add: less_eq_netlink_attribute_def)
qed (auto simp: less_eq_netlink_attribute_def less_netlink_attribute_def)

end

text \<open>\<open>i2c_mpu6050_netlink_policy\<close>: the attributes that must be 16 bit integers.\<close>

definition i2c_mpu6050_netlink_policy :: "netlink_attribute list" where
  "i2c_mpu6050_netlink_policy =
     [NETLINK_ATTRIBUTE_ACCEL_X, NETLINK_ATTRIBUTE_ACCEL_Y, NETLINK_ATTRIBUTE_ACCEL_Z,
      NETLINK_ATTRIBUTE_TEMP, NETLINK_ATTRIBUTE_GYRO_X, NETLINK_ATTRIBUTE_GYRO_Y, NETLINK_ATTRIBUTE_GYRO_Z]"

text \<open>Through \<open>client_data_p->netlink_server\<close>: a NULL or error pointer ends the run.\<close>

definition get_nl :: "(netlink_server \<Rightarrow> 'a) \<Rightarrow> 'a \<Rightarrow> 'a driver" where
  "get_nl f d = do {
     p \<leftarrow> get_cd netlink_server;
     case p of Null \<Rightarrow> do { fault Null_dereference; State_Monad.return d }
     | Err e \<Rightarrow> do { fault Null_dereference; State_Monad.return d }
     | Obj n \<Rightarrow> State_Monad.return (f n) }"

definition upd_nl :: "(netlink_server \<Rightarrow> netlink_server) \<Rightarrow> unit driver" where
  "upd_nl f = do {
     p \<leftarrow> get_cd netlink_server;
     case p of Null \<Rightarrow> fault Null_dereference
     | Err e \<Rightarrow> fault Null_dereference
     | Obj n \<Rightarrow> upd_cd (\<lambda>c. c\<lparr>netlink_server := Obj (f n)\<rparr>) }"

section \<open>Incoming messages\<close>

definition i2c_mpu6050_netlink_handler :: "env \<Rightarrow> ptr \<Rightarrow> s32 driver" where
  "i2c_mpu6050_netlink_handler E buffer_in =
     (if buffer_in = Null then State_Monad.return (- EINVAL)
      else do { exec E (Net Kfree_skb); State_Monad.return 0 })"

definition i2c_mpu6050_netlink_input :: "env \<Rightarrow> ptr \<Rightarrow> unit driver" where
  "i2c_mpu6050_netlink_input E buffer_in =
     (if buffer_in = Null then State_Monad.return () else exec E (Net Kfree_skb))"

section \<open>Forwarding a sample\<close>

text \<open>The seven \<open>nla_put_u16\<close> calls, each followed by \<open>goto error2\<close> on failure.\<close>

primrec put_attributes :: "env \<Rightarrow> (netlink_attribute \<times> u16) list \<Rightarrow> s32 driver" where
  "put_attributes E [] = State_Monad.return 0"
| "put_attributes E (av # avs) = do {
     err \<leftarrow> call E (Net (Nla_put_u16 (attribute_code (fst av)) (snd av)));
     if err \<noteq> 0 then State_Monad.return err else put_attributes E avs }"

definition sample_attributes :: "sample \<Rightarrow> (netlink_attribute \<times> u16) list" where
  "sample_attributes m =
     [(NETLINK_ATTRIBUTE_ACCEL_X, accel_x m), (NETLINK_ATTRIBUTE_ACCEL_Y, accel_y m),
      (NETLINK_ATTRIBUTE_ACCEL_Z, accel_z m), (NETLINK_ATTRIBUTE_TEMP, temp m),
      (NETLINK_ATTRIBUTE_GYRO_X, gyro_x m), (NETLINK_ATTRIBUTE_GYRO_Y, gyro_y m),
      (NETLINK_ATTRIBUTE_GYRO_Z, gyro_z m)]"

lemma sample_attributes_policy:
  "map fst (sample_attributes m) = i2c_mpu6050_netlink_policy" "sorted_wrt (<) (map fst (sample_attributes m))"
  by (simp_all add: sample_attributes_def i2c_mpu6050_netlink_policy_def less_netlink_attribute_def)

text \<open>The labels \<open>error1\<close> and \<open>error2\<close>.\<close>

definition forward_error1 :: "env \<Rightarrow> s32 \<Rightarrow> s32 driver" where
  "forward_error1 E err = do { exec E (Net Nlmsg_free); State_Monad.return err }"

definition forward_error2 :: "env \<Rightarrow> s32 \<Rightarrow> s32 driver" where
  "forward_error2 E err = do { exec E (Net Genlmsg_cancel); forward_error1 E err }"

definition next_sequence_number :: "s32 driver" where
  "next_sequence_number = do {
     upd (\<lambda>s. s\<lparr>netlink_seq := netlink_seq s + 1\<rparr>);
     gets netlink_seq }"

definition i2c_mpu6050_netlink_forward :: "env \<Rightarrow> ptr \<Rightarrow> int \<Rightarrow> s32 driver" where
  "i2c_mpu6050_netlink_forward E clientData_in slot_in =
     (if clientData_in = Null then State_Monad.return (- EINVAL)
      else do {
        buffer_p \<leftarrow> call_ptr E (Net Genlmsg_new);
        if buffer_p = Null then State_Monad.return (- ENOMEM)
        else do {
          seq \<leftarrow> next_sequence_number;
          header_p \<leftarrow> call_ptr E (Net (Genlmsg_put seq));
          if header_p = Null then forward_error1 E (- ENOSYS)
          else do {
            e \<leftarrow> get_slot slot_in;
            let m = i2c_mpu6050_device_extract_data (order E) (data e);
            err \<leftarrow> put_attributes E (sample_attributes m);
            if err \<noteq> 0 then forward_error2 E err
            else do {
              err \<leftarrow> call E (Net Genlmsg_end);
              if sint err < 0 then forward_error2 E err
              else call E (Net Genlmsg_multicast) } } } })"

section \<open>The server thread\<close>

definition netlink_sink :: "env \<Rightarrow> int \<Rightarrow> unit driver" where
  "netlink_sink E i = do { _ \<leftarrow> i2c_mpu6050_netlink_forward E (Obj ()) i; State_Monad.return () }"

definition i2c_mpu6050_netlink_run :: "nat \<Rightarrow> env \<Rightarrow> ptr \<Rightarrow> s32 driver" where
  "i2c_mpu6050_netlink_run fuel E data_in =
     (if data_in = Null then State_Monad.return (- EINVAL)
      else do {
        running \<leftarrow> get_nl nl_running 0;
        if running \<noteq> 0 then do { exec E (Warn (Warn_thread_running Netlink_thread)); State_Monad.return (- ENODEV) }
        else do {
          upd_nl (\<lambda>n. n\<lparr>nl_running := 1\<rparr>);
          exec E (Sys Daemonize);
          err \<leftarrow> call E (Sys Allow_sigkill);
          if err \<noteq> 0 then State_Monad.return (- ENODEV)
          else do {
            poll_loop fuel E (netlink_sink E);
            upd_nl (\<lambda>n. n\<lparr>nl_running := 0\<rparr>);
            State_Monad.return 0 } } })"

section \<open>Set up and tear down\<close>

definition blank_netlink_server :: netlink_server where
  "blank_netlink_server = \<lparr>nl_running = 0, nl_socket = Null, nl_thread = Null\<rparr>"

definition netlink_init_error1 :: "env \<Rightarrow> s32 \<Rightarrow> s32 driver" where
  "netlink_init_error1 E err = do {
     exec E (Sys (Kfree Netlink_server));
     upd_cd (\<lambda>c. c\<lparr>netlink_server := Null\<rparr>);
     State_Monad.return err }"

definition netlink_init_error2 :: "env \<Rightarrow> s32 \<Rightarrow> s32 driver" where
  "netlink_init_error2 E err = do { exec E (Net Netlink_kernel_release); netlink_init_error1 E err }"

definition netlink_init_error4 :: "env \<Rightarrow> s32 \<Rightarrow> s32 driver" where
  "netlink_init_error4 E err = do {
     exec E (Net Genl_unregister_ops);
     exec E (Net Genl_unregister_family);
     netlink_init_error2 E err }"

definition netlink_init_error5 :: "env \<Rightarrow> s32 \<Rightarrow> s32 driver" where
  "netlink_init_error5 E err = do { exec E (Net Genl_unregister_mc_group); netlink_init_error4 E err }"

definition i2c_mpu6050_netlink_init :: "env \<Rightarrow> ptr \<Rightarrow> s32 driver" where
  "i2c_mpu6050_netlink_init E clientData_in =
     (if clientData_in = Null then State_Monad.return (- EINVAL)
      else do {
        srv \<leftarrow> get_cd netlink_server;
        if srv \<noteq> Null then do { exec E (Warn Warn_netlink_initialized); State_Monad.return 0 }
        else do {
          p \<leftarrow> call_ptr E (Sys (Kzalloc Netlink_server));
          upd_cd (\<lambda>c. c\<lparr>netlink_server := as_ref blank_netlink_server p\<rparr>);
          if IS_ERR p then State_Monad.return (PTR_ERR p)
          else do {
            sock \<leftarrow> call_ptr E (Net Netlink_kernel_create);
            upd_nl (\<lambda>n. n\<lparr>nl_socket := sock\<rparr>);
            if IS_ERR sock then netlink_init_error1 E (PTR_ERR sock)
            else do {
              err \<leftarrow> call E (Net Genl_register_family_with_ops);
              if err \<noteq> 0 then netlink_init_error2 E err
              else do {
                err \<leftarrow> call E (Net Genl_register_mc_group);
                if err \<noteq> 0 then netlink_init_error4 E err
                else do {
                  thread \<leftarrow> call_ptr E (Sys (Kthread_run Netlink_thread));
                  upd_nl (\<lambda>n. n\<lparr>nl_thread := thread\<rparr>);
                  if IS_ERR thread then netlink_init_error5 E (PTR_ERR thread)
                  else State_Monad.return 0 } } } } } })"

text \<open>
  \<open>while (running == 1) msleep (10)\<close>: while the caller sleeps the other threads run; what they
  do meanwhile is the parameter.
\<close>

primrec netlink_wait_stopped :: "nat \<Rightarrow> env \<Rightarrow> unit driver \<Rightarrow> unit driver" where
  "netlink_wait_stopped 0 E meanwhile = fault Never_returns"
| "netlink_wait_stopped (Suc fuel) E meanwhile = do {
     running \<leftarrow> get_nl nl_running 0;
     if running = 1
     then do { exec E (Sys (Msleep 10)); meanwhile; netlink_wait_stopped fuel E meanwhile }
     else State_Monad.return () }"

definition netlink_fini_error1 :: "env \<Rightarrow> unit driver" where
  "netlink_fini_error1 E = do {
     exec E (Net Genl_unregister_mc_group);
     exec E (Net Genl_unregister_family);
     exec E (Net Netlink_kernel_release);
     exec E (Sys (Kfree Netlink_server));
     upd_cd (\<lambda>c. c\<lparr>netlink_server := Null\<rparr>) }"

definition i2c_mpu6050_netlink_fini :: "nat \<Rightarrow> env \<Rightarrow> unit driver \<Rightarrow> ptr \<Rightarrow> unit driver" where
  "i2c_mpu6050_netlink_fini fuel E meanwhile clientData_in =
     (if clientData_in = Null then State_Monad.return ()
      else do {
        srv \<leftarrow> get_cd netlink_server;
        if srv = Null then State_Monad.return ()
        else do {
          thread \<leftarrow> get_nl nl_thread Null;
          if thread = Null then netlink_fini_error1 E
          else do {
            err \<leftarrow> call E (Sys (Send_sigkill Netlink_thread));
            if sint err < 0 then netlink_fini_error1 E
            else do {
              netlink_wait_stopped fuel E meanwhile;
              exec E (Sys (Kfree_task Netlink_thread));
              netlink_fini_error1 E } } } })"

section \<open>The life of a message buffer\<close>

fun msg_step :: "event \<Rightarrow> bool \<Rightarrow> bool option" where
  "msg_step (Net Genlmsg_new, r) b = (if b then None else Some (pt r \<noteq> Null))"
| "msg_step (Net (Genlmsg_put q), r) b = (if b then Some True else None)"
| "msg_step (Net (Nla_put_u16 a v), r) b = (if b then Some True else None)"
| "msg_step (Net Genlmsg_end, r) b = (if b then Some True else None)"
| "msg_step (Net Genlmsg_cancel, r) b = (if b then Some True else None)"
| "msg_step (Net Genlmsg_multicast, r) b = (if b then Some False else None)"
| "msg_step (Net Nlmsg_free, r) b = (if b then Some False else None)"
| "msg_step e b = Some b"

fun msg_state :: "event list \<Rightarrow> bool \<Rightarrow> bool option" where
  "msg_state [] b = Some b"
| "msg_state (e # es) b = Option.bind (msg_state es b) (msg_step e)"

lemma msg_state_append: "msg_state (es @ es') b = Option.bind (msg_state es' b) (msg_state es)"
  by (induction es) simp_all

definition messages :: "bool \<Rightarrow> bool \<Rightarrow> kst \<Rightarrow> kst \<Rightarrow> bool" where
  "messages b b' s s' \<longleftrightarrow> (\<exists>es q. s' = s\<lparr>trace := es @ trace s, netlink_seq := q\<rparr> \<and>
     msg_state es b = Some b' \<and> list_all not_mutex es)"

lemma messages_refl: "messages b b s s"
  unfolding messages_def by (rule exI [of _ "[]"], rule exI [of _ "netlink_seq s"]) simp

lemma messages_trans: "messages a b s s' \<Longrightarrow> messages b c s' s'' \<Longrightarrow> messages a c s s''"
  unfolding messages_def
  by (clarify, rule_tac x = "esa @ es" in exI, rule_tac x = qa in exI) (simp add: msg_state_append)

lemma messages_event:
  "msg_step e b = Some b' \<Longrightarrow> not_mutex e \<Longrightarrow> messages b b' s (s\<lparr>trace := e # trace s\<rparr>)"
  unfolding messages_def by (intro exI [of _ "[e]"] exI [of _ "netlink_seq s"]) simp

lemma messages_speaks: "messages b b' s s' \<Longrightarrow> speaks s s'"
  by (auto simp: messages_def speaks_def)

lemma messages_halted: "messages b b' s s' \<Longrightarrow> halted s' = halted s"
  by (auto simp: messages_def)

lemma put_attributes_messages:
  "halted s = None \<Longrightarrow> messages True True s (snd (run_state (put_attributes E avs) s))"
proof (induction avs arbitrary: s)
  case Nil
  then show ?case by (simp add: messages_refl)
next
  case (Cons av avs)
  let ?c = "Net (Nla_put_u16 (attribute_code (fst av)) (snd av))"
  let ?s = "s\<lparr>trace := (?c, answer E (trace s) ?c) # trace s\<rparr>"
  have 1: "messages True True s ?s" by (rule messages_event) (simp_all add: not_mutex_def)
  have "messages True True ?s (snd (run_state (put_attributes E avs) ?s))"
    using Cons.prems by (intro Cons.IH) simp
  from messages_trans [OF 1 this] 1 show ?case using Cons.prems by simp
qed

lemma forward_error1_messages:
  "halted s = None \<Longrightarrow> messages True False s (snd (run_state (forward_error1 E err) s))"
  by (simp add: forward_error1_def messages_event not_mutex_def)

lemma forward_error2_messages:
  assumes "halted s = None"
  shows "messages True False s (snd (run_state (forward_error2 E err) s))"
proof -
  let ?s = "s\<lparr>trace := (Net Genlmsg_cancel, answer E (trace s) (Net Genlmsg_cancel)) # trace s\<rparr>"
  have "messages True True s ?s" by (rule messages_event) (simp_all add: not_mutex_def)
  moreover have "messages True False ?s (snd (run_state (forward_error1 E err) ?s))"
    using assms by (intro forward_error1_messages) simp
  ultimately show ?thesis using assms by (auto simp: forward_error2_def intro: messages_trans)
qed

text \<open>From the message header on.\<close>

lemma forward_body_messages:
  assumes h: "halted s = None" and i: "in_ring i"
  shows "messages True False s (snd (run_state (do {
            e \<leftarrow> get_slot i;
            let m = i2c_mpu6050_device_extract_data (order E) (data e);
            err \<leftarrow> put_attributes E (sample_attributes m);
            if err \<noteq> 0 then forward_error2 E err
            else do {
              err \<leftarrow> call E (Net Genlmsg_end);
              if sint err < 0 then forward_error2 E err
              else call E (Net Genlmsg_multicast) } }) s))"
proof -
  let ?m = "i2c_mpu6050_device_extract_data (order E) (data (ringbuffer (cd s) ! nat i))"
  obtain err s1 where r: "run_state (put_attributes E (sample_attributes ?m)) s = (err, s1)" by fastforce
  have 1: "messages True True s s1" using put_attributes_messages [OF h, of E "sample_attributes ?m"] r by simp
  have h1: "halted s1 = None" using messages_halted [OF 1] h by simp
  let ?a = "answer E (trace s1) (Net Genlmsg_end)"
  let ?s2 = "s1\<lparr>trace := (Net Genlmsg_end, ?a) # trace s1\<rparr>"
  have 2: "messages True True s1 ?s2" by (rule messages_event) (simp_all add: not_mutex_def)
  have 3: "messages True False ?s2 (?s2\<lparr>trace := (Net Genlmsg_multicast, r) # trace ?s2\<rparr>)" for r
    by (rule messages_event) (simp_all add: not_mutex_def)
  have e1: "messages True False s (snd (run_state (forward_error2 E e) s1))" for e
    using messages_trans [OF 1 forward_error2_messages [OF h1]] .
  have e2: "messages True False s (snd (run_state (forward_error2 E e) ?s2))" for e
    using messages_trans [OF 1 messages_trans [OF 2 forward_error2_messages]] h1 by simp
  have e3: "messages True False s (?s2\<lparr>trace := (Net Genlmsg_multicast, r) # trace ?s2\<rparr>)" for r
    using messages_trans [OF 1 messages_trans [OF 2 3]] .
  show ?thesis using i r h1 e1 e2 e3 by (simp add: get_slot_def)
qed

lemma forward_messages:
  assumes h: "halted s = None" and i: "in_ring i"
  shows "messages False False s (snd (run_state (i2c_mpu6050_netlink_forward E c i) s))"
proof (cases "c = Null")
  case True
  then show ?thesis by (simp add: i2c_mpu6050_netlink_forward_def messages_refl)
next
  case False
  let ?new = "(Net Genlmsg_new, answer E (trace s) (Net Genlmsg_new))"
  let ?s1 = "s\<lparr>trace := ?new # trace s\<rparr>"
  let ?q = "netlink_seq s + 1"
  let ?s2 = "?s1\<lparr>netlink_seq := ?q\<rparr>"
  let ?put = "(Net (Genlmsg_put ?q), answer E (trace ?s1) (Net (Genlmsg_put ?q)))"
  let ?s3 = "?s2\<lparr>trace := ?put # trace ?s2\<rparr>"
  have 1: "messages False (pt (snd ?new) \<noteq> Null) s ?s1" by (rule messages_event) (simp_all add: not_mutex_def)
  have 2: "messages True True ?s1 ?s2" unfolding messages_def by (intro exI [of _ "[]"] exI [of _ ?q]) simp
  have 3: "messages True True ?s2 ?s3" by (rule messages_event) (simp_all add: not_mutex_def)
  have 4: "pt (snd ?new) \<noteq> Null \<Longrightarrow> messages False True s ?s3"
    using 1 by (intro messages_trans [OF _ messages_trans [OF 2 3]]) simp
  have h3: "halted ?s3 = None" using h by simp
  show ?thesis
    using h False 1 messages_trans [OF 4 forward_body_messages [OF h3 i, of E]]
      messages_trans [OF 4 forward_error1_messages [OF h3, of E]]
    by (auto simp: i2c_mpu6050_netlink_forward_def next_sequence_number_def split del: if_split split: if_split)
qed

interpretation nl: sample_sink netlink_sink "\<lambda>_. True"
proof
  fix s :: kst and i E assume "halted s = None" "in_ring i"
  from messages_speaks [OF forward_messages [OF this, of E "Obj ()"]]
  show "speaks s (snd (run_state (netlink_sink E i) s))"
    by (cases "run_state (i2c_mpu6050_netlink_forward E (Obj ()) i) s") (simp add: netlink_sink_def)
qed simp


section \<open>A successful forward\<close>

definition netlink_up :: "env \<Rightarrow> bool" where
  "netlink_up E \<longleftrightarrow> (\<forall>tr q a v.
     pt (answer E tr (Net Genlmsg_new)) \<noteq> Null \<and> pt (answer E tr (Net (Genlmsg_put q))) \<noteq> Null \<and>
     ret (answer E tr (Net (Nla_put_u16 a v))) = 0 \<and> 0 \<le> sint (ret (answer E tr (Net Genlmsg_end))))"

lemma put_attributes_calls:
  assumes E: "netlink_up E"
  shows "halted s = None \<Longrightarrow> \<exists>es. run_state (put_attributes E avs) s = (0, s\<lparr>trace := es @ trace s\<rparr>) \<and>
     map fst (rev es) = map (\<lambda>av. Net (Nla_put_u16 (attribute_code (fst av)) (snd av))) avs"
proof (induction avs arbitrary: s)
  case (Cons av avs)
  let ?c = "Net (Nla_put_u16 (attribute_code (fst av)) (snd av))"
  let ?e = "(?c, answer E (trace s) ?c)"
  have "halted (s\<lparr>trace := ?e # trace s\<rparr>) = None" using Cons.prems by simp
  from Cons.IH [OF this] obtain es where
    "run_state (put_attributes E avs) (s\<lparr>trace := ?e # trace s\<rparr>) = (0, s\<lparr>trace := es @ ?e # trace s\<rparr>)"
    "map fst (rev es) = map (\<lambda>av. Net (Nla_put_u16 (attribute_code (fst av)) (snd av))) avs" by auto
  with E Cons.prems show ?case
    by (intro exI [of _ "es @ [?e]"]) (simp add: netlink_up_def)
qed (simp add: exI [of _ "[]"])

lemma netlink_wait_forever:
  "halted s = None \<Longrightarrow> netlink_server (cd s) = Obj n \<Longrightarrow> nl_running n = 1 \<Longrightarrow>
   halted (snd (run_state (netlink_wait_stopped fuel E (State_Monad.return ())) s)) = Some Never_returns"
  by (induction fuel arbitrary: s) (simp_all add: get_nl_def)

section \<open>Contract\<close>

definition netlink_env :: "env \<Rightarrow> bool" where
  "netlink_env E \<longleftrightarrow> object_or_error E (Sys (Kzalloc Netlink_server)) \<and> object_or_error E (Net Netlink_kernel_create) \<and>
     object_or_error E (Sys (Kthread_run Netlink_thread)) \<and>
     (\<forall>tr. \<not> sint (ret (answer E tr (Sys (Send_sigkill Netlink_thread)))) < 0)"

definition netlink_owns :: "resource multiset" where
  "netlink_owns = {#Heap Netlink_server, Netlink_socket, Netlink_family, Multicast_group, Running Netlink_thread#}"

definition netlink_serving :: "client_data \<Rightarrow> bool" where
  "netlink_serving c \<longleftrightarrow> (case netlink_server c of Obj n \<Rightarrow> nl_thread n = Obj () \<and> nl_running n \<noteq> 1 | _ \<Rightarrow> False)"

lemma netlink_init_law:
  fixes s :: kst
  assumes E: "netlink_env E" and s: "halted s = None" "netlink_server (cd s) = Null"
  shows "let (e, s') = run_state (i2c_mpu6050_netlink_init E (Obj ())) s
      in same_context (\<lambda>c. (pins_of c, server c)) s s' \<and>
         (if e = 0 then netlink_serving (cd s') \<and> held (trace s') = held (trace s) + netlink_owns
          else held (trace s') = held (trace s))"
proof -
  let ?kz = "Sys (Kzalloc Netlink_server)"
  let ?e1 = "(?kz, answer E (trace s) ?kz)"
  let ?e2 = "(Net Netlink_kernel_create, answer E (?e1 # trace s) (Net Netlink_kernel_create))"
  let ?e3 = "(Net Genl_register_family_with_ops, answer E (?e2 # ?e1 # trace s) (Net Genl_register_family_with_ops))"
  let ?e4 = "(Net Genl_register_mc_group, answer E (?e3 # ?e2 # ?e1 # trace s) (Net Genl_register_mc_group))"
  let ?kt = "Sys (Kthread_run Netlink_thread)"
  let ?e5 = "(?kt, answer E (?e4 # ?e3 # ?e2 # ?e1 # trace s) ?kt)"
  have o: "object_or_error E ?kz" "object_or_error E (Net Netlink_kernel_create)" "object_or_error E ?kt"
    using E by (simp_all add: netlink_env_def)
  note defs = i2c_mpu6050_netlink_init_def upd_nl_def netlink_init_error1_def netlink_init_error2_def netlink_init_error4_def
    netlink_init_error5_def blank_netlink_server_def same_context_def netlink_serving_def netlink_owns_def
  show ?thesis
  proof (cases rule: object_or_errorE [OF o(1), of "trace s"])
    case 1
    note k1 = this
    show ?thesis
    proof (cases rule: object_or_errorE [OF o(2), of "?e1 # trace s"])
      case 1
      note k2 = this
      show ?thesis
      proof (cases "ret (snd ?e3) = 0 \<and> ret (snd ?e4) = 0")
        case True
        show ?thesis
          using s k1 k2 True
          by (cases rule: object_or_errorE [OF o(3), of "?e4 # ?e3 # ?e2 # ?e1 # trace s"]) (simp_all add: defs)
      next
        case False
        then show ?thesis using s k1 k2 by (auto simp: defs)
      qed
    next
      case (2 e)
      then show ?thesis using s k1 by (simp add: defs)
    qed
  next
    case (2 e)
    then show ?thesis using s by (simp add: defs)
  qed
qed

lemma netlink_fini_law:
  fixes s :: kst
  assumes E: "netlink_env E" and s: "halted s = None" "netlink_serving (cd s)"
  shows "let s' = snd (run_state (i2c_mpu6050_netlink_fini (Suc fuel) E meanwhile (Obj ())) s)
      in same_context (\<lambda>c. (pins_of c, server c)) s s' \<and> held (trace s') = held (trace s) - netlink_owns"
proof -
  from s(2) obtain n where "netlink_server (cd s) = Obj n" "nl_thread n = Obj ()" "nl_running n \<noteq> 1"
    by (auto simp: netlink_serving_def split: ref.splits)
  then show ?thesis using E s(1)
    by (simp add: i2c_mpu6050_netlink_fini_def get_nl_def netlink_fini_error1_def same_context_def netlink_env_def netlink_owns_def Let_def)
qed

interpretation netlink: lifecycle "\<lambda>E. i2c_mpu6050_netlink_init E (Obj ())"
  "\<lambda>E. i2c_mpu6050_netlink_fini (Suc fuel) E meanwhile (Obj ())"
  netlink_env "\<lambda>c. netlink_server c = Null" netlink_serving netlink_owns
  "\<lambda>c. (pins_of c, server c)" for fuel meanwhile
  by unfold_locales (fact netlink_init_law, fact netlink_fini_law)

section \<open>Properties\<close>

text \<open>A state in which the netlink server is set up, and its thread about to start.\<close>

definition serving_kst :: kst where
  "serving_kst = (demo_kst default_params)\<lparr>cd := blank_client_data\<lparr>ringbufferpos := 0,
     netlink_server := Obj \<lparr>nl_running = 0, nl_socket = Obj (), nl_thread = Obj ()\<rparr>\<rparr>\<rparr>"

lemma serving_sel [simp]:
  "halted serving_kst = None" "netlink_server (cd serving_kst) = Obj \<lparr>nl_running = 0, nl_socket = Obj (), nl_thread = Obj ()\<rparr>"
  by (simp_all add: serving_kst_def demo_kst_def)

lemma pollable_serving: "pollable serving_kst"
  by (simp add: serving_kst_def demo_kst_def pollable_def in_ring_def blank_client_data_def)

text \<open>C18: The life of a message buffer. However the environment answers, a forward uses a message buffer only between its allocation and its end, and ends every buffer it gets exactly once: by handing it to the multicast, or by freeing it on each error path. It never touches the mutex its caller holds, nor any data.\<close>

theorem forward_buffer_protocol:
  assumes "halted s = None" "in_ring i"
  shows "\<exists>es q. snd (run_state (i2c_mpu6050_netlink_forward E c i) s) = s\<lparr>trace := es @ trace s, netlink_seq := q\<rparr> \<and>
     msg_state es False = Some False \<and> list_all not_mutex es"
  using forward_messages [OF assms, of E c] unfolding messages_def .

theorem forward_buffer_protocol_witness:
  "\<exists>es q. snd (run_state (i2c_mpu6050_netlink_forward demo_env (Obj ()) 0) serving_kst)
       = serving_kst\<lparr>trace := es @ trace serving_kst, netlink_seq := q\<rparr> \<and> msg_state es False = Some False"
  using forward_buffer_protocol [of serving_kst 0 demo_env "Obj ()"] by (auto simp: in_ring_def)

text \<open>C17: The message. When the netlink layer accepts every step, the forward of a slot makes exactly these calls: one message with the next sequence number, the seven attributes 1 to 7 in order with the decoded values of the slot, its end, and the multicast; the attributes are those of the driver's policy, each once and in ascending order.\<close>

theorem forward_message_content:
  assumes E: "netlink_up E" and s: "halted s = None" "in_ring i" and c: "c \<noteq> Null"
  shows "\<exists>es. snd (run_state (i2c_mpu6050_netlink_forward E c i) s)
         = s\<lparr>trace := es @ trace s, netlink_seq := netlink_seq s + 1\<rparr> \<and>
     (let m = i2c_mpu6050_device_extract_data (order E) (data (ringbuffer (cd s) ! nat i))
      in map fst (rev es) =
           [Net Genlmsg_new, Net (Genlmsg_put (netlink_seq s + 1)),
            Net (Nla_put_u16 1 (accel_x m)), Net (Nla_put_u16 2 (accel_y m)), Net (Nla_put_u16 3 (accel_z m)),
            Net (Nla_put_u16 4 (temp m)),
            Net (Nla_put_u16 5 (gyro_x m)), Net (Nla_put_u16 6 (gyro_y m)), Net (Nla_put_u16 7 (gyro_z m)),
            Net Genlmsg_end, Net Genlmsg_multicast] \<and>
         map fst (sample_attributes m) = i2c_mpu6050_netlink_policy) \<and>
     sorted_wrt (<) i2c_mpu6050_netlink_policy"
proof -
  let ?new = "(Net Genlmsg_new, answer E (trace s) (Net Genlmsg_new))"
  let ?p = "Net (Genlmsg_put (netlink_seq s + 1))"
  let ?put = "(?p, answer E (?new # trace s) ?p)"
  let ?s = "s\<lparr>trace := ?put # ?new # trace s, netlink_seq := netlink_seq s + 1\<rparr>"
  have e0: "\<not> sint (ret (answer E tr (Net Genlmsg_end))) < 0" for tr
    using E by (simp add: netlink_up_def not_less)
  let ?m = "i2c_mpu6050_device_extract_data (order E) (data (ringbuffer (cd s) ! nat i))"
  have "halted ?s = None" using s by simp
  from put_attributes_calls [OF E this, of "sample_attributes ?m"] obtain es where
    r: "run_state (put_attributes E (sample_attributes ?m)) ?s = (0, ?s\<lparr>trace := es @ trace ?s\<rparr>)"
    and es: "map fst (rev es) = map (\<lambda>av. Net (Nla_put_u16 (attribute_code (fst av)) (snd av))) (sample_attributes ?m)"
    by blast
  let ?fin = "(Net Genlmsg_end, answer E (es @ ?put # ?new # trace s) (Net Genlmsg_end))"
  let ?mc = "(Net Genlmsg_multicast, answer E (?fin # es @ ?put # ?new # trace s) (Net Genlmsg_multicast))"
  have "snd (run_state (i2c_mpu6050_netlink_forward E c i) s)
         = s\<lparr>trace := (?mc # ?fin # es @ [?put, ?new]) @ trace s, netlink_seq := netlink_seq s + 1\<rparr>"
    using E s c r by (simp add: i2c_mpu6050_netlink_forward_def next_sequence_number_def get_slot_def netlink_up_def e0 kst_order)
  then show ?thesis using es
    by (intro exI [of _ "?mc # ?fin # es @ [?put, ?new]"])
       (use sample_attributes_policy [of ?m] in \<open>simp add: Let_def\<close>, simp add: sample_attributes_def)
qed

theorem forward_message_content_witness:
  "\<exists>es. snd (run_state (i2c_mpu6050_netlink_forward demo_env (Obj ()) 0) serving_kst)
     = serving_kst\<lparr>trace := es @ trace serving_kst, netlink_seq := netlink_seq serving_kst + 1\<rparr>"
proof -
  have "netlink_up demo_env" and "in_ring 0" by (simp_all add: netlink_up_def demo_env_def in_ring_def)
  from forward_message_content [OF this(1) serving_sel(1) this(2), of "Obj ()"] show ?thesis by blast
qed

text \<open>C33: The server thread ends when it is told to. Once a signal stays pending the thread leaves its loop within the given number of rounds and returns 0; every lock it took it has released, in turn, and all data of the driver are as they were, its running flag cleared again.\<close>

theorem netlink_run_returns:
  assumes s: "pollable s" and d: "data_in \<noteq> Null"
    and n: "netlink_server (cd s) = Obj n" "nl_running n = 0"
    and a: "\<And>tr. ret (answer E tr (Sys Allow_sigkill)) = 0"
    and sig: "\<And>tr. N \<le> length tr \<Longrightarrow> ret (answer E tr (Sys Signal_pending)) \<noteq> 0"
    and f: "N < fuel"
  shows "\<exists>es q. run_state (i2c_mpu6050_netlink_run fuel E data_in) s = (0, s\<lparr>trace := es @ trace s, netlink_seq := q\<rparr>) \<and>
     lock_state es False = Some False"
proof -
  let ?da = "(Sys Daemonize, answer E (trace s) (Sys Daemonize))"
  let ?al = "(Sys Allow_sigkill, answer E (?da # trace s) (Sys Allow_sigkill))"
  let ?c = "(cd s)\<lparr>netlink_server := Obj (n\<lparr>nl_running := 1\<rparr>)\<rparr>"
  let ?s = "s\<lparr>trace := ?al # ?da # trace s, cd := ?c\<rparr>"
  have h: "halted s = None" and ps: "pollable ?s" using s by (simp_all add: pollable_def)
  have "N - length (trace ?s) < fuel" using f by simp
  from nl.poll_loop_polls [OF sig ps TrueI this] obtain es q where r: "snd (run_state (poll_loop fuel E (netlink_sink E)) ?s) = ?s\<lparr>trace := es @ trace ?s, netlink_seq := q\<rparr>"
      and es: "lock_state es False = Some False" unfolding polls_def by blast
  have cdn: "(cd s)\<lparr>netlink_server := Obj (n\<lparr>nl_running := 0\<rparr>)\<rparr> = cd s"
    using n by (cases "cd s"; cases n) simp
  have "run_state (i2c_mpu6050_netlink_run fuel E data_in) s = (0, s\<lparr>trace := (es @ [?al, ?da]) @ trace s, netlink_seq := q\<rparr>)"
    using h d n a r cdn
    by (cases "run_state (poll_loop fuel E (netlink_sink E)) ?s")
       (simp add: i2c_mpu6050_netlink_run_def get_nl_def upd_nl_def kst_order)
  then show ?thesis using es
    by (intro exI [of _ "es @ [?al, ?da]"] exI [of _ q]) (simp add: lock_state_append)
qed

theorem netlink_run_returns_witness:
  "fst (run_state (i2c_mpu6050_netlink_run 21 demo_env (Obj ())) serving_kst) = 0"
proof -
  have "ret (answer demo_env tr (Sys Allow_sigkill)) = 0"
    and "20 \<le> length tr \<Longrightarrow> ret (answer demo_env tr (Sys Signal_pending)) \<noteq> 0" for tr
    by (simp_all add: demo_env_def)
  from netlink_run_returns [OF pollable_serving _ serving_sel(2) _ this, of "Obj ()" 20 21] show ?thesis by auto
qed

text \<open>A thread that could not unblock the signal hangs the removal. It returns ENODEV but leaves its running flag set, so the tear down, which waits for that flag, never returns, whatever the fuel.\<close>

theorem failed_thread_blocks_removal:
  assumes s: "halted s = None" "netlink_server (cd s) = Obj n" "nl_running n = 0" "nl_thread n \<noteq> Null"
    and a: "\<And>tr. ret (answer E tr (Sys Allow_sigkill)) \<noteq> 0"
    and k: "\<And>tr. ret (answer E tr (Sys (Send_sigkill Netlink_thread))) = 0"
  shows "fst (run_state (i2c_mpu6050_netlink_run fuel E (Obj ())) s) = - ENODEV \<and>
     halted (snd (run_state (do { _ \<leftarrow> i2c_mpu6050_netlink_run fuel E (Obj ());
        i2c_mpu6050_netlink_fini fuel' E (State_Monad.return ()) (Obj ()) }) s)) = Some Never_returns"
proof -
  let ?da = "(Sys Daemonize, answer E (trace s) (Sys Daemonize))"
  let ?al = "(Sys Allow_sigkill, answer E (?da # trace s) (Sys Allow_sigkill))"
  let ?s = "s\<lparr>trace := ?al # ?da # trace s, cd := (cd s)\<lparr>netlink_server := Obj (n\<lparr>nl_running := 1\<rparr>)\<rparr>\<rparr>"
  let ?k = "(Sys (Send_sigkill Netlink_thread), answer E (trace ?s) (Sys (Send_sigkill Netlink_thread)))"
  have r: "run_state (i2c_mpu6050_netlink_run fuel E (Obj ())) s = (- ENODEV, ?s)"
    using s a by (simp add: i2c_mpu6050_netlink_run_def get_nl_def upd_nl_def)
  have "halted (snd (run_state (netlink_wait_stopped fuel' E (State_Monad.return ())) (?s\<lparr>trace := ?k # trace ?s\<rparr>))) = Some Never_returns"
    using s by (intro netlink_wait_forever) auto
  then have "halted (snd (run_state (i2c_mpu6050_netlink_fini fuel' E (State_Monad.return ()) (Obj ())) ?s)) = Some Never_returns"
    using s k by (auto simp: i2c_mpu6050_netlink_fini_def get_nl_def netlink_fini_error1_def split: prod.split)
  then show ?thesis using r by simp
qed

theorem failed_thread_blocks_removal_witness:
  "halted (snd (run_state (do { _ \<leftarrow> i2c_mpu6050_netlink_run 5 \<lparr>answer = (\<lambda>_ c. int_reply (if c = Sys Allow_sigkill then 1 else 0)), order = Little_endian\<rparr> (Obj ());
        i2c_mpu6050_netlink_fini 7 \<lparr>answer = (\<lambda>_ c. int_reply (if c = Sys Allow_sigkill then 1 else 0)), order = Little_endian\<rparr> (State_Monad.return ()) (Obj ()) })
        serving_kst)) = Some Never_returns"
  using failed_thread_blocks_removal [of serving_kst "\<lparr>nl_running = 0, nl_socket = Obj (), nl_thread = Obj ()\<rparr>"
      "\<lparr>answer = (\<lambda>_ c. int_reply (if c = Sys Allow_sigkill then 1 else 0)), order = Little_endian\<rparr>" 5 7] by simp

text \<open>The tear down completes when the thread clears its running flag while the caller sleeps: it does not halt, and all it changes of the driver is that the server is gone.\<close>

theorem netlink_fini_stops_thread:
  assumes s: "halted s = None" "netlink_server (cd s) = Obj n" "nl_thread n \<noteq> Null"
    and k: "ret (answer E (trace s) (Sys (Send_sigkill Netlink_thread))) = 0" and f: "2 \<le> fuel"
  shows "let s' = snd (run_state (i2c_mpu6050_netlink_fini fuel E (upd_nl (\<lambda>n. n\<lparr>nl_running := 0\<rparr>)) (Obj ())) s)
     in halted s' = None \<and> cd s' = (cd s)\<lparr>netlink_server := Null\<rparr>"
proof -
  from f obtain fuel' where f': "fuel = Suc (Suc fuel')" by (metis add_2_eq_Suc le_Suc_ex)
  show ?thesis using s k
    by (cases "nl_running n = 1")
       (simp_all add: f' i2c_mpu6050_netlink_fini_def get_nl_def upd_nl_def netlink_fini_error1_def Let_def)
qed

theorem netlink_fini_stops_thread_witness:
  "netlink_server (cd (snd (run_state (i2c_mpu6050_netlink_fini 2 demo_env (upd_nl (\<lambda>n. n\<lparr>nl_running := 0\<rparr>)) (Obj ())) serving_kst))) = Null"
  using netlink_fini_stops_thread [of serving_kst "\<lparr>nl_running = 0, nl_socket = Obj (), nl_thread = Obj ()\<rparr>" demo_env 2]
  by (simp add: Let_def demo_env_def)

end
