(* ===== verification/Server.thy ===== *)
theory Server
  imports Poll
begin

text \<open>
  The UDP server component (olimex_mod_mpu6050_server.c): sending a datagram, the server thread,
  and its set up and tear down.
\<close>

section \<open>Data\<close>

definition get_srv :: "(udp_server \<Rightarrow> 'a) \<Rightarrow> 'a \<Rightarrow> 'a driver" where
  "get_srv f d = do {
     p \<leftarrow> get_cd server;
     case p of Null \<Rightarrow> do { fault Null_dereference; State_Monad.return d }
     | Err e \<Rightarrow> do { fault Null_dereference; State_Monad.return d }
     | Obj n \<Rightarrow> State_Monad.return (f n) }"

definition upd_srv :: "(udp_server \<Rightarrow> udp_server) \<Rightarrow> unit driver" where
  "upd_srv f = do {
     p \<leftarrow> get_cd server;
     case p of Null \<Rightarrow> fault Null_dereference
     | Err e \<Rightarrow> fault Null_dereference
     | Obj n \<Rightarrow> upd_cd (\<lambda>c. c\<lparr>server := Obj (f n)\<rparr>) }"

section \<open>Sending and receiving\<close>

text \<open>
  The field \<open>sk\<close> belongs to the kernel's \<open>struct socket\<close>: reading it is a call.  The message is
  the buffer, of which the kernel transmits \<open>length_in\<close> bytes.
\<close>

definition i2c_mpu6050_server_send :: "env \<Rightarrow> ptr \<Rightarrow> u8 list \<Rightarrow> int \<Rightarrow> s32 driver" where
  "i2c_mpu6050_server_send E socket_in buffer_in length_in =
     (case socket_in of
        Null \<Rightarrow> do { fault Null_dereference; State_Monad.return 0 }
      | Err e \<Rightarrow> do { fault Null_dereference; State_Monad.return 0 }
      | Obj _ \<Rightarrow> do {
          sk \<leftarrow> call_ptr E (Net Sock_sk);
          if sk = Null then State_Monad.return 0
          else call E (Net (Sock_sendmsg buffer_in length_in)) })"

definition i2c_mpu6050_server_receive :: "env \<Rightarrow> ptr \<Rightarrow> int \<Rightarrow> (s32 \<times> u8 list) driver" where
  "i2c_mpu6050_server_receive E socket_in length_in =
     (case socket_in of
        Null \<Rightarrow> do { fault Null_dereference; State_Monad.return (0, []) }
      | Err e \<Rightarrow> do { fault Null_dereference; State_Monad.return (0, []) }
      | Obj _ \<Rightarrow> do {
          sk \<leftarrow> call_ptr E (Net Sock_sk);
          if sk = Null then State_Monad.return (0, [])
          else do {
            r \<leftarrow> ask E (Net (Sock_recvmsg length_in));
            State_Monad.return (ret r, bytes r) } })"

section \<open>The server thread\<close>

definition server_sink :: "env \<Rightarrow> int \<Rightarrow> unit driver" where
  "server_sink E i = do {
     sock \<leftarrow> get_srv srv_socket_send Null;
     e \<leftarrow> get_slot i;
     _ \<leftarrow> i2c_mpu6050_server_send E sock (data e) (entry_size e);
     State_Monad.return () }"

text \<open>Network byte order of a port number.\<close>

definition htons :: "byte_order \<Rightarrow> u16 \<Rightarrow> u16" where
  "htons bo p = be16_to_cpus bo p"

definition server_run_error1 :: "env \<Rightarrow> s32 driver" where
  "server_run_error1 E = do {
     exec E (Net Sock_release);
     upd_srv (\<lambda>v. v\<lparr>srv_running := 0\<rparr>);
     State_Monad.return 0 }"

definition i2c_mpu6050_server_run :: "nat \<Rightarrow> env \<Rightarrow> ptr \<Rightarrow> s32 driver" where
  "i2c_mpu6050_server_run fuel E data_in =
     (if data_in = Null then State_Monad.return (- EINVAL)
      else do {
        running \<leftarrow> get_srv srv_running 0;
        if running \<noteq> 0 then do { exec E (Warn (Warn_thread_running Udp_thread)); State_Monad.return (- ENODEV) }
        else do {
          upd_srv (\<lambda>v. v\<lparr>srv_running := 1\<rparr>);
          exec E (Sys Daemonize);
          err \<leftarrow> call E (Sys Allow_sigkill);
          if err \<noteq> 0 then State_Monad.return (- ENODEV)
          else do {
            r \<leftarrow> ask E (Net Sock_create);
            if sint (ret r) < 0 then server_run_error1 E
            else do {
              upd_srv (\<lambda>v. v\<lparr>srv_socket_send := pt r\<rparr>);
              pr \<leftarrow> get_param peer;
              a \<leftarrow> ask E (Net (In_aton pr));
              po \<leftarrow> get_param port;
              let address = (ucast (val64 a) :: u32, htons (order E) po);
              upd_srv (\<lambda>v. v\<lparr>srv_address_send := address\<rparr>);
              sock \<leftarrow> get_srv srv_socket_send Null;
              whenM (sock \<noteq> Obj ()) (fault Null_dereference);
              err \<leftarrow> call E (Net (Sock_connect (fst address) (snd address)));
              if sint err < 0 then server_run_error1 E
              else do {
                poll_loop fuel E (server_sink E);
                server_run_error1 E } } } } })"

section \<open>Set up and tear down\<close>

definition blank_udp_server :: udp_server where
  "blank_udp_server = \<lparr>srv_thread = Null, srv_socket_send = Null, srv_address_send = (0, 0), srv_running = 0\<rparr>"

definition server_init_error1 :: "env \<Rightarrow> s32 \<Rightarrow> s32 driver" where
  "server_init_error1 E err = do {
     exec E (Sys (Kfree Udp_server));
     upd_cd (\<lambda>c. c\<lparr>server := Null\<rparr>);
     State_Monad.return err }"

definition i2c_mpu6050_server_init :: "env \<Rightarrow> ptr \<Rightarrow> s32 driver" where
  "i2c_mpu6050_server_init E clientData_in =
     (if clientData_in = Null then State_Monad.return (- EINVAL)
      else do {
        pr \<leftarrow> get_param peer;
        a \<leftarrow> ask E (Net (In_aton pr));
        po \<leftarrow> get_param port;
        if ucast (val64 a) = (0 :: u32) \<or> sint po < 0 then State_Monad.return (- EINVAL)
        else do {
          srv \<leftarrow> get_cd server;
          if srv \<noteq> Null then do { exec E (Warn Warn_server_initialized); State_Monad.return 0 }
          else do {
            p \<leftarrow> call_ptr E (Sys (Kzalloc Udp_server));
            upd_cd (\<lambda>c. c\<lparr>server := as_ref blank_udp_server p\<rparr>);
            if IS_ERR p then State_Monad.return (PTR_ERR p)
            else do {
              thread \<leftarrow> call_ptr E (Sys (Kthread_run Udp_thread));
              upd_srv (\<lambda>v. v\<lparr>srv_thread := thread\<rparr>);
              if IS_ERR thread then server_init_error1 E (PTR_ERR thread)
              else State_Monad.return 0 } } } })"

primrec server_wait_stopped :: "nat \<Rightarrow> env \<Rightarrow> unit driver \<Rightarrow> unit driver" where
  "server_wait_stopped 0 E meanwhile = fault Never_returns"
| "server_wait_stopped (Suc fuel) E meanwhile = do {
     running \<leftarrow> get_srv srv_running 0;
     if running = 1
     then do { exec E (Sys (Msleep 10)); meanwhile; server_wait_stopped fuel E meanwhile }
     else State_Monad.return () }"

definition server_fini_error1 :: "env \<Rightarrow> unit driver" where
  "server_fini_error1 E = do {
     exec E (Sys (Kfree Udp_server));
     upd_cd (\<lambda>c. c\<lparr>server := Null\<rparr>) }"

definition i2c_mpu6050_server_fini :: "nat \<Rightarrow> env \<Rightarrow> unit driver \<Rightarrow> ptr \<Rightarrow> unit driver" where
  "i2c_mpu6050_server_fini fuel E meanwhile clientData_in =
     (if clientData_in = Null then State_Monad.return ()
      else do {
        srv \<leftarrow> get_cd server;
        if srv = Null then State_Monad.return ()
        else do {
          thread \<leftarrow> get_srv srv_thread Null;
          if thread = Null then server_fini_error1 E
          else do {
            err \<leftarrow> call E (Sys (Send_sigkill Udp_thread));
            if sint err < 0 then server_fini_error1 E
            else do {
              server_wait_stopped fuel E meanwhile;
              exec E (Sys (Kfree_task Udp_thread));
              server_fini_error1 E } } } })"

section \<open>The server as a sink of the polling loop\<close>

definition socket_open :: "client_data \<Rightarrow> bool" where
  "socket_open c \<longleftrightarrow> (case server c of Obj v \<Rightarrow> srv_socket_send v = Obj () | _ \<Rightarrow> False)"

lemma speaks_send: "keeps speaks (i2c_mpu6050_server_send E (Obj u) bs n)"
  unfolding i2c_mpu6050_server_send_def ref.case by (intro speaks_intros) simp_all

interpretation srv: sample_sink server_sink socket_open
proof
  fix s :: kst and i E assume s: "halted s = None" "in_ring i" "socket_open (cd s)"
  then obtain v where v: "server (cd s) = Obj v" "srv_socket_send v = Obj ()"
    by (auto simp: socket_open_def split: ref.splits)
  let ?m = "i2c_mpu6050_server_send E (Obj ()) (data (ringbuffer (cd s) ! nat i)) (entry_size (ringbuffer (cd s) ! nat i))"
  have "snd (run_state (server_sink E i) s) = snd (run_state ?m s)"
    using s v by (simp add: server_sink_def get_srv_def get_slot_def split: prod.split)
  then show "speaks s (snd (run_state (server_sink E i) s))"
    using keepsD [OF speaks_send, of E "()" _ _ s] by (metis prod.collapse)
qed (simp add: socket_open_def)


lemma server_preamble:
  assumes s: "halted s = None" and d: "data_in \<noteq> Null"
    and v: "server (cd s) = Obj v" "srv_running v = 0"
    and a: "\<And>tr. ret (answer E tr (Sys Allow_sigkill)) = 0"
    and so: "\<And>tr. ret (answer E tr (Net Sock_create)) = 0 \<and> pt (answer E tr (Net Sock_create)) = Obj ()"
  obtains es v' connected where "list_all not_mutex es" "srv_socket_send v' = Obj ()" "srv_thread v' = srv_thread v"
    "run_state (i2c_mpu6050_server_run fuel E data_in) s =
       run_state (do { whenM connected (poll_loop fuel E (server_sink E)); server_run_error1 E })
         (s\<lparr>trace := es @ trace s, cd := (cd s)\<lparr>server := Obj v'\<rparr>\<rparr>)"
proof -
  let ?e1 = "(Sys Daemonize, answer E (trace s) (Sys Daemonize))"
  let ?e2 = "(Sys Allow_sigkill, answer E (?e1 # trace s) (Sys Allow_sigkill))"
  let ?e3 = "(Net Sock_create, answer E (?e2 # ?e1 # trace s) (Net Sock_create))"
  let ?aton = "Net (In_aton (peer (params s)))"
  let ?e4 = "(?aton, answer E (?e3 # ?e2 # ?e1 # trace s) ?aton)"
  let ?adr = "(ucast (val64 (snd ?e4)) :: u32, htons (order E) (port (params s)))"
  let ?con = "Net (Sock_connect (fst ?adr) (snd ?adr))"
  let ?e5 = "(?con, answer E (?e4 # ?e3 # ?e2 # ?e1 # trace s) ?con)"
  let ?v = "v\<lparr>srv_running := 1, srv_socket_send := Obj (), srv_address_send := ?adr\<rparr>"
  have "run_state (i2c_mpu6050_server_run fuel E data_in) s =
       run_state (do { whenM (\<not> sint (ret (snd ?e5)) < 0) (poll_loop fuel E (server_sink E)); server_run_error1 E })
         (s\<lparr>trace := [?e5, ?e4, ?e3, ?e2, ?e1] @ trace s, cd := (cd s)\<lparr>server := Obj ?v\<rparr>\<rparr>)"
    using assms by (simp add: i2c_mpu6050_server_run_def get_srv_def upd_srv_def whenM_def kst_order)
  then show ?thesis by (rule that [rotated 3]) (simp_all add: not_mutex_def)
qed


lemma polls_maybe:
  assumes "pollable s" "socket_open (cd s)"
    and sig: "\<And>tr. N \<le> length tr \<Longrightarrow> ret (answer E tr (Sys Signal_pending)) \<noteq> 0" and f: "N < fuel"
  shows "polls s (snd (run_state (whenM b (poll_loop fuel E (server_sink E))) s))"
proof (cases b)
  case True
  have "N - length (trace s) < fuel" using f by simp
  from srv.poll_loop_polls [OF sig assms(1,2) this] True show ?thesis by (simp add: whenM_def)
next
  case False
  have "polls s s" unfolding polls_def by (intro exI [of _ "[]"] exI [of _ "netlink_seq s"]) simp
  with False show ?thesis by (simp add: whenM_def)
qed

section \<open>Contract\<close>

definition server_env :: "env \<Rightarrow> bool" where
  "server_env E \<longleftrightarrow> object_or_error E (Sys (Kzalloc Udp_server)) \<and> object_or_error E (Sys (Kthread_run Udp_thread)) \<and>
     (\<forall>tr. \<not> sint (ret (answer E tr (Sys (Send_sigkill Udp_thread)))) < 0)"

definition server_serving :: "client_data \<Rightarrow> bool" where
  "server_serving c \<longleftrightarrow> (case server c of Obj v \<Rightarrow> srv_thread v = Obj () \<and> srv_running v \<noteq> 1 | _ \<Rightarrow> False)"

lemma server_init_law:
  fixes s :: kst
  assumes E: "server_env E" and s: "halted s = None" "server (cd s) = Null"
  shows "let (e, s') = run_state (i2c_mpu6050_server_init E (Obj ())) s
      in same_context (\<lambda>c. (pins_of c, netlink_server c)) s s' \<and>
         (if e = 0 then server_serving (cd s') \<and> held (trace s') = held (trace s) + {#Heap Udp_server, Running Udp_thread#}
          else held (trace s') = held (trace s))"
proof -
  let ?at = "Net (In_aton (peer (params s)))"
  let ?e0 = "(?at, answer E (trace s) ?at)"
  let ?kz = "Sys (Kzalloc Udp_server)"
  let ?e1 = "(?kz, answer E (?e0 # trace s) ?kz)"
  let ?kt = "Sys (Kthread_run Udp_thread)"
  have o: "object_or_error E ?kz" "object_or_error E ?kt"
    using E by (simp_all add: server_env_def)
  note defs = i2c_mpu6050_server_init_def upd_srv_def server_init_error1_def blank_udp_server_def same_context_def server_serving_def
  show ?thesis
  proof (cases "(ucast (val64 (snd ?e0)) :: u32) = 0 \<or> sint (port (params s)) < 0")
    case True
    then show ?thesis using s by (auto simp: defs)
  next
    case False
    show ?thesis
    proof (cases rule: object_or_errorE [OF o(1), of "?e0 # trace s"])
      case 1
      then show ?thesis using s False
        by (cases rule: object_or_errorE [OF o(2), of "?e1 # ?e0 # trace s"]) (simp_all add: defs)
    next
      case (2 e)
      then show ?thesis using s False by (simp add: defs)
    qed
  qed
qed

lemma server_fini_law:
  fixes s :: kst
  assumes E: "server_env E" and s: "halted s = None" "server_serving (cd s)"
  shows "let s' = snd (run_state (i2c_mpu6050_server_fini (Suc fuel) E meanwhile (Obj ())) s)
      in same_context (\<lambda>c. (pins_of c, netlink_server c)) s s' \<and> held (trace s') = held (trace s) - {#Heap Udp_server, Running Udp_thread#}"
proof -
  from s(2) obtain v where "server (cd s) = Obj v" "srv_thread v = Obj ()" "srv_running v \<noteq> 1"
    by (auto simp: server_serving_def split: ref.splits)
  then show ?thesis using E s(1)
    by (simp add: i2c_mpu6050_server_fini_def get_srv_def server_fini_error1_def same_context_def server_env_def Let_def)
qed

interpretation udp: lifecycle "\<lambda>E. i2c_mpu6050_server_init E (Obj ())"
  "\<lambda>E. i2c_mpu6050_server_fini (Suc fuel) E meanwhile (Obj ())"
  server_env "\<lambda>c. server c = Null" server_serving "{#Heap Udp_server, Running Udp_thread#}"
  "\<lambda>c. (pins_of c, netlink_server c)" for fuel meanwhile
  by unfold_locales (fact server_init_law, fact server_fini_law)

section \<open>Sending an entry that is larger than its slot\<close>

text \<open>What one round does on an open socket with an entry in use.\<close>

lemma server_round_sends:
  fixes s :: kst
  assumes s: "pollable s" "in_ring (ringbufferpos (cd s))" "socket_open (cd s)"
    and u: "used (ringbuffer (cd s) ! nat (ringbufferpos (cd s))) \<noteq> 0"
    and sk: "\<And>tr. pt (answer E tr (Net Sock_sk)) \<noteq> Null"
  shows "Net (Sock_sendmsg (data (ringbuffer (cd s) ! nat (ringbufferpos (cd s)))) (entry_size (ringbuffer (cd s) ! nat (ringbufferpos (cd s)))))
     \<in> fst ` set (trace (snd (run_state (poll_once E (server_sink E)) s)))"
proof -
  from s(3) obtain v where v: "server (cd s) = Obj v" "srv_socket_send v = Obj ()"
    by (auto simp: socket_open_def split: ref.splits)
  have "ringbufferpos (cd s) \<noteq> - 1" using s(2) by (simp add: in_ring_def)
  then show ?thesis
    using s u v sk by (simp add: poll_once_def pollable_def get_slot_def whenM_def server_sink_def get_srv_def i2c_mpu6050_server_send_def)
qed

lemma big_fifo_entry:
  fixes h l :: u8
  assumes s: "ready s" "w \<noteq> Null" "nofifo (params s) = 0"
    and n: "\<And>tr. ret (answer E tr (I2C (Read_word MPU6050_RA_FIFO_COUNTH))) = promote h OR push_bit 8 (promote l)"
    and hl: "l \<noteq> 0" "0 < sint (promote h)" "sint (promote h) \<le> 14"
    and r: "\<And>tr. ret (answer E tr (I2C (Read_block MPU6050_RA_FIFO_R_W h))) = promote h"
    and f: "2 ^ 16 \<le> fuel"
  shows "let s' = snd (run_state (i2c_mpu6050_wq_read_handler fuel E w) s); e = cur s'
     in on_slot s' \<and> \<not> sync_lock (cd s') \<and> server (cd s') = server (cd s) \<and>
        used e = 1 \<and> length (data e) = 14 \<and> 256 \<le> entry_size e"
proof -
  let ?n = "promote h OR push_bit 8 (promote l)"
  let ?s = "entered E s"
  let ?c = "I2C (Read_word MPU6050_RA_FIFO_COUNTH)"
  let ?t = "(stamped E ?s)\<lparr>trace := (?c, answer E (trace (stamped E ?s)) ?c) # trace (stamped E ?s)\<rparr>"
  note b = big_count [OF hl(1) refl, of h]
  note on = entered_on_slot [OF s(1), of E]
  have pos: "nofifo (params ?s) = 0" using s(3) by (simp add: entered_def)
  have c: "convert_half (order E) 1 ?n = ?n" by (rule convert_half_word)
  have t: "on_slot ?t" "cur ?t = cur (stamped E ?s)" "params ?t = params ?s"
    using on by (simp_all add: stamped_on_slot params_stamped)
  have "?n \<noteq> 0" using b(2) by auto
  then have fifo: "run_state (read_fifo fuel E) (stamped E ?s) = run_state (fifo_loop fuel E ?n) ?t"
    using on b(2) stamped_on_slot [of ?s E]
    by (simp add: read_fifo_def i2c_mpu6050_device_fifo_count_def on_slot_halted n c [simplified])
  obtain clean s2 where l: "run_state (fifo_loop fuel E ?n) ?t = (clean, s2)" by (cases "run_state (fifo_loop fuel E ?n) ?t")
  have p: "0 < sint (ret (answer E tr (I2C (Read_block MPU6050_RA_FIFO_R_W (truncate_u8 ?n))))) \<and>
      sint (ret (answer E tr (I2C (Read_block MPU6050_RA_FIFO_R_W (truncate_u8 ?n))))) \<le> 14" for tr
    unfolding b(1) r using hl by simp
  have "nat (sint ?n - entry_size (cur ?t)) < fuel" using b(2,3) f on by (simp add: t cur_stamped nat_less_iff)
  from fifo_loop_fills [OF p t(1) _ _ _ this] l on pos b(2)
  have s2: "\<not> clean" "on_slot s2" "length (data (cur s2)) = 14" "256 \<le> entry_size (cur s2)" "used (cur s2) = 1"
    by (simp_all add: t cur_stamped)
  have fill: "run_state (fill_slot fuel E) ?s = ((), s2)"
    using on pos fifo l s2(1) by (simp add: run_fill_slot whenM_def)
  from keepsD [OF fills_fill_slot fill] on ring_ok_entered [OF s(1), of E] have "server (cd s2) = server (cd ?s)"
    by (auto simp: fills_def on_slot_def)
  then have sv: "server (cd s2) = server (cd s)" by (simp add: entered_def)
  have h2: "halted s2 = None" using s2(2) by (rule on_slot_halted)
  show ?thesis using s2 sv h2
    by (simp add: run_handler [OF s(1,2)] fill Let_def on_slot_def cur_def)
qed

section \<open>Properties\<close>

definition udp_kst :: kst where
  "udp_kst = (demo_kst (default_params\<lparr>noserver := 0\<rparr>))\<lparr>cd := blank_client_data\<lparr>ringbufferpos := 0, server := Obj blank_udp_server\<rparr>\<rparr>"

lemma udp_sel [simp]: "halted udp_kst = None" "server (cd udp_kst) = Obj blank_udp_server"
  "srv_running blank_udp_server = 0" "srv_socket_send blank_udp_server = Null"
  by (simp_all add: udp_kst_def demo_kst_def blank_udp_server_def)

lemma pollable_udp: "pollable udp_kst"
  by (simp add: udp_kst_def demo_kst_def pollable_def in_ring_def blank_client_data_def)

text \<open>C34: The UDP thread ends when it is told to, whether or not its socket connects. Once a signal stays pending it returns 0 within the given number of rounds, its last call releases the socket, its running flag is cleared, every lock it took it has released, and apart from its own structure no data of the driver change.\<close>

theorem server_run_returns:
  assumes s: "pollable s" and d: "data_in \<noteq> Null"
    and v: "server (cd s) = Obj v" "srv_running v = 0"
    and a: "\<And>tr. ret (answer E tr (Sys Allow_sigkill)) = 0"
    and so: "\<And>tr. ret (answer E tr (Net Sock_create)) = 0 \<and> pt (answer E tr (Net Sock_create)) = Obj ()"
    and sig: "\<And>tr. N \<le> length tr \<Longrightarrow> ret (answer E tr (Sys Signal_pending)) \<noteq> 0"
    and f: "N < fuel"
  shows "let (e, s') = run_state (i2c_mpu6050_server_run fuel E data_in) s
     in e = 0 \<and> halted s' = None \<and>
        (\<exists>v'. cd s' = (cd s)\<lparr>server := Obj v'\<rparr> \<and> srv_running v' = 0 \<and> srv_thread v' = srv_thread v) \<and>
        (\<exists>es r. trace s' = (Net Sock_release, r) # es @ trace s \<and> lock_state es False = Some False)"
proof -
  have h: "halted s = None" using s by (simp add: pollable_def)
  from server_preamble [OF h d v a so] obtain es v' connected where v': "srv_socket_send v' = Obj ()" "srv_thread v' = srv_thread v"
    and es: "list_all not_mutex es"
    and r: "run_state (i2c_mpu6050_server_run fuel E data_in) s =
       run_state (do { whenM connected (poll_loop fuel E (server_sink E)); server_run_error1 E })
         (s\<lparr>trace := es @ trace s, cd := (cd s)\<lparr>server := Obj v'\<rparr>\<rparr>)" by metis
  let ?s = "s\<lparr>trace := es @ trace s, cd := (cd s)\<lparr>server := Obj v'\<rparr>\<rparr>"
  have "pollable ?s" using s by (simp add: pollable_def)
  moreover have "socket_open (cd ?s)" using v' by (simp add: socket_open_def)
  ultimately have "polls ?s (snd (run_state (whenM connected (poll_loop fuel E (server_sink E))) ?s))"
    by (rule polls_maybe [OF _ _ sig f])
  then obtain es' q where s2: "snd (run_state (whenM connected (poll_loop fuel E (server_sink E))) ?s)
      = ?s\<lparr>trace := es' @ trace ?s, netlink_seq := q\<rparr>" and es': "lock_state es' False = Some False"
    unfolding polls_def by blast
  have "lock_state (es' @ es) False = Some False" using es es' by (simp add: lock_state_append lock_state_not_mutex)
  then show ?thesis
    using h v'(2) r s2
    by (cases "run_state (whenM connected (poll_loop fuel E (server_sink E))) ?s")
       (auto simp: server_run_error1_def upd_srv_def intro: exI [of _ "es' @ es"])
qed

theorem server_run_returns_witness:
  "fst (run_state (i2c_mpu6050_server_run 21 demo_env (Obj ())) udp_kst) = 0"
proof -
  have "ret (answer demo_env tr (Sys Allow_sigkill)) = 0"
    and "ret (answer demo_env tr (Net Sock_create)) = 0 \<and> pt (answer demo_env tr (Net Sock_create)) = Obj ()"
    and "20 \<le> length tr \<Longrightarrow> ret (answer demo_env tr (Sys Signal_pending)) \<noteq> 0" for tr
    by (simp_all add: demo_env_def)
  from server_run_returns [OF pollable_udp _ udp_sel(2,3) this, of "Obj ()" 20 21] show ?thesis by (auto simp: Let_def)
qed

text \<open>When its socket cannot be created the thread still releases one: the error path runs into the release with the socket pointer NULL, and the thread reports success.\<close>

theorem release_without_socket:
  assumes s: "halted s = None" "data_in \<noteq> Null" "server (cd s) = Obj v" "srv_running v = 0" "srv_socket_send v = Null"
    and a: "\<And>tr. ret (answer E tr (Sys Allow_sigkill)) = 0"
    and so: "\<And>tr. sint (ret (answer E tr (Net Sock_create))) < 0"
  shows "\<exists>r es. trace (snd (run_state (i2c_mpu6050_server_run fuel E data_in) s)) = (Net Sock_release, r) # es \<and>
     fst (run_state (i2c_mpu6050_server_run fuel E data_in) s) = 0 \<and>
     (\<exists>v'. server (cd (snd (run_state (i2c_mpu6050_server_run fuel E data_in) s))) = Obj v' \<and> srv_socket_send v' = Null)"
  using assms by (simp add: i2c_mpu6050_server_run_def get_srv_def upd_srv_def server_run_error1_def)

theorem release_without_socket_witness:
  "fst (run_state (i2c_mpu6050_server_run 5 \<lparr>answer = (\<lambda>_ c. int_reply (if c = Net Sock_create then 0xFFFFFFFF else 0)), order = Little_endian\<rparr> (Obj ()))
     udp_kst) = 0"
  using release_without_socket [of udp_kst "Obj ()" blank_udp_server
      "\<lparr>answer = (\<lambda>_ c. int_reply (if c = Net Sock_create then 0xFFFFFFFF else 0)), order = Little_endian\<rparr>" 5]
  by simp

text \<open>A peer address that does not parse to a non-zero address, or a negative port, is rejected with EINVAL before anything is allocated.\<close>

theorem server_init_rejects_peer:
  assumes s: "halted s = None"
    and bad: "ucast (val64 (answer E (trace s) (Net (In_aton (peer (params s)))))) = (0 :: u32) \<or> sint (port (params s)) < 0"
  shows "\<exists>es. run_state (i2c_mpu6050_server_init E c) s = (- EINVAL, s\<lparr>trace := es @ trace s\<rparr>) \<and> length es \<le> 1"
  using assms
  by (cases "c = Null") (auto simp: i2c_mpu6050_server_init_def intro: exI [of _ "[]"] exI [of _ "[_]"])

theorem server_init_rejects_peer_witness:
  "fst (run_state (i2c_mpu6050_server_init \<lparr>answer = (\<lambda>_ _. no_reply), order = Little_endian\<rparr> (Obj ())) udp_kst) = - EINVAL"
  using server_init_rejects_peer [of udp_kst "\<lparr>answer = (\<lambda>_ _. no_reply), order = Little_endian\<rparr>" "Obj ()"]
  by (auto simp: no_reply_def)

text \<open>C40: The UDP server sends kernel memory beyond the slot. When the FIFO holds at least 257 bytes, so that both bytes of the count are non-zero and the high byte is at most 14, and every block read delivers what it is asked for, the handler writes every block to the start of the 14 byte slot but adds up their lengths; the entry counts as used with a size of at least 256, and the next round of the server passes that size with the 14 byte buffer to the socket.\<close>

theorem oversized_datagram:
  assumes s: "ready s" "w \<noteq> Null" "nofifo (params s) = 0" "socket_open (cd s)"
    and n: "\<And>tr. ret (answer E tr (I2C (Read_word MPU6050_RA_FIFO_COUNTH))) = promote h OR push_bit 8 (promote l)"
    and hl: "l \<noteq> 0" "0 < sint (promote h)" "sint (promote h) \<le> 14"
    and r: "\<And>tr. ret (answer E tr (I2C (Read_block MPU6050_RA_FIFO_R_W h))) = promote h"
    and sk: "\<And>tr. pt (answer E tr (Net Sock_sk)) \<noteq> Null" and f: "2 ^ 16 \<le> fuel"
  shows "let s1 = snd (run_state (i2c_mpu6050_wq_read_handler fuel E w) s); s2 = snd (run_state (poll_once E (server_sink E)) s1)
     in \<exists>buffer size. Net (Sock_sendmsg buffer size) \<in> fst ` set (trace s2) \<and> length buffer = 14 \<and> 256 \<le> size"
proof -
  let ?s1 = "snd (run_state (i2c_mpu6050_wq_read_handler fuel E w) s)"
  note b = big_fifo_entry [OF s(1-3) n hl r f, unfolded Let_def]
  have "pollable ?s1" "in_ring (ringbufferpos (cd ?s1))" "socket_open (cd ?s1)"
    using b s(4) by (simp_all add: pollable_def on_slot_def socket_open_def)
  from server_round_sends [OF this _ sk] b show ?thesis
    unfolding Let_def cur_def by fastforce
qed

text \<open>A FIFO of 269 bytes.\<close>

definition big_fifo_env :: env where
  "big_fifo_env = \<lparr>answer = (\<lambda>_ c. case c of
       I2C (Read_word r) \<Rightarrow> int_reply 0x0D01
     | I2C (Read_block r n) \<Rightarrow> int_reply (promote n)
     | _ \<Rightarrow> ptr_reply (Obj ())), order = Little_endian\<rparr>"

definition open_kst :: kst where
  "open_kst = (demo_kst (default_params\<lparr>noserver := 0\<rparr>))\<lparr>cd := blank_client_data\<lparr>server := Obj (blank_udp_server\<lparr>srv_socket_send := Obj ()\<rparr>)\<rparr>\<rparr>"

theorem oversized_datagram_witness:
  "\<exists>buffer size. Net (Sock_sendmsg buffer size) \<in> fst ` set (trace (snd (run_state (poll_once big_fifo_env (server_sink big_fifo_env))
      (snd (run_state (i2c_mpu6050_wq_read_handler (2 ^ 16) big_fifo_env (Obj ())) open_kst))))) \<and> length buffer = 14 \<and> 256 \<le> size"
proof -
  have "ready open_kst"
    by (simp add: ready_def open_kst_def demo_kst_def ring_ok_def blank_client_data_def blank_entry_def initial_kst_def list_all_iff)
  from oversized_datagram [OF this, of "Obj ()" big_fifo_env 1 "0x0D" "2 ^ 16"] show ?thesis
    by (simp add: open_kst_def demo_kst_def default_params_def initial_kst_def socket_open_def blank_udp_server_def big_fifo_env_def Let_def)
qed

end
