(* ===== verification/Sysfs.thy ===== *)
theory Sysfs
  imports Wq
begin

text \<open>
  The sysfs component (olimex_mod_mpu6050_sysfs.c): the attribute files of the device (register
  access, state of the two pins) and the binary file of the ring buffer, with the formatted
  output they produce.
\<close>

section \<open>Formatted input and output\<close>

text \<open>
  The conversions of the kernel's \<open>scnprintf\<close> and \<open>sscanf\<close> the driver uses: decimal and
  hexadecimal integers, and a single character (which is not converted at the end of the string).
\<close>

definition digit :: "nat \<Rightarrow> char" where
  "digit d = ''0123456789abcdef'' ! d"

fun print_base :: "nat \<Rightarrow> nat \<Rightarrow> string" where
  "print_base b n = (if b < 2 \<or> n < b then [digit n] else print_base b (n div b) @ [digit (n mod b)])"

declare print_base.simps [simp del]

definition print_d :: "int \<Rightarrow> string" where
  "print_d i = (if i < 0 then ''-'' @ print_base 10 (nat (- i)) else print_base 10 (nat i))"

definition print_x :: "nat \<Rightarrow> string" where
  "print_x n = print_base 16 n"

definition scnprintf :: "nat \<Rightarrow> string \<Rightarrow> int \<times> string" where
  "scnprintf sz text = (int (length (take (sz - 1) text)), take (sz - 1) text)"

definition sscanf_c :: "u8 list \<Rightarrow> s32 \<times> u8" where
  "sscanf_c bs = (case bs of [] \<Rightarrow> (0, 0) | b # _ \<Rightarrow> (if b = 0 then (0, 0) else (1, b)))"

definition PAGE_SIZE :: nat where
  "PAGE_SIZE = 4096"

definition newline :: string where
  "newline = [CHR 0x0A]"

section \<open>Attribute files\<close>

text \<open>
  \<open>umode_t\<close> of an attribute of the group: the group and the visibility of its attributes.
\<close>

definition i2c_mpu6050_attr_is_visible :: "ptr \<Rightarrow> ptr \<Rightarrow> int \<Rightarrow> nat" where
  "i2c_mpu6050_attr_is_visible kobj_in attr_in arg_in = 0"

text \<open>
  \<open>dev_get_drvdata\<close> or \<open>i2c_get_clientdata\<close>, with the check for an error pointer and the use
  of the pointer that follows.
\<close>

definition with_client_data :: "(s32 \<Rightarrow> 'a) \<Rightarrow> 'a \<Rightarrow> 'a driver \<Rightarrow> 'a driver" where
  "with_client_data on_error stuck body = do {
     p \<leftarrow> gets drvdata;
     case p of Err e \<Rightarrow> State_Monad.return (on_error e)
     | Null \<Rightarrow> do { fault Null_dereference; State_Monad.return stuck }
     | Obj _ \<Rightarrow> body }"

definition i2c_mpu6050_reg_store :: "env \<Rightarrow> ptr \<Rightarrow> u8 list option \<Rightarrow> s32 \<Rightarrow> s32 driver" where
  "i2c_mpu6050_reg_store E dev_in buf_in count_in =
     (case buf_in of
        None \<Rightarrow> State_Monad.return (- EINVAL)
      | Some buf \<Rightarrow>
          if dev_in = Null \<or> uint count_in < 2 then State_Monad.return (- EINVAL)
          else do {
            p \<leftarrow> gets drvdata;
            if IS_ERR p then State_Monad.return (PTR_ERR p)
            else let (err, reg) = sscanf_c buf in
              if err \<noteq> 1 then State_Monad.return err
              else let (err, v) = sscanf_c (drop 1 buf) in
                if err \<noteq> 1 then State_Monad.return err
                else with_client_data id 0 (do {
                  write_led E True;
                  bytes_written \<leftarrow> write_reg E reg v;
                  write_led E False;
                  State_Monad.return (if bytes_written \<noteq> 1 then - EIO else count_in) }) })"

definition i2c_mpu6050_reg_show :: "env \<Rightarrow> ptr \<Rightarrow> u8 list option \<Rightarrow> (int \<times> string) driver" where
  "i2c_mpu6050_reg_show E dev_in buf_in =
     (case buf_in of
        None \<Rightarrow> State_Monad.return (- 22, [])
      | Some buf \<Rightarrow>
          if dev_in = Null then State_Monad.return (- 22, [])
          else do {
            p \<leftarrow> gets drvdata;
            if IS_ERR p then State_Monad.return (sint (PTR_ERR p), [])
            else let (err, reg) = sscanf_c buf in
              if err \<noteq> 1 then State_Monad.return (sint err, [])
              else with_client_data (\<lambda>e. (sint e, [])) (0, []) (do {
                write_led E True;
                v \<leftarrow> call E (I2C (Read_byte reg));
                write_led E False;
                State_Monad.return
                  (if sint v < 0 then (- 5, [])
                   else scnprintf PAGE_SIZE (''0x'' @ print_x (unat v) @ newline)) }) })"

definition pin_state_show :: "env \<Rightarrow> (client_data \<Rightarrow> u32) \<Rightarrow> ptr \<Rightarrow> u8 list option \<Rightarrow> (int \<times> string) driver" where
  "pin_state_show E handle dev_in buf_in =
     (if dev_in = Null \<or> buf_in = None then State_Monad.return (- 22, [])
      else with_client_data (\<lambda>e. (sint e, [])) (0, []) (do {
        h \<leftarrow> get_cd handle;
        v \<leftarrow> call E (Gpio (Gpio_read h));
        State_Monad.return (scnprintf PAGE_SIZE (print_d (sint v) @ newline)) }))"

definition i2c_mpu6050_intstate_show :: "env \<Rightarrow> ptr \<Rightarrow> u8 list option \<Rightarrow> (int \<times> string) driver" where
  "i2c_mpu6050_intstate_show E dev_in buf_in = pin_state_show E gpio_int_handle dev_in buf_in"

definition i2c_mpu6050_ledstate_show :: "env \<Rightarrow> ptr \<Rightarrow> u8 list option \<Rightarrow> (int \<times> string) driver" where
  "i2c_mpu6050_ledstate_show E dev_in buf_in = pin_state_show E gpio_led_handle dev_in buf_in"

section \<open>The ring buffer file\<close>

text \<open>\<open>for (i = 0; i < n; i++) ringbuffer[i].used = 0\<close>.\<close>

definition unuse :: "ringbuffer_entry \<Rightarrow> ringbuffer_entry" where
  "unuse e = e\<lparr>used := 0\<rparr>"

primrec clear_slots :: "nat \<Rightarrow> unit driver" where
  "clear_slots 0 = State_Monad.return ()"
| "clear_slots (Suc n) = do { clear_slots n; upd_slot (int n) unuse }"

definition i2c_mpu6050_ringbuffer_clear :: "env \<Rightarrow> ptr \<Rightarrow> unit driver" where
  "i2c_mpu6050_ringbuffer_clear E data_in =
     (if data_in = Null then State_Monad.return ()
      else do { mutex_lock E; clear_slots RINGBUFFER_SIZE; mutex_unlock E })"

definition sample_text :: "sample \<Rightarrow> string" where
  "sample_text m =
     print_d (sint (accel_x m)) @ '','' @ print_d (sint (accel_y m)) @ '','' @ print_d (sint (accel_z m)) @ '','' @
     print_d (sint (temp m)) @ '','' @
     print_d (sint (gyro_x m)) @ '','' @ print_d (sint (gyro_y m)) @ '','' @ print_d (sint (gyro_z m)) @ newline"

definition i2c_mpu6050_ringbuffer_read :: "env \<Rightarrow> ptr \<Rightarrow> (int \<times> string) driver" where
  "i2c_mpu6050_ringbuffer_read E kobj_in =
     (if kobj_in = Null then State_Monad.return (- 22, [])
      else with_client_data (\<lambda>e. (sint e, [])) (0, []) (do {
        mutex_lock E;
        e \<leftarrow> this_slot;
        r \<leftarrow> (if used e = 0 then State_Monad.return (0, [])
             else do {
               e \<leftarrow> this_slot;
               let m = i2c_mpu6050_device_extract_data (order E) (data e);
               State_Monad.return (scnprintf PAGE_SIZE (sample_text m)) });
        mutex_unlock E;
        State_Monad.return r }))"

definition i2c_mpu6050_ringbuffer_write :: "env \<Rightarrow> ptr \<Rightarrow> s32 driver" where
  "i2c_mpu6050_ringbuffer_write E kobj_in =
     (if kobj_in = Null then State_Monad.return (- EINVAL)
      else do {
        p \<leftarrow> gets drvdata;
        if IS_ERR p then State_Monad.return (PTR_ERR p)
        else do { i2c_mpu6050_ringbuffer_clear E p; State_Monad.return 0 } })"

definition i2c_mpu6050_ringbuffer_mmap :: "s32" where
  "i2c_mpu6050_ringbuffer_mmap = - ENOSYS"

section \<open>Set up and tear down\<close>

definition i2c_mpu6050_sysfs_init :: "env \<Rightarrow> ptr \<Rightarrow> s32 driver" where
  "i2c_mpu6050_sysfs_init E clientData_in =
     (if clientData_in = Null then State_Monad.return (- EINVAL)
      else call E (Sys Sysfs_create_bin_file))"

definition i2c_mpu6050_sysfs_fini :: "env \<Rightarrow> ptr \<Rightarrow> unit driver" where
  "i2c_mpu6050_sysfs_fini E clientData_in =
     (if clientData_in = Null then State_Monad.return () else exec E (Sys Sysfs_remove_bin_file))"

section \<open>Reading back what was printed\<close>

definition digit_value :: "char \<Rightarrow> nat" where
  "digit_value c = length (takeWhile (\<lambda>d. d \<noteq> c) ''0123456789abcdef'')"

definition is_dec :: "char \<Rightarrow> bool" where
  "is_dec c \<longleftrightarrow> c \<in> set ''0123456789''"

definition value_of :: "nat \<Rightarrow> string \<Rightarrow> nat" where
  "value_of b ds = foldl (\<lambda>a c. a * b + digit_value c) 0 ds"

lemma digits_checked: "\<forall>d\<in>set [0..<16]. digit_value (digit d) = d \<and> (d < 10 \<longrightarrow> is_dec (digit d)) \<and> digit d \<noteq> CHR ''-''"
  by code_simp

lemma digit_facts:
  "d < 16 \<Longrightarrow> digit_value (digit d) = d" "d < 10 \<Longrightarrow> is_dec (digit d)" "d < 16 \<Longrightarrow> digit d \<noteq> CHR ''-''"
  using digits_checked by auto

lemma value_print_base:
  "2 \<le> b \<Longrightarrow> b \<le> 16 \<Longrightarrow> value_of b (print_base b n) = n"
proof (induction b n rule: print_base.induct)
  case (1 b n)
  show ?case
  proof (cases "n < b")
    case True
    then show ?thesis using 1 by (subst print_base.simps) (simp add: value_of_def digit_facts)
  next
    case False
    then have "value_of b (print_base b (n div b)) = n div b" using 1 by simp
    moreover have "digit_value (digit (n mod b)) = n mod b"
      using 1(2,3) mod_less_divisor [of b n] by (intro digit_facts) linarith
    ultimately show ?thesis using False 1(2)
      by (subst print_base.simps) (simp add: value_of_def)
  qed
qed

lemma print_base_dec: "list_all is_dec (print_base 10 n)"
proof (induction "10::nat" n rule: print_base.induct)
  case (1 n)
  then show ?case by (subst print_base.simps) (auto simp: digit_facts)
qed

lemma print_base_nonempty: "print_base b n \<noteq> []"
  by (subst print_base.simps) simp

lemma length_print_base: "2 \<le> b \<Longrightarrow> n < b ^ k \<Longrightarrow> 0 < k \<Longrightarrow> length (print_base b n) \<le> k"
proof (induction k arbitrary: n)
  case (Suc k)
  show ?case
  proof (cases "n < b")
    case True
    then show ?thesis by (subst print_base.simps) simp
  next
    case False
    then have "k \<noteq> 0" using Suc.prems(2) by (cases k) auto
    moreover have "n div b < b ^ k" using Suc.prems(1,2) by (simp add: less_mult_imp_div_less mult.commute)
    ultimately have "length (print_base b (n div b)) \<le> k" using Suc.IH Suc.prems(1) by simp
    then show ?thesis using False Suc.prems(1) by (subst print_base.simps) simp
  qed
qed simp

definition read_d :: "string \<Rightarrow> int \<times> string" where
  "read_d s =
     (let neg = (s \<noteq> [] \<and> hd s = CHR ''-'');
          t = (if neg then tl s else s);
          n = int (value_of 10 (takeWhile is_dec t))
      in ((if neg then - n else n), dropWhile is_dec t))"

lemma takeWhile_digits:
  assumes "list_all is_dec ds" "rest = [] \<or> \<not> is_dec (hd rest)"
  shows "takeWhile is_dec (ds @ rest) = ds" "dropWhile is_dec (ds @ rest) = rest"
  using assms by (induction ds) (cases rest; simp)+

lemma print_base_not_minus: "hd (print_base 10 n @ rest) \<noteq> CHR ''-''"
proof -
  have "is_dec (hd (print_base 10 n @ rest))"
    using print_base_dec [of n] print_base_nonempty [of 10 n] by (cases "print_base 10 n") auto
  then show ?thesis by (auto simp: is_dec_def)
qed

lemma read_print_d:
  assumes "rest = [] \<or> \<not> is_dec (hd rest)"
  shows "read_d (print_d i @ rest) = (i, rest)"
  using takeWhile_digits [OF print_base_dec assms] print_base_not_minus print_base_nonempty
  by (cases "i < 0") (simp_all add: read_d_def print_d_def Let_def value_print_base)

primrec read_fields :: "nat \<Rightarrow> string \<Rightarrow> int list" where
  "read_fields 0 s = []"
| "read_fields (Suc n) s = (case read_d s of (i, r) \<Rightarrow> i # read_fields n (tl r))"

definition parse_sample :: "string \<Rightarrow> sample option" where
  "parse_sample s =
     (case map word_of_int (read_fields 7 s) of
        [ax, ay, az, t, gx, gy, gz] \<Rightarrow>
          Some \<lparr>accel_x = ax, accel_y = ay, accel_z = az, temp = t, gyro_x = gx, gyro_y = gy, gyro_z = gz\<rparr>
      | _ \<Rightarrow> None)"

lemma comma_not_dec: "\<not> is_dec (CHR '','')" "\<not> is_dec (CHR 0x0A)"
  by (simp_all add: is_dec_def)

lemma parse_sample_text: "parse_sample (sample_text m) = Some m"
  by (cases m) (simp add: parse_sample_def sample_text_def newline_def read_print_d comma_not_dec numeral_eq_Suc)

lemma length_print_d: "- 32768 \<le> i \<Longrightarrow> i < 32768 \<Longrightarrow> length (print_d i) \<le> 6"
proof -
  assume "- 32768 \<le> i" "i < 32768"
  then have "length (print_base 10 (nat \<bar>i\<bar>)) \<le> 5" by (intro length_print_base) auto
  then show ?thesis by (auto simp: print_d_def abs_if split: if_splits)
qed

lemma length_print_s16: "length (print_d (sint (x :: s16))) \<le> 6"
  using sint_greater_eq [of x] sint_less [of x] by (intro length_print_d) simp_all

lemma sample_text_fits: "length (sample_text m) \<le> 49"
proof -
  note l = length_print_s16
  from l [of "accel_x m"] l [of "accel_y m"] l [of "accel_z m"] l [of "temp m"] l [of "gyro_x m"]
    l [of "gyro_y m"] l [of "gyro_z m"] show ?thesis by (simp add: sample_text_def newline_def)
qed

lemma scnprintf_sample: "scnprintf PAGE_SIZE (sample_text m) = (int (length (sample_text m)), sample_text m)"
  using sample_text_fits [of m] by (simp add: scnprintf_def PAGE_SIZE_def)

section \<open>Clearing\<close>

lemma run_clear_slots:
  assumes "halted s = None" "length (ringbuffer (cd s)) = 64"
  shows "n \<le> 64 \<Longrightarrow> run_state (clear_slots n) s =
     ((), s\<lparr>cd := (cd s)\<lparr>ringbuffer := map unuse (take n (ringbuffer (cd s))) @ drop n (ringbuffer (cd s))\<rparr>\<rparr>)"
proof (induction n)
  case (Suc n)
  let ?rb = "ringbuffer (cd s)"
  have n: "n < length ?rb" using Suc.prems assms(2) by simp
  have "(map unuse (take n ?rb) @ drop n ?rb)[n := unuse (?rb ! n)] = map unuse (take (Suc n) ?rb) @ drop (Suc n) ?rb"
    using n by (simp add: list_update_append take_Suc_conv_app_nth Cons_nth_drop_Suc [symmetric])
  moreover have "(map unuse (take n ?rb) @ drop n ?rb) ! n = ?rb ! n" using n by (simp add: nth_append)
  ultimately show ?case using Suc assms(1) by (simp add: upd_slot_def in_ring_def)
qed (use assms in simp)

lemma clear_newest_first:
  "length (ringbuffer c) = 64 \<Longrightarrow> newest_first (c\<lparr>ringbuffer := map unuse (ringbuffer c)\<rparr>) = map unuse (newest_first c)"
  by (simp add: newest_first_def nat_less_iff)

section \<open>Contract\<close>

interpretation sysfs: lifecycle "\<lambda>E. i2c_mpu6050_sysfs_init E (Obj ())" "\<lambda>E. i2c_mpu6050_sysfs_fini E (Obj ())"
  "\<lambda>_. True" "\<lambda>_. True" "\<lambda>_. True" "{#Sysfs_file#}" "\<lambda>c. c"
  by unfold_locales
     (simp_all add: i2c_mpu6050_sysfs_init_def i2c_mpu6050_sysfs_fini_def same_context_def Let_def)

section \<open>Properties\<close>

definition filled_kst :: kst where
  "filled_kst = (demo_kst default_params)\<lparr>cd := blank_client_data\<lparr>ringbuffer :=
     (replicate 64 blank_entry)[0 := sample_entry (encode_sample demo_sample) 7]\<rparr>\<rparr>"

lemma ready_filled: "ready filled_kst" "in_ring (ringbufferpos (cd filled_kst))"
    "hd (newest_first (cd filled_kst)) = sample_entry (encode_sample demo_sample) 7"
  by (simp_all add: ready_def filled_kst_def demo_kst_def ring_ok_def in_ring_def blank_client_data_def blank_entry_def
      list_all_length nth_list_update sample_entry_def length_encode_sample newest_first_def upt_conv_Cons)

lemma run_ringbuffer_clear:
  assumes "halted s = None" "length (ringbuffer (cd s)) = 64" "\<not> sync_lock (cd s)"
  shows "\<exists>es. snd (run_state (i2c_mpu6050_ringbuffer_clear E (Obj ())) s) =
     s\<lparr>trace := es @ trace s, cd := (cd s)\<lparr>ringbuffer := map unuse (ringbuffer (cd s))\<rparr>\<rparr> \<and>
     lock_state es False = Some False"
proof -
  let ?lk = "(Sys Mutex_lock, answer E (trace s) (Sys Mutex_lock))"
  let ?s = "s\<lparr>trace := ?lk # trace s, cd := (cd s)\<lparr>sync_lock := True\<rparr>\<rparr>"
  let ?un = "(Sys Mutex_unlock, answer E (?lk # trace s) (Sys Mutex_unlock))"
  have "run_state (clear_slots 64) ?s = ((), ?s\<lparr>cd := (cd ?s)\<lparr>ringbuffer := map unuse (ringbuffer (cd s))\<rparr>\<rparr>)"
    using run_clear_slots [of ?s 64] assms by simp
  moreover have "(cd s)\<lparr>sync_lock := True, ringbuffer := r, sync_lock := False\<rparr> = (cd s)\<lparr>ringbuffer := r\<rparr>" for r
    using assms(3) by (cases "cd s") simp
  ultimately show ?thesis using assms
    by (intro exI [of _ "[?un, ?lk]"]) (simp add: i2c_mpu6050_ringbuffer_clear_def kst_order)
qed

text \<open>Clearing the ring buffer marks every slot unused, keeps everything else, in particular the data and the position, and takes and releases the lock.\<close>

theorem ringbuffer_clear_empties:
  assumes "halted s = None" "length (ringbuffer (cd s)) = 64" "\<not> sync_lock (cd s)"
  shows "\<exists>es. snd (run_state (i2c_mpu6050_ringbuffer_clear E (Obj ())) s) =
     s\<lparr>trace := es @ trace s, cd := (cd s)\<lparr>ringbuffer := map unuse (ringbuffer (cd s))\<rparr>\<rparr> \<and>
     lock_state es False = Some False"
  by (fact run_ringbuffer_clear [OF assms])

theorem ringbuffer_clear_empties_witness:
  "used (hd (newest_first (cd (snd (run_state (i2c_mpu6050_ringbuffer_clear demo_block_env (Obj ())) filled_kst))))) = 0"
proof -
  have "halted filled_kst = None" "length (ringbuffer (cd filled_kst)) = 64" "\<not> sync_lock (cd filled_kst)"
    using ready_filled(1) by (simp_all add: ready_def ring_ok_def)
  from ringbuffer_clear_empties [OF this, of demo_block_env] this(2) ready_filled(3) show ?thesis
    by (auto simp: clear_newest_first newest_first_def upt_conv_Cons unuse_def)
qed

lemma run_ringbuffer_read:
  assumes s: "ready s" and i: "in_ring (ringbufferpos (cd s))" and k: "kobj \<noteq> Null"
  shows "let e = hd (newest_first (cd s)); m = i2c_mpu6050_device_extract_data (order E) (data e);
      (r, s') = run_state (i2c_mpu6050_ringbuffer_read E kobj) s
    in (if used e = 0 then r = (0, []) else fst r = int (length (snd r)) \<and> parse_sample (snd r) = Some m) \<and>
       (\<exists>es. s' = s\<lparr>trace := es @ trace s\<rparr> \<and> lock_state es False = Some False)"
proof -
  let ?lk = "(Sys Mutex_lock, answer E (trace s) (Sys Mutex_lock))"
  let ?s = "s\<lparr>trace := ?lk # trace s, cd := (cd s)\<lparr>sync_lock := True\<rparr>\<rparr>"
  let ?un = "(Sys Mutex_unlock, answer E (?lk # trace s) (Sys Mutex_unlock))"
  have "(cd s)\<lparr>sync_lock := False\<rparr> = cd s" using s by (cases "cd s") (simp add: ready_def)
  then have cdl: "s\<lparr>trace := t, cd := (cd s)\<lparr>sync_lock := False\<rparr>\<rparr> = s\<lparr>trace := t\<rparr>" for t by simp
  have on: "on_slot ?s" using s i by (simp add: ready_def ring_ok_def on_slot_def)
  have hd: "hd (newest_first (cd s)) = cur ?s"
    using i by (simp add: newest_first_def cur_def in_ring_def hd_map upt_conv_Cons)
  have ls: "\<exists>es. s\<lparr>trace := ?un # ?lk # trace s\<rparr> = s\<lparr>trace := es @ trace s\<rparr> \<and> lock_state es False = Some False"
    by (intro exI [of _ "[?un, ?lk]"]) simp
  show ?thesis
    using s k on ls unfolding hd Let_def
    by (cases "used (cur ?s) = 0")
       (simp_all add: i2c_mpu6050_ringbuffer_read_def with_client_data_def ready_def run_this_slot scnprintf_sample
          parse_sample_text cdl Let_def)
qed

text \<open>Reading the ring buffer file gives the newest entry of the history, or nothing if that is unused. The text is complete, it parses back to exactly the decoded sample, and the read changes nothing and releases the lock.\<close>

theorem ringbuffer_read_newest:
  assumes s: "ready s" and i: "in_ring (ringbufferpos (cd s))" and k: "kobj \<noteq> Null"
  shows "let e = hd (newest_first (cd s)); m = i2c_mpu6050_device_extract_data (order E) (data e);
      (r, s') = run_state (i2c_mpu6050_ringbuffer_read E kobj) s
    in (if used e = 0 then r = (0, []) else fst r = int (length (snd r)) \<and> parse_sample (snd r) = Some m) \<and>
       (\<exists>es. s' = s\<lparr>trace := es @ trace s\<rparr> \<and> lock_state es False = Some False)"
  by (fact run_ringbuffer_read [OF assms])

theorem ringbuffer_read_newest_witness:
  "parse_sample (snd (fst (run_state (i2c_mpu6050_ringbuffer_read demo_block_env (Obj ())) filled_kst)))
     = Some (demo_sample\<lparr>temp := 0x3412\<rparr>)"
proof -
  have "i2c_mpu6050_device_extract_data Little_endian (data (sample_entry (encode_sample demo_sample) 7)) = demo_sample\<lparr>temp := 0x3412\<rparr>"
    by code_simp
  then show ?thesis
    using ringbuffer_read_newest [OF ready_filled(1,2), of "Obj ()" demo_block_env] ready_filled(3)
    by (auto simp: Let_def sample_entry_def demo_block_env_def split: prod.splits)
qed

lemma run_read_before_data:
  assumes s: "ready s" and i: "ringbufferpos (cd s) = - 1" and k: "kobj \<noteq> Null"
  shows "halted (snd (run_state (i2c_mpu6050_ringbuffer_read E kobj) s)) = Some (Index_out_of_range (- 1)) \<and>
     sync_lock (cd (snd (run_state (i2c_mpu6050_ringbuffer_read E kobj) s)))"
  using assms
  by (simp add: i2c_mpu6050_ringbuffer_read_def with_client_data_def ready_def this_slot_def get_slot_def in_ring_def blank_entry_def)

text \<open>Reading the file before the first sample has arrived indexes the ring buffer with -1: undefined behaviour, reached with the lock held.\<close>

theorem read_before_data_faults:
  assumes s: "ready s" and i: "ringbufferpos (cd s) = - 1" and k: "kobj \<noteq> Null"
  shows "halted (snd (run_state (i2c_mpu6050_ringbuffer_read E kobj) s)) = Some (Index_out_of_range (- 1)) \<and>
     sync_lock (cd (snd (run_state (i2c_mpu6050_ringbuffer_read E kobj) s)))"
  by (fact run_read_before_data [OF assms])

theorem read_before_data_faults_witness:
  "halted (snd (run_state (i2c_mpu6050_ringbuffer_read demo_block_env (Obj ())) (demo_kst default_params))) = Some (Index_out_of_range (- 1))"
  using read_before_data_faults [OF ready_demo, of default_params "Obj ()" demo_block_env] by (simp add: demo_kst_def)

text \<open>A register written through its file is reported as an I/O error. The SMBus write returns 0 or a negative error, never 1, so after writing the register the operation always returns EIO.\<close>

theorem reg_store_reports_failure:
  assumes s: "halted s = None" "drvdata s = Obj ()" "dev \<noteq> Null" "2 \<le> uint n" "reg \<noteq> 0" "v \<noteq> 0"
    and w: "\<And>tr. sint (ret (answer E tr (I2C (Write_byte reg v)))) \<le> 0"
  shows "\<exists>es. run_state (i2c_mpu6050_reg_store E dev (Some (reg # v # rest)) n) s = (- EIO, s\<lparr>trace := es @ trace s\<rparr>) \<and>
     I2C (Write_byte reg v) \<in> fst ` set es"
proof -
  let ?h = "gpio_led_handle (cd s)"
  let ?a = "(Gpio (Gpio_write ?h True), answer E (trace s) (Gpio (Gpio_write ?h True)))"
  let ?w = "(I2C (Write_byte reg v), answer E (?a # trace s) (I2C (Write_byte reg v)))"
  let ?b = "(Gpio (Gpio_write ?h False), answer E (?w # ?a # trace s) (Gpio (Gpio_write ?h False)))"
  have "ret (snd ?w) \<noteq> 1" using w [of "?a # trace s"] by auto
  then show ?thesis using s
    by (intro exI [of _ "[?b, ?w, ?a]"])
       (simp add: i2c_mpu6050_reg_store_def with_client_data_def sscanf_c_def write_led_def write_reg_def)
qed

theorem reg_store_reports_failure_witness:
  "fst (run_state (i2c_mpu6050_reg_store (device_env power_on_regs) (Obj ()) (Some [0x19, 7]) 2) (demo_kst default_params)) = - EIO"
  using reg_store_reports_failure [of "demo_kst default_params" "Obj ()" 2 "0x19" 7 "device_env power_on_regs" "[]"]
    ready_demo [of default_params] by (auto simp: ready_def device_env_def no_reply_def)

text \<open>A zero register number or a zero value cannot be written through the file at all: the conversion stops at the NUL byte, and the operation returns 0 having consumed and done nothing.\<close>

theorem zero_byte_not_stored:
  assumes "dev \<noteq> Null" "2 \<le> uint n" "\<not> IS_ERR (drvdata s)" "reg = 0 \<or> v = 0"
  shows "run_state (i2c_mpu6050_reg_store E dev (Some (reg # v # rest)) n) s = (0, s)"
  using assms by (auto simp: i2c_mpu6050_reg_store_def sscanf_c_def)

theorem zero_byte_not_stored_witness:
  "run_state (i2c_mpu6050_reg_store demo_block_env (Obj ()) (Some [0x6B, 0]) 2) (demo_kst default_params) = (0, demo_kst default_params)"
  using zero_byte_not_stored [of "Obj ()" 2 "demo_kst default_params" "0x6B" 0 demo_block_env "[]"]
  by (simp add: demo_kst_def)

text \<open>Showing a register prints its value: the text is complete, starts with 0x, and its hexadecimal digits denote exactly the byte read.\<close>

theorem reg_show_value:
  assumes s: "halted s = None" "drvdata s = Obj ()" "dev \<noteq> Null" "reg \<noteq> 0"
    and r: "\<And>tr. ret (answer E tr (I2C (Read_byte reg))) = promote v"
  shows "let (n, text) = fst (run_state (i2c_mpu6050_reg_show E dev (Some (reg # rest))) s)
     in n = int (length text) \<and> take 2 text = ''0x'' \<and> value_of 16 (butlast (drop 2 text)) = unat v"
proof -
  have "\<not> bit (promote v) 31" by (simp add: bit_simps bit_u8_beyond)
  then have nn: "\<not> sint (promote v) < 0" using bit_last_iff [of "promote v"] by simp
  have u: "unat (promote v) = unat v" 
    using unsigned_less [of v, where 'a = nat] by (simp add: unsigned_ucast_eq take_bit_nat_eq_self_iff)
  have "unat v < 16 ^ 2" using unsigned_less [of v, where 'a = nat] by simp
  then have "length (print_base 16 (unat v)) \<le> 2" by (intro length_print_base) auto
  then have "scnprintf PAGE_SIZE (''0x'' @ print_x (unat v) @ newline)
      = (int (length (''0x'' @ print_x (unat v) @ newline)), ''0x'' @ print_x (unat v) @ newline)"
    by (simp add: scnprintf_def PAGE_SIZE_def newline_def print_x_def)
  then show ?thesis using s r nn u
    by (simp add: i2c_mpu6050_reg_show_def with_client_data_def sscanf_c_def write_led_def Let_def
        newline_def print_x_def value_print_base butlast_append)
qed

theorem reg_show_value_witness:
  "let text = snd (fst (run_state (i2c_mpu6050_reg_show \<lparr>answer = (\<lambda>_ _. int_reply 0x68), order = Little_endian\<rparr> (Obj ()) (Some [0x75]))
      (demo_kst default_params)))
   in value_of 16 (butlast (drop 2 text)) = 0x68"
  using reg_show_value [of "demo_kst default_params" "Obj ()" "0x75" "\<lparr>answer = (\<lambda>_ _. int_reply 0x68), order = Little_endian\<rparr>" "0x68" "[]"]
    ready_demo [of default_params]
  by (auto simp: ready_def Let_def split: prod.splits)

end
