(* ===== verification/Irq.thy ===== *)
theory Irq
  imports Wq
begin

text \<open>
  The two sources of read requests: the interrupt of the device (olimex_mod_mpu6050_irq.c) and
  the high resolution timer that replaces it in polling mode (olimex_mod_mpu6050_timer.c).
\<close>

section \<open>The interrupt\<close>

datatype irqreturn_t = IRQ_NONE | IRQ_HANDLED

text \<open>\<open>to_i2c_client\<close> is pointer arithmetic on the device: never an error pointer here.\<close>

definition i2c_mpu6050_interrupt_handler :: "env \<Rightarrow> s32 \<Rightarrow> ptr \<Rightarrow> irqreturn_t driver" where
  "i2c_mpu6050_interrupt_handler E irq_in dev_id_in =
     (if dev_id_in = Null then State_Monad.return IRQ_NONE
      else do {
        p \<leftarrow> gets drvdata;
        case p of Err e \<Rightarrow> State_Monad.return IRQ_NONE
        | Null \<Rightarrow> do { fault Null_dereference; State_Monad.return IRQ_NONE }
        | Obj _ \<Rightarrow> do {
            err \<leftarrow> call E (Sys Queue_work);
            State_Monad.return (if sint err < 0 then IRQ_NONE else IRQ_HANDLED) } })"

text \<open>The labels of the error path of \<open>i2c_mpu6050_irq_init\<close>.\<close>

definition irq_init_error1 :: "env \<Rightarrow> s32 \<Rightarrow> s32 driver" where
  "irq_init_error1 E err = do { exec E (Gpio Pinctrl_put); State_Monad.return err }"

definition irq_init_error4 :: "env \<Rightarrow> s32 \<Rightarrow> s32 driver" where
  "irq_init_error4 E err = do {
     exec E (Gpio (Gpio_unexport Int_pin));
     exec E (Gpio (Gpio_free Int_pin));
     h \<leftarrow> get_cd gpio_int_handle;
     exec E (Gpio (Gpio_release h));
     irq_init_error1 E err }"

definition i2c_mpu6050_irq_init :: "env \<Rightarrow> ptr \<Rightarrow> s32 driver" where
  "i2c_mpu6050_irq_init E clientData_in =
     (if clientData_in = Null then State_Monad.return (- ENOSYS)
      else do {
        valid \<leftarrow> call E (Gpio (Gpio_is_valid Int_pin));
        if valid = 0 then State_Monad.return (- EINVAL)
        else do {
          pc \<leftarrow> call_ptr E (Gpio Pinctrl_get);
          upd_cd (\<lambda>c. c\<lparr>pin_ctrl := pc\<rparr>);
          if IS_ERR pc then State_Monad.return (PTR_ERR pc)
          else do {
            st \<leftarrow> call_ptr E (Gpio Pinctrl_lookup_state);
            if IS_ERR st then irq_init_error1 E (PTR_ERR st)
            else do {
              err \<leftarrow> call E (Gpio Pinctrl_select_state);
              if err \<noteq> 0 then irq_init_error1 E err
              else do {
                r \<leftarrow> ask E (Gpio (Gpio_request_ex Int_pin));
                upd_cd (\<lambda>c. c\<lparr>gpio_int_handle := ret r\<rparr>);
                if ret r = 0 then irq_init_error1 E (- ENOSYS)
                else do {
                  irq \<leftarrow> call E (Gpio (Gpio_to_irq Int_pin));
                  upd_cd (\<lambda>c. c\<lparr>client_irq := irq\<rparr>);
                  if sint irq < 0 then irq_init_error4 E irq
                  else do {
                    err \<leftarrow> call E (Sys (Request_irq irq Dev_client));
                    if err \<noteq> 0 then irq_init_error4 E err
                    else State_Monad.return 0 } } } } } } })"

definition i2c_mpu6050_irq_fini :: "env \<Rightarrow> ptr \<Rightarrow> unit driver" where
  "i2c_mpu6050_irq_fini E clientData_in =
     (if clientData_in = Null then State_Monad.return ()
      else do {
        irq \<leftarrow> get_cd client_irq;
        exec E (Sys (Free_irq irq Dev_null));
        exec E (Gpio (Gpio_unexport Int_pin));
        exec E (Gpio (Gpio_free Int_pin));
        h \<leftarrow> get_cd gpio_int_handle;
        exec E (Gpio (Gpio_release h));
        exec E (Gpio Pinctrl_put) })"

section \<open>The timer\<close>

datatype hrtimer_restart = HRTIMER_NORESTART | HRTIMER_RESTART

definition MS_TO_NS :: "nat \<Rightarrow> nat" where
  "MS_TO_NS ms = ms * 1000000"

definition i2c_mpu6050_hr_timer_handler :: "env \<Rightarrow> ptr \<Rightarrow> hrtimer_restart driver" where
  "i2c_mpu6050_hr_timer_handler E timer_in =
     (if timer_in = Null then State_Monad.return HRTIMER_NORESTART
      else do {
        exec E (Sys Queue_work);
        exec E (Sys (Hrtimer_forward_now (MS_TO_NS TIMER_DELAY_MS)));
        State_Monad.return HRTIMER_RESTART })"

definition i2c_mpu6050_timer_init :: "env \<Rightarrow> ptr \<Rightarrow> s32 driver" where
  "i2c_mpu6050_timer_init E clientData_in =
     (if clientData_in = Null then State_Monad.return (- ENOSYS)
      else do {
        exec E (Sys Hrtimer_init);
        call E (Sys (Hrtimer_start (MS_TO_NS TIMER_DELAY_MS))) })"

definition i2c_mpu6050_timer_fini :: "env \<Rightarrow> ptr \<Rightarrow> unit driver" where
  "i2c_mpu6050_timer_fini E clientData_in =
     (if clientData_in = Null then State_Monad.return () else exec E (Sys Hrtimer_cancel))"

section \<open>Contract of the timer\<close>

definition timer_env :: "env \<Rightarrow> bool" where
  "timer_env E \<longleftrightarrow> (\<forall>tr. 0 \<le> sint (ret (answer E tr (Sys Hrtimer_cancel))))"

interpretation timer: lifecycle "\<lambda>E. i2c_mpu6050_timer_init E (Obj ())" "\<lambda>E. i2c_mpu6050_timer_fini E (Obj ())"
  timer_env "\<lambda>_. True" "\<lambda>_. True" "{#Timer#}" "\<lambda>c. c"
  by unfold_locales
     (simp_all add: i2c_mpu6050_timer_init_def i2c_mpu6050_timer_fini_def same_context_def Let_def
       timer_env_def not_less [symmetric])

section \<open>What the interrupt holds\<close>

text \<open>
  \<open>free_irq\<close> gives a line back when it is called with the \<open>dev_id\<close> the line was requested with:
  the driver requests it with the client and frees it with NULL.
\<close>

definition irq_env :: "env \<Rightarrow> bool" where
  "irq_env E \<longleftrightarrow> object_or_error E (Gpio Pinctrl_get) \<and> object_or_error E (Gpio Pinctrl_lookup_state)"

definition irq_owns :: "client_data \<Rightarrow> resource multiset" where
  "irq_owns c = {#Pinctrl, Gpio_handle (gpio_int_handle c), Irq_line (client_irq c) Dev_client#}"

definition irq_rest :: "client_data \<Rightarrow> u32 \<times> netlink_server ref \<times> udp_server ref" where
  "irq_rest c = (gpio_led_handle c, netlink_server c, server c)"

lemma object_or_error_PTR_ERR: "object_or_error E c \<Longrightarrow> IS_ERR (pt (answer E tr c)) \<Longrightarrow> PTR_ERR (pt (answer E tr c)) \<noteq> 0"
  by (erule object_or_errorE [of E c tr]) simp_all

lemma irq_init_outcome:
  fixes s :: kst
  assumes E: "irq_env E" and h: "halted s = None" and r: "run_state (i2c_mpu6050_irq_init E (Obj ())) s = (e, s')"
  shows "same_context irq_rest s s' \<and> held (trace s') = held (trace s) + (if e = 0 then irq_owns (cd s') else {#})"
proof -
  let ?gv = "(Gpio (Gpio_is_valid Int_pin), answer E (trace s) (Gpio (Gpio_is_valid Int_pin)))"
  from E have pg: "object_or_error E (Gpio Pinctrl_get)" and ls: "object_or_error E (Gpio Pinctrl_lookup_state)"
    by (simp_all add: irq_env_def)
  show ?thesis
    using h r object_or_error_PTR_ERR [OF ls]
    by (cases rule: object_or_errorE [OF pg, of "?gv # trace s"])
       (auto simp: i2c_mpu6050_irq_init_def irq_init_error1_def irq_init_error4_def same_context_def irq_owns_def irq_rest_def
         kst_order Let_def split: if_splits)
qed

definition no_null_line :: "resource multiset \<Rightarrow> bool" where
  "no_null_line B \<longleftrightarrow> (\<forall>i. Irq_line i Dev_null \<notin># B)"

lemma no_null_line [simp]:
  "no_null_line {#}" "no_null_line (A + B) \<longleftrightarrow> no_null_line A \<and> no_null_line B"
  "no_null_line (add_mset x B) \<longleftrightarrow> (\<forall>i. x \<noteq> Irq_line i Dev_null) \<and> no_null_line B"
  by (auto simp: no_null_line_def)

lemma irq_fini_outcome:
  fixes s :: kst
  assumes h: "halted s = None" and B: "held (trace s) = B + irq_owns (cd s)" "no_null_line B"
    and r: "run_state (i2c_mpu6050_irq_fini E (Obj ())) s = (u, s')"
  shows "same_context (\<lambda>c. c) s s' \<and> held (trace s') = add_mset (Irq_line (client_irq (cd s)) Dev_client) B"
proof -
  have "Irq_line (client_irq (cd s)) Dev_null \<notin># B" using B(2) by (simp add: no_null_line_def)
  then show ?thesis using h B(1) r
    by (auto simp: i2c_mpu6050_irq_fini_def irq_owns_def same_context_def diff_single_trivial add_mset_commute)
qed

section \<open>Properties\<close>

text \<open>The interrupt line is leaked. Setting the interrupt up either fails, and then everything acquired on the way has been given back, or succeeds; tearing it down after that gives back the pin and the pin controller but not the interrupt line, because the line is requested with the client as its identity and freed with NULL.\<close>

theorem irq_line_leaked:
  assumes E: "irq_env E" and h: "halted s = None" and B: "no_null_line (held (trace s))"
  shows "let (e, s1) = run_state (i2c_mpu6050_irq_init E (Obj ())) s; s2 = snd (run_state (i2c_mpu6050_irq_fini E (Obj ())) s1)
     in if e = 0 then held (trace s2) = held (trace s) + {#Irq_line (client_irq (cd s1)) Dev_client#}
        else held (trace s1) = held (trace s)"
proof -
  obtain e s1 where r: "run_state (i2c_mpu6050_irq_init E (Obj ())) s = (e, s1)" by (cases "run_state (i2c_mpu6050_irq_init E (Obj ())) s")
  obtain u s2 where r2: "run_state (i2c_mpu6050_irq_fini E (Obj ())) s1 = (u, s2)" by (cases "run_state (i2c_mpu6050_irq_fini E (Obj ())) s1")
  note i = irq_init_outcome [OF E h r]
  have "e = 0 \<Longrightarrow> held (trace s2) = held (trace s) + {#Irq_line (client_irq (cd s1)) Dev_client#}"
    using irq_fini_outcome [OF _ _ B r2] i by (simp add: same_context_def)
  then show ?thesis using r r2 i by simp
qed

text \<open>An environment in which every call of the set up succeeds, the pin has handle 1 and line 1.\<close>

definition irq_demo_env :: env where
  "irq_demo_env = \<lparr>answer = (\<lambda>_ c. case c of
       Gpio (Gpio_is_valid p) \<Rightarrow> int_reply 1
     | Gpio (Gpio_request_ex p) \<Rightarrow> int_reply 1
     | Gpio (Gpio_to_irq p) \<Rightarrow> int_reply 1
     | _ \<Rightarrow> ptr_reply (Obj ())), order = Little_endian\<rparr>"

theorem irq_line_leaked_witness:
  "held (trace (snd (run_state (i2c_mpu6050_irq_fini irq_demo_env (Obj ()))
      (snd (run_state (i2c_mpu6050_irq_init irq_demo_env (Obj ())) (initial_kst default_params)))))) = {#Irq_line 1 Dev_client#}"
proof -
  have E: "irq_env irq_demo_env" by (simp add: irq_env_def object_or_error_def irq_demo_env_def)
  obtain s1 where r: "run_state (i2c_mpu6050_irq_init irq_demo_env (Obj ())) (initial_kst default_params) = (0, s1)" "client_irq (cd s1) = 1"
    by (simp add: i2c_mpu6050_irq_init_def irq_demo_env_def)
  show ?thesis using irq_line_leaked [OF E, of "initial_kst default_params"] r by simp
qed

end
