(* ===== verification/Pm.thy ===== *)
theory Pm
  imports Device_Spec
begin

text \<open>
  Power management (olimex_mod_mpu6050_pm.c).  Suspend resets the device and resume initialises
  it again; every other callback of the table does nothing and reports success.
\<close>

definition i2c_mpu6050_pm_suspend :: "env \<Rightarrow> ptr \<Rightarrow> s32 driver" where
  "i2c_mpu6050_pm_suspend E device_in =
     (if device_in = Null then State_Monad.return (- EINVAL)
      else do {
        p \<leftarrow> gets drvdata;
        if IS_ERR p then State_Monad.return (PTR_ERR p)
        else do { i2c_mpu6050_device_reset E p 0 1; State_Monad.return 0 } })"

definition i2c_mpu6050_pm_resume :: "env \<Rightarrow> ptr \<Rightarrow> s32 driver" where
  "i2c_mpu6050_pm_resume E device_in =
     (if device_in = Null then State_Monad.return (- EINVAL)
      else do {
        p \<leftarrow> gets drvdata;
        if IS_ERR p then State_Monad.return (PTR_ERR p)
        else i2c_mpu6050_device_init E p })"

datatype pm_callback =
    Pm_prepare | Pm_complete | Pm_suspend | Pm_suspend_late | Pm_resume | Pm_resume_early
  | Pm_freeze | Pm_freeze_late | Pm_thaw | Pm_thaw_early | Pm_poweroff | Pm_poweroff_late
  | Pm_restore | Pm_restore_early | Pm_suspend_noirq | Pm_resume_noirq | Pm_freeze_noirq
  | Pm_thaw_noirq | Pm_poweroff_noirq | Pm_restore_noirq
  | Pm_runtime_suspend | Pm_runtime_resume | Pm_runtime_idle

definition pm_nothing :: "ptr \<Rightarrow> s32 driver" where
  "pm_nothing device_in = State_Monad.return 0"

definition i2c_mpu6050_pm_ops :: "env \<Rightarrow> pm_callback \<Rightarrow> ptr \<Rightarrow> s32 driver" where
  "i2c_mpu6050_pm_ops E cb =
     (case cb of
        Pm_suspend \<Rightarrow> i2c_mpu6050_pm_suspend E
      | Pm_resume \<Rightarrow> i2c_mpu6050_pm_resume E
      | _ \<Rightarrow> pm_nothing)"

section \<open>Properties\<close>

text \<open>C35: Suspend and resume. On the documented device, a suspend followed by a resume leaves the register file exactly as an initialisation of a freshly powered device does: whatever configuration was there before is gone, and both report success.\<close>

theorem suspend_resume_reconfigures:
  assumes E: "mpu6050 f0 E" and h: "halted s = None" and d: "drvdata s = Obj ()" and dev: "dev \<noteq> Null"
  shows "\<exists>es. run_state (do { e1 \<leftarrow> i2c_mpu6050_pm_ops E Pm_suspend dev; e2 \<leftarrow> i2c_mpu6050_pm_ops E Pm_resume dev;
             State_Monad.return (e1, e2) }) s = ((0, 0), s\<lparr>trace := es @ trace s\<rparr>) \<and>
     regs_of f0 (es @ trace s) = configured (params s) power_on_regs"
proof -
  from cold_reset_run [OF E h, of 1] obtain es1
    where r1: "run_state (device_reset_cold E 1) s = ((), s\<lparr>trace := es1 @ trace s\<rparr>)"
      and f1: "regs_of f0 (es1 @ trace s) = power_on_regs" by blast
  let ?s = "s\<lparr>trace := es1 @ trace s\<rparr>"
  have "halted ?s = None" using h by simp
  from drivesD [OF drives_init [OF E, of "Obj ()"] this] obtain es2
    where r2: "run_state (i2c_mpu6050_device_init E (Obj ())) ?s = (0, s\<lparr>trace := es2 @ es1 @ trace s\<rparr>)"
      and f2: "regs_of f0 (es2 @ es1 @ trace s) = configured (params s) power_on_regs" using f1 by auto
  have "run_state (i2c_mpu6050_pm_ops E Pm_suspend dev) s = (0, ?s)"
    using d dev r1 by (simp add: i2c_mpu6050_pm_ops_def i2c_mpu6050_pm_suspend_def i2c_mpu6050_device_reset_def)
  moreover have "run_state (i2c_mpu6050_pm_ops E Pm_resume dev) ?s = (0, s\<lparr>trace := es2 @ es1 @ trace s\<rparr>)"
    using d dev r2 by (simp add: i2c_mpu6050_pm_ops_def i2c_mpu6050_pm_resume_def)
  ultimately show ?thesis using f2 by (intro exI [of _ "es2 @ es1"]) simp
qed

theorem suspend_resume_reconfigures_witness:
  "\<exists>es. run_state (do { e1 \<leftarrow> i2c_mpu6050_pm_ops (device_env power_on_regs) Pm_suspend (Obj ());
           e2 \<leftarrow> i2c_mpu6050_pm_ops (device_env power_on_regs) Pm_resume (Obj ());
           State_Monad.return (e1, e2) }) ((initial_kst default_params)\<lparr>drvdata := Obj ()\<rparr>)
        = ((0, 0), (initial_kst default_params)\<lparr>drvdata := Obj (), trace := es\<rparr>) \<and>
     regs_of power_on_regs es = configured default_params power_on_regs"
  using suspend_resume_reconfigures [of power_on_regs "device_env power_on_regs"
      "(initial_kst default_params)\<lparr>drvdata := Obj ()\<rparr>" "Obj ()"]
  by (simp add: mpu6050_device_env settled_power_on)

end
