(* ===== verification/Driver.thy ===== *)
theory Driver
  imports Netlink Server Sysfs Irq Pm
begin

text \<open>
  The driver as a whole (olimex_mod_mpu6050_main.c): binding and unbinding a device, shutdown,
  detection, and loading and unloading the module.
\<close>

section \<open>Probe\<close>

text \<open>
  The labels of the error path of \<open>i2c_mpu6050_probe\<close>, the last one first.  \<open>fuel\<close> bounds the
  wait for a server thread to stop, \<open>meanwhile\<close> is what the other threads do while it waits.
\<close>

definition probe_error2 :: "env \<Rightarrow> s32 \<Rightarrow> s32 driver" where
  "probe_error2 E err = do {
     exec E (Sys Mutex_destroy);
     exec E (Sys (Kfree Client_data));
     State_Monad.return err }"

definition probe_error5 :: "env \<Rightarrow> s32 \<Rightarrow> s32 driver" where
  "probe_error5 E err = do {
     h \<leftarrow> get_cd gpio_led_handle;
     exec E (Gpio (Gpio_release h));
     probe_error2 E err }"

definition probe_error6 :: "env \<Rightarrow> s32 \<Rightarrow> s32 driver" where
  "probe_error6 E err = do { i2c_mpu6050_sysfs_fini E (Obj ()); probe_error5 E err }"

definition probe_error7 :: "env \<Rightarrow> s32 \<Rightarrow> s32 driver" where
  "probe_error7 E err = do { i2c_mpu6050_device_fini E (Obj ()); probe_error6 E err }"

definition probe_error8 :: "env \<Rightarrow> s32 \<Rightarrow> s32 driver" where
  "probe_error8 E err = do { i2c_mpu6050_wq_fini E (Obj ()); probe_error7 E err }"

definition read_source_init :: "env \<Rightarrow> s32 driver" where
  "read_source_init E = do {
     ni \<leftarrow> get_param noirq;
     if ni \<noteq> 0 then i2c_mpu6050_timer_init E (Obj ()) else i2c_mpu6050_irq_init E (Obj ()) }"

definition read_source_fini :: "env \<Rightarrow> unit driver" where
  "read_source_fini E = do {
     ni \<leftarrow> get_param noirq;
     if ni \<noteq> 0 then i2c_mpu6050_timer_fini E (Obj ()) else i2c_mpu6050_irq_fini E (Obj ()) }"

definition probe_error9 :: "env \<Rightarrow> s32 \<Rightarrow> s32 driver" where
  "probe_error9 E err = do { read_source_fini E; probe_error8 E err }"

definition probe_error10 :: "nat \<Rightarrow> unit driver \<Rightarrow> env \<Rightarrow> s32 \<Rightarrow> s32 driver" where
  "probe_error10 fuel meanwhile E err = do {
     nn \<leftarrow> get_param nonetlink;
     whenM (nn = 0) (i2c_mpu6050_netlink_fini fuel E meanwhile (Obj ()));
     probe_error9 E err }"

text \<open>The servers, once the device and its read source are set up.\<close>

definition probe_server :: "nat \<Rightarrow> unit driver \<Rightarrow> env \<Rightarrow> s32 driver" where
  "probe_server fuel meanwhile E = do {
     ns \<leftarrow> get_param noserver;
     err \<leftarrow> (if ns = 0 then i2c_mpu6050_server_init E (Obj ()) else State_Monad.return 0);
     if err \<noteq> 0 then probe_error10 fuel meanwhile E err else State_Monad.return 0 }"

definition probe_netlink :: "nat \<Rightarrow> unit driver \<Rightarrow> env \<Rightarrow> s32 driver" where
  "probe_netlink fuel meanwhile E = do {
     nn \<leftarrow> get_param nonetlink;
     err \<leftarrow> (if nn = 0 then i2c_mpu6050_netlink_init E (Obj ()) else State_Monad.return 0);
     if err \<noteq> 0 then probe_error9 E err else probe_server fuel meanwhile E }"

definition probe_device :: "nat \<Rightarrow> unit driver \<Rightarrow> env \<Rightarrow> s32 driver" where
  "probe_device fuel meanwhile E = do {
     err \<leftarrow> i2c_mpu6050_sysfs_init E (Obj ());
     if err \<noteq> 0 then probe_error5 E err
     else do {
       err \<leftarrow> i2c_mpu6050_device_ping E (Obj ());
       if err \<noteq> 0 then probe_error6 E err
       else do {
         err \<leftarrow> i2c_mpu6050_device_init E (Obj ());
         if err \<noteq> 0 then probe_error6 E err
         else do {
           err \<leftarrow> i2c_mpu6050_wq_init E (Obj ());
           if err \<noteq> 0 then probe_error7 E err
           else do {
             err \<leftarrow> read_source_init E;
             if err \<noteq> 0 then probe_error8 E err
             else probe_netlink fuel meanwhile E } } } } }"

definition probe_led :: "nat \<Rightarrow> unit driver \<Rightarrow> env \<Rightarrow> s32 driver" where
  "probe_led fuel meanwhile E = do {
     err \<leftarrow> call E (Gpio (Script_parser_fetch Led_pin));
     if err \<noteq> 0 then probe_error2 E err
     else do {
       r \<leftarrow> ask E (Gpio (Gpio_request_ex Led_pin));
       upd_cd (\<lambda>c. c\<lparr>gpio_led_handle := ret r\<rparr>);
       if ret r = 0 then probe_error2 E (- ENOSYS)
       else do {
         write_led E False;
         probe_device fuel meanwhile E } } }"

definition i2c_mpu6050_probe :: "nat \<Rightarrow> unit driver \<Rightarrow> env \<Rightarrow> ptr \<Rightarrow> s32 driver" where
  "i2c_mpu6050_probe fuel meanwhile E client_in =
     (if client_in = Null then State_Monad.return (- EINVAL)
      else do {
        ok \<leftarrow> call E (I2C Check_functionality);
        if ok = 0 then State_Monad.return (- EIO)
        else do {
          valid \<leftarrow> call E (Gpio (Gpio_is_valid Led_pin));
          if valid = 0 then State_Monad.return (- ENOSYS)
          else do {
            p \<leftarrow> call_ptr E (Sys (Kzalloc Client_data));
            case p of
              Err e \<Rightarrow> State_Monad.return (- ENOMEM)
            | Null \<Rightarrow> do { fault Null_dereference; State_Monad.return 0 }
            | Obj _ \<Rightarrow> do {
                upd_cd (\<lambda>c. blank_client_data\<lparr>client_irq := client_irq c, ringbufferpos := - 1\<rparr>);
                exec E (Sys Mutex_init);
                exec E (I2C Set_clientdata);
                upd (\<lambda>s. s\<lparr>drvdata := Obj ()\<rparr>);
                probe_led fuel meanwhile E } } } })"

section \<open>Remove, shutdown, and the other callbacks\<close>

definition i2c_mpu6050_remove :: "nat \<Rightarrow> unit driver \<Rightarrow> env \<Rightarrow> ptr \<Rightarrow> s32 driver" where
  "i2c_mpu6050_remove fuel meanwhile E client_in =
     (if client_in = Null then State_Monad.return (- EINVAL)
      else do {
        p \<leftarrow> gets drvdata;
        if IS_ERR p then State_Monad.return (PTR_ERR p)
        else do {
          ns \<leftarrow> get_param noserver;
          whenM (ns = 0) (i2c_mpu6050_server_fini fuel E meanwhile p);
          nn \<leftarrow> get_param nonetlink;
          whenM (nn = 0) (i2c_mpu6050_netlink_fini fuel E meanwhile p);
          ni \<leftarrow> get_param noirq;
          (if ni \<noteq> 0 then i2c_mpu6050_timer_fini E p else i2c_mpu6050_irq_fini E p);
          i2c_mpu6050_wq_fini E p;
          i2c_mpu6050_device_fini E p;
          i2c_mpu6050_sysfs_fini E p;
          whenM (p = Null) (fault Null_dereference);
          h \<leftarrow> get_cd gpio_led_handle;
          exec E (Gpio (Gpio_release h));
          exec E (Sys Mutex_destroy);
          exec E (Sys (Kfree Client_data));
          State_Monad.return 0 } })"

definition i2c_mpu6050_shutdown :: "env \<Rightarrow> ptr \<Rightarrow> unit driver" where
  "i2c_mpu6050_shutdown E client_in =
     (if client_in = Null then State_Monad.return ()
      else do {
        p \<leftarrow> gets drvdata;
        if IS_ERR p then State_Monad.return () else i2c_mpu6050_device_reset E p 0 0 })"

definition i2c_mpu6050_alert :: "ptr \<Rightarrow> u32 \<Rightarrow> unit driver" where
  "i2c_mpu6050_alert client_in data_in = State_Monad.return ()"

definition i2c_mpu6050_command :: "ptr \<Rightarrow> u32 \<Rightarrow> ptr \<Rightarrow> s32 driver" where
  "i2c_mpu6050_command client_in command_in data_in = State_Monad.return 0"

text \<open>
  The result with the type name written to the board info.
\<close>

definition i2c_mpu6050_detect :: "env \<Rightarrow> ptr \<Rightarrow> u16 option \<Rightarrow> (s32 \<times> string option) driver" where
  "i2c_mpu6050_detect E client_in info_in =
     (case info_in of
        None \<Rightarrow> State_Monad.return (- EINVAL, None)
      | Some addr \<Rightarrow>
          if client_in = Null then State_Monad.return (- EINVAL, None)
          else do {
            err \<leftarrow> call E (I2C (Xfer_read_byte addr));
            State_Monad.return (if err \<noteq> 0 then (- ENODEV, None) else (0, Some ''olimex_mod_mpu6050'')) })"

section \<open>The module\<close>

definition default_peer :: string where
  "default_peer = ''127.0.0.1''"

definition i2c_mpu6050_init :: "env \<Rightarrow> s32 driver" where
  "i2c_mpu6050_init E = do {
     ns \<leftarrow> get_param noserver;
     pr \<leftarrow> get_param peer;
     whenM (ns = 0 \<and> pr = []) (upd (\<lambda>s. s\<lparr>params := (params s)\<lparr>peer := default_peer\<rparr>\<rparr>));
     err \<leftarrow> call E (I2C Add_driver);
     State_Monad.return (if err \<noteq> 0 then - ENOSYS else 0) }"

definition i2c_mpu6050_exit :: "env \<Rightarrow> unit driver" where
  "i2c_mpu6050_exit E = exec E (I2C Del_driver)"

end
