(* ===== verification/Driver_Spec.thy ===== *)
theory Driver_Spec
  imports Driver
begin

text \<open>
  What the driver acquires and gives back (olimex_mod_mpu6050_main.c over all components): the
  error path of the probe, label by label, the way up, and the removal.  The components enter
  through the contracts of \<open>lifecycle\<close>.
\<close>

section \<open>The device operations hold nothing\<close>

lemma neutral_read: "keeps (talks neutral) (read_reg E r)" and neutral_write: "keeps (talks neutral) (write_reg E r v)"
  unfolding read_reg_def write_reg_def by (intro talks_intros neutral_calls)+

lemma neutral_and_then: "keeps (talks neutral) m1 \<Longrightarrow> keeps (talks neutral) m2 \<Longrightarrow> keeps (talks neutral) (and_then m1 m2)"
  unfolding and_then_def by (intro talks_intros)

lemmas neutral_constructs [neutral_rules] = talks_intros neutral_calls neutral_read neutral_write neutral_and_then

lemma neutral_ping [neutral_rules]: "keeps (talks neutral) (i2c_mpu6050_device_ping E c)"
  unfolding i2c_mpu6050_device_ping_def by (intro neutral_rules)

lemma neutral_init [neutral_rules]: "keeps (talks neutral) (i2c_mpu6050_device_init E c)"
  unfolding i2c_mpu6050_device_init_def init_step_defs by (intro neutral_rules)

lemma neutral_reset [neutral_rules]: "keeps (talks neutral) (i2c_mpu6050_device_reset E c a b)"
  unfolding i2c_mpu6050_device_reset_def device_reset_cold_def device_reset_warm_def device_reset_fifo_def
  by (intro neutral_rules)

lemma neutral_fini [neutral_rules]: "keeps (talks neutral) (i2c_mpu6050_device_fini E c)"
  unfolding i2c_mpu6050_device_fini_def by (intro neutral_rules)

lemma neutral_led [neutral_rules]: "keeps (talks neutral) (write_led E b)"
  unfolding write_led_def by (intro neutral_rules)

text \<open>A neutral function run in a state: everything but the trace is as it was.\<close>

lemma neutral_run:
  assumes "keeps (talks neutral) m" "run_state m s = (a, s')"
  shows "cd s' = cd s" "params s' = params s" "drvdata s' = drvdata s" "halted s' = halted s"
    "held (trace s') = held (trace s)"
  using talks_fields [OF keepsD [OF assms]] held_talks [OF keepsD [OF assms]] by simp_all

section \<open>The environment\<close>

definition driver_env :: "env \<Rightarrow> bool" where
  "driver_env E \<longleftrightarrow> object_or_error E (Sys (Kzalloc Client_data)) \<and> workqueue_env E \<and> timer_env E \<and> irq_env E \<and> netlink_env E \<and> server_env E"


section \<open>The read source\<close>

text \<open>
  What the source of read requests holds, by the module parameter that chooses it, and what is
  left of it when it has been torn down.
\<close>

definition source_owns :: "module_params \<Rightarrow> client_data \<Rightarrow> resource multiset" where
  "source_owns p c = (if noirq p \<noteq> 0 then {#Timer#} else irq_owns c)"

definition source_leak :: "module_params \<Rightarrow> client_data \<Rightarrow> resource multiset" where
  "source_leak p c = (if noirq p \<noteq> 0 then {#} else {#Irq_line (client_irq c) Dev_client#})"

lemma source_cong:
  assumes "pins_of c' = pins_of c"
  shows "source_owns p c' = source_owns p c" "source_leak p c' = source_leak p c"
  using assms by (simp_all add: source_owns_def source_leak_def irq_owns_def)

lemma read_source_up:
  fixes s :: kst
  assumes E: "driver_env E" and h: "halted s = None" and r: "run_state (read_source_init E) s = (e, s')"
  shows "same_context irq_rest s s' \<and> held (trace s') = held (trace s) + (if e = 0 then source_owns (params s) (cd s') else {#})"
proof (cases "noirq (params s) = 0")
  case True
  moreover have "irq_env E" using E by (simp add: driver_env_def)
  ultimately show ?thesis using irq_init_outcome [OF _ h] r by (simp add: read_source_init_def source_owns_def)
next
  case False
  have T: "timer_env E" using E by (simp add: driver_env_def)
  have t: "run_state (i2c_mpu6050_timer_init E (Obj ())) s = (e, s')" using r False by (simp add: read_source_init_def)
  show ?thesis
    using timer.init_succeeds [OF T h TrueI refl, of s'] timer.init_fails [OF T h TrueI refl t] t False
    by (cases "e = 0") (simp_all add: source_owns_def same_context_def irq_rest_def)
qed

lemma read_source_down:
  fixes s :: kst
  assumes E: "driver_env E" and h: "halted s = None" and B: "held (trace s) = B + source_owns (params s) (cd s)" "no_null_line B"
    and r: "run_state (read_source_fini E) s = (u, s')"
  shows "same_context (\<lambda>c. c) s s' \<and> held (trace s') = B + source_leak (params s) (cd s)"
proof (cases "noirq (params s) = 0")
  case True
  then show ?thesis using irq_fini_outcome [OF h _ B(2)] B(1) r by (simp add: read_source_fini_def source_owns_def source_leak_def)
next
  case False
  have T: "timer_env E" using E by (simp add: driver_env_def)
  show ?thesis using timer.fini_releases [OF T h TrueI, of B] B(1) r False
    by (simp add: read_source_fini_def source_owns_def source_leak_def)
qed

section \<open>The error path\<close>

text \<open>A run ended with \<open>e\<close>, not halted, holding \<open>B\<close>.\<close>

definition ends :: "resource multiset \<Rightarrow> s32 \<Rightarrow> s32 \<times> kst \<Rightarrow> bool" where
  "ends B e r \<longleftrightarrow> fst r = e \<and> halted (snd r) = None \<and> held (trace (snd r)) = B"

definition led_owns :: "kst \<Rightarrow> resource multiset" where
  "led_owns s = {#Heap Client_data, Mutex, Gpio_handle (gpio_led_handle (cd s))#}"

lemma led_owns_cong: "gpio_led_handle (cd s') = gpio_led_handle (cd s) \<Longrightarrow> led_owns s' = led_owns s"
  by (simp add: led_owns_def)

lemma error2_ends:
  "halted s = None \<Longrightarrow> held (trace s) = B + {#Heap Client_data, Mutex#} \<Longrightarrow> ends B err (run_state (probe_error2 E err) s)"
  by (simp add: probe_error2_def ends_def)

lemma error5_ends:
  assumes "halted s = None" "held (trace s) = B + led_owns s"
  shows "ends B err (run_state (probe_error5 E err) s)"
proof -
  let ?g = "Gpio (Gpio_release (gpio_led_handle (cd s)))"
  let ?s = "s\<lparr>trace := (?g, answer E (trace s) ?g) # trace s\<rparr>"
  have "ends B err (run_state (probe_error2 E err) ?s)"
    using assms by (intro error2_ends) (simp_all add: led_owns_def)
  then show ?thesis using assms(1) by (simp add: probe_error5_def)
qed

lemma error6_ends:
  assumes "halted s = None" "held (trace s) = B + led_owns s + {#Sysfs_file#}"
  shows "ends B err (run_state (probe_error6 E err) s)"
proof -
  obtain u s1 where r: "run_state (i2c_mpu6050_sysfs_fini E (Obj ())) s = (u, s1)" by (cases "run_state (i2c_mpu6050_sysfs_fini E (Obj ())) s")
  note f = sysfs.fini_releases [OF TrueI assms(1) TrueI assms(2) r]
  have "ends B err (run_state (probe_error5 E err) s1)"
    using f led_owns_cong [of s1 s] by (intro error5_ends) (auto simp: same_context_def)
  then show ?thesis using r by (simp add: probe_error6_def)
qed

lemma error7_ends:
  assumes "halted s = None" "held (trace s) = B + led_owns s + {#Sysfs_file#}"
  shows "ends B err (run_state (probe_error7 E err) s)"
proof -
  obtain u s1 where r: "run_state (i2c_mpu6050_device_fini E (Obj ())) s = (u, s1)" by (cases "run_state (i2c_mpu6050_device_fini E (Obj ())) s")
  note f = neutral_run [OF neutral_fini r]
  have "ends B err (run_state (probe_error6 E err) s1)"
    using f assms led_owns_cong [of s1 s] by (intro error6_ends) auto
  then show ?thesis using r by (simp add: probe_error7_def)
qed

lemma error8_ends:
  assumes E: "driver_env E" and s: "halted s = None" "held (trace s) = B + led_owns s + {#Sysfs_file#} + {#Workqueue#}"
  shows "ends B err (run_state (probe_error8 E err) s)"
proof -
  obtain u s1 where r: "run_state (i2c_mpu6050_wq_fini E (Obj ())) s = (u, s1)" by (cases "run_state (i2c_mpu6050_wq_fini E (Obj ())) s")
  have "workqueue_env E" using E by (simp add: driver_env_def)
  note f = wq.fini_releases [OF this s(1) TrueI s(2) r]
  have "ends B err (run_state (probe_error7 E err) s1)"
    using f led_owns_cong [of s1 s] by (intro error7_ends) (auto simp: same_context_def)
  then show ?thesis using r by (simp add: probe_error8_def)
qed

lemma error9_ends:
  assumes E: "driver_env E" and B: "no_null_line B"
    and s: "halted s = None" "held (trace s) = B + led_owns s + {#Sysfs_file#} + {#Workqueue#} + source_owns (params s) (cd s)"
  shows "ends (B + source_leak (params s) (cd s)) err (run_state (probe_error9 E err) s)"
proof -
  obtain u s1 where r: "run_state (read_source_fini E) s = (u, s1)" by (cases "run_state (read_source_fini E) s")
  have "no_null_line (B + led_owns s + {#Sysfs_file#} + {#Workqueue#})" using B by (simp add: led_owns_def)
  note f = read_source_down [OF E s(1,2) this r]
  have "ends (B + source_leak (params s) (cd s)) err (run_state (probe_error8 E err) s1)"
    using f led_owns_cong [of s1 s] by (intro error8_ends [OF E]) (auto simp: same_context_def ac_simps)
  then show ?thesis using r by (simp add: probe_error9_def)
qed

definition netlink_part :: "module_params \<Rightarrow> resource multiset" where
  "netlink_part p = (if nonetlink p = 0 then netlink_owns else {#})"

definition server_part :: "module_params \<Rightarrow> resource multiset" where
  "server_part p = (if noserver p = 0 then {#Heap Udp_server, Running Udp_thread#} else {#})"

lemma error10_ends:
  assumes E: "driver_env E" and B: "no_null_line B" and n: "nonetlink (params s) = 0 \<Longrightarrow> netlink_serving (cd s)"
    and s: "halted s = None"
      "held (trace s) = B + led_owns s + {#Sysfs_file#} + {#Workqueue#} + source_owns (params s) (cd s) + netlink_part (params s)"
  shows "ends (B + source_leak (params s) (cd s)) err (run_state (probe_error10 (Suc fuel) meanwhile E err) s)"
proof (cases "nonetlink (params s) = 0")
  case True
  obtain u s1 where r: "run_state (i2c_mpu6050_netlink_fini (Suc fuel) E meanwhile (Obj ())) s = (u, s1)"
    by (cases "run_state (i2c_mpu6050_netlink_fini (Suc fuel) E meanwhile (Obj ())) s")
  have "netlink_env E" using E by (simp add: driver_env_def)
  note f = netlink.fini_releases [OF this s(1) n [OF True] s(2) [unfolded netlink_part_def if_P [OF True]] r]
  have c: "pins_of (cd s1) = pins_of (cd s)" "params s1 = params s" using f(1) by (simp_all add: same_context_def)
  have "ends (B + source_leak (params s1) (cd s1)) err (run_state (probe_error9 E err) s1)"
    using f led_owns_cong [of s1 s] source_cong [OF c(1)]
    by (intro error9_ends [OF E B]) (auto simp: same_context_def)
  then show ?thesis using r True c source_cong [OF c(1)] by (simp add: probe_error10_def whenM_def)
next
  case False
  then show ?thesis using error9_ends [OF E B s(1)] s(2)
    by (simp add: probe_error10_def whenM_def netlink_part_def)
qed


section \<open>The way up\<close>

definition device_part :: "module_params \<Rightarrow> client_data \<Rightarrow> resource multiset" where
  "device_part p c = {#Sysfs_file#} + {#Workqueue#} + source_owns p c"

text \<open>
  What is held after a failure: what was held before, and in interrupt mode, if the failure came
  after the interrupt had been set up, its line.
\<close>

definition maybe_line :: "module_params \<Rightarrow> resource multiset \<Rightarrow> resource multiset \<Rightarrow> bool" where
  "maybe_line p B H \<longleftrightarrow> H = B \<or> noirq p = 0 \<and> (\<exists>i. H = B + {#Irq_line i Dev_client#})"

definition outcome :: "resource multiset \<Rightarrow> module_params \<Rightarrow> s32 \<times> kst \<Rightarrow> bool" where
  "outcome B p r \<longleftrightarrow> halted (snd r) = None \<and>
     (if fst r = 0
      then drvdata (snd r) = Obj () \<and> params (snd r) = p \<and>
           (nonetlink p = 0 \<longrightarrow> netlink_serving (cd (snd r))) \<and> (noserver p = 0 \<longrightarrow> server_serving (cd (snd r))) \<and>
           held (trace (snd r)) = B + led_owns (snd r) + device_part p (cd (snd r)) + netlink_part p + server_part p
      else maybe_line p B (held (trace (snd r))))"

lemma ends_outcome: "ends B e r \<Longrightarrow> e \<noteq> 0 \<Longrightarrow> outcome B p r"
  by (simp add: ends_def outcome_def maybe_line_def)

lemma ends_outcome_leak: "ends (B + source_leak p c) e r \<Longrightarrow> e \<noteq> 0 \<Longrightarrow> outcome B p r"
  by (auto simp: ends_def outcome_def maybe_line_def source_leak_def split: if_splits)

lemma netlink_serving_cong: "netlink_server c' = netlink_server c \<Longrightarrow> netlink_serving c' = netlink_serving c"
  by (simp add: netlink_serving_def)

lemma probe_server_outcome:
  assumes E: "driver_env E" and p: "params s = p" and B: "no_null_line B" and n: "nonetlink p = 0 \<Longrightarrow> netlink_serving (cd s)"
    and s: "halted s = None" "drvdata s = Obj ()" "server (cd s) = Null"
      "held (trace s) = B + led_owns s + device_part p (cd s) + netlink_part p"
  shows "outcome B p (run_state (probe_server (Suc fuel) meanwhile E) s)"
proof (cases "noserver p = 0")
  case False
  then show ?thesis using p n s by (simp add: probe_server_def outcome_def server_part_def)
next
  case True
  obtain e s1 where r: "run_state (i2c_mpu6050_server_init E (Obj ())) s = (e, s1)"
    by (cases "run_state (i2c_mpu6050_server_init E (Obj ())) s")
  have V: "server_env E" using E by (simp add: driver_env_def)
  show ?thesis
  proof (cases "e = 0")
    case e0: True
    note f = udp.init_succeeds [OF V s(1,3,4) r [unfolded e0]]
    show ?thesis
      using f r e0 True p n s(2) led_owns_cong [of s1 s] source_cong [of "cd s1" "cd s"] netlink_serving_cong [of "cd s1" "cd s"]
      by (simp add: probe_server_def outcome_def server_part_def same_context_def device_part_def)
  next
    case False
    note f = udp.init_fails [OF V s(1,3,4) r False]
    have "ends (B + source_leak (params s1) (cd s1)) e (run_state (probe_error10 (Suc fuel) meanwhile E e) s1)"
      using f p n led_owns_cong [of s1 s] source_cong [of "cd s1" "cd s"] netlink_serving_cong [of "cd s1" "cd s"]
      by (intro error10_ends [OF E B]) (auto simp: same_context_def device_part_def ac_simps)
    moreover have "params s1 = p" using f p by (simp add: same_context_def)
    ultimately show ?thesis using ends_outcome_leak [OF _ False] r True False p by (simp add: probe_server_def)
  qed
qed

lemma probe_netlink_outcome:
  assumes E: "driver_env E" and p: "params s = p" and B: "no_null_line B"
    and s: "halted s = None" "drvdata s = Obj ()" "netlink_server (cd s) = Null" "server (cd s) = Null"
      "held (trace s) = B + led_owns s + device_part p (cd s)"
  shows "outcome B p (run_state (probe_netlink (Suc fuel) meanwhile E) s)"
proof (cases "nonetlink p = 0")
  case False
  then have "outcome B p (run_state (probe_server (Suc fuel) meanwhile E) s)"
    using p s B by (intro probe_server_outcome [OF E]) (auto simp: netlink_part_def)
  then show ?thesis using False p by (simp add: probe_netlink_def)
next
  case True
  obtain e s1 where r: "run_state (i2c_mpu6050_netlink_init E (Obj ())) s = (e, s1)"
    by (cases "run_state (i2c_mpu6050_netlink_init E (Obj ())) s")
  have N: "netlink_env E" using E by (simp add: driver_env_def)
  show ?thesis
  proof (cases "e = 0")
    case e0: True
    note f = netlink.init_succeeds [OF N s(1,3,5) r [unfolded e0]]
    have "outcome B p (run_state (probe_server (Suc fuel) meanwhile E) s1)"
      using f p s True B led_owns_cong [of s1 s] source_cong [of "cd s1" "cd s"]
      by (intro probe_server_outcome [OF E]) (auto simp: same_context_def netlink_part_def device_part_def)
    then show ?thesis using r e0 True p by (simp add: probe_netlink_def)
  next
    case False
    note f = netlink.init_fails [OF N s(1,3,5) r False]
    have "ends (B + source_leak (params s1) (cd s1)) e (run_state (probe_error9 E e) s1)"
      using f p led_owns_cong [of s1 s] source_cong [of "cd s1" "cd s"]
      by (intro error9_ends [OF E B]) (auto simp: same_context_def device_part_def ac_simps)
    moreover have "params s1 = p" using f p by (simp add: same_context_def)
    ultimately show ?thesis using ends_outcome_leak [OF _ False] r True False p by (simp add: probe_netlink_def)
  qed
qed

definition fresh_client :: "client_data \<Rightarrow> bool" where
  "fresh_client c \<longleftrightarrow> workqueue c = Null \<and> netlink_server c = Null \<and> server c = Null"

text \<open>From the work queue on.\<close>

lemma probe_queue_outcome:
  assumes E: "driver_env E" and p: "params s = p" and B: "no_null_line B"
    and s: "halted s = None" "drvdata s = Obj ()" "fresh_client (cd s)"
      "held (trace s) = B + led_owns s + {#Sysfs_file#}"
  shows "outcome B p (run_state (do { err \<leftarrow> i2c_mpu6050_wq_init E (Obj ());
           if err \<noteq> 0 then probe_error7 E err
           else do {
             err \<leftarrow> read_source_init E;
             if err \<noteq> 0 then probe_error8 E err
             else probe_netlink (Suc fuel) meanwhile E } }) s)"
proof -
  obtain e s1 where r: "run_state (i2c_mpu6050_wq_init E (Obj ())) s = (e, s1)"
    by (cases "run_state (i2c_mpu6050_wq_init E (Obj ())) s")
  have W: "workqueue_env E" using E by (simp add: driver_env_def)
  have wn: "workqueue (cd s) = Null" using s(3) by (simp add: fresh_client_def)
  show ?thesis
  proof (cases "e = 0")
    case False
    note f = wq.init_fails [OF W s(1) wn s(4) r False]
    have "ends B e (run_state (probe_error7 E e) s1)"
      using f led_owns_cong [of s1 s] by (intro error7_ends) (auto simp: same_context_def)
    then show ?thesis using ends_outcome [OF _ False] r False by simp
  next
    case True
    note f = wq.init_succeeds [OF W s(1) wn s(4) r [unfolded True]]
    obtain e2 s2 where r2: "run_state (read_source_init E) s1 = (e2, s2)"
      by (cases "run_state (read_source_init E) s1")
    have h1: "halted s1 = None" and p1: "params s1 = p" using f(1) p by (simp_all add: same_context_def)
    have l1: "led_owns s1 = led_owns s" using f(1) by (intro led_owns_cong) (simp add: same_context_def)
    note g = read_source_up [OF E h1 r2]
    have l2: "led_owns s2 = led_owns s" using g l1 led_owns_cong [of s2 s1] by (simp add: same_context_def irq_rest_def)
    show ?thesis
    proof (cases "e2 = 0")
      case e2: True
      have "outcome B p (run_state (probe_netlink (Suc fuel) meanwhile E) s2)"
        using f g p p1 s(2,3) l2 e2 B
        by (intro probe_netlink_outcome [OF E]) (auto simp: same_context_def irq_rest_def fresh_client_def device_part_def ac_simps)
      then show ?thesis using r r2 True e2 by simp
    next
      case False
      have "ends B e2 (run_state (probe_error8 E e2) s2)"
        using f g l2 False by (intro error8_ends [OF E]) (auto simp: same_context_def)
      then show ?thesis using ends_outcome [OF _ False] r r2 True False by simp
    qed
  qed
qed

lemma probe_device_outcome:
  assumes E: "driver_env E" and p: "params s = p" and B: "no_null_line B"
    and s: "halted s = None" "drvdata s = Obj ()" "fresh_client (cd s)" "held (trace s) = B + led_owns s"
  shows "outcome B p (run_state (probe_device (Suc fuel) meanwhile E) s)"
proof -
  obtain e s1 where r1: "run_state (i2c_mpu6050_sysfs_init E (Obj ())) s = (e, s1)"
    by (cases "run_state (i2c_mpu6050_sysfs_init E (Obj ())) s")
  obtain e2 s2 where r2: "run_state (i2c_mpu6050_device_ping E (Obj ())) s1 = (e2, s2)"
    by (cases "run_state (i2c_mpu6050_device_ping E (Obj ())) s1")
  obtain e3 s3 where r3: "run_state (i2c_mpu6050_device_init E (Obj ())) s2 = (e3, s3)"
    by (cases "run_state (i2c_mpu6050_device_init E (Obj ())) s2")
  note q2 = neutral_run [OF neutral_ping r2] and q3 = neutral_run [OF neutral_init r3]
  show ?thesis
  proof (cases "e = 0")
    case False
    note f = sysfs.init_fails [OF TrueI s(1) TrueI s(4) r1 False]
    have "ends B e (run_state (probe_error5 E e) s1)"
      using f led_owns_cong [of s1 s] by (intro error5_ends) (auto simp: same_context_def)
    then show ?thesis using ends_outcome [OF _ False] r1 False by (simp add: probe_device_def)
  next
    case True
    note f = sysfs.init_succeeds [OF TrueI s(1) TrueI s(4) r1 [unfolded True]]
    have c: "cd s1 = cd s" "halted s1 = None" "drvdata s1 = Obj ()" "params s1 = p"
      using f(1) s p by (simp_all add: same_context_def)
    have l: "led_owns s3 = led_owns s" "led_owns s2 = led_owns s" using c q2 q3 by (auto intro: led_owns_cong)
    have er: "ends B err (run_state (probe_error6 E err) s2)" "ends B err (run_state (probe_error6 E err) s3)" for err
      using c q2 q3 f l by (auto intro!: error6_ends)
    have up: "outcome B p (run_state (do { err \<leftarrow> i2c_mpu6050_wq_init E (Obj ());
           if err \<noteq> 0 then probe_error7 E err
           else do {
             err \<leftarrow> read_source_init E;
             if err \<noteq> 0 then probe_error8 E err
             else probe_netlink (Suc fuel) meanwhile E } }) s3)"
      using c q2 q3 f l p s B by (intro probe_queue_outcome [OF E]) auto
    show ?thesis
      using ends_outcome [OF er(1)] ends_outcome [OF er(2)] up r1 r2 r3 True
      by (simp add: probe_device_def)
  qed
qed


lemma probe_led_outcome:
  assumes E: "driver_env E" and p: "params s = p" and B: "no_null_line B"
    and s: "halted s = None" "drvdata s = Obj ()" "fresh_client (cd s)" "held (trace s) = B + {#Heap Client_data, Mutex#}"
  shows "outcome B p (run_state (probe_led (Suc fuel) meanwhile E) s)"
proof -
  let ?f = "Gpio (Script_parser_fetch Led_pin)"
  let ?s1 = "s\<lparr>trace := (?f, answer E (trace s) ?f) # trace s\<rparr>"
  let ?g = "Gpio (Gpio_request_ex Led_pin)"
  let ?r = "answer E (trace ?s1) ?g"
  let ?s2 = "s\<lparr>trace := (?g, ?r) # trace ?s1, cd := (cd s)\<lparr>gpio_led_handle := ret ?r\<rparr>\<rparr>"
  have e1: "ends B err (run_state (probe_error2 E err) ?s1)" for err
    using s by (intro error2_ends) simp_all
  have e2: "ret ?r = 0 \<Longrightarrow> ends B err (run_state (probe_error2 E err) ?s2)" for err
    using s by (intro error2_ends) simp_all
  show ?thesis
  proof (cases "ret (answer E (trace s) ?f) = 0 \<and> ret ?r \<noteq> 0")
    case True
    obtain u s3 where r3: "run_state (write_led E False) ?s2 = (u, s3)" by (cases "run_state (write_led E False) ?s2")
    note q = neutral_run [OF neutral_led r3]
    have "outcome B p (run_state (probe_device (Suc fuel) meanwhile E) s3)"
      using s p q True B by (intro probe_device_outcome [OF E]) (simp_all add: fresh_client_def led_owns_def)
    then show ?thesis using s True r3 by (simp add: probe_led_def)
  next
    case False
    then show ?thesis using s ends_outcome [OF e1] ends_outcome [OF e2, of "- ENOSYS"]
      by (auto simp: probe_led_def)
  qed
qed

lemma probe_outcome:
  assumes E: "driver_env E" and B: "no_null_line (held (trace s))" and h: "halted s = None"
  shows "outcome (held (trace s)) (params s) (run_state (i2c_mpu6050_probe (Suc fuel) meanwhile E client) s)"
proof -
  let ?cf = "(I2C Check_functionality, answer E (trace s) (I2C Check_functionality))"
  let ?gv = "(Gpio (Gpio_is_valid Led_pin), answer E (?cf # trace s) (Gpio (Gpio_is_valid Led_pin)))"
  let ?kz = "(Sys (Kzalloc Client_data), answer E (?gv # ?cf # trace s) (Sys (Kzalloc Client_data)))"
  let ?tr = "?kz # ?gv # ?cf # trace s"
  let ?mi = "(Sys Mutex_init, answer E ?tr (Sys Mutex_init))"
  let ?sc = "(I2C Set_clientdata, answer E (?mi # ?tr) (I2C Set_clientdata))"
  let ?c = "blank_client_data\<lparr>client_irq := client_irq (cd s), ringbufferpos := - 1\<rparr>"
  let ?s = "s\<lparr>trace := ?sc # ?mi # ?tr, cd := ?c, drvdata := Obj ()\<rparr>"
  have n: "neutral (Gpio (Gpio_is_valid Led_pin))" by (simp add: neutral_def)
  have kz: "object_or_error E (Sys (Kzalloc Client_data))" using E by (simp add: driver_env_def)
  consider "client = Null" | "client \<noteq> Null" "ret (snd ?cf) = 0" | "client \<noteq> Null" "ret (snd ?cf) \<noteq> 0" "ret (snd ?gv) = 0"
    | e where "client \<noteq> Null" "ret (snd ?cf) \<noteq> 0" "ret (snd ?gv) \<noteq> 0" "pt (snd ?kz) = Err e"
    | "client \<noteq> Null" "ret (snd ?cf) \<noteq> 0" "ret (snd ?gv) \<noteq> 0" "pt (snd ?kz) = Obj ()"
    using object_or_errorE [OF kz, of "?gv # ?cf # trace s"] by (metis snd_conv)
  then show ?thesis
  proof cases
    case 5
    have "outcome (held (trace s)) (params s) (run_state (probe_led (Suc fuel) meanwhile E) ?s)"
      using h B 5 by (intro probe_led_outcome [OF E]) (simp_all add: fresh_client_def blank_client_data_def)
    moreover have "run_state (i2c_mpu6050_probe (Suc fuel) meanwhile E client) s = run_state (probe_led (Suc fuel) meanwhile E) ?s"
      using h 5 by (simp add: i2c_mpu6050_probe_def kst_order)
    ultimately show ?thesis by simp
  qed (use h in \<open>simp_all add: i2c_mpu6050_probe_def outcome_def maybe_line_def\<close>)
qed


section \<open>Remove\<close>

text \<open>The three optional parts of \<open>i2c_mpu6050_remove\<close>.\<close>

lemma remove_server:
  assumes E: "driver_env E" and h: "halted s = None" and v: "noserver p = 0 \<Longrightarrow> server_serving (cd s)"
    and hd: "held (trace s) = B + server_part p"
    and r: "run_state (whenM (noserver p = 0) (i2c_mpu6050_server_fini (Suc fuel) E meanwhile (Obj ()))) s = (u, s1)"
  shows "same_context (\<lambda>c. (pins_of c, netlink_server c)) s s1 \<and> held (trace s1) = B"
proof (cases "noserver p = 0")
  case True
  have "server_env E" using E by (simp add: driver_env_def)
  from udp.fini_releases [OF this h v [OF True], of B] hd r True show ?thesis by (simp add: whenM_def server_part_def)
next
  case False
  then show ?thesis using hd r h by (simp add: whenM_def server_part_def same_context_def)
qed

lemma remove_netlink:
  assumes E: "driver_env E" and h: "halted s = None" and n: "nonetlink p = 0 \<Longrightarrow> netlink_serving (cd s)"
    and hd: "held (trace s) = B + netlink_part p"
    and r: "run_state (whenM (nonetlink p = 0) (i2c_mpu6050_netlink_fini (Suc fuel) E meanwhile (Obj ()))) s = (u, s1)"
  shows "same_context pins_of s s1 \<and> held (trace s1) = B"
proof (cases "nonetlink p = 0")
  case True
  have "netlink_env E" using E by (simp add: driver_env_def)
  from netlink.fini_releases [OF this h n [OF True], of B] hd r True show ?thesis
    by (simp add: whenM_def netlink_part_def same_context_def)
next
  case False
  then show ?thesis using hd r h by (simp add: whenM_def netlink_part_def same_context_def)
qed

lemma whenM_False: "whenM False m = State_Monad.return ()"
  by (simp add: whenM_def)

lemma remove_ends:
  assumes E: "driver_env E" and c: "client \<noteq> Null" and B: "no_null_line B"
    and s: "halted s = None" "drvdata s = Obj ()"
    and n: "nonetlink (params s) = 0 \<Longrightarrow> netlink_serving (cd s)" and v: "noserver (params s) = 0 \<Longrightarrow> server_serving (cd s)"
    and hd: "held (trace s) = B + led_owns s + device_part (params s) (cd s) + netlink_part (params s) + server_part (params s)"
  shows "ends (B + source_leak (params s) (cd s)) 0 (run_state (i2c_mpu6050_remove (Suc fuel) meanwhile E client) s)"
proof -
  let ?p = "params s"
  let ?R = "B + led_owns s"
  obtain s1 where r1: "run_state (whenM (noserver ?p = 0) (i2c_mpu6050_server_fini (Suc fuel) E meanwhile (Obj ()))) s = ((), s1)"
    by (cases "run_state (whenM (noserver ?p = 0) (i2c_mpu6050_server_fini (Suc fuel) E meanwhile (Obj ()))) s") auto
  note 1 = remove_server [OF E s(1) v hd r1]
  have n1: "nonetlink ?p = 0 \<Longrightarrow> netlink_serving (cd s1)" and h1: "halted s1 = None" and p1: "params s1 = ?p" "drvdata s1 = Obj ()"
    using 1 n s netlink_serving_cong [of "cd s1" "cd s"] by (simp_all add: same_context_def)
  obtain s2 where r2: "run_state (whenM (nonetlink ?p = 0) (i2c_mpu6050_netlink_fini (Suc fuel) E meanwhile (Obj ()))) s1 = ((), s2)"
    by (cases "run_state (whenM (nonetlink ?p = 0) (i2c_mpu6050_netlink_fini (Suc fuel) E meanwhile (Obj ()))) s1") auto
  note 2 = remove_netlink [OF E h1 n1 conjunct2 [OF 1] r2]
  have h2: "halted s2 = None" and p2: "params s2 = ?p" and c2: "pins_of (cd s2) = pins_of (cd s)" using 1 2 p1 by (simp_all add: same_context_def)
  obtain s3 where r3: "run_state (read_source_fini E) s2 = ((), s3)" by (cases "run_state (read_source_fini E) s2") auto
  have "held (trace s2) = (?R + {#Sysfs_file#} + {#Workqueue#}) + source_owns (params s2) (cd s2)" "no_null_line (?R + {#Sysfs_file#} + {#Workqueue#})"
    using 2 p2 B source_cong [OF c2] by (simp_all add: device_part_def led_owns_def ac_simps)
  from read_source_down [OF E h2 this r3]
  have 3: "same_context (\<lambda>c. c) s2 s3" "held (trace s3) = (?R + source_leak ?p (cd s) + {#Sysfs_file#}) + {#Workqueue#}"
    using p2 source_cong [OF c2] by (simp_all add: ac_simps)
  have h3: "halted s3 = None" using 3 by (simp add: same_context_def)
  obtain s4 where r4: "run_state (i2c_mpu6050_wq_fini E (Obj ())) s3 = ((), s4)" by (cases "run_state (i2c_mpu6050_wq_fini E (Obj ())) s3") auto
  have "workqueue_env E" using E by (simp add: driver_env_def)
  note 4 = wq.fini_releases [OF this h3 TrueI 3(2) r4]
  obtain s5 where r5: "run_state (i2c_mpu6050_device_fini E (Obj ())) s4 = ((), s5)" by (cases "run_state (i2c_mpu6050_device_fini E (Obj ())) s4") auto
  note 5 = neutral_run [OF neutral_fini r5]
  have h5: "halted s5 = None" "held (trace s5) = (?R + source_leak ?p (cd s)) + {#Sysfs_file#}" using 4 5 by (simp_all add: same_context_def)
  obtain s6 where r6: "run_state (i2c_mpu6050_sysfs_fini E (Obj ())) s5 = ((), s6)" by (cases "run_state (i2c_mpu6050_sysfs_fini E (Obj ())) s5") auto
  note 6 = sysfs.fini_releases [OF TrueI h5(1) TrueI h5(2) r6]
  have g: "gpio_led_handle (cd s6) = gpio_led_handle (cd s)" "halted s6 = None"
    using c2 3 4 5 6 by (simp_all add: same_context_def)
  have rs: "run_state (if noirq (params s2) \<noteq> 0 then i2c_mpu6050_timer_fini E (Obj ()) else i2c_mpu6050_irq_fini E (Obj ())) s2 = ((), s3)"
    using r3 by (simp add: read_source_fini_def)
  show ?thesis
    using c s p1 p2 r1 r2 rs r4 r5 r6 g 6(2)
    by (simp add: i2c_mpu6050_remove_def ends_def led_owns_def whenM_False)
qed

section \<open>Properties\<close>

text \<open>A board for the witnesses: the device after power on, and kernel calls that all succeed.\<close>

definition board_env :: env where
  "board_env = \<lparr>answer = (\<lambda>tr c. case c of
       I2C (Read_byte r) \<Rightarrow> int_reply (promote (regs_of power_on_regs tr r))
     | I2C Check_functionality \<Rightarrow> int_reply 1
     | Gpio (Gpio_is_valid p) \<Rightarrow> int_reply 1
     | Gpio (Gpio_request_ex p) \<Rightarrow> int_reply 1
     | Gpio (Gpio_to_irq p) \<Rightarrow> int_reply 1
     | _ \<Rightarrow> ptr_reply (Obj ())), order = Little_endian\<rparr>"

lemma driver_env_board: "driver_env board_env"
  by (simp add: driver_env_def workqueue_env_def timer_env_def irq_env_def netlink_env_def server_env_def
      object_or_error_def board_env_def)




text \<open>Remove gives back what a probe took. From any state in which the driver is bound and its server threads have stopped running, removing the device returns 0 without a fault and leaves exactly what was held apart from the driver's own resources, and in interrupt mode the interrupt line.\<close>

theorem remove_gives_back:
  assumes E: "driver_env E" and c: "client \<noteq> Null" and B: "no_null_line B"
    and s: "halted s = None" "drvdata s = Obj ()"
    and n: "nonetlink (params s) = 0 \<Longrightarrow> netlink_serving (cd s)" and v: "noserver (params s) = 0 \<Longrightarrow> server_serving (cd s)"
    and hd: "held (trace s) = B + led_owns s + device_part (params s) (cd s) + netlink_part (params s) + server_part (params s)"
  shows "let (e, s') = run_state (i2c_mpu6050_remove (Suc fuel) meanwhile E client) s
     in e = 0 \<and> halted s' = None \<and>
        held (trace s') = B + (if noirq (params s) \<noteq> 0 then {#} else {#Irq_line (client_irq (cd s)) Dev_client#})"
  using remove_ends [OF E c B s n v hd, of fuel meanwhile]
  by (cases "run_state (i2c_mpu6050_remove (Suc fuel) meanwhile E client) s") (auto simp: ends_def source_leak_def)

text \<open>A bound state of the polling driver without servers.\<close>

definition bound_kst :: kst where
  "bound_kst = (let p = polling_params\<lparr>nonetlink := 1\<rparr> in
     \<lparr>trace = [(Sys (Hrtimer_start 0), no_reply), (Sys Create_workqueue, ptr_reply (Obj ())), (Sys Sysfs_create_bin_file, no_reply),
        (Gpio (Gpio_request_ex Led_pin), int_reply 1), (Sys Mutex_init, no_reply), (Sys (Kzalloc Client_data), ptr_reply (Obj ()))],
      params = p, cd = blank_client_data\<lparr>gpio_led_handle := 1\<rparr>, drvdata = Obj (), netlink_seq = 0, halted = None\<rparr>)"

theorem remove_gives_back_witness:
  "held (trace (snd (run_state (i2c_mpu6050_remove 1 (State_Monad.return ()) board_env (Obj ())) bound_kst))) = {#}"
  using remove_gives_back [OF driver_env_board, of "Obj ()" "{#}" bound_kst 0 "State_Monad.return ()"]
  by (simp add: bound_kst_def Let_def polling_params_def default_params_def led_owns_def device_part_def source_owns_def
      netlink_part_def server_part_def split: prod.splits)



text \<open>Loading the module fills in the default peer exactly when the UDP server is wanted and no peer was given, before the driver is registered, and any failure of the registration is reported as ENOSYS.\<close>

theorem module_init_peer:
  assumes "halted s = None"
  shows "let (e, s') = run_state (i2c_mpu6050_init E) s
     in peer (params s') = (if noserver (params s) = 0 \<and> peer (params s) = [] then ''127.0.0.1'' else peer (params s)) \<and>
        e = (if ret (answer E (trace s) (I2C Add_driver)) = 0 then 0 else - ENOSYS) \<and>
        trace s' = (I2C Add_driver, answer E (trace s) (I2C Add_driver)) # trace s"
  using assms by (auto simp: i2c_mpu6050_init_def whenM_def default_peer_def Let_def)

theorem module_init_peer_witness:
  "peer (params (snd (run_state (i2c_mpu6050_init board_env) (initial_kst (default_params\<lparr>noserver := 0\<rparr>))))) = ''127.0.0.1''"
  using module_init_peer [of "initial_kst (default_params\<lparr>noserver := 0\<rparr>)" board_env]
  by (auto simp: default_params_def split: prod.splits)

end
