(* ===== verification/System.thy ===== *)
theory System
  imports Driver_Spec
begin

text \<open>
  The bound driver as a reactive system: interrupts or timer ticks queue the read handler, the two
  server threads poll the ring buffer, user space reads and writes the attribute files, the
  machine suspends and resumes.  The activities that touch the driver's data do so under the
  mutex, so the system is an interleaving of whole activities (one round of its loop for a
  server thread); its specification is the history of the last 64 samples.
\<close>

section \<open>Activities\<close>

datatype activity =
    Interrupt s32 | Timer_tick | Work | Netlink_round | Udp_round
  | Ringbuffer_read | Ringbuffer_write | Reg_store "u8 list" s32 | Reg_show "u8 list"
  | Intstate_show | Ledstate_show | Suspend | Resume

definition ignoring :: "'a driver \<Rightarrow> unit driver" where
  "ignoring m = do { _ \<leftarrow> m; State_Monad.return () }"

fun perform :: "nat \<Rightarrow> env \<Rightarrow> activity \<Rightarrow> unit driver" where
  "perform fuel E (Interrupt irq) = ignoring (i2c_mpu6050_interrupt_handler E irq (Obj ()))"
| "perform fuel E Timer_tick = ignoring (i2c_mpu6050_hr_timer_handler E (Obj ()))"
| "perform fuel E Work = i2c_mpu6050_wq_read_handler fuel E (Obj ())"
| "perform fuel E Netlink_round = poll_once E (netlink_sink E)"
| "perform fuel E Udp_round = poll_once E (server_sink E)"
| "perform fuel E Ringbuffer_read = ignoring (i2c_mpu6050_ringbuffer_read E (Obj ()))"
| "perform fuel E Ringbuffer_write = ignoring (i2c_mpu6050_ringbuffer_write E (Obj ()))"
| "perform fuel E (Reg_store buf n) = ignoring (i2c_mpu6050_reg_store E (Obj ()) (Some buf) n)"
| "perform fuel E (Reg_show buf) = ignoring (i2c_mpu6050_reg_show E (Obj ()) (Some buf))"
| "perform fuel E Intstate_show = ignoring (i2c_mpu6050_intstate_show E (Obj ()) (Some []))"
| "perform fuel E Ledstate_show = ignoring (i2c_mpu6050_ledstate_show E (Obj ()) (Some []))"
| "perform fuel E Suspend = ignoring (i2c_mpu6050_pm_ops E Pm_suspend (Obj ()))"
| "perform fuel E Resume = ignoring (i2c_mpu6050_pm_ops E Pm_resume (Obj ()))"

text \<open>
  The state adds whether the work item is queued: queueing a queued item has no effect, and the
  item leaves the queue when its handler starts.
\<close>

record sys =
  machine :: kst
  pending :: bool

fun queues :: "activity \<Rightarrow> bool" where
  "queues (Interrupt irq) = True"
| "queues Timer_tick = True"
| "queues a = False"

text \<open>When an activity can happen.\<close>

fun enabled :: "activity \<Rightarrow> sys \<Rightarrow> bool" where
  "enabled (Interrupt irq) S = (noirq (params (machine S)) = 0)"
| "enabled Timer_tick S = (noirq (params (machine S)) \<noteq> 0)"
| "enabled Work S = pending S"
| "enabled Netlink_round S = (case netlink_server (cd (machine S)) of Obj n \<Rightarrow> nl_running n = 1 | _ \<Rightarrow> False)"
| "enabled Udp_round S = (case server (cd (machine S)) of Obj v \<Rightarrow> srv_running v = 1 \<and> srv_socket_send v = Obj () | _ \<Rightarrow> False)"
| "enabled a S = True"

inductive sys_step :: "nat \<Rightarrow> env \<Rightarrow> sys \<Rightarrow> activity \<Rightarrow> sys \<Rightarrow> bool" for fuel E where
  queueing: "\<lbrakk>halted (machine S) = None; enabled a S; queues a;
      run_state (perform fuel E a) (machine S) = ((), k)\<rbrakk> \<Longrightarrow> sys_step fuel E S a \<lparr>machine = k, pending = True\<rparr>"
| handling: "\<lbrakk>halted (machine S) = None; pending S;
      run_state (perform fuel E Work) (machine S) = ((), k)\<rbrakk> \<Longrightarrow> sys_step fuel E S Work \<lparr>machine = k, pending = False\<rparr>"
| acting: "\<lbrakk>halted (machine S) = None; enabled a S; \<not> queues a; a \<noteq> Work;
      run_state (perform fuel E a) (machine S) = ((), k)\<rbrakk> \<Longrightarrow> sys_step fuel E S a \<lparr>machine = k, pending = pending S\<rparr>"

inductive_simps work_step: "sys_step fuel E S Work S'"

inductive reachable :: "nat \<Rightarrow> env \<Rightarrow> sys \<Rightarrow> sys \<Rightarrow> bool" for fuel E S0 where
  start: "reachable fuel E S0 S0"
| step: "reachable fuel E S0 S \<Longrightarrow> sys_step fuel E S a S' \<Longrightarrow> reachable fuel E S0 S'"

lemma step_perform:
  assumes "sys_step fuel E S a S'"
  shows "halted (machine S) = None" "enabled a S" "run_state (perform fuel E a) (machine S) = ((), machine S')"
  using assms by (auto elim: sys_step.cases)

section \<open>Activities that leave the history alone\<close>

definition quiet :: "kst \<Rightarrow> kst \<Rightarrow> bool" where
  "quiet s s' \<longleftrightarrow> (\<exists>t q. s' = s\<lparr>trace := t, netlink_seq := q\<rparr>)"

lemma quietI: "s' = s\<lparr>trace := t\<rparr> \<Longrightarrow> quiet s s'"
  unfolding quiet_def by (rule exI [of _ t], rule exI [of _ "netlink_seq s"]) simp

lemma quiet_refl [simp]: "quiet s s"
  by (rule quietI [where t = "trace s"]) simp

lemma quiet_talks: "talks P s s' \<Longrightarrow> quiet s s'"
  by (auto simp: talks_def intro: quietI)

lemma quiet_polls: "polls s s' \<Longrightarrow> quiet s s'"
  by (auto simp: polls_def quiet_def)

lemma quiet_same:
  assumes "quiet s s'"
  shows "cd s' = cd s" "halted s' = halted s" "ready s' = ready s"
  using assms by (auto simp: quiet_def ready_def)

lemma quiet_ignoring: "(\<And>a s'. run_state m s = (a, s') \<Longrightarrow> quiet s s') \<Longrightarrow> quiet s (snd (run_state (ignoring m) s))"
  by (cases "run_state m s") (simp add: ignoring_def)

lemma quiet_keeps: "keeps (talks neutral) m \<Longrightarrow> run_state m s = (a, s') \<Longrightarrow> quiet s s'"
  by (blast dest: keepsD quiet_talks)

lemma neutral_forward [neutral_rules]: "neutral (Sys (Hrtimer_forward_now n))"
  by (simp add: neutral_def)

lemma neutral_timer_tick [neutral_rules]: "keeps (talks neutral) (i2c_mpu6050_hr_timer_handler E t)"
  unfolding i2c_mpu6050_hr_timer_handler_def by (intro neutral_rules)

lemma neutral_pm [neutral_rules]: "keeps (talks neutral) (i2c_mpu6050_pm_ops E cb d)"
  unfolding i2c_mpu6050_pm_ops_def i2c_mpu6050_pm_suspend_def i2c_mpu6050_pm_resume_def pm_nothing_def
  by (cases cb) (simp_all only: pm_callback.case, (intro neutral_rules)+)

lemmas quiet_neutral [quiet_rules] = quiet_keeps [OF neutral_timer_tick] quiet_keeps [OF neutral_pm]

text \<open>The attribute files, on a bound client.\<close>

lemma run_with_client_data: "drvdata s = Obj () \<Longrightarrow> run_state (with_client_data f d m) s = run_state m s"
  by (simp add: with_client_data_def)

lemma quiet_interrupt [quiet_rules]: "ready s \<Longrightarrow> run_state (i2c_mpu6050_interrupt_handler E irq (Obj ())) s = (a, s') \<Longrightarrow> quiet s s'"
  by (auto simp: i2c_mpu6050_interrupt_handler_def ready_def intro: quietI)

lemma quiet_reg_store [quiet_rules]: "ready s \<Longrightarrow> run_state (i2c_mpu6050_reg_store E d b n) s = (a, s') \<Longrightarrow> quiet s s'"
  by (auto simp: i2c_mpu6050_reg_store_def ready_def run_with_client_data write_led_def write_reg_def
      intro: quietI split: option.splits prod.splits if_splits)

lemma quiet_reg_show [quiet_rules]: "ready s \<Longrightarrow> run_state (i2c_mpu6050_reg_show E d b) s = (a, s') \<Longrightarrow> quiet s s'"
  by (auto simp: i2c_mpu6050_reg_show_def ready_def run_with_client_data write_led_def
      intro: quietI split: option.splits prod.splits if_splits)

lemma quiet_pin_state [quiet_rules]: "ready s \<Longrightarrow> run_state (pin_state_show E h d b) s = (a, s') \<Longrightarrow> quiet s s'"
  by (auto simp: pin_state_show_def ready_def run_with_client_data intro: quietI split: if_splits)

lemma ready_pollable: "ready s \<Longrightarrow> pollable s"
  by (auto simp: ready_def pollable_def ring_ok_def in_ring_def)

lemma quiet_ringbuffer_read:
  assumes "ready s" "in_ring (ringbufferpos (cd s))" "run_state (i2c_mpu6050_ringbuffer_read E (Obj ())) s = (a, s')"
  shows "quiet s s'"
  using run_ringbuffer_read [OF assms(1,2), of "Obj ()" E] assms(3) by (auto simp: Let_def intro: quietI)

definition quiet_activity :: "activity \<Rightarrow> kst \<Rightarrow> bool" where
  "quiet_activity a s \<longleftrightarrow> a \<notin> {Work, Ringbuffer_write} \<and> (a = Ringbuffer_read \<longrightarrow> in_ring (ringbufferpos (cd s)))"

lemma perform_quiet:
  assumes s: "ready (machine S)" and a: "quiet_activity a (machine S)" "enabled a S"
  shows "quiet (machine S) (snd (run_state (perform fuel E a) (machine S)))"
proof (cases a)
  case Netlink_round
  then show ?thesis using quiet_polls [OF nl.poll_once_polls [OF ready_pollable [OF s]]] by simp
next
  case Udp_round
  have "socket_open (cd (machine S))" using a(2) Udp_round by (auto simp: socket_open_def split: ref.splits)
  then show ?thesis using Udp_round quiet_polls [OF srv.poll_once_polls [OF ready_pollable [OF s]]] by simp
next
  case Ringbuffer_read
  then show ?thesis using a(1) quiet_ignoring [OF quiet_ringbuffer_read [OF s]] by (simp add: quiet_activity_def)
qed (use a(1) s in \<open>auto simp: quiet_activity_def i2c_mpu6050_intstate_show_def i2c_mpu6050_ledstate_show_def
      intro!: quiet_ignoring intro: quiet_rules\<close>)

section \<open>The specification: a history of samples\<close>

text \<open>
  What an activity does to the history, the newest entry first: the read handler pushes an entry
  and drops the oldest, a write to the ring buffer file marks every entry unused, everything else
  leaves it alone.
\<close>

fun history_step :: "activity \<Rightarrow> ringbuffer_entry list \<Rightarrow> ringbuffer_entry list \<Rightarrow> bool" where
  "history_step Work h h' = (h' = hd h' # take 63 h)"
| "history_step Ringbuffer_write h h' = (h' = map unuse h)"
| "history_step a h h' = (h' = h)"

definition wedged :: "kst \<Rightarrow> bool" where
  "wedged s \<longleftrightarrow> sync_lock (cd s) \<and> halted s \<in> Some ` {Buffer_overflow, Never_returns, Index_out_of_range (- 1)}"

lemma run_write:
  assumes "ready s"
  shows "\<exists>es. snd (run_state (ignoring (i2c_mpu6050_ringbuffer_write E (Obj ()))) s) =
    s\<lparr>trace := es @ trace s, cd := (cd s)\<lparr>ringbuffer := map unuse (ringbuffer (cd s))\<rparr>\<rparr>"
proof -
  have "halted s = None" "length (ringbuffer (cd s)) = 64" "\<not> sync_lock (cd s)" and d: "drvdata s = Obj ()"
    using assms by (simp_all add: ready_def ring_ok_def)
  from run_ringbuffer_clear [OF this(1-3), of E] d show ?thesis
    by (cases "run_state (i2c_mpu6050_ringbuffer_clear E (Obj ())) s")
       (auto simp: i2c_mpu6050_ringbuffer_write_def ignoring_def)
qed

lemma ready_write:
  assumes "ready s"
  shows "ready (s\<lparr>trace := t, cd := (cd s)\<lparr>ringbuffer := map unuse (ringbuffer (cd s))\<rparr>\<rparr>)"
  using assms by (auto simp: ready_def ring_ok_def unuse_def list_all_iff)

lemma history_quiet: "quiet s s' \<Longrightarrow> a \<noteq> Work \<Longrightarrow> a \<noteq> Ringbuffer_write \<Longrightarrow>
    history_step a (newest_first (cd s)) (newest_first (cd s'))"
  by (cases a) (auto simp: quiet_same)

lemma handler_drvdata:
  assumes "ready s" "w \<noteq> Null"
  shows "drvdata (snd (run_state (i2c_mpu6050_wq_read_handler fuel E w) s)) = drvdata s"
proof -
  have on: "on_slot (entered E s)" using entered_on_slot [OF assms(1)] by simp
  obtain u s2 where r: "run_state (fill_slot fuel E) (entered E s) = (u, s2)" by (cases "run_state (fill_slot fuel E) (entered E s)")
  from keepsD [OF fills_fill_slot r] on ring_ok_entered [OF assms(1), of E] have "drvdata s2 = drvdata (entered E s)"
    by (auto simp: fills_def on_slot_def)
  moreover have "drvdata (snd (run_state (i2c_mpu6050_wq_read_handler fuel E w) s)) = drvdata s2"
    by (simp add: run_handler [OF assms] r)
  ultimately show ?thesis by (simp add: entered_def)
qed

text \<open>One step from a ready state.\<close>

lemma step_refines:
  assumes st: "sys_step fuel E S a S'" and s: "ready (machine S)"
  shows "ready (machine S') \<and> history_step a (newest_first (cd (machine S))) (newest_first (cd (machine S'))) \<or> wedged (machine S')"
proof -
  note p = step_perform [OF st]
  have k: "machine S' = snd (run_state (perform fuel E a) (machine S))" using p(3) by simp
  consider "a = Work" | "a = Ringbuffer_write" | "a = Ringbuffer_read" "\<not> in_ring (ringbufferpos (cd (machine S)))"
    | "quiet_activity a (machine S)" by (auto simp: quiet_activity_def)
  then show ?thesis
  proof cases
    case 1
    have w: "Obj () \<noteq> Null" by simp
    from handler_pushes [OF s w, of fuel E] handler_drvdata [OF s w, of fuel E] s show ?thesis
      unfolding k 1 by (auto simp: Let_def ready_def wedged_def split: option.splits)
  next
    case 2
    then show ?thesis using run_write [OF s, of E] ready_write [OF s] s
      by (auto simp: k clear_newest_first ready_def ring_ok_def)
  next
    case 3
    have "ringbufferpos (cd (machine S)) = - 1" using s 3(2) by (auto simp: ready_def ring_ok_def in_ring_def)
    from run_read_before_data [OF s this, of "Obj ()" E] show ?thesis
      by (cases "run_state (i2c_mpu6050_ringbuffer_read E (Obj ())) (machine S)") (simp add: k 3 ignoring_def wedged_def)
  next
    case 4
    note q = perform_quiet [OF s 4 p(2), of fuel E, folded k]
    have "a \<noteq> Work" "a \<noteq> Ringbuffer_write" using 4 by (auto simp: quiet_activity_def)
    with history_quiet [OF q] quiet_same(3) [OF q] s show ?thesis by simp
  qed
qed

lemma wedged_stuck: "wedged (machine S) \<Longrightarrow> \<not> sys_step fuel E S a S'"
  using step_perform(1) by (fastforce simp: wedged_def)

lemma reachable_ready:
  assumes "reachable fuel E S0 S" "ready (machine S0)"
  shows "ready (machine S) \<or> wedged (machine S)"
  using assms
proof (induction rule: reachable.induct)
  case (step S a S')
  then show ?case using step_refines [OF step.hyps(2)] wedged_stuck by blast
qed simp

section \<open>Freedom from faults\<close>

lemma step_keeps_position:
  assumes st: "sys_step fuel E S a S'" and s: "ready (machine S)" "in_ring (ringbufferpos (cd (machine S)))"
    and E: "block_reads_progress E" and f: "2 ^ 31 \<le> fuel"
  shows "ready (machine S') \<and> in_ring (ringbufferpos (cd (machine S')))"
proof -
  note p = step_perform [OF st]
  have k: "machine S' = snd (run_state (perform fuel E a) (machine S))" using p(3) by simp
  consider "a = Work" | "a = Ringbuffer_write" | "quiet_activity a (machine S)"
    using s(2) by (auto simp: quiet_activity_def)
  then show ?thesis
  proof cases
    case 1
    let ?f = "snd (run_state (fill_slot fuel E) (entered E (machine S)))"
    have w: "Obj () \<noteq> Null" by simp
    have "on_slot ?f" using entered_on_slot [OF s(1), of E] by (intro fill_slot_returns [OF E _ _ f]) auto
    then have "in_ring (ringbufferpos (cd (machine S')))"
      by (simp add: k 1 run_handler [OF s(1) w] on_slot_def)
    moreover have "halted (machine S') = None" using handler_returns [OF E s(1) w f] by (simp add: k 1 Let_def)
    ultimately show ?thesis using step_refines [OF st s(1)] by (auto simp: wedged_def)
  next
    case 2
    then show ?thesis using run_write [OF s(1), of E] ready_write [OF s(1)] s(2) by (auto simp: k)
  next
    case 3
    note q = perform_quiet [OF s(1) 3 p(2), of fuel E, folded k]
    then show ?thesis using s quiet_same [OF q] by simp
  qed
qed

lemma reachable_running:
  assumes "reachable fuel E S0 S" "ready (machine S0)" "in_ring (ringbufferpos (cd (machine S0)))"
    "block_reads_progress E" "2 ^ 31 \<le> fuel"
  shows "ready (machine S) \<and> in_ring (ringbufferpos (cd (machine S)))"
  using assms by (induction rule: reachable.induct) (blast dest: step_keeps_position)+

lemma work_possible:
  assumes "halted (machine S) = None" "pending S"
  shows "\<exists>S'. sys_step fuel E S Work S' \<and> \<not> pending S'"
  using assms by (cases "run_state (perform fuel E Work) (machine S)") (auto simp: work_step)

section \<open>Properties\<close>

text \<open>A polling system with a tick just handled by the queue, for the witnesses.\<close>

definition demo_sys :: sys where
  "demo_sys = \<lparr>machine = (demo_kst polling_params)\<lparr>cd := blank_client_data\<rparr>, pending = True\<rparr>"

lemma demo_sys [simp]: "ready (machine demo_sys)" "in_ring (ringbufferpos (cd (machine demo_sys)))" "pending demo_sys"
  by (simp_all add: demo_sys_def ready_def demo_kst_def ring_ok_def in_ring_def blank_client_data_def blank_entry_def
      list_all_iff initial_kst_def)

lemma demo_block_progress: "block_reads_progress demo_block_env"
  by (simp add: Let_def block_reads_progress_def demo_block_env_def)

text \<open>C2: The interleaved system implements the history. In every state that any interleaving of interrupts or ticks, queued work, server rounds, file accesses, suspends and resumes reaches, every further step either keeps the driver's data well formed with the lock free and does to the history of the last 64 samples exactly what its activity specifies, or ends in one of the three faults with the lock held.\<close>

theorem system_refines_history:
  assumes "reachable fuel E S0 S" "ready (machine S0)" "sys_step fuel E S a S'"
  shows "ready (machine S') \<and> history_step a (newest_first (cd (machine S))) (newest_first (cd (machine S'))) \<or>
     sync_lock (cd (machine S')) \<and> halted (machine S') \<in> {Some Buffer_overflow, Some Never_returns, Some (Index_out_of_range (- 1))}"
  using reachable_ready [OF assms(1,2)] step_refines [OF assms(3)] wedged_stuck [of S fuel E a S'] assms(3)
  by (auto simp: wedged_def)

theorem system_refines_history_witness:
  "\<exists>S'. sys_step 1 demo_block_env demo_sys Work S' \<and>
     (ready (machine S') \<and> history_step Work (newest_first (cd (machine demo_sys))) (newest_first (cd (machine S'))) \<or> sync_lock (cd (machine S')))"
proof -
  obtain S' where s: "sys_step 1 demo_block_env demo_sys Work S'"
    using work_possible [of demo_sys] demo_sys by (auto simp: ready_def)
  from system_refines_history [OF reachable.start _ s] s show ?thesis by auto
qed





end
