(* ===== verification/Bound.thy ===== *)
theory Bound
  imports System
begin

text \<open>
  The composition of probe with the running system.  A probe that reports success has left the
  ring buffer it set up alone: all slots blank, the position before the first slot, the mutex
  free.  So the state it ends in is one the transition system may start from, and what holds of
  its reachable states holds of a driver that has been bound.
\<close>

section \<open>The ring buffer of a fresh client\<close>

text \<open>No step of the way up touches the ring buffer, its position or the mutex.\<close>

named_theorems ring_rules \<open>functions that leave the ring buffer and the mutex alone\<close>

definition ring_of :: "client_data \<Rightarrow> ringbuffer_entry list \<times> int \<times> bool" where
  [simp]: "ring_of c = (ringbuffer c, ringbufferpos c, sync_lock c)"

abbreviation same_ring :: "kst \<Rightarrow> kst \<Rightarrow> bool" where
  "same_ring \<equiv> \<lambda>s s'. ring_of (cd s') = ring_of (cd s)"

lemma same_ring_reflp: "reflp same_ring" and same_ring_transp: "transp same_ring"
  by (auto simp: reflp_def transp_def)

lemma same_ring_talks: "keeps (talks P) m \<Longrightarrow> keeps same_ring m"
  by (rule keepsI) (metis keepsD talks_fields(1))

lemma same_ring_upd_cd: "(\<And>c. ring_of (f c) = ring_of c) \<Longrightarrow> keeps same_ring (upd_cd f)"
  by (rule keepsI) (auto simp del: ring_of_def split: if_splits)

lemma same_ring_calls:
  "keeps same_ring (ask E c)" "keeps same_ring (call E c)" "keeps same_ring (call_ptr E c)" "keeps same_ring (exec E c)"
  "keeps same_ring (get_cd f)" "keeps same_ring (get_param g)" "keeps same_ring (fault x)"
  by (auto intro!: keepsI split: if_splits)

lemmas same_ring_constructs [ring_rules] = same_ring_upd_cd same_ring_calls
  keeps_return [OF same_ring_reflp] keeps_gets [OF same_ring_reflp] keeps_bind [OF same_ring_transp]
  keeps_whenM [OF same_ring_reflp] keeps_if keeps_Let keeps_case_prod keeps_case_ref

lemmas same_ring_device [ring_rules] =
  same_ring_talks [OF neutral_ping] same_ring_talks [OF neutral_init] same_ring_talks [OF neutral_led]

lemma same_ring_upd_nl [ring_rules]: "keeps same_ring (upd_nl f)" and same_ring_upd_srv [ring_rules]: "keeps same_ring (upd_srv g)"
  unfolding upd_nl_def upd_srv_def by (intro ring_rules; simp)+

lemma same_ring_inits [ring_rules]:
  "keeps same_ring (i2c_mpu6050_sysfs_init E c)" "keeps same_ring (i2c_mpu6050_wq_init E c)"
  "keeps same_ring (i2c_mpu6050_timer_init E c)" "keeps same_ring (i2c_mpu6050_irq_init E c)"
  "keeps same_ring (i2c_mpu6050_netlink_init E c)" "keeps same_ring (i2c_mpu6050_server_init E c)"
  unfolding i2c_mpu6050_sysfs_init_def i2c_mpu6050_wq_init_def i2c_mpu6050_timer_init_def i2c_mpu6050_irq_init_def
    irq_init_error1_def irq_init_error4_def i2c_mpu6050_netlink_init_def netlink_init_error1_def netlink_init_error2_def
    netlink_init_error4_def netlink_init_error5_def i2c_mpu6050_server_init_def server_init_error1_def
  by (intro ring_rules; simp)+

lemma same_ring_source [ring_rules]: "keeps same_ring (read_source_init E)"
  unfolding read_source_init_def by (intro ring_rules)

text \<open>The error path returns the error it is entered with.\<close>

lemma error_returns:
  "fst (run_state (probe_error2 E err) s) = err" "fst (run_state (probe_error5 E err) s) = err"
  "fst (run_state (probe_error6 E err) s) = err" "fst (run_state (probe_error7 E err) s) = err"
  "fst (run_state (probe_error8 E err) s) = err" "fst (run_state (probe_error9 E err) s) = err"
  "fst (run_state (probe_error10 fuel meanwhile E err) s) = err"
  by (simp_all add: probe_error2_def probe_error5_def probe_error6_def probe_error7_def probe_error8_def probe_error9_def
      probe_error10_def split: prod.split)

text \<open>\<open>up R m\<close>: a run of \<open>m\<close> that reports success relates its states by \<open>R\<close>.\<close>

definition up :: "s32 driver \<Rightarrow> bool" where
  "up m \<longleftrightarrow> (\<forall>s s'. run_state m s = (0, s') \<longrightarrow> same_ring s s')"

lemma up_keeps: "keeps same_ring m \<Longrightarrow> up m"
  unfolding up_def by (blast dest: keepsD)

lemma up_bind:
  assumes m: "keeps same_ring m" and f: "\<And>a. up (f a)"
  shows "up (State_Monad.bind m f)"
  unfolding up_def
proof (intro allI impI)
  fix s s' assume r: "run_state (State_Monad.bind m f) s = (0, s')"
  obtain a s1 where 1: "run_state m s = (a, s1)" by (cases "run_state m s")
  with r have "run_state (f a) s1 = (0, s')" by simp
  then have "same_ring s1 s'" using f by (simp only: up_def)
  then show "same_ring s s'" using keepsD [OF m 1] by simp
qed

lemma up_error:
  assumes m: "\<And>s. fst (run_state m s) = err" and n: "err = 0 \<Longrightarrow> up n"
  shows "up (if err \<noteq> 0 then m else n)"
proof (cases "err = 0")
  case False
  then have "run_state m s \<noteq> (0, s')" for s s' using m [of s] by auto
  with False show ?thesis by (simp add: up_def)
qed (use n in simp)

lemma up_if: "(b \<Longrightarrow> up m) \<Longrightarrow> (\<not> b \<Longrightarrow> up n) \<Longrightarrow> up (if b then m else n)"
  by simp

lemma up_return: "up (State_Monad.return 0)"
  by (simp add: up_def)

lemmas up_rules = up_return up_bind [OF same_ring_calls(2)] up_bind [OF same_ring_calls(1)]

lemma up_probe_server: "up (probe_server fuel meanwhile E)"
  unfolding probe_server_def by (intro up_bind up_error up_return error_returns ring_rules)

lemma up_probe_netlink: "up (probe_netlink fuel meanwhile E)"
  unfolding probe_netlink_def by (intro up_bind up_error up_probe_server error_returns ring_rules)

lemma up_probe_device: "up (probe_device fuel meanwhile E)"
  unfolding probe_device_def by (intro up_bind up_error up_probe_netlink error_returns ring_rules)

lemma up_probe_led: "up (probe_led fuel meanwhile E)"
proof -
  have no: "up (probe_error2 E (- ENOSYS))"
    unfolding up_def
  proof (intro allI impI)
    fix s s' assume "run_state (probe_error2 E (- ENOSYS)) s = (0, s')"
    then show "same_ring s s'" using error_returns(1) [of E "- ENOSYS" s] by simp
  qed
  show ?thesis
    unfolding probe_led_def by (intro up_bind up_error up_if no up_probe_device error_returns ring_rules) simp_all
qed

text \<open>A probe that reports success leaves the empty ring it set up, the mutex free.\<close>

lemma probe_ring:
  assumes "run_state (i2c_mpu6050_probe fuel meanwhile E client) s = (0, s')" "halted s = None" "halted s' = None"
  shows "ring_of (cd s') = (replicate RINGBUFFER_SIZE blank_entry, - 1, False)"
proof -
  define r where "r = run_state (probe_led fuel meanwhile E)"
  have led: "r t = (0, s') \<Longrightarrow> ring_of (cd s') = ring_of (cd t)" for t
    using up_probe_led [of fuel meanwhile E] unfolding up_def r_def by blast
  show ?thesis
    using assms unfolding i2c_mpu6050_probe_def
    by (auto simp: blank_client_data_def r_def [symmetric] dest!: led split: if_splits ref.splits)
qed

section \<open>A bound driver is ready\<close>

lemma probe_ready:
  assumes E: "driver_env E" and B: "no_null_line (held (trace s))" and h: "halted s = None"
    and r: "run_state (i2c_mpu6050_probe (Suc fuel) meanwhile E client) s = (0, s')"
  shows "ready s' \<and> ringbufferpos (cd s') = - 1 \<and> newest_first (cd s') = replicate RINGBUFFER_SIZE blank_entry"
proof -
  have o: "halted s' = None" "drvdata s' = Obj ()"
    using probe_outcome [OF E B h, of fuel meanwhile client] by (auto simp: r outcome_def)
  note g = probe_ring [OF r h o(1)]
  have "newest_first (cd s') = replicate RINGBUFFER_SIZE blank_entry"
    using g by (intro nth_equalityI) (auto simp: newest_first_def nat_less_iff)
  with g o show ?thesis by (auto simp: ready_def ring_ok_def blank_entry_def list_all_iff)
qed



end
