(* ===== verification/Driver_Tables.thy ===== *)
theory Driver_Tables
  imports Driver
begin

text \<open>
  The tables the driver hands to the kernel: the I2C driver with its identifiers, addresses and entry
  points (main.c), the attribute files (sysfs.c), and the generic netlink family and operation
  (netlink.c).  An entry point is the function itself.  What the kernel does with them is documented
  behaviour, stated where it is used.
\<close>

section \<open>Attribute files (sysfs.c)\<close>

text \<open>A file of the device: its name, its mode, and how it is read and written.\<close>

record device_attribute =
  attr_name :: string
  attr_mode :: nat
  attr_show :: "env \<Rightarrow> ptr \<Rightarrow> u8 list option \<Rightarrow> (int \<times> string) driver"
  attr_store :: "(env \<Rightarrow> ptr \<Rightarrow> u8 list option \<Rightarrow> s32 \<Rightarrow> s32 driver) option"

text \<open>The modes 0666 and 0444.\<close>

definition dev_attr_reg :: device_attribute where
  "dev_attr_reg = \<lparr>attr_name = ''reg'', attr_mode = 6 * 64 + 6 * 8 + 6, attr_show = i2c_mpu6050_reg_show,
     attr_store = Some i2c_mpu6050_reg_store\<rparr>"

definition dev_attr_int_state :: device_attribute where
  "dev_attr_int_state = \<lparr>attr_name = ''int_state'', attr_mode = 4 * 64 + 4 * 8 + 4, attr_show = i2c_mpu6050_intstate_show,
     attr_store = None\<rparr>"

definition dev_attr_led_state :: device_attribute where
  "dev_attr_led_state = \<lparr>attr_name = ''led_state'', attr_mode = 4 * 64 + 4 * 8 + 4, attr_show = i2c_mpu6050_ledstate_show,
     attr_store = None\<rparr>"

record bin_attribute =
  bin_name :: string
  bin_mode :: nat
  bin_size :: nat
  bin_read :: "env \<Rightarrow> ptr \<Rightarrow> (int \<times> string) driver"
  bin_write :: "env \<Rightarrow> ptr \<Rightarrow> s32 driver"
  bin_mmap :: s32

definition dev_attr_buffer :: bin_attribute where
  "dev_attr_buffer = \<lparr>bin_name = ''buffer'', bin_mode = 6 * 64 + 6 * 8 + 6, bin_size = RINGBUFFER_DATA_SIZE * RINGBUFFER_SIZE,
     bin_read = i2c_mpu6050_ringbuffer_read, bin_write = i2c_mpu6050_ringbuffer_write, bin_mmap = i2c_mpu6050_ringbuffer_mmap\<rparr>"

record attribute_group =
  group_name :: string
  is_visible :: "ptr \<Rightarrow> ptr \<Rightarrow> int \<Rightarrow> nat"
  group_attrs :: "device_attribute list"

definition i2c_mpu6050_attrs :: "device_attribute list" where
  "i2c_mpu6050_attrs = [dev_attr_reg, dev_attr_int_state, dev_attr_led_state]"

definition i2c_mpu6050_group :: attribute_group where
  "i2c_mpu6050_group = \<lparr>group_name = ''olimex_mod_mpu6050'', is_visible = i2c_mpu6050_attr_is_visible, group_attrs = i2c_mpu6050_attrs\<rparr>"

definition i2c_mpu6050_groups :: "attribute_group list" where
  "i2c_mpu6050_groups = [i2c_mpu6050_group]"

section \<open>Generic netlink (netlink.c)\<close>

record genl_family =
  hdrsize :: nat
  version :: nat
  maxattr :: nat
  netnsok :: bool

definition i2c_mpu6050_netlink_family :: genl_family where
  "i2c_mpu6050_netlink_family =
     \<lparr>hdrsize = 0, version = 1, maxattr = attribute_code NETLINK_ATTRIBUTE_MAX - 1, netnsok = False\<rparr>"

record genl_ops =
  cmd :: nat
  flags :: nat
  policy :: "netlink_attribute list"
  doit :: "env \<Rightarrow> ptr \<Rightarrow> s32 driver"

definition i2c_mpu6050_netlink_operation_record :: genl_ops where
  "i2c_mpu6050_netlink_operation_record = \<lparr>cmd = 1, flags = 0, policy = i2c_mpu6050_netlink_policy, doit = i2c_mpu6050_netlink_handler\<rparr>"

definition i2c_mpu6050_netlink_ops :: "genl_ops list" where
  "i2c_mpu6050_netlink_ops = [\<lparr>cmd = 1, flags = 0, policy = i2c_mpu6050_netlink_policy, doit = i2c_mpu6050_netlink_handler\<rparr>]"

section \<open>The driver (main.c)\<close>

definition i2c_mpu6050_id_table :: "(string \<times> nat) list" where
  "i2c_mpu6050_id_table = [(''olimex_mod_mpu6050'', 0)]"

definition normal_i2c :: "u16 list" where
  "normal_i2c = [0x68, 0x69]"

text \<open>
  The entry points take what the model adds: the fuel of a wait and what the other threads do
  meanwhile are arguments of the table.
\<close>

datatype i2c_class = I2C_CLASS_HWMON

record i2c_driver =
  driver_class :: i2c_class
  suppress_bind_attrs :: bool
  driver_name :: string
  driver_probe :: "env \<Rightarrow> ptr \<Rightarrow> s32 driver"
  driver_remove :: "env \<Rightarrow> ptr \<Rightarrow> s32 driver"
  driver_shutdown :: "env \<Rightarrow> ptr \<Rightarrow> unit driver"
  driver_alert :: "ptr \<Rightarrow> u32 \<Rightarrow> unit driver"
  driver_command :: "ptr \<Rightarrow> u32 \<Rightarrow> ptr \<Rightarrow> s32 driver"
  driver_groups :: "attribute_group list"
  driver_pm :: "env \<Rightarrow> pm_callback \<Rightarrow> ptr \<Rightarrow> s32 driver"
  id_table :: "(string \<times> nat) list"
  driver_detect :: "env \<Rightarrow> ptr \<Rightarrow> u16 option \<Rightarrow> (s32 \<times> string option) driver"
  address_list :: "u16 list"

definition i2c_mpu6050_i2c_driver :: "nat \<Rightarrow> unit driver \<Rightarrow> i2c_driver" where
  "i2c_mpu6050_i2c_driver fuel meanwhile =
     \<lparr>driver_class = I2C_CLASS_HWMON, suppress_bind_attrs = False, driver_name = ''olimex_mod_mpu6050'', driver_probe = i2c_mpu6050_probe fuel meanwhile,
      driver_remove = i2c_mpu6050_remove fuel meanwhile, driver_shutdown = i2c_mpu6050_shutdown,
      driver_alert = i2c_mpu6050_alert, driver_command = i2c_mpu6050_command, driver_groups = i2c_mpu6050_groups,
      driver_pm = i2c_mpu6050_pm_ops, id_table = i2c_mpu6050_id_table, driver_detect = i2c_mpu6050_detect,
      address_list = normal_i2c\<rparr>"

text \<open>The map of registers that main.c declares: widths, and the last register.\<close>

record regmap_config =
  reg_bits :: nat
  val_bits :: nat
  max_register :: u8

definition i2c_mpu6050_regmap_config :: regmap_config where
  "i2c_mpu6050_regmap_config = \<lparr>reg_bits = 8, val_bits = 8, max_register = MPU6050_RA_WHO_AM_I\<rparr>"

section \<open>What they promise the kernel\<close>

text \<open>
  A device that the driver detects at one of its addresses gets a type its own id table lists, one
  that fits the kernel's field of 20 characters, so the core hands it to probe.
\<close>

theorem detected_devices_match:
  assumes "a \<in> set (address_list (i2c_mpu6050_i2c_driver fuel meanwhile))"
    and "run_state (driver_detect (i2c_mpu6050_i2c_driver fuel meanwhile) E c (Some a)) s = ((err, found), s')"
  shows "(err = 0 \<longleftrightarrow> found \<noteq> None) \<and>
    (\<forall>t. found = Some t \<longrightarrow> t \<in> set (map fst (id_table (i2c_mpu6050_i2c_driver fuel meanwhile))) \<and>
       t = driver_name (i2c_mpu6050_i2c_driver fuel meanwhile) \<and> length t + 1 \<le> 20)"
  using assms(2)
  by (auto simp: i2c_mpu6050_i2c_driver_def i2c_mpu6050_detect_def i2c_mpu6050_id_table_def split: if_splits)

text \<open>
  \<open>create\<close> stands for the kernel's creation of the files of a group.  It leaves out, as its
  documentation says, every attribute whose visibility is 0: of the group none is left.
\<close>

theorem attribute_files_hidden:
  assumes "\<And>G a. a \<in> set (create G) \<Longrightarrow> a \<in> set (group_attrs G) \<and> (\<exists>k p i. is_visible G k p i \<noteq> 0)"
  shows "concat (map create (driver_groups (i2c_mpu6050_i2c_driver fuel meanwhile))) = []"
  using assms [of _ i2c_mpu6050_group]
  by (simp add: i2c_mpu6050_i2c_driver_def i2c_mpu6050_groups_def i2c_mpu6050_group_def i2c_mpu6050_attr_is_visible_def)
     (metis list.set_intros(1) list.exhaust)

text \<open>Every attribute of a message is within the family's range and has a rule in the operation's policy.\<close>

theorem attributes_declared:
  "list_all (\<lambda>(a, v). a \<in> set (policy i2c_mpu6050_netlink_operation_record) \<and>
     0 < attribute_code a \<and> attribute_code a \<le> maxattr i2c_mpu6050_netlink_family) (sample_attributes m)"
  by (simp add: sample_attributes_def i2c_mpu6050_netlink_operation_record_def i2c_mpu6050_netlink_policy_def
    i2c_mpu6050_netlink_family_def)

end
