(* ===== verification/Register_Map.thy ===== *)
theory Register_Map
  imports Device_Spec
begin

text \<open>
  The register map of the sensor as 3rd_party/i2cdevlib/MPU6050.h has it: the registers, the fields of
  each with the number of the highest bit and the width, and the values named for a field.  A field is
  given with the registers of its group in the header (the classes below the table name them); two
  values of a field the table has no name for (\<open>VDDIO_LEVEL\<close>) and the sizes of the firmware memory are
  left out.  Then the initialisation of device.c read in these terms: which fields it sets, which it
  leaves, and which it changes without meaning to.
\<close>

section \<open>The table\<close>

definition registers :: "(string \<times> u8) list" where
  "registers =
     [(''XG_OFFS_TC'', 0x00), (''YG_OFFS_TC'', 0x01), (''ZG_OFFS_TC'', 0x02), (''X_FINE_GAIN'', 0x03),
     (''Y_FINE_GAIN'', 0x04), (''Z_FINE_GAIN'', 0x05), (''XA_OFFS_H'', 0x06), (''XA_OFFS_L_TC'', 0x07),
     (''YA_OFFS_H'', 0x08), (''YA_OFFS_L_TC'', 0x09), (''ZA_OFFS_H'', 0x0A), (''ZA_OFFS_L_TC'', 0x0B),
     (''XG_OFFS_USRH'', 0x13), (''XG_OFFS_USRL'', 0x14), (''YG_OFFS_USRH'', 0x15), (''YG_OFFS_USRL'', 0x16),
     (''ZG_OFFS_USRH'', 0x17), (''ZG_OFFS_USRL'', 0x18), (''SMPLRT_DIV'', 0x19), (''CONFIG'', 0x1A),
     (''GYRO_CONFIG'', 0x1B), (''ACCEL_CONFIG'', 0x1C), (''FF_THR'', 0x1D), (''FF_DUR'', 0x1E),
     (''MOT_THR'', 0x1F), (''MOT_DUR'', 0x20), (''ZRMOT_THR'', 0x21), (''ZRMOT_DUR'', 0x22),
     (''FIFO_EN'', 0x23), (''I2C_MST_CTRL'', 0x24), (''I2C_SLV0_ADDR'', 0x25), (''I2C_SLV0_REG'', 0x26),
     (''I2C_SLV0_CTRL'', 0x27), (''I2C_SLV1_ADDR'', 0x28), (''I2C_SLV1_REG'', 0x29), (''I2C_SLV1_CTRL'', 0x2A),
     (''I2C_SLV2_ADDR'', 0x2B), (''I2C_SLV2_REG'', 0x2C), (''I2C_SLV2_CTRL'', 0x2D), (''I2C_SLV3_ADDR'', 0x2E),
     (''I2C_SLV3_REG'', 0x2F), (''I2C_SLV3_CTRL'', 0x30), (''I2C_SLV4_ADDR'', 0x31), (''I2C_SLV4_REG'', 0x32),
     (''I2C_SLV4_DO'', 0x33), (''I2C_SLV4_CTRL'', 0x34), (''I2C_SLV4_DI'', 0x35), (''I2C_MST_STATUS'', 0x36),
     (''INT_PIN_CFG'', 0x37), (''INT_ENABLE'', 0x38), (''DMP_INT_STATUS'', 0x39), (''INT_STATUS'', 0x3A),
     (''ACCEL_XOUT_H'', 0x3B), (''ACCEL_XOUT_L'', 0x3C), (''ACCEL_YOUT_H'', 0x3D), (''ACCEL_YOUT_L'', 0x3E),
     (''ACCEL_ZOUT_H'', 0x3F), (''ACCEL_ZOUT_L'', 0x40), (''TEMP_OUT_H'', 0x41), (''TEMP_OUT_L'', 0x42),
     (''GYRO_XOUT_H'', 0x43), (''GYRO_XOUT_L'', 0x44), (''GYRO_YOUT_H'', 0x45), (''GYRO_YOUT_L'', 0x46),
     (''GYRO_ZOUT_H'', 0x47), (''GYRO_ZOUT_L'', 0x48), (''EXT_SENS_DATA_00'', 0x49),
     (''EXT_SENS_DATA_01'', 0x4A), (''EXT_SENS_DATA_02'', 0x4B), (''EXT_SENS_DATA_03'', 0x4C),
     (''EXT_SENS_DATA_04'', 0x4D), (''EXT_SENS_DATA_05'', 0x4E), (''EXT_SENS_DATA_06'', 0x4F),
     (''EXT_SENS_DATA_07'', 0x50), (''EXT_SENS_DATA_08'', 0x51), (''EXT_SENS_DATA_09'', 0x52),
     (''EXT_SENS_DATA_10'', 0x53), (''EXT_SENS_DATA_11'', 0x54), (''EXT_SENS_DATA_12'', 0x55),
     (''EXT_SENS_DATA_13'', 0x56), (''EXT_SENS_DATA_14'', 0x57), (''EXT_SENS_DATA_15'', 0x58),
     (''EXT_SENS_DATA_16'', 0x59), (''EXT_SENS_DATA_17'', 0x5A), (''EXT_SENS_DATA_18'', 0x5B),
     (''EXT_SENS_DATA_19'', 0x5C), (''EXT_SENS_DATA_20'', 0x5D), (''EXT_SENS_DATA_21'', 0x5E),
     (''EXT_SENS_DATA_22'', 0x5F), (''EXT_SENS_DATA_23'', 0x60), (''MOT_DETECT_STATUS'', 0x61),
     (''I2C_SLV0_DO'', 0x63), (''I2C_SLV1_DO'', 0x64), (''I2C_SLV2_DO'', 0x65), (''I2C_SLV3_DO'', 0x66),
     (''I2C_MST_DELAY_CTRL'', 0x67), (''SIGNAL_PATH_RESET'', 0x68), (''MOT_DETECT_CTRL'', 0x69),
     (''USER_CTRL'', 0x6A), (''PWR_MGMT_1'', 0x6B), (''PWR_MGMT_2'', 0x6C), (''BANK_SEL'', 0x6D),
     (''MEM_START_ADDR'', 0x6E), (''MEM_R_W'', 0x6F), (''DMP_CFG_1'', 0x70), (''DMP_CFG_2'', 0x71),
     (''FIFO_COUNTH'', 0x72), (''FIFO_COUNTL'', 0x73), (''FIFO_R_W'', 0x74), (''WHO_AM_I'', 0x75)]"

text \<open>The groups of fields, each with the registers that have them.\<close>

type_synonym field_group = "u8 list \<times> (string \<times> nat \<times> nat) list"

definition fields_to_slaves :: "field_group list" where
  "fields_to_slaves =
    [([0x00, 0x01, 0x02],
       [(''TC_PWR_MODE'', 7, 1), (''TC_OFFSET'', 6, 6), (''TC_OTP_BNK_VLD'', 0, 1)]),
     ([0x1A],
       [(''CFG_EXT_SYNC_SET'', 5, 3), (''CFG_DLPF_CFG'', 2, 3)]),
     ([0x1B],
       [(''GCONFIG_FS_SEL'', 4, 2)]),
     ([0x1C],
       [(''ACONFIG_XA_ST'', 7, 1), (''ACONFIG_YA_ST'', 6, 1), (''ACONFIG_ZA_ST'', 5, 1),
       (''ACONFIG_AFS_SEL'', 4, 2), (''ACONFIG_ACCEL_HPF'', 2, 3)]),
     ([0x23],
       [(''TEMP_FIFO_EN'', 7, 1), (''XG_FIFO_EN'', 6, 1), (''YG_FIFO_EN'', 5, 1), (''ZG_FIFO_EN'', 4, 1),
       (''ACCEL_FIFO_EN'', 3, 1), (''SLV2_FIFO_EN'', 2, 1), (''SLV1_FIFO_EN'', 1, 1), (''SLV0_FIFO_EN'', 0, 1)]),
     ([0x24],
       [(''MULT_MST_EN'', 7, 1), (''WAIT_FOR_ES'', 6, 1), (''SLV_3_FIFO_EN'', 5, 1), (''I2C_MST_P_NSR'', 4, 1),
       (''I2C_MST_CLK'', 3, 4)]),
     ([0x25, 0x28, 0x2B, 0x2E],
       [(''I2C_SLV_RW'', 7, 1), (''I2C_SLV_ADDR'', 6, 7)]),
     ([0x27, 0x2A, 0x2D, 0x30],
       [(''I2C_SLV_EN'', 7, 1), (''I2C_SLV_BYTE_SW'', 6, 1), (''I2C_SLV_REG_DIS'', 5, 1),
       (''I2C_SLV_GRP'', 4, 1), (''I2C_SLV_LEN'', 3, 4)]),
     ([0x31],
       [(''I2C_SLV4_RW'', 7, 1), (''I2C_SLV4_ADDR'', 6, 7)]),
     ([0x34],
       [(''I2C_SLV4_EN'', 7, 1), (''I2C_SLV4_INT_EN'', 6, 1), (''I2C_SLV4_REG_DIS'', 5, 1),
       (''I2C_SLV4_MST_DLY'', 4, 5)])]"

definition fields_from_status :: "field_group list" where
  "fields_from_status =
    [([0x36],
       [(''MST_PASS_THROUGH'', 7, 1), (''MST_I2C_SLV4_DONE'', 6, 1), (''MST_I2C_LOST_ARB'', 5, 1),
       (''MST_I2C_SLV4_NACK'', 4, 1), (''MST_I2C_SLV3_NACK'', 3, 1), (''MST_I2C_SLV2_NACK'', 2, 1),
       (''MST_I2C_SLV1_NACK'', 1, 1), (''MST_I2C_SLV0_NACK'', 0, 1)]),
     ([0x37],
       [(''INTCFG_INT_LEVEL'', 7, 1), (''INTCFG_INT_OPEN'', 6, 1), (''INTCFG_LATCH_INT_EN'', 5, 1),
       (''INTCFG_INT_RD_CLEAR'', 4, 1), (''INTCFG_FSYNC_INT_LEVEL'', 3, 1), (''INTCFG_FSYNC_INT_EN'', 2, 1),
       (''INTCFG_I2C_BYPASS_EN'', 1, 1), (''INTCFG_CLKOUT_EN'', 0, 1)]),
     ([0x38, 0x3A],
       [(''INTERRUPT_FF'', 7, 1), (''INTERRUPT_MOT'', 6, 1), (''INTERRUPT_ZMOT'', 5, 1),
       (''INTERRUPT_FIFO_OFLOW'', 4, 1), (''INTERRUPT_I2C_MST_INT'', 3, 1), (''INTERRUPT_PLL_RDY_INT'', 2, 1),
       (''INTERRUPT_DMP_INT'', 1, 1), (''INTERRUPT_DATA_RDY'', 0, 1)]),
     ([0x39],
       [(''DMPINT_5'', 5, 1), (''DMPINT_4'', 4, 1), (''DMPINT_3'', 3, 1), (''DMPINT_2'', 2, 1),
       (''DMPINT_1'', 1, 1), (''DMPINT_0'', 0, 1)]),
     ([0x61],
       [(''MOTION_MOT_XNEG'', 7, 1), (''MOTION_MOT_XPOS'', 6, 1), (''MOTION_MOT_YNEG'', 5, 1),
       (''MOTION_MOT_YPOS'', 4, 1), (''MOTION_MOT_ZNEG'', 3, 1), (''MOTION_MOT_ZPOS'', 2, 1),
       (''MOTION_MOT_ZRMOT'', 0, 1)]),
     ([0x67],
       [(''DELAYCTRL_DELAY_ES_SHADOW'', 7, 1), (''DELAYCTRL_I2C_SLV4_DLY_EN'', 4, 1),
       (''DELAYCTRL_I2C_SLV3_DLY_EN'', 3, 1), (''DELAYCTRL_I2C_SLV2_DLY_EN'', 2, 1),
       (''DELAYCTRL_I2C_SLV1_DLY_EN'', 1, 1), (''DELAYCTRL_I2C_SLV0_DLY_EN'', 0, 1)]),
     ([0x68],
       [(''PATHRESET_GYRO_RESET'', 2, 1), (''PATHRESET_ACCEL_RESET'', 1, 1), (''PATHRESET_TEMP_RESET'', 0, 1)]),
     ([0x69],
       [(''DETECT_ACCEL_ON_DELAY'', 5, 2), (''DETECT_FF_COUNT'', 3, 2), (''DETECT_MOT_COUNT'', 1, 2)]),
     ([0x6A],
       [(''USERCTRL_DMP_EN'', 7, 1), (''USERCTRL_FIFO_EN'', 6, 1), (''USERCTRL_I2C_MST_EN'', 5, 1),
       (''USERCTRL_I2C_IF_DIS'', 4, 1), (''USERCTRL_DMP_RESET'', 3, 1), (''USERCTRL_FIFO_RESET'', 2, 1),
       (''USERCTRL_I2C_MST_RESET'', 1, 1), (''USERCTRL_SIG_COND_RESET'', 0, 1)]),
     ([0x6B],
       [(''PWR1_DEVICE_RESET'', 7, 1), (''PWR1_SLEEP'', 6, 1), (''PWR1_CYCLE'', 5, 1),
       (''PWR1_TEMP_DIS'', 3, 1), (''PWR1_CLKSEL'', 2, 3)]),
     ([0x6C],
       [(''PWR2_LP_WAKE_CTRL'', 7, 2), (''PWR2_STBY_XA'', 5, 1), (''PWR2_STBY_YA'', 4, 1),
       (''PWR2_STBY_ZA'', 3, 1), (''PWR2_STBY_XG'', 2, 1), (''PWR2_STBY_YG'', 1, 1), (''PWR2_STBY_ZG'', 0, 1)]),
     ([0x6D],
       [(''BANKSEL_PRFTCH_EN'', 6, 1), (''BANKSEL_CFG_USER_BANK'', 5, 1), (''BANKSEL_MEM_SEL'', 4, 5)]),
     ([0x75],
       [(''WHO_AM_I'', 6, 6)])]"

definition fields :: "field_group list" where
  "fields = fields_to_slaves @ fields_from_status"

text \<open>The values named for a field, with its register and highest bit.\<close>

type_synonym field_values = "u8 \<times> nat \<times> (string \<times> nat) list"

definition values_to_clock :: "field_values list" where
  "values_to_clock =
    [(0x1A, 5,
       [(''EXT_SYNC_DISABLED'', 0), (''EXT_SYNC_TEMP_OUT_L'', 1), (''EXT_SYNC_GYRO_XOUT_L'', 2),
       (''EXT_SYNC_GYRO_YOUT_L'', 3), (''EXT_SYNC_GYRO_ZOUT_L'', 4), (''EXT_SYNC_ACCEL_XOUT_L'', 5),
       (''EXT_SYNC_ACCEL_YOUT_L'', 6), (''EXT_SYNC_ACCEL_ZOUT_L'', 7)]),
     (0x1A, 2,
       [(''DLPF_BW_256'', 0), (''DLPF_BW_188'', 1), (''DLPF_BW_98'', 2), (''DLPF_BW_42'', 3),
       (''DLPF_BW_20'', 4), (''DLPF_BW_10'', 5), (''DLPF_BW_5'', 6)]),
     (0x1B, 4,
       [(''GYRO_FS_250'', 0), (''GYRO_FS_500'', 1), (''GYRO_FS_1000'', 2), (''GYRO_FS_2000'', 3)]),
     (0x1C, 4,
       [(''ACCEL_FS_2'', 0), (''ACCEL_FS_4'', 1), (''ACCEL_FS_8'', 2), (''ACCEL_FS_16'', 3)]),
     (0x1C, 2,
       [(''DHPF_RESET'', 0), (''DHPF_5'', 1), (''DHPF_2P5'', 2), (''DHPF_1P25'', 3), (''DHPF_0P63'', 4),
       (''DHPF_HOLD'', 7)]),
     (0x24, 3,
       [(''CLOCK_DIV_348'', 0), (''CLOCK_DIV_333'', 1), (''CLOCK_DIV_320'', 2), (''CLOCK_DIV_308'', 3),
       (''CLOCK_DIV_296'', 4), (''CLOCK_DIV_286'', 5), (''CLOCK_DIV_276'', 6), (''CLOCK_DIV_267'', 7),
       (''CLOCK_DIV_258'', 8), (''CLOCK_DIV_500'', 9), (''CLOCK_DIV_471'', 10), (''CLOCK_DIV_444'', 11),
       (''CLOCK_DIV_421'', 12), (''CLOCK_DIV_400'', 13), (''CLOCK_DIV_381'', 14), (''CLOCK_DIV_364'', 15)])]"

definition values_from_interrupts :: "field_values list" where
  "values_from_interrupts =
    [(0x37, 7,
       [(''INTMODE_ACTIVEHIGH'', 0), (''INTMODE_ACTIVELOW'', 1)]),
     (0x37, 6,
       [(''INTDRV_PUSHPULL'', 0), (''INTDRV_OPENDRAIN'', 1)]),
     (0x37, 5,
       [(''INTLATCH_50USPULSE'', 0), (''INTLATCH_WAITCLEAR'', 1)]),
     (0x37, 4,
       [(''INTCLEAR_STATUSREAD'', 0), (''INTCLEAR_ANYREAD'', 1)]),
     (0x69, 3,
       [(''DETECT_DECREMENT_RESET'', 0), (''DETECT_DECREMENT_1'', 1), (''DETECT_DECREMENT_2'', 2),
       (''DETECT_DECREMENT_4'', 3)]),
     (0x69, 1,
       [(''DETECT_DECREMENT_RESET'', 0), (''DETECT_DECREMENT_1'', 1), (''DETECT_DECREMENT_2'', 2),
       (''DETECT_DECREMENT_4'', 3)]),
     (0x6B, 2,
       [(''CLOCK_INTERNAL'', 0), (''CLOCK_PLL_XGYRO'', 1), (''CLOCK_PLL_YGYRO'', 2), (''CLOCK_PLL_ZGYRO'', 3),
       (''CLOCK_PLL_EXT32K'', 4), (''CLOCK_PLL_EXT19M'', 5), (''CLOCK_KEEP_RESET'', 7)]),
     (0x6C, 7,
       [(''WAKE_FREQ_1P25'', 0), (''WAKE_FREQ_2P5'', 1), (''WAKE_FREQ_5'', 2), (''WAKE_FREQ_10'', 3)])]"

section \<open>The table is well formed\<close>

definition fields_of :: "u8 \<Rightarrow> (string \<times> nat \<times> nat) list" where
  "fields_of r = concat (map snd (filter (\<lambda>(rs, fs). r \<in> set rs) fields))"

definition bits_of :: "string \<times> nat \<times> nat \<Rightarrow> nat list" where
  "bits_of F = (case F of (n, b, k) \<Rightarrow> [b + 1 - k..<b + 1])"

lemma registers_ascend: "sorted_wrt (<) (map snd registers)"
  by code_simp

lemma last_register: "snd (last registers) = MPU6050_RA_WHO_AM_I"
  by (simp add: registers_def)

lemma groups_of_registers: "list_all (\<lambda>(rs, fs). set rs \<subseteq> set (map snd registers)) fields"
  by code_simp

lemma fields_in_bytes: "list_all (\<lambda>(rs, fs). list_all (\<lambda>(n, b, k). 0 < k \<and> k \<le> b + 1 \<and> b < 8) fs) fields"
  by code_simp

lemma fields_disjoint: "list_all (\<lambda>(n, r). distinct (concat (map bits_of (fields_of r)))) registers"
  by code_simp

lemma values_fit:
  "list_all (\<lambda>(r, b, vs). list_ex (\<lambda>(n, b', k). b' = b \<and> list_all (\<lambda>(m, v). v < 2 ^ k) vs) (fields_of r))
     (values_to_clock @ values_from_interrupts)"
  by code_simp

section \<open>The values of fields\<close>

definition field_get :: "nat \<Rightarrow> nat \<Rightarrow> u8 \<Rightarrow> u8" where
  "field_get b k v = take_bit k (drop_bit (b + 1 - k) v)"

definition value_in :: "u8 \<Rightarrow> string \<Rightarrow> regs \<Rightarrow> u8 option" where
  "value_in r n f = map_option (\<lambda>(b, k). field_get b k (f r)) (map_of (fields_of r) n)"

lemma bit_field_get: "b < 8 \<Longrightarrow> k \<le> b + 1 \<Longrightarrow> bit (field_get b k v) i \<longleftrightarrow> i < k \<and> bit v (b + 1 - k + i)"
  by (auto simp: field_get_def bit_simps)

lemma field_get_bit: "b < 8 \<Longrightarrow> field_get b (Suc 0) v = of_bool (bit v b)"
  by (rule bit_word_eqI) (auto simp: bit_field_get bit_of_bool_iff)

lemma driver_fields:
  "fields_of 0x1A = [(''CFG_EXT_SYNC_SET'', 5, 3), (''CFG_DLPF_CFG'', 2, 3)]"
  "fields_of 0x19 = []"
  "fields_of 0x1B = [(''GCONFIG_FS_SEL'', 4, 2)]"
  "fields_of 0x1C = [(''ACONFIG_XA_ST'', 7, 1), (''ACONFIG_YA_ST'', 6, 1), (''ACONFIG_ZA_ST'', 5, 1), (''ACONFIG_AFS_SEL'', 4, 2),
     (''ACONFIG_ACCEL_HPF'', 2, 3)]"
  "fields_of 0x23 = [(''TEMP_FIFO_EN'', 7, 1), (''XG_FIFO_EN'', 6, 1), (''YG_FIFO_EN'', 5, 1), (''ZG_FIFO_EN'', 4, 1),
     (''ACCEL_FIFO_EN'', 3, 1), (''SLV2_FIFO_EN'', 2, 1), (''SLV1_FIFO_EN'', 1, 1), (''SLV0_FIFO_EN'', 0, 1)]"
  "fields_of 0x24 = [(''MULT_MST_EN'', 7, 1), (''WAIT_FOR_ES'', 6, 1), (''SLV_3_FIFO_EN'', 5, 1), (''I2C_MST_P_NSR'', 4, 1),
     (''I2C_MST_CLK'', 3, 4)]"
  "fields_of 0x37 = [(''INTCFG_INT_LEVEL'', 7, 1), (''INTCFG_INT_OPEN'', 6, 1), (''INTCFG_LATCH_INT_EN'', 5, 1),
     (''INTCFG_INT_RD_CLEAR'', 4, 1), (''INTCFG_FSYNC_INT_LEVEL'', 3, 1), (''INTCFG_FSYNC_INT_EN'', 2, 1),
     (''INTCFG_I2C_BYPASS_EN'', 1, 1), (''INTCFG_CLKOUT_EN'', 0, 1)]"
  "fields_of 0x38 = [(''INTERRUPT_FF'', 7, 1), (''INTERRUPT_MOT'', 6, 1), (''INTERRUPT_ZMOT'', 5, 1), (''INTERRUPT_FIFO_OFLOW'', 4, 1),
     (''INTERRUPT_I2C_MST_INT'', 3, 1), (''INTERRUPT_PLL_RDY_INT'', 2, 1), (''INTERRUPT_DMP_INT'', 1, 1), (''INTERRUPT_DATA_RDY'', 0, 1)]"
  "fields_of 0x6A = [(''USERCTRL_DMP_EN'', 7, 1), (''USERCTRL_FIFO_EN'', 6, 1), (''USERCTRL_I2C_MST_EN'', 5, 1),
     (''USERCTRL_I2C_IF_DIS'', 4, 1), (''USERCTRL_DMP_RESET'', 3, 1), (''USERCTRL_FIFO_RESET'', 2, 1),
     (''USERCTRL_I2C_MST_RESET'', 1, 1), (''USERCTRL_SIG_COND_RESET'', 0, 1)]"
  "fields_of 0x6B = [(''PWR1_DEVICE_RESET'', 7, 1), (''PWR1_SLEEP'', 6, 1), (''PWR1_CYCLE'', 5, 1), (''PWR1_TEMP_DIS'', 3, 1),
     (''PWR1_CLKSEL'', 2, 3)]"
  by code_simp+

text \<open>What the initialisation means to set, the range fields, and what it clears on the way.\<close>

definition intended_settings :: "module_params \<Rightarrow> (u8 \<times> string \<times> u8) list" where
  "intended_settings p =
     [(MPU6050_RA_PWR_MGMT_1, ''PWR1_SLEEP'', 0), (MPU6050_RA_PWR_MGMT_1, ''PWR1_CLKSEL'', 1), (MPU6050_RA_CONFIG, ''CFG_DLPF_CFG'', 0)] @
     (if nofifo p = 0
      then [(MPU6050_RA_FIFO_EN, ''TEMP_FIFO_EN'', 1), (MPU6050_RA_FIFO_EN, ''XG_FIFO_EN'', 1), (MPU6050_RA_FIFO_EN, ''YG_FIFO_EN'', 1),
            (MPU6050_RA_FIFO_EN, ''ZG_FIFO_EN'', 1), (MPU6050_RA_FIFO_EN, ''ACCEL_FIFO_EN'', 1),
            (MPU6050_RA_INT_ENABLE, ''INTERRUPT_FIFO_OFLOW'', 0), (MPU6050_RA_USER_CTRL, ''USERCTRL_FIFO_EN'', 1)]
      else []) @
     (if noirq p = 0
      then [(MPU6050_RA_INT_PIN_CFG, ''INTCFG_INT_LEVEL'', 0), (MPU6050_RA_INT_PIN_CFG, ''INTCFG_INT_OPEN'', 0),
            (MPU6050_RA_INT_PIN_CFG, ''INTCFG_LATCH_INT_EN'', 0), (MPU6050_RA_INT_PIN_CFG, ''INTCFG_INT_RD_CLEAR'', 1),
            (MPU6050_RA_I2C_MST_CTRL, ''WAIT_FOR_ES'', 0), (MPU6050_RA_INT_ENABLE, ''INTERRUPT_DATA_RDY'', 1)]
      else [])"

definition cleared :: "module_params \<Rightarrow> regs \<Rightarrow> (u8 \<times> string) list" where
  "cleared p f =
     (if bit (f MPU6050_RA_PWR_MGMT_1) 6
      then map (Pair MPU6050_RA_PWR_MGMT_1) [''PWR1_DEVICE_RESET'', ''PWR1_CYCLE'', ''PWR1_TEMP_DIS''] else []) @
     (if noirq p = 0
      then map (Pair MPU6050_RA_INT_PIN_CFG)
        [''INTCFG_FSYNC_INT_LEVEL'', ''INTCFG_FSYNC_INT_EN'', ''INTCFG_I2C_BYPASS_EN'', ''INTCFG_CLKOUT_EN''] else []) @
     (if noirq p = 0 \<and> bit (f MPU6050_RA_I2C_MST_CTRL) 6
      then map (Pair MPU6050_RA_I2C_MST_CTRL) [''MULT_MST_EN'', ''SLV_3_FIFO_EN'', ''I2C_MST_P_NSR'', ''I2C_MST_CLK''] else []) @
     (let overflow = (nofifo p = 0 \<and> bit (f MPU6050_RA_INT_ENABLE) 4);
          ready = (noirq p = 0 \<and> (overflow \<or> \<not> bit (f MPU6050_RA_INT_ENABLE) 0))
      in (if overflow \<or> ready
          then map (Pair MPU6050_RA_INT_ENABLE)
            [''INTERRUPT_FF'', ''INTERRUPT_MOT'', ''INTERRUPT_ZMOT'', ''INTERRUPT_I2C_MST_INT'', ''INTERRUPT_PLL_RDY_INT'', ''INTERRUPT_DMP_INT'']
          else []) @
         (if ready \<and> nofifo p \<noteq> 0 then [(MPU6050_RA_INT_ENABLE, ''INTERRUPT_FIFO_OFLOW'')] else []) @
         (if overflow \<and> noirq p \<noteq> 0 then [(MPU6050_RA_INT_ENABLE, ''INTERRUPT_DATA_RDY'')] else []))"

definition range_fields :: "(u8 \<times> string) list" where
  "range_fields = [(MPU6050_RA_GYRO_CONFIG, ''GCONFIG_FS_SEL''), (MPU6050_RA_ACCEL_CONFIG, ''ACONFIG_AFS_SEL''),
     (MPU6050_RA_ACCEL_CONFIG, ''ACONFIG_ZA_ST'')]"

lemma range_bits: "v AND 0x18 = 0x18 \<longleftrightarrow> bit v 3 \<and> bit v 4" for v :: u8
  by (simp add: byte_bits)

lemma masked_fields:
  "field_get 2 3 (v AND 0xF8 OR 1) = 1" "field_get 2 3 1 = 1" "field_get 2 3 (v AND 0xF8) = 0"
  "field_get 5 3 (v AND 0xF8) = field_get 5 3 v" "field_get 3 4 0 = 0" "field_get 2 3 (v OR 0x30) = field_get 2 3 v"
  "field_get 4 2 (v OR 0x30) = field_get 4 2 v OR 2"
  by (simp_all add: byte_bits bit_field_get)

lemma configured_settings: "list_all (\<lambda>(r, n, x). value_in r n (configured p f) = Some x) (intended_settings p)"
  by (simp add: intended_settings_def value_in_def driver_fields configured_def Let_def field_get_bit masked_fields bit_simps)

lemma configured_cleared: "list_all (\<lambda>(r, n). value_in r n (configured p f) = Some 0) (cleared p f)"
  by (auto simp: cleared_def value_in_def driver_fields configured_def Let_def field_get_bit masked_fields bit_simps)

lemma configured_ranges:
  "value_in MPU6050_RA_GYRO_CONFIG ''GCONFIG_FS_SEL'' (configured p f) =
     map_option (\<lambda>x. x OR 2) (value_in MPU6050_RA_GYRO_CONFIG ''GCONFIG_FS_SEL'' f)"
  "value_in MPU6050_RA_ACCEL_CONFIG ''ACONFIG_AFS_SEL'' (configured p f) =
     map_option (\<lambda>x. x OR 2) (value_in MPU6050_RA_ACCEL_CONFIG ''ACONFIG_AFS_SEL'' f)"
  "value_in MPU6050_RA_ACCEL_CONFIG ''ACONFIG_ZA_ST'' (configured p f) =
     (if value_in MPU6050_RA_ACCEL_CONFIG ''ACONFIG_AFS_SEL'' f = Some 3
      then value_in MPU6050_RA_ACCEL_CONFIG ''ACONFIG_ZA_ST'' f else Some 1)"
proof -
  have "field_get 4 2 v = 3 \<longleftrightarrow> bit v 3 \<and> bit v 4" and "bit v 3 \<Longrightarrow> bit v 4 \<Longrightarrow> field_get 4 2 v OR 2 = field_get 4 2 v" for v
    by (auto simp: byte_bits bit_field_get)
  then show
  "value_in MPU6050_RA_GYRO_CONFIG ''GCONFIG_FS_SEL'' (configured p f) =
     map_option (\<lambda>x. x OR 2) (value_in MPU6050_RA_GYRO_CONFIG ''GCONFIG_FS_SEL'' f)"
  "value_in MPU6050_RA_ACCEL_CONFIG ''ACONFIG_AFS_SEL'' (configured p f) =
     map_option (\<lambda>x. x OR 2) (value_in MPU6050_RA_ACCEL_CONFIG ''ACONFIG_AFS_SEL'' f)"
  "value_in MPU6050_RA_ACCEL_CONFIG ''ACONFIG_ZA_ST'' (configured p f) =
     (if value_in MPU6050_RA_ACCEL_CONFIG ''ACONFIG_AFS_SEL'' f = Some 3
      then value_in MPU6050_RA_ACCEL_CONFIG ''ACONFIG_ZA_ST'' f else Some 1)"
    by (simp_all add: value_in_def driver_fields configured_def Let_def range_bits masked_fields field_get_bit bit_simps)
qed

text \<open>The fields named by none of the three lists keep their values.\<close>

definition named_fields :: "module_params \<Rightarrow> regs \<Rightarrow> (u8 \<times> string) list" where
  "named_fields p f = map (\<lambda>(r, n, x). (r, n)) (intended_settings p) @ range_fields @ cleared p f"

definition written_registers :: "u8 list" where
  "written_registers = [MPU6050_RA_PWR_MGMT_1, MPU6050_RA_CONFIG, MPU6050_RA_SMPLRT_DIV, MPU6050_RA_GYRO_CONFIG, MPU6050_RA_ACCEL_CONFIG,
     MPU6050_RA_FIFO_EN, MPU6050_RA_USER_CTRL, MPU6050_RA_INT_PIN_CFG, MPU6050_RA_I2C_MST_CTRL, MPU6050_RA_INT_ENABLE]"

lemma configured_other: "r \<notin> set written_registers \<Longrightarrow> configured p f r = f r"
  by (simp add: configured_def Let_def written_registers_def)

lemma configured_rate: "configured p f MPU6050_RA_SMPLRT_DIV = 0"
  by (simp add: configured_def Let_def)

lemma kept_fields:
  "r \<in> set written_registers \<Longrightarrow>
   list_all (\<lambda>(n, b, k). (r, n) \<notin> set (named_fields p f) \<longrightarrow> field_get b k (configured p f r) = field_get b k (f r)) (fields_of r)"
  unfolding written_registers_def list.set
  by (cases "nofifo p = 0"; cases "noirq p = 0"; elim insertE emptyE)
     (simp_all add: driver_fields named_fields_def intended_settings_def range_fields_def cleared_def configured_def Let_def field_get_bit masked_fields bit_simps)

lemma configured_kept:
  assumes "(r, n) \<notin> set (named_fields p f)"
  shows "value_in r n (configured p f) = value_in r n f"
proof (cases "r \<in> set written_registers")
  case True
  show ?thesis
  proof (cases "map_of (fields_of r) n")
    case (Some q)
    obtain b k where "q = (b, k)" by (cases q)
    with Some kept_fields [OF True, of p f] assms show ?thesis
      by (auto simp: value_in_def list_all_iff dest: map_of_SomeD)
  qed (simp add: value_in_def)
next
  case False
  then show ?thesis by (simp add: value_in_def configured_other)
qed

section \<open>The constants of the driver\<close>

text \<open>Registers.thy repeats what the driver uses; these are the entries of the table.\<close>

lemma driver_registers:
  "list_all (\<lambda>(n, r). map_of registers n = Some r)
     [(''SMPLRT_DIV'', MPU6050_RA_SMPLRT_DIV), (''CONFIG'', MPU6050_RA_CONFIG), (''GYRO_CONFIG'', MPU6050_RA_GYRO_CONFIG),
      (''ACCEL_CONFIG'', MPU6050_RA_ACCEL_CONFIG), (''FIFO_EN'', MPU6050_RA_FIFO_EN), (''I2C_MST_CTRL'', MPU6050_RA_I2C_MST_CTRL),
      (''INT_PIN_CFG'', MPU6050_RA_INT_PIN_CFG), (''INT_ENABLE'', MPU6050_RA_INT_ENABLE), (''ACCEL_XOUT_H'', MPU6050_RA_ACCEL_XOUT_H),
      (''USER_CTRL'', MPU6050_RA_USER_CTRL), (''PWR_MGMT_1'', MPU6050_RA_PWR_MGMT_1), (''PWR_MGMT_2'', MPU6050_RA_PWR_MGMT_2),
      (''FIFO_COUNTH'', MPU6050_RA_FIFO_COUNTH), (''FIFO_R_W'', MPU6050_RA_FIFO_R_W), (''WHO_AM_I'', MPU6050_RA_WHO_AM_I)]"
  by code_simp

text \<open>The block read of a sample covers exactly the output registers of the sensor, in the order of the decoder.\<close>

lemma block_registers:
  "map fst (filter (\<lambda>(n, r). MPU6050_RA_ACCEL_XOUT_H \<le> r \<and> r < MPU6050_RA_ACCEL_XOUT_H + of_nat DEVICE_BLOCK_LENGTH) registers) =
     [''ACCEL_XOUT_H'', ''ACCEL_XOUT_L'', ''ACCEL_YOUT_H'', ''ACCEL_YOUT_L'', ''ACCEL_ZOUT_H'', ''ACCEL_ZOUT_L'', ''TEMP_OUT_H'',
      ''TEMP_OUT_L'', ''GYRO_XOUT_H'', ''GYRO_XOUT_L'', ''GYRO_YOUT_H'', ''GYRO_YOUT_L'', ''GYRO_ZOUT_H'', ''GYRO_ZOUT_L'']"
  by code_simp

section \<open>Properties\<close>


text \<open>C1: The initialisation in terms of the header's fields. On a device that behaves as documented, from any register contents, the initialisation gives every field it means to set its value (awake, clocked by the X gyroscope, no filter, and what the module parameters ask for of the FIFO and the interrupt); the two full scale fields become their old value with the upper bit set, not the 3 the driver names, and unless the range of the accelerometer was 3 before, the self test of its Z axis is switched on; the fields of \<open>cleared\<close>, which share a register with one that is set, end up as 0; and every other field of the table, in whatever register, keeps its value. The sample rate divider is 0, and a register outside of the ten of \<open>written_registers\<close> is as before.\<close>

theorem init_in_fields:
  assumes "mpu6050 f0 E" "c \<noteq> Null" "halted s = None"
  shows "\<exists>es. run_state (i2c_mpu6050_device_init E c) s = (0, s\<lparr>trace := es @ trace s\<rparr>) \<and>
     (let f = regs_of f0 (trace s); g = regs_of f0 (es @ trace s)
      in list_all (\<lambda>(r, n, x). value_in r n g = Some x) (intended_settings (params s)) \<and>
         value_in MPU6050_RA_GYRO_CONFIG ''GCONFIG_FS_SEL'' g =
           map_option (\<lambda>x. x OR 2) (value_in MPU6050_RA_GYRO_CONFIG ''GCONFIG_FS_SEL'' f) \<and>
         value_in MPU6050_RA_ACCEL_CONFIG ''ACONFIG_AFS_SEL'' g =
           map_option (\<lambda>x. x OR 2) (value_in MPU6050_RA_ACCEL_CONFIG ''ACONFIG_AFS_SEL'' f) \<and>
         value_in MPU6050_RA_ACCEL_CONFIG ''ACONFIG_ZA_ST'' g =
           (if value_in MPU6050_RA_ACCEL_CONFIG ''ACONFIG_AFS_SEL'' f = Some 3
            then value_in MPU6050_RA_ACCEL_CONFIG ''ACONFIG_ZA_ST'' f else Some 1) \<and>
         list_all (\<lambda>(r, n). value_in r n g = Some 0) (cleared (params s) f) \<and>
         (\<forall>r n. (r, n) \<notin> set (named_fields (params s) f) \<longrightarrow> value_in r n g = value_in r n f) \<and>
         g MPU6050_RA_SMPLRT_DIV = 0 \<and> (\<forall>r. r \<notin> set written_registers \<longrightarrow> g r = f r))"
proof -
  from drivesD [OF drives_init [OF assms(1,2)] assms(3)] obtain es
    where "run_state (i2c_mpu6050_device_init E c) s = (0, s\<lparr>trace := es @ trace s\<rparr>)"
      and "regs_of f0 (es @ trace s) = configured (params s) (regs_of f0 (trace s))" by auto
  then show ?thesis
    using configured_settings configured_cleared configured_ranges configured_kept configured_other configured_rate by (intro exI [of _ es]) (simp add: Let_def)
qed

theorem init_in_fields_witness:
  "\<exists>es. run_state (i2c_mpu6050_device_init (device_env power_on_regs) (Obj ())) (initial_kst default_params)
        = (0, (initial_kst default_params)\<lparr>trace := es\<rparr>) \<and>
     value_in MPU6050_RA_PWR_MGMT_1 ''PWR1_CLKSEL'' (regs_of power_on_regs es) = Some 1 \<and>
     value_in MPU6050_RA_ACCEL_CONFIG ''ACONFIG_AFS_SEL'' (regs_of power_on_regs es) = Some 2 \<and>
     value_in MPU6050_RA_ACCEL_CONFIG ''ACONFIG_ZA_ST'' (regs_of power_on_regs es) = Some 1"
proof -
  have "value_in MPU6050_RA_ACCEL_CONFIG ''ACONFIG_AFS_SEL'' power_on_regs = Some 0"
    by (simp add: value_in_def driver_fields power_on_regs_def field_get_def)
  with init_in_fields [of power_on_regs "device_env power_on_regs" "Obj ()" "initial_kst default_params"]
  show ?thesis by (auto simp: mpu6050_device_env settled_power_on Let_def intended_settings_def)
qed

end
