(* ===== verification/Client.thy ===== *)
theory Client
  imports Server Complex_Main
begin

text \<open>
  The user space client (src/src/test_u): decoding a datagram (olimex_mod_mpu6050_common.cpp), the
  messages (olimex_mod_mpu6050_message.cpp), and the event handler that moves them from the
  network thread into the queues of the user interface (olimex_mod_mpu6050_eventhandler.cpp).
  The C++ \<open>float\<close> values are exact rationals here: rounding is not modelled.  ACE is a library:
  its byte swap macro, its allocator and \<open>sprintf\<close> are fields of a record the definitions take as
  an argument.
\<close>

section \<open>The library\<close>

text \<open>
  \<open>ACE_BYTE_ORDER\<close>, \<open>ACE_SWAP_WORD\<close>; whether a message has an allocator of its own and whether the
  n-th allocation succeeds; the result of \<open>ACE_OS::sprintf\<close> for a data line and a bias line.
\<close>

record ace =
  host_order :: byte_order
  swap_word :: "u16 \<Rightarrow> u16"
  has_allocator :: bool
  allocates :: "nat \<Rightarrow> bool"
  sprintf :: int

text \<open>The documented behaviour of the macro: the two bytes change places.\<close>

definition ace_swaps :: "ace \<Rightarrow> bool" where
  "ace_swaps A \<longleftrightarrow> swap_word A = swap16"

datatype ui_fault = Assertion_failed | Empty_front | Buffer_overread

section \<open>Decoding\<close>

abbreviation (input) ACCELEROMETER_LSB_FACTOR_2 :: rat where "ACCELEROMETER_LSB_FACTOR_2 \<equiv> 16384"
abbreviation (input) THERMOMETER_LSB_FACTOR :: rat where "THERMOMETER_LSB_FACTOR \<equiv> 340"
abbreviation (input) THERMOMETER_OFFSET :: rat where "THERMOMETER_OFFSET \<equiv> 3653 / 100"
abbreviation (input) THERMOMETER_RANGE :: rat where "THERMOMETER_RANGE \<equiv> 125"
abbreviation (input) GYROSCOPE_LSB_FACTOR_250 :: rat where "GYROSCOPE_LSB_FACTOR_250 \<equiv> 131"
abbreviation (input) STREAM_BUFFER_SIZE :: nat where "STREAM_BUFFER_SIZE \<equiv> 14"

record reading =
  r_ax :: rat
  r_ay :: rat
  r_az :: rat
  r_t :: rat
  r_gx :: rat
  r_gy :: rat
  r_gz :: rat

text \<open>One 16 bit value of the block, from the byte order of the device to that of the host.\<close>

definition host_word :: "ace \<Rightarrow> u8 list \<Rightarrow> nat \<Rightarrow> s16" where
  "host_word A bs i =
     (let w = load16 (host_order A) bs i
      in case host_order A of Little_endian \<Rightarrow> swap_word A w | Big_endian \<Rightarrow> w)"

text \<open>Reading past the end of the buffer is a fault; the code relies on 14 bytes being there.\<close>

definition extract_data :: "ace \<Rightarrow> u8 list \<Rightarrow> ui_fault + reading" where
  "extract_data A data_in =
     (if length data_in < STREAM_BUFFER_SIZE then Inl Buffer_overread
      else
        let a_x = invert_twos_complement (host_word A data_in 0);
            a_y = invert_twos_complement (host_word A data_in 2);
            a_z = invert_twos_complement (host_word A data_in 4);
            t = host_word A data_in 6;
            g_x = invert_twos_complement (host_word A data_in 8);
            g_y = invert_twos_complement (host_word A data_in 10);
            g_z = invert_twos_complement (host_word A data_in 12)
        in Inr \<lparr>r_ax = of_int (sint a_x) / ACCELEROMETER_LSB_FACTOR_2,
                r_ay = of_int (sint a_y) / ACCELEROMETER_LSB_FACTOR_2,
                r_az = of_int (sint a_z) / ACCELEROMETER_LSB_FACTOR_2,
                r_t = of_int (sint t) / THERMOMETER_LSB_FACTOR + THERMOMETER_OFFSET,
                r_gx = of_int (sint g_x) / GYROSCOPE_LSB_FACTOR_250,
                r_gy = of_int (sint g_y) / GYROSCOPE_LSB_FACTOR_250,
                r_gz = of_int (sint g_z) / GYROSCOPE_LSB_FACTOR_250\<rparr>)"

section \<open>Messages\<close>

text \<open>A message: the bytes of its data block, and the message continuing it, if any.\<close>

datatype message = Message (block: "u8 list") (cont: "message option")

datatype message_type = MESSAGE_INVALID | MESSAGE_SENSOR_DATA | MESSAGE_MAX

definition command :: "message \<Rightarrow> message_type" where
  "command m = MESSAGE_SENSOR_DATA"

fun CommandTypeToString :: "message_type \<Rightarrow> string" where
  "CommandTypeToString MESSAGE_SENSOR_DATA = ''SENSOR_DATA''"
| "CommandTypeToString messageType_in = ''INVALID''"

text \<open>
  The heap of messages: how many allocations have been asked for, and how many of the message
  objects made by \<open>duplicate\<close> are alive.
\<close>

record heap =
  attempts :: nat
  live :: nat

fun chain_length :: "message \<Rightarrow> nat" where
  "chain_length (Message bs None) = 1"
| "chain_length (Message bs (Some m)) = Suc (chain_length m)"

text \<open>\<open>release\<close> gives back a message and the messages continuing it.\<close>

definition release :: "message \<Rightarrow> heap \<Rightarrow> heap" where
  "release m h = h\<lparr>live := live h - chain_length m\<rparr>"

text \<open>
  \<open>Olimex_Mod_MPU6050_Message::duplicate\<close>: allocate; without memory assert that there is an
  allocator and give up; duplicate the continuation, and release the copy when that fails.
\<close>

definition allocate :: "ace \<Rightarrow> heap \<Rightarrow> ui_fault + (bool \<times> heap)" where
  "allocate A h =
     (let n = attempts h
      in if allocates A n then Inr (True, \<lparr>attempts = n + 1, live = live h + 1\<rparr>)
         else if has_allocator A then Inr (False, h\<lparr>attempts := n + 1\<rparr>) else Inl Assertion_failed)"

fun duplicate :: "ace \<Rightarrow> message \<Rightarrow> heap \<Rightarrow> ui_fault + (message option \<times> heap)" where
  "duplicate A (Message bs None) h =
     (case allocate A h of
        Inl f \<Rightarrow> Inl f
      | Inr (ok, h1) \<Rightarrow> Inr (if ok then Some (Message bs None) else None, h1))"
| "duplicate A (Message bs (Some m)) h =
     (case allocate A h of
        Inl f \<Rightarrow> Inl f
      | Inr (False, h1) \<Rightarrow> Inr (None, h1)
      | Inr (True, h1) \<Rightarrow>
          (case duplicate A m h1 of
             Inl f \<Rightarrow> Inl f
           | Inr (None, h2) \<Rightarrow> Inr (None, release (Message bs None) h2)
           | Inr (Some d, h2) \<Rightarrow> Inr (Some (Message bs (Some d)), h2)))"

section \<open>The client's data\<close>

datatype ui_event = EVENT_INVALID | EVENT_CONNECT | EVENT_DISCONNECT | EVENT_MESSAGE | EVENT_SESSION_MESSAGE | EVENT_MAX

record sensor_bias =
  ax_bias :: rat
  ay_bias :: rat
  az_bias :: rat
  gx_bias :: rat
  gy_bias :: rat
  gz_bias :: rat

record camera =
  zoom :: rat
  rotation_x :: rat
  rotation_y :: rat
  rotation_z :: rat
  translation_x :: rat
  translation_y :: rat
  translation_z :: rat
  last_x :: int
  last_y :: int

text \<open>Calls into GTK and the rest of the outside world, recorded in the order they are made.\<close>

datatype ui_call =
    Print_reading reading | Push_information string | Push_bias sensor_bias
  | Pop_data | Push_data reading | Queue_draw | Release message
  | Unrealize_gl | Clear_event_sources | Main_quit | Source_remove nat | Kill_sigint

text \<open>
  \<open>Olimex_Mod_MPU6050_GTK_CBData\<close> (types.h) and the members of the event handler: its console
  mode, and the count of dropped frames of the session, if there is one.  \<open>wild\<close> collects the
  positions outside the temperature array the code writes to; what such a write destroys is not
  modelled.
\<close>

record client =
  consoleMode :: bool
  droppedFrames :: "nat option"
  clientMode :: bool
  clientSensorBias :: sensor_bias
  eventQueue :: "ui_event list"
  messageQueue :: "message list"
  OpenGLCamera :: camera
  OpenGLContexts :: nat
  OpenGLRefreshId :: nat
  temperature :: "rat list"
  temperatureIndex :: int
  msg_heap :: heap
  calls :: "ui_call list"
  wild :: "int list"

definition log_call :: "ui_call \<Rightarrow> client \<Rightarrow> client" where
  "log_call x c = c\<lparr>calls := calls c @ [x]\<rparr>"

abbreviation (input) OPENGL_CAMERA_DEFAULT_ZOOM :: rat where "OPENGL_CAMERA_DEFAULT_ZOOM \<equiv> 5"
abbreviation (input) TEMPERATURE_BUFFER_SIZE :: nat where "TEMPERATURE_BUFFER_SIZE \<equiv> 1000"

definition no_bias :: sensor_bias where
  "no_bias = \<lparr>ax_bias = 0, ay_bias = 0, az_bias = 0, gx_bias = 0, gy_bias = 0, gz_bias = 0\<rparr>"

definition zero_camera :: camera where
  "zero_camera = \<lparr>zoom = 0, rotation_x = 0, rotation_y = 0, rotation_z = 0,
     translation_x = 0, translation_y = 0, translation_z = 0, last_x = 0, last_y = 0\<rparr>"

definition resetCamera :: "client \<Rightarrow> client" where
  "resetCamera c = c\<lparr>OpenGLCamera := zero_camera\<lparr>zoom := OPENGL_CAMERA_DEFAULT_ZOOM\<rparr>\<rparr>"

text \<open>The constructor, with the mode flags \<open>main\<close> sets and the array it clears.\<close>

definition new_client :: "bool \<Rightarrow> bool \<Rightarrow> client" where
  "new_client console client_mode = resetCamera
     \<lparr>consoleMode = console, droppedFrames = None, clientMode = client_mode, clientSensorBias = no_bias,
      eventQueue = [], messageQueue = [], OpenGLCamera = zero_camera, OpenGLContexts = 0, OpenGLRefreshId = 0,
      temperature = replicate (2 * TEMPERATURE_BUFFER_SIZE) 0, temperatureIndex = - 1,
      msg_heap = \<lparr>attempts = 0, live = 0\<rparr>, calls = [], wild = []\<rparr>"

section \<open>The event handler\<close>

text \<open>The session's statistic counts from \<open>dropped\<close>.\<close>

definition handler_start :: "nat \<Rightarrow> client \<Rightarrow> client" where
  "handler_start dropped c = c\<lparr>droppedFrames := Some dropped, eventQueue := eventQueue c @ [EVENT_CONNECT]\<rparr>"

definition handler_notify_message :: "ace \<Rightarrow> message \<Rightarrow> client \<Rightarrow> ui_fault + client" where
  "handler_notify_message A m c =
     (case droppedFrames c of
        None \<Rightarrow> Inl Assertion_failed
      | Some d \<Rightarrow>
          if consoleMode c then
            (case extract_data A (block m) of
               Inl f \<Rightarrow> Inl f
             | Inr r \<Rightarrow> Inr (log_call (Print_reading r) c))
          else
            (case duplicate A m (msg_heap c) of
               Inl f \<Rightarrow> Inl f
             | Inr (None, h) \<Rightarrow> Inr (c\<lparr>msg_heap := h, droppedFrames := Some (d + 1)\<rparr>)
             | Inr (Some p, h) \<Rightarrow>
                 Inr (c\<lparr>msg_heap := h, eventQueue := eventQueue c @ [EVENT_MESSAGE],
                        messageQueue := p # messageQueue c\<rparr>)))"

definition handler_notify_session_message :: "client \<Rightarrow> client" where
  "handler_notify_session_message c = c\<lparr>eventQueue := eventQueue c @ [EVENT_SESSION_MESSAGE]\<rparr>"

definition handler_end :: "client \<Rightarrow> client" where
  "handler_end c = c\<lparr>eventQueue := eventQueue c @ [EVENT_DISCONNECT]\<rparr>"

section \<open>Decoding, compared with the driver\<close>

text \<open>The physical values of a sample, at the scale the client assumes.\<close>

definition physical :: "sample \<Rightarrow> reading" where
  "physical m = \<lparr>r_ax = of_int (sint (accel_x m)) / 16384, r_ay = of_int (sint (accel_y m)) / 16384,
     r_az = of_int (sint (accel_z m)) / 16384, r_t = of_int (sint (temp m)) / 340 + 3653 / 100,
     r_gx = of_int (sint (gyro_x m)) / 131, r_gy = of_int (sint (gyro_y m)) / 131, r_gz = of_int (sint (gyro_z m)) / 131\<rparr>"

lemma host_word_cpu: "ace_swaps A \<Longrightarrow> host_word A bs i = be16_to_cpus (host_order A) (load16 (host_order A) bs i)"
  by (simp add: host_word_def ace_swaps_def be16_to_cpus_def Let_def split: byte_order.split)

lemma extract_data_driver:
  assumes "ace_swaps A" "14 \<le> length bs"
  shows "extract_data A bs = Inr (physical
    (let m = i2c_mpu6050_device_extract_data (host_order A) bs in m\<lparr>temp := be16_to_cpus (host_order A) (temp m)\<rparr>))"
  using assms(2)
  by (simp add: extract_data_def i2c_mpu6050_device_extract_data_def physical_def host_word_cpu [OF assms(1)] Let_def)

lemma bytes_inject:
  "push_bit 8 (ucast a) OR ucast b = (push_bit 8 (ucast c) OR ucast d :: u16) \<longleftrightarrow> a = c \<and> b = d" for a b c d :: u8
proof
  assume e: "push_bit 8 (ucast a) OR ucast b = (push_bit 8 (ucast c) OR ucast d :: u16)"
  have "ucast (push_bit 8 (ucast x) OR ucast y :: u16) = y" for x y :: u8
    by (rule bit_word_eqI) (auto simp: bit_simps)
  moreover have "ucast (drop_bit 8 (push_bit 8 (ucast x) OR ucast y :: u16)) = x" for x y :: u8
    by (rule bit_word_eqI) (auto simp: bit_simps bit_u8_beyond)
  ultimately show "a = c \<and> b = d" using e by metis
qed simp

lemma swap16_fixed: "swap16 (load16 bo bs i) = load16 bo bs i \<longleftrightarrow> bs ! i = bs ! (i + 1)"
  by (cases bo) (auto simp: load16_def swap16_bytes bytes_inject or.commute [of "ucast _ :: u16"])

lemma physical_temp: "physical (m\<lparr>temp := x\<rparr>) = physical m \<longleftrightarrow> x = temp m"
  by (auto simp: physical_def intro: signed_word_eqI)

section \<open>Copies of messages\<close>

text \<open>
  A copy is the whole chain or nothing; what had been allocated of an incomplete one is given back.
\<close>

definition copied :: "ace \<Rightarrow> message \<Rightarrow> heap \<Rightarrow> ui_fault + (message option \<times> heap) \<Rightarrow> bool" where
  "copied A m h r =
     (case r of
        Inl f \<Rightarrow> f = Assertion_failed \<and> \<not> has_allocator A \<and> (\<exists>n<chain_length m. \<not> allocates A (attempts h + n))
      | Inr (None, h') \<Rightarrow> live h' = live h \<and> (\<exists>n<chain_length m. \<not> allocates A (attempts h + n))
      | Inr (Some d, h') \<Rightarrow> d = m \<and> live h' = live h + chain_length m \<and>
          attempts h' = attempts h + chain_length m \<and> (\<forall>n<chain_length m. allocates A (attempts h + n)))"

lemma ex_less_Suc_shift: "(\<exists>n<Suc k. P n) \<longleftrightarrow> P 0 \<or> (\<exists>n<k. P (Suc n))"
  by (metis less_Suc_eq_0_disj)

lemma duplicate_copied: "copied A m h (duplicate A m h)"
proof (induction A m h rule: duplicate.induct)
  case (1 A bs h)
  then show ?case by (simp add: allocate_def copied_def Let_def)
next
  case (2 A bs m h)
  show ?case
  proof (cases "allocates A (attempts h)")
    case False
    then show ?thesis by (auto simp: allocate_def copied_def Let_def ex_less_Suc_shift)
  next
    case True
    let ?h = "\<lparr>attempts = attempts h + 1, live = live h + 1\<rparr>"
    have a: "allocate A h = Inr (True, ?h)" using True by (simp add: allocate_def Let_def)
    have ih: "copied A m ?h (duplicate A m ?h)" by (rule "2.IH" [OF a refl]) simp
    show ?thesis
    proof (cases "duplicate A m ?h")
      case (Inl f)
      with ih a show ?thesis by (auto simp: copied_def ex_less_Suc_shift)
    next
      case (Inr r)
      with ih a True show ?thesis
        by (cases r) (auto simp: copied_def release_def ex_less_Suc_shift All_less_Suc2 split: option.splits)
    qed
  qed
qed

lemma extract_encoded:
  assumes "ace_swaps A"
  shows "extract_data A (encode_sample m @ rest) = Inr (physical m)"
  by (simp add: extract_data_def length_encode_sample host_word_cpu [OF assms] encoded_loads invert_id physical_def)

section \<open>Properties\<close>

text \<open>The library as documented, on a little endian host with memory to spare.\<close>

definition demo_ace :: ace where
  "demo_ace = \<lparr>host_order = Little_endian, swap_word = swap16, has_allocator = True, allocates = (\<lambda>n. True), sprintf = 1\<rparr>"

lemma demo_ace [simp]: "ace_swaps demo_ace" "host_order demo_ace = Little_endian" "has_allocator demo_ace"
  "allocates demo_ace n" "sprintf demo_ace = 1"
  by (simp_all add: demo_ace_def ace_swaps_def)

text \<open>C24: The client decodes what the device encodes. On either byte order, given the documented byte swap, every one of the seven values of a sample comes back, the temperature included, at the scale of +-2 g, 250 degrees per second and 340 steps per degree, whatever follows the 14 bytes.\<close>

theorem client_decodes_device:
  assumes "ace_swaps A"
  shows "extract_data A (encode_sample m @ rest) = Inr (physical m)"
  by (rule extract_encoded [OF assms])

theorem client_decodes_device_witness:
  "extract_data demo_ace (encode_sample demo_sample) = Inr (physical demo_sample)"
  using client_decodes_device [OF demo_ace(1), of demo_sample "[]"] by simp

text \<open>C23: The client and the driver decode a block alike but for the temperature. For every block of at least 14 bytes the client's reading is that of the driver's own decoding with the temperature brought into the order of the host; so the two agree exactly on a big endian host, or when both bytes of the temperature are equal. A shorter block is read past its end.\<close>

theorem client_agrees_with_driver:
  assumes "ace_swaps A"
  shows "(let m = i2c_mpu6050_device_extract_data (host_order A) bs
     in extract_data A bs =
          (if length bs < 14 then Inl Buffer_overread
           else Inr (physical (m\<lparr>temp := be16_to_cpus (host_order A) (temp m)\<rparr>))) \<and>
        (extract_data A bs = Inr (physical m) \<longleftrightarrow> 14 \<le> length bs \<and> (host_order A = Big_endian \<or> bs ! 6 = bs ! 7)))"
proof -
  let ?m = "i2c_mpu6050_device_extract_data (host_order A) bs"
  have 1: "extract_data A bs =
      (if length bs < 14 then Inl Buffer_overread else Inr (physical (?m\<lparr>temp := be16_to_cpus (host_order A) (temp ?m)\<rparr>)))"
    by (cases "length bs < 14") (use extract_data_driver [OF assms, of bs] in \<open>simp_all add: Let_def\<close>, simp add: extract_data_def)
  have "temp ?m = load16 (host_order A) bs 6" by (simp add: i2c_mpu6050_device_extract_data_def)
  then have "be16_to_cpus (host_order A) (temp ?m) = temp ?m \<longleftrightarrow> host_order A = Big_endian \<or> bs ! 6 = bs ! 7"
    using swap16_fixed [of "host_order A" bs 6] by (cases "host_order A") (simp_all add: be16_to_cpus_def)
  then show ?thesis by (simp add: 1 Let_def physical_temp)
qed

theorem client_agrees_with_driver_witness:
  "extract_data demo_ace (encode_sample demo_sample) \<noteq>
     Inr (physical (i2c_mpu6050_device_extract_data Little_endian (encode_sample demo_sample)))"
proof -
  have "encode_sample demo_sample ! 6 \<noteq> encode_sample demo_sample ! 7"
    by (simp add: encode_sample_def be_bytes_def demo_sample_def)
  then show ?thesis
    using conjunct2 [OF client_agrees_with_driver [OF demo_ace(1), of "encode_sample demo_sample", unfolded Let_def]] by simp
qed

end
