(* ===== verification/Client_Ui.thy ===== *)
theory Client_Ui
  imports Client
begin

text \<open>
  The user interface of the client: the callbacks of olimex_mod_mpu6050_gtk_callbacks.cpp that
  touch its data (the periodic processing of events, calibration, the end, keys and mouse), the
  signal handler (olimex_mod_mpu6050_signalhandler.cpp), and the client as a transition system of
  network events and callbacks.  The two threads exclude each other by the lock of the UI state, so
  a step is a whole locked section or callback.  Widgets are looked up in a definition file that is
  not modelled.
\<close>

section \<open>Processing events\<close>

text \<open>The array of temperatures as C sees it: a store outside it is recorded.\<close>

definition store_temperature :: "int \<Rightarrow> rat \<Rightarrow> client \<Rightarrow> client" where
  "store_temperature i v c =
     (if 0 \<le> i \<and> i < int (length (temperature c)) then c\<lparr>temperature := (temperature c)[nat i := v]\<rparr>
      else c\<lparr>wild := wild c @ [i]\<rparr>)"

definition correct :: "client \<Rightarrow> reading \<Rightarrow> reading" where
  "correct c r =
     (if clientMode c
      then let b = clientSensorBias c
           in r\<lparr>r_ax := r_ax r - ax_bias b, r_ay := r_ay r - ay_bias b, r_az := r_az r - az_bias b,
               r_gx := r_gx r - gx_bias b, r_gy := r_gy r - gy_bias b, r_gz := r_gz r - gz_bias b\<rparr>
      else r)"

abbreviation (input) DATA_RATE :: rat where "DATA_RATE \<equiv> 100"
abbreviation (input) CURVE_MAXIMUM_Y :: rat where "CURVE_MAXIMUM_Y \<equiv> 100"

definition rotate :: "reading \<Rightarrow> camera \<Rightarrow> camera" where
  "rotate r k =
     (let angle_x = - r_gx r * (1 / DATA_RATE);
          angle_y = - r_gy r * (1 / DATA_RATE);
          angle_z = r_gz r * (1 / DATA_RATE)
      in k\<lparr>rotation_x := rotation_x k + angle_x, rotation_y := rotation_y k + angle_y,
           rotation_z := rotation_z k + angle_z\<rparr>)"

definition process_message :: "ace \<Rightarrow> message \<Rightarrow> client \<Rightarrow> ui_fault + (bool \<times> client)" where
  "process_message A m c =
     (if length (block m) \<noteq> STREAM_BUFFER_SIZE then Inl Assertion_failed
      else case extract_data A (block m) of
        Inl f \<Rightarrow> Inl f
      | Inr raw \<Rightarrow>
          let r = correct c raw
          in if sprintf A < 0
             then Inr (False, log_call (Release m) (c\<lparr>msg_heap := release m (msg_heap c)\<rparr>))
             else
               let c1 = log_call (Push_data r) (log_call Pop_data c);
                   c2 = c1\<lparr>OpenGLCamera := rotate r (OpenGLCamera c1)\<rparr>;
                   i = temperatureIndex c2;
                   c3 = store_temperature (i * 2) (of_int i) c2;
                   c4 = store_temperature (i * 2 + 1)
                          ((r_t r + THERMOMETER_OFFSET) / THERMOMETER_RANGE * CURVE_MAXIMUM_Y) c3;
                   c5 = log_call (Release m) (log_call Queue_draw c4)
               in Inr (True, c5\<lparr>msg_heap := release m (msg_heap c5)\<rparr>))"

definition process_cb :: "ace \<Rightarrow> client \<Rightarrow> ui_fault + (bool \<times> client)" where
  "process_cb A c =
     (case eventQueue c of
        [] \<Rightarrow> Inr (True, c)
      | e # es \<Rightarrow>
          let c1 = c\<lparr>eventQueue := es\<rparr>
          in case e of
               EVENT_CONNECT \<Rightarrow> Inr (True, log_call (Push_information ''connected'') c1)
             | EVENT_DISCONNECT \<Rightarrow> Inr (True, log_call (Push_information ''disconnected'') c1)
             | EVENT_MESSAGE \<Rightarrow>
                 (case messageQueue c of
                    [] \<Rightarrow> Inl Empty_front
                  | m # ms \<Rightarrow> process_message A m (c1\<lparr>messageQueue := ms\<rparr>))
             | EVENT_SESSION_MESSAGE \<Rightarrow> Inr (True, c1)
             | _ \<Rightarrow> Inr (False, c1))"

section \<open>Calibration\<close>

definition bias_of :: "reading \<Rightarrow> sensor_bias" where
  "bias_of r = \<lparr>ax_bias = r_ax r, ay_bias = r_ay r, az_bias = r_az r + 1,
     gx_bias = r_gx r, gy_bias = r_gy r, gz_bias = r_gz r\<rparr>"

definition calibrate_clicked_gtk_cb :: "ace \<Rightarrow> client \<Rightarrow> ui_fault + (bool \<times> client)" where
  "calibrate_clicked_gtk_cb A c =
     (if \<not> clientMode c then Inl Assertion_failed
      else
        let c1 = c\<lparr>clientSensorBias := no_bias\<rparr>
        in if eventQueue c1 = [] then Inr (False, c1)
           else case messageQueue c1 of
             [] \<Rightarrow> Inl Empty_front
           | m # ms \<Rightarrow>
               (case extract_data A (block m) of
                  Inl f \<Rightarrow> Inl f
                | Inr r \<Rightarrow>
                    let c2 = c1\<lparr>clientSensorBias := bias_of r\<rparr>
                    in if sprintf A < 0 then Inr (False, c2)
                       else Inr (True, log_call (Push_bias (clientSensorBias c2)) c2)))"

section \<open>The end\<close>

primrec flush :: "message list \<Rightarrow> client \<Rightarrow> client" where
  "flush [] c = c"
| "flush (m # ms) c =
     flush ms (log_call (Release m) (c\<lparr>msg_heap := release m (msg_heap c), messageQueue := ms\<rparr>))"

definition idle_finalize_ui_cb :: "client \<Rightarrow> bool \<times> client" where
  "idle_finalize_ui_cb c =
     (let c1 = (if OpenGLContexts c \<noteq> 0 then (log_call Unrealize_gl c)\<lparr>OpenGLContexts := 0\<rparr> else c);
          c2 = flush (messageQueue c1) c1
      in (False, log_call Main_quit (log_call Clear_event_sources c2)))"

definition quit_clicked_gtk_cb :: "client \<Rightarrow> bool \<times> client" where
  "quit_clicked_gtk_cb c =
     (let c1 = (if OpenGLRefreshId c \<noteq> 0
                then (log_call (Source_remove (OpenGLRefreshId c)) c)\<lparr>OpenGLRefreshId := 0\<rparr> else c)
      in (True, log_call Kill_sigint c1))"

section \<open>Keys and mouse\<close>

datatype key = KEY_Left | KEY_Right | KEY_r | KEY_R | KEY_other

definition key_cb :: "key \<Rightarrow> client \<Rightarrow> bool \<times> client" where
  "key_cb keyval c =
     (case keyval of
        KEY_Left \<Rightarrow> (True, c)
      | KEY_Right \<Rightarrow> (True, c)
      | KEY_r \<Rightarrow> (True, log_call Queue_draw (resetCamera c))
      | KEY_R \<Rightarrow> (True, log_call Queue_draw (resetCamera c))
      | KEY_other \<Rightarrow> (False, c))"

text \<open>A motion of the mouse, its coordinates already cut off to \<open>int\<close>.\<close>

record motion =
  is_hint :: bool
  ev_x :: int
  ev_y :: int
  button1 :: bool
  button2 :: bool
  button3 :: bool

abbreviation (input) CAMERA_ROTATION_FACTOR :: rat where "CAMERA_ROTATION_FACTOR \<equiv> 4 / 5"
abbreviation (input) CAMERA_TRANSLATION_FACTOR :: rat where "CAMERA_TRANSLATION_FACTOR \<equiv> 1 / 100"
abbreviation (input) CAMERA_ZOOM_FACTOR :: rat where "CAMERA_ZOOM_FACTOR \<equiv> 3 / 100"

definition move_camera :: "motion \<Rightarrow> camera \<Rightarrow> camera" where
  "move_camera ev k =
     (let diff_x = ev_x ev - last_x k;
          diff_y = ev_y ev - last_y k;
          k1 = k\<lparr>last_x := ev_x ev, last_y := ev_y ev\<rparr>;
          k2 = (if button1 ev
                then k1\<lparr>rotation_x := rotation_x k1 + CAMERA_ROTATION_FACTOR * of_int diff_y,
                        rotation_y := rotation_y k1 + CAMERA_ROTATION_FACTOR * of_int diff_x\<rparr> else k1);
          k3 = (if button2 ev
                then k2\<lparr>translation_x := translation_x k2 + CAMERA_TRANSLATION_FACTOR * of_int diff_x,
                        translation_y := translation_y k2 - CAMERA_TRANSLATION_FACTOR * of_int diff_y\<rparr> else k2)
      in if button3 ev then k3\<lparr>zoom := zoom k3 - CAMERA_ZOOM_FACTOR * of_int diff_x\<rparr> else k3)"

definition motion_cb :: "motion \<Rightarrow> client \<Rightarrow> bool \<times> client" where
  "motion_cb ev c =
     (if is_hint ev then (False, c)
      else
        let c1 = c\<lparr>OpenGLCamera := move_camera ev (OpenGLCamera c)\<rparr>
        in (True, if button1 ev \<or> button2 ev \<or> button3 ev then log_call Queue_draw c1 else c1))"

section \<open>Signals\<close>

datatype signal = SIGCHLD | SIGINT | SIGQUIT | SIGUSR1 | SIGHUP | SIGUSR2 | SIGTERM | SIG_other

datatype signal_call = Connect | Abort_connects | Stop_stream | Stop_gtk

text \<open>
  The configuration of the handler: which of its pointers are set, and whether the connector
  throws.
\<close>

record signal_configuration =
  interfaceHandle :: bool
  stream :: bool
  useReactor :: bool
  sigConsoleMode :: bool
  connect_throws :: bool
  abort_throws :: bool

definition signal_shutdown :: "signal_configuration \<Rightarrow> signal_call list" where
  "signal_shutdown g =
     (let abort = \<not> useReactor g \<and> interfaceHandle g
      in (if abort then [Abort_connects] else []) @
         (if abort \<and> abort_throws g then []
          else (if stream g then [Stop_stream] else []) @ (if sigConsoleMode g then [] else [Stop_gtk])))"

definition signal_handle :: "signal_configuration \<Rightarrow> signal \<Rightarrow> signal_call list" where
  "signal_handle g sig =
     (case sig of
        SIGCHLD \<Rightarrow> []
      | SIGINT \<Rightarrow> signal_shutdown g
      | SIGQUIT \<Rightarrow> signal_shutdown g
      | SIGUSR1 \<Rightarrow> (if interfaceHandle g then [Connect] else [])
      | SIGHUP \<Rightarrow> []
      | SIGUSR2 \<Rightarrow> []
      | SIGTERM \<Rightarrow> []
      | SIG_other \<Rightarrow> [])"

section \<open>The client as a system\<close>

text \<open>What the network thread and the user interface do to the client, each under the lock.\<close>

datatype ui_step =
    Net_start nat | Net_message message | Net_session_message | Net_end | Process | Calibrate | Key key | Motion motion

fun ui_perform :: "ace \<Rightarrow> ui_step \<Rightarrow> client \<Rightarrow> ui_fault + client" where
  "ui_perform A (Net_start d) c = Inr (handler_start d c)"
| "ui_perform A (Net_message m) c = handler_notify_message A m c"
| "ui_perform A Net_session_message c = Inr (handler_notify_session_message c)"
| "ui_perform A Net_end c = Inr (handler_end c)"
| "ui_perform A Process c = map_sum id snd (process_cb A c)"
| "ui_perform A Calibrate c = map_sum id snd (calibrate_clicked_gtk_cb A c)"
| "ui_perform A (Key k) c = Inr (snd (key_cb k c))"
| "ui_perform A (Motion ev) c = Inr (snd (motion_cb ev c))"

inductive ui_reachable :: "ace \<Rightarrow> client \<Rightarrow> client \<Rightarrow> bool" for A c0 where
  ui_start: "ui_reachable A c0 c0"
| ui_step: "ui_reachable A c0 c \<Longrightarrow> ui_perform A a c = Inr c' \<Longrightarrow> ui_reachable A c0 c'"

text \<open>
  The invariant: as many message events as messages, every copy made is in the queue, the events
  are the four the handler raises, and the temperature index has the value of the constructor.
\<close>

definition message_events :: "ui_event list \<Rightarrow> nat" where
  "message_events es = length (filter (\<lambda>e. e = EVENT_MESSAGE) es)"

lemma message_events [simp]:
  "message_events [] = 0" "message_events (e # es) = (if e = EVENT_MESSAGE then Suc (message_events es) else message_events es)"
  "message_events (es @ es') = message_events es + message_events es'"
  by (simp_all add: message_events_def)

lemma no_message_events: "message_events es = 0 \<longleftrightarrow> EVENT_MESSAGE \<notin> set es"
  by (induction es) auto

definition queued :: "message list \<Rightarrow> nat" where
  "queued ms = sum_list (map chain_length ms)"

lemma queued [simp]: "queued [] = 0" "queued (m # ms) = chain_length m + queued ms"
  by (simp_all add: queued_def)

definition consistent :: "client \<Rightarrow> bool" where
  "consistent c \<longleftrightarrow> message_events (eventQueue c) = length (messageQueue c) \<and>
     live (msg_heap c) = queued (messageQueue c) \<and>
     set (eventQueue c) \<subseteq> {EVENT_CONNECT, EVENT_DISCONNECT, EVENT_MESSAGE, EVENT_SESSION_MESSAGE} \<and>
     temperatureIndex c = - 1 \<and> temperature c = replicate (2 * TEMPERATURE_BUFFER_SIZE) 0 \<and> set (wild c) \<subseteq> {- 1, - 2}"

lemma consistent_new: "consistent (new_client console client_mode)"
  by (simp add: consistent_def new_client_def resetCamera_def)

lemma log_call_sel [simp]:
  "eventQueue (log_call x c) = eventQueue c" "messageQueue (log_call x c) = messageQueue c"
  "msg_heap (log_call x c) = msg_heap c" "temperatureIndex (log_call x c) = temperatureIndex c"
  "temperature (log_call x c) = temperature c" "wild (log_call x c) = wild c" "clientMode (log_call x c) = clientMode c"
  "clientSensorBias (log_call x c) = clientSensorBias c" "OpenGLCamera (log_call x c) = OpenGLCamera c"
  "calls (log_call x c) = calls c @ [x]"
  by (simp_all add: log_call_def)

lemma consistent_log [simp]: "consistent (log_call x c) \<longleftrightarrow> consistent c"
  by (simp add: consistent_def)

text \<open>The index of the constructor: both stores of a message miss the array.\<close>

lemma store_outside: "i < 0 \<Longrightarrow> store_temperature i v c = c\<lparr>wild := wild c @ [i]\<rparr>"
  by (simp add: store_temperature_def)

text \<open>Processing one message.\<close>

lemma run_process_message:
  assumes "temperatureIndex c = - 1" "length (block m) = 14"
  shows "\<exists>r ok k es ws. extract_data A (block m) = Inr r \<and> process_message A m c =
     Inr (ok, c\<lparr>OpenGLCamera := k, calls := calls c @ es @ [Release m], msg_heap := release m (msg_heap c), wild := wild c @ ws\<rparr>) \<and>
     (ok \<longleftrightarrow> 0 \<le> sprintf A) \<and> (\<forall>x\<in>set es. \<forall>m'. x \<noteq> Release m') \<and>
     (if ok then k = rotate (correct c r) (OpenGLCamera c) \<and> ws = [- 2, - 1] \<and> es = [Pop_data, Push_data (correct c r), Queue_draw]
      else k = OpenGLCamera c \<and> ws = [] \<and> es = [])"
proof -
  obtain r where r: "extract_data A (block m) = Inr r" using assms(2) by (simp add: extract_data_def Let_def)
  show ?thesis
    by (cases "sprintf A < 0") (use assms r in \<open>auto simp: process_message_def Let_def store_outside log_call_def\<close>)
qed

lemma consistent_process:
  assumes c: "consistent c" and r: "process_cb A c = Inr (ok, c')"
  shows "consistent c'"
proof (cases "eventQueue c")
  case Nil
  then show ?thesis using c r by (simp add: process_cb_def)
next
  case (Cons e es)
  show ?thesis
  proof (cases "e = EVENT_MESSAGE")
    case False
    then show ?thesis using c r Cons by (cases e) (auto simp: process_cb_def Let_def consistent_def)
  next
    case True
    then obtain m ms where q: "messageQueue c = m # ms"
      using c Cons by (cases "messageQueue c") (auto simp: consistent_def)
    let ?c = "c\<lparr>eventQueue := es, messageQueue := ms\<rparr>"
    have p: "process_message A m ?c = Inr (ok, c')" using r True Cons q by (simp add: process_cb_def Let_def)
    then have l: "length (block m) = 14" by (auto simp: process_message_def split: if_splits)
    have "temperatureIndex ?c = - 1" using c by (simp add: consistent_def)
    from run_process_message [OF this l, of A] p c True Cons q show ?thesis
      by (auto simp: consistent_def release_def split: if_splits)
  qed
qed

lemma consistent_notify:
  assumes c: "consistent c" and r: "handler_notify_message A m c = Inr c'"
  shows "consistent c'"
proof (cases "droppedFrames c")
  case None
  then show ?thesis using r by (simp add: handler_notify_message_def)
next
  case (Some d)
  show ?thesis
  proof (cases "consoleMode c")
    case True
    then show ?thesis using c r Some by (auto simp: handler_notify_message_def split: sum.splits)
  next
    case False
    from duplicate_copied [of A m "msg_heap c"] show ?thesis
      using c r Some False by (auto simp: handler_notify_message_def copied_def consistent_def split: sum.splits option.splits prod.splits)
  qed
qed

lemma consistent_calibrate:
  "consistent c \<Longrightarrow> calibrate_clicked_gtk_cb A c = Inr (ok, c') \<Longrightarrow> consistent c'"
  by (auto simp: calibrate_clicked_gtk_cb_def Let_def consistent_def split: if_splits list.splits sum.splits)

lemma consistent_simple:
  assumes "consistent c"
  shows "consistent (handler_start d c)" "consistent (handler_notify_session_message c)" "consistent (handler_end c)"
    "consistent (snd (key_cb k c))" "consistent (snd (motion_cb ev c))"
  using assms
  by (auto simp: handler_start_def handler_notify_session_message_def handler_end_def key_cb_def motion_cb_def resetCamera_def
      consistent_def Let_def split: key.split)

lemma consistent_step:
  assumes "consistent c" "ui_perform A a c = Inr c'"
  shows "consistent c'"
  using assms
  by (cases a) (auto simp: map_sum_def consistent_simple split: sum.splits
      intro: consistent_process consistent_notify consistent_calibrate)

lemma reachable_consistent: "ui_reachable A c0 c \<Longrightarrow> consistent c0 \<Longrightarrow> consistent c"
  by (induction rule: ui_reachable.induct) (auto intro: consistent_step)

lemma process_outcome:
  assumes c: "consistent c"
  shows "(\<exists>ok c'. process_cb A c = Inr (ok, c')) \<or>
     process_cb A c = Inl Assertion_failed \<and> messageQueue c \<noteq> [] \<and> length (block (hd (messageQueue c))) \<noteq> 14"
proof (cases "eventQueue c")
  case Nil
  then show ?thesis by (auto simp: process_cb_def)
next
  case (Cons e es)
  show ?thesis
  proof (cases "e = EVENT_MESSAGE")
    case False
    then show ?thesis using Cons by (cases e) (auto simp: process_cb_def Let_def)
  next
    case True
    then obtain m ms where ms: "messageQueue c = m # ms" using c Cons by (cases "messageQueue c") (auto simp: consistent_def)
    have i: "temperatureIndex (c\<lparr>eventQueue := es, messageQueue := ms\<rparr>) = - 1" using c by (simp add: consistent_def)
    show ?thesis
    proof (cases "length (block m) = 14")
      case False
      then show ?thesis using True Cons ms by (simp add: process_cb_def process_message_def Let_def)
    qed (use run_process_message [OF i, of m A] True Cons ms in \<open>auto simp: process_cb_def Let_def\<close>)
  qed
qed

section \<open>Draining the queues\<close>

primrec process_n :: "nat \<Rightarrow> ace \<Rightarrow> client \<Rightarrow> ui_fault + client" where
  "process_n 0 A c = Inr c"
| "process_n (Suc n) A c =
     (case process_cb A c of
        Inl f \<Rightarrow> Inl f
      | Inr (ok, c') \<Rightarrow> process_n n A c')"

definition released :: "ui_call list \<Rightarrow> message list" where
  "released xs = concat (map (\<lambda>x. case x of Release m \<Rightarrow> [m] | _ \<Rightarrow> []) xs)"

lemma released_append [simp]: "released (xs @ ys) = released xs @ released ys"
  by (simp add: released_def)

lemma released_simps [simp]: "released [] = []" "released (Release m # xs) = m # released xs"
  "released (Push_data r # xs) = released xs" "released (Pop_data # xs) = released xs" "released (Queue_draw # xs) = released xs"
  "released (Push_information i # xs) = released xs" "released (Push_bias b # xs) = released xs"
  by (simp_all add: released_def)

text \<open>The messages of the queue, in its order, are processed by as many rounds as there are events.\<close>

lemma drain:
  assumes "consistent c" "\<forall>m\<in>set (messageQueue c). length (block m) = 14" "n = length (eventQueue c)"
  shows "\<exists>c'. process_n n A c = Inr c' \<and> eventQueue c' = [] \<and> messageQueue c' = [] \<and> live (msg_heap c') = 0 \<and>
     released (calls c') = released (calls c) @ messageQueue c"
  using assms
proof (induction n arbitrary: c)
  case 0
  then show ?case by (simp add: consistent_def)
next
  case (Suc n)
  then obtain e es where q: "eventQueue c = e # es" by (cases "eventQueue c") auto
  have step: "\<exists>ok c1. process_cb A c = Inr (ok, c1) \<and> eventQueue c1 = es \<and>
     released (calls c1) @ messageQueue c1 = released (calls c) @ messageQueue c \<and> set (messageQueue c1) \<subseteq> set (messageQueue c)"
  proof (cases "e = EVENT_MESSAGE")
    case False
    then show ?thesis using q by (cases e) (auto simp: process_cb_def Let_def)
  next
    case True
    then obtain m ms where ms: "messageQueue c = m # ms" using Suc.prems(1) q by (cases "messageQueue c") (auto simp: consistent_def)
    have "temperatureIndex (c\<lparr>eventQueue := es, messageQueue := ms\<rparr>) = - 1" "length (block m) = 14"
      using Suc.prems(1,2) ms by (simp_all add: consistent_def)
    from run_process_message [OF this, of A] show ?thesis
      using True q ms by (auto simp: process_cb_def Let_def split: if_splits)
  qed
  then obtain ok c1 where 1: "process_cb A c = Inr (ok, c1)" "eventQueue c1 = es"
    "released (calls c1) @ messageQueue c1 = released (calls c) @ messageQueue c" "set (messageQueue c1) \<subseteq> set (messageQueue c)"
    by blast
  from Suc.IH [OF consistent_process [OF Suc.prems(1) 1(1)]] 1 q Suc.prems(2,3) show ?case by (auto simp: subset_iff)
qed

lemma duplicate_succeeds:
  assumes "\<And>n. allocates A n"
  shows "\<exists>h'. duplicate A m h = Inr (Some m, h')"
proof (cases "duplicate A m h")
  case (Inl f)
  then show ?thesis using duplicate_copied [of A m h] assms by (simp add: copied_def)
next
  case (Inr r)
  then show ?thesis using duplicate_copied [of A m h] assms by (cases r; cases "fst r") (simp_all add: copied_def)
qed

text \<open>Messages that arrive before the user interface looks at them pile up, the latest in front.\<close>

fun notify_all :: "ace \<Rightarrow> message list \<Rightarrow> client \<Rightarrow> ui_fault + client" where
  "notify_all A [] c = Inr c"
| "notify_all A (m # ms) c =
     (case handler_notify_message A m c of
        Inl f \<Rightarrow> Inl f
      | Inr c' \<Rightarrow> notify_all A ms c')"

lemma notify_all_queues:
  assumes "\<And>n. allocates A n" "droppedFrames c = Some d" "\<not> consoleMode c" "consistent c"
  shows "\<exists>c'. notify_all A ms c = Inr c' \<and> consistent c' \<and> messageQueue c' = rev ms @ messageQueue c \<and> calls c' = calls c \<and>
     eventQueue c' = eventQueue c @ replicate (length ms) EVENT_MESSAGE \<and> droppedFrames c' = Some d \<and> consoleMode c' = consoleMode c"
  using assms(2-4)
proof (induction ms arbitrary: c)
  case (Cons m ms)
  obtain h where h: "duplicate A m (msg_heap c) = Inr (Some m, h)" using duplicate_succeeds [OF assms(1)] by blast
  let ?c = "c\<lparr>msg_heap := h, eventQueue := eventQueue c @ [EVENT_MESSAGE], messageQueue := m # messageQueue c\<rparr>"
  have n: "handler_notify_message A m c = Inr ?c" using Cons.prems h by (simp add: handler_notify_message_def)
  have "droppedFrames ?c = Some d" "\<not> consoleMode ?c" "consistent ?c"
    using Cons.prems consistent_notify [OF _ n] by simp_all
  from Cons.IH [OF this] obtain c' where "notify_all A ms ?c = Inr c'" "consistent c'"
    "messageQueue c' = rev ms @ m # messageQueue c" "calls c' = calls c" "droppedFrames c' = Some d" "consoleMode c' = consoleMode c"
    "eventQueue c' = eventQueue c @ EVENT_MESSAGE # replicate (length ms) EVENT_MESSAGE" by auto
  then show ?case using n by (intro exI [of _ c']) simp
qed simp

section \<open>The end\<close>

text \<open>
  The clean up releases every message of the queue but leaves their events behind: another round
  would take from the empty queue.
\<close>

lemma flush_released:
  assumes "live (msg_heap c) = queued ms" "messageQueue c = ms"
  shows "live (msg_heap (flush ms c)) = 0 \<and> messageQueue (flush ms c) = [] \<and> eventQueue (flush ms c) = eventQueue c \<and>
     released (calls (flush ms c)) = released (calls c) @ ms"
  using assms
proof (induction ms arbitrary: c)
  case (Cons m ms)
  let ?c = "log_call (Release m) (c\<lparr>msg_heap := release m (msg_heap c), messageQueue := ms\<rparr>)"
  have "live (msg_heap ?c) = queued ms" "messageQueue ?c = ms" using Cons.prems by (simp_all add: release_def)
  from Cons.IH [OF this] show ?case by simp
qed simp

lemma finalize_flushes:
  assumes "consistent c" "OpenGLContexts c = 0"
  shows "let c' = snd (idle_finalize_ui_cb c)
     in messageQueue c' = [] \<and> live (msg_heap c') = 0 \<and> eventQueue c' = eventQueue c \<and>
        (eventQueue c \<noteq> [] \<and> hd (eventQueue c) = EVENT_MESSAGE \<longrightarrow> process_cb A c' = Inl Empty_front)"
proof -
  have "live (msg_heap c) = queued (messageQueue c)" using assms(1) by (simp add: consistent_def)
  from flush_released [OF this refl] show ?thesis using assms(2)
    by (cases "eventQueue c") (auto simp: idle_finalize_ui_cb_def Let_def process_cb_def)
qed

section \<open>A client with a sample waiting\<close>

definition demo_message :: message where
  "demo_message = Message (encode_sample demo_sample) None"

definition demo_client :: client where
  "demo_client = (new_client False True)\<lparr>droppedFrames := Some 0, eventQueue := [EVENT_MESSAGE], messageQueue := [demo_message],
     msg_heap := \<lparr>attempts = 1, live = 1\<rparr>, calls := [Push_information ''connected'']\<rparr>"

lemma demo_message [simp]: "block demo_message = encode_sample demo_sample" "length (block demo_message) = 14"
  "chain_length demo_message = 1"
  by (simp_all add: demo_message_def length_encode_sample)

lemma demo_client_sel [simp]: "eventQueue demo_client = [EVENT_MESSAGE]" "messageQueue demo_client = [demo_message]"
  "clientMode demo_client" "live (msg_heap demo_client) = 1"
  by (simp_all add: demo_client_def new_client_def resetCamera_def)

lemma demo_started: "ui_reachable demo_ace (new_client False True) (handler_start 0 (new_client False True))"
  by (rule ui_step [OF ui_start, where a = "Net_start 0"]) simp

lemma demo_client_reachable: "ui_reachable demo_ace (new_client False True) demo_client"
proof -
  let ?c = "handler_start 0 (new_client False True)"
  have n: "ui_perform demo_ace (Net_message demo_message) ?c
      = Inr (?c\<lparr>msg_heap := \<lparr>attempts = 1, live = 1\<rparr>, eventQueue := [EVENT_CONNECT, EVENT_MESSAGE], messageQueue := [demo_message]\<rparr>)"
    by (simp add: handler_notify_message_def handler_start_def new_client_def resetCamera_def demo_message_def allocate_def Let_def)
  have p: "ui_perform demo_ace Process
      (?c\<lparr>msg_heap := \<lparr>attempts = 1, live = 1\<rparr>, eventQueue := [EVENT_CONNECT, EVENT_MESSAGE], messageQueue := [demo_message]\<rparr>) = Inr demo_client"
    by (simp add: process_cb_def Let_def demo_client_def handler_start_def new_client_def resetCamera_def log_call_def)
  show ?thesis using ui_step [OF ui_step [OF demo_started n] p] .
qed

section \<open>Properties\<close>

text \<open>C8: The client's queues stay in step. In every state that any interleaving of network events, processing, calibration, keys and mouse reaches from a new client, there are as many message events as messages, every copy made of a message is in the queue (none is lost, none released twice), processing never takes from an empty queue (it can only fail the assertion on the size of a block), and the temperature array still holds what it was initialised with: all stores missed it.\<close>

theorem client_invariant:
  assumes "ui_reachable A (new_client console client_mode) c"
  shows "message_events (eventQueue c) = length (messageQueue c) \<and> live (msg_heap c) = queued (messageQueue c) \<and>
     process_cb A c \<noteq> Inl Empty_front \<and> process_cb A c \<noteq> Inl Buffer_overread \<and>
     (process_cb A c = Inl Assertion_failed \<longrightarrow> messageQueue c \<noteq> [] \<and> length (block (hd (messageQueue c))) \<noteq> 14) \<and>
     temperature c = replicate (2 * TEMPERATURE_BUFFER_SIZE) 0"
proof -
  note c = reachable_consistent [OF assms consistent_new]
  from process_outcome [OF c, of A] c show ?thesis by (auto simp: consistent_def)
qed

theorem client_invariant_witness:
  "live (msg_heap demo_client) = queued (messageQueue demo_client) \<and> process_cb demo_ace demo_client \<noteq> Inl Empty_front"
  using client_invariant [OF demo_client_reachable] by simp

text \<open>What processing a message does. In every reachable state in which a message event is next, with a message of the size of a sample, one round takes both off their queues and, when the status line can be printed, shows the reading corrected by the bias, turns the model by the angular rates over the data rate (x and y with the sign changed), asks for a redraw and releases the message; and it writes the temperature to the positions -2 and -1, before the array, because the index is never moved from its initial -1. When the line cannot be printed the message is only released and the processing stops.\<close>

theorem process_message_effect:
  assumes "ui_reachable A (new_client console client_mode) c"
    and "eventQueue c = EVENT_MESSAGE # es" "messageQueue c = m # ms" "extract_data A (block m) = Inr r" "length (block m) = 14"
  shows "(let c1 = c\<lparr>eventQueue := es, messageQueue := ms, msg_heap := release m (msg_heap c)\<rparr>; v = correct c r
     in process_cb A c =
       (if sprintf A < 0 then Inr (False, c1\<lparr>calls := calls c @ [Release m]\<rparr>)
        else Inr (True, c1\<lparr>calls := calls c @ [Pop_data, Push_data v, Queue_draw, Release m],
               OpenGLCamera := (OpenGLCamera c)\<lparr>rotation_x := rotation_x (OpenGLCamera c) - r_gx v / 100,
                 rotation_y := rotation_y (OpenGLCamera c) - r_gy v / 100, rotation_z := rotation_z (OpenGLCamera c) + r_gz v / 100\<rparr>,
               wild := wild c @ [- 2, - 1]\<rparr>)))"
proof -
  let ?c = "c\<lparr>eventQueue := es, messageQueue := ms\<rparr>"
  have i: "temperatureIndex ?c = - 1"
    using reachable_consistent [OF assms(1) consistent_new] by (simp add: consistent_def)
  have "process_cb A c = process_message A m ?c" using assms(2,3) by (simp add: process_cb_def Let_def)
  moreover have "correct ?c = correct c" by (simp add: correct_def fun_eq_iff)
  ultimately show ?thesis
    using run_process_message [OF i assms(5), of A] assms(4) by (auto simp: rotate_def Let_def)
qed

theorem process_message_effect_witness:
  "\<exists>c'. process_cb demo_ace demo_client = Inr (True, c') \<and> wild c' = wild demo_client @ [- 2, - 1] \<and> live (msg_heap c') = 0"
  using process_message_effect [OF demo_client_reachable _ _ _ demo_message(2)] extract_encoded [OF demo_ace(1), of demo_sample "[]"]
  by (simp add: Let_def release_def)



text \<open>Calibration turns the device upside down. A calibration takes the reading of the newest message, which stays in the queue, as the bias, with 1 g added to its z acceleration; so the very reading it was taken from is shown as -1 g on the z axis and 0 elsewhere, whatever it was: a device at rest with +1 g is shown with -1 g.\<close>

theorem calibration_offset:
  assumes "clientMode c" "eventQueue c \<noteq> []" "messageQueue c = m # ms" "extract_data A (block m) = Inr r" "0 \<le> sprintf A"
  shows "\<exists>c'. calibrate_clicked_gtk_cb A c = Inr (True, c') \<and> messageQueue c' = messageQueue c \<and> eventQueue c' = eventQueue c \<and>
     correct c' r = r\<lparr>r_ax := 0, r_ay := 0, r_az := - 1, r_gx := 0, r_gy := 0, r_gz := 0\<rparr>"
  using assms by (simp add: calibrate_clicked_gtk_cb_def Let_def correct_def bias_of_def)

theorem calibration_offset_witness:
  "\<exists>c'. calibrate_clicked_gtk_cb demo_ace demo_client = Inr (True, c') \<and> r_az (correct c' (physical demo_sample)) = - 1"
  using calibration_offset [of demo_client demo_message "[]" demo_ace] extract_encoded [OF demo_ace(1), of demo_sample "[]"]
  by auto

text \<open>Calibration without data is undefined. In every reachable state of a client in client mode, calibration takes the front of an empty message queue exactly when an event is waiting but no message event is (for instance between the connection and the first sample), since it tests the event queue and not the message queue; with no event at all it clears the bias and gives up.\<close>

theorem calibration_without_message:
  assumes "ui_reachable A (new_client console True) c" "clientMode c"
  shows "(calibrate_clicked_gtk_cb A c = Inl Empty_front \<longleftrightarrow> eventQueue c \<noteq> [] \<and> EVENT_MESSAGE \<notin> set (eventQueue c)) \<and>
     (eventQueue c = [] \<longrightarrow> calibrate_clicked_gtk_cb A c = Inr (False, c\<lparr>clientSensorBias := no_bias\<rparr>))"
proof -
  have "message_events (eventQueue c) = length (messageQueue c)"
    using reachable_consistent [OF assms(1) consistent_new] by (simp add: consistent_def)
  then have "messageQueue c = [] \<longleftrightarrow> EVENT_MESSAGE \<notin> set (eventQueue c)"
    using no_message_events [of "eventQueue c"] by auto
  then show ?thesis using assms(2)
    by (cases "messageQueue c") (auto simp: calibrate_clicked_gtk_cb_def Let_def extract_data_def split: sum.splits if_splits)
qed

theorem calibration_without_message_witness:
  "calibrate_clicked_gtk_cb demo_ace (handler_start 0 (new_client False True)) = Inl Empty_front"
  using calibration_without_message [OF demo_started] by (simp add: handler_start_def new_client_def resetCamera_def)

lemma register_mode_pollable:
  assumes s: "ready s" "w \<noteq> Null" "nofifo (params s) \<noteq> 0"
    and b: "\<And>tr. ret (answer E tr (I2C (Read_block MPU6050_RA_ACCEL_XOUT_H 14))) = 14"
    and d: "\<And>tr. bytes (answer E tr (I2C (Read_block MPU6050_RA_ACCEL_XOUT_H 14))) = encode_sample m"
  shows "\<exists>t. let s' = snd (run_state (i2c_mpu6050_wq_read_handler fuel E w) s)
     in cur s' = sample_entry (encode_sample m) t \<and> pollable s' \<and> in_ring (ringbufferpos (cd s')) \<and> server (cd s') = server (cd s)"
proof -
  obtain t tr where f: "snd (run_state (fill_slot fuel E) (entered E s)) =
      put_cur (sample_entry (encode_sample m) t) ((entered E s)\<lparr>trace := tr\<rparr>)"
    using register_mode_fills [OF assms] by blast
  show ?thesis
    using f entered_on_slot [OF s(1), of E]
    by (intro exI [of _ t])
      (auto simp: run_handler [OF s(1,2)] Let_def cur_def put_cur_def on_slot_def pollable_def entered_def in_ring_def nat_less_iff)
qed

text \<open>C7: From the sensor to the screen. On a device whose data registers hold the encoding of a sample, the read handler of the driver followed by a round of its UDP server hands the socket a datagram of 14 bytes which the client decodes to exactly that sample, every value in its physical scale, temperature included (at the scale of the +-2 g and 250 degrees per second ranges, whatever the driver has configured).\<close>

theorem sensor_to_screen:
  assumes s: "ready s" "w \<noteq> Null" "nofifo (params s) \<noteq> 0" "socket_open (cd s)"
    and b: "\<And>tr. ret (answer E tr (I2C (Read_block MPU6050_RA_ACCEL_XOUT_H 14))) = 14"
    and d: "\<And>tr. bytes (answer E tr (I2C (Read_block MPU6050_RA_ACCEL_XOUT_H 14))) = encode_sample m"
    and sk: "\<And>tr. pt (answer E tr (Net Sock_sk)) \<noteq> Null" and A: "ace_swaps A"
  shows "let s1 = snd (run_state (i2c_mpu6050_wq_read_handler fuel E w) s); s2 = snd (run_state (poll_once E (server_sink E)) s1)
     in \<exists>datagram. Net (Sock_sendmsg datagram 14) \<in> fst ` set (trace s2) \<and> extract_data A datagram = Inr (physical m)"
proof -
  let ?s1 = "snd (run_state (i2c_mpu6050_wq_read_handler fuel E w) s)"
  obtain t where o: "cur ?s1 = sample_entry (encode_sample m) t" "pollable ?s1" "in_ring (ringbufferpos (cd ?s1))" "socket_open (cd ?s1)"
    using register_mode_pollable [OF s(1-3) b d, of fuel] s(4) by (auto simp: socket_open_def Let_def)
  from server_round_sends [OF o(2-4) _ sk] o(1) extract_encoded [OF A, of m "[]"] show ?thesis
    by (auto simp: Let_def cur_def sample_entry_def)
qed

definition demo_udp_env :: env where
  "demo_udp_env = \<lparr>answer = (\<lambda>tr c. if c = Net Sock_sk then ptr_reply (Obj ()) else answer demo_block_env tr c), order = Little_endian\<rparr>"

definition demo_udp_kst :: kst where
  "demo_udp_kst = (demo_kst polling_params)\<lparr>cd := blank_client_data\<lparr>server := Obj (blank_udp_server\<lparr>srv_socket_send := Obj ()\<rparr>)\<rparr>\<rparr>"

theorem sensor_to_screen_witness:
  "\<exists>datagram. Net (Sock_sendmsg datagram 14) \<in> fst ` set (trace (snd (run_state (poll_once demo_udp_env (server_sink demo_udp_env))
       (snd (run_state (i2c_mpu6050_wq_read_handler 1 demo_udp_env (Obj ())) demo_udp_kst))))) \<and>
     extract_data demo_ace datagram = Inr (physical demo_sample)"
proof -
  have "ready demo_udp_kst"
    by (simp add: ready_def demo_udp_kst_def demo_kst_def ring_ok_def blank_client_data_def blank_entry_def initial_kst_def list_all_iff)
  from sensor_to_screen [OF this, of "Obj ()" demo_udp_env demo_sample demo_ace 1] show ?thesis
    by (simp add: demo_udp_kst_def demo_kst_def initial_kst_def polling_params_def socket_open_def demo_udp_env_def demo_block_env_def
        ptr_reply_def Let_def)
qed

end
