(* ===== verification/Client_Spec.thy ===== *)
theory Client_Spec
  imports Client_Ui "HOL-Library.Multiset"
begin

text \<open>
  What the client promises, without its queues of events, copies and widgets: a board that takes samples in,
  keeps those that wait, shows them one at a time with the orientation they add up to, and counts those it could not take.
  The client (Client_Ui) refines the board step by step; the account of the samples is settled on the board.
\<close>

section \<open>The board\<close>

record board =
  pending :: "message list"
  handled :: "message list"
  displayed :: "reading list"
  orientation :: camera
  board_bias :: sensor_bias
  lost :: "nat option"

definition corrected :: "bool \<Rightarrow> sensor_bias \<Rightarrow> reading \<Rightarrow> reading" where
  "corrected client_mode b r =
     (if client_mode
      then r\<lparr>r_ax := r_ax r - ax_bias b, r_ay := r_ay r - ay_bias b, r_az := r_az r - az_bias b,
             r_gx := r_gx r - gx_bias b, r_gy := r_gy r - gy_bias b, r_gz := r_gz r - gz_bias b\<rparr>
      else r)"

text \<open>Taking the sample in front; it is shown unless the text for it cannot be formatted.\<close>

definition board_take :: "ace \<Rightarrow> bool \<Rightarrow> board \<Rightarrow> board \<Rightarrow> bool" where
  "board_take A client_mode b b' \<longleftrightarrow>
     (\<exists>m ms raw. pending b = m # ms \<and> extract_data A (block m) = Inr raw \<and>
       (let r = corrected client_mode (board_bias b) raw; b1 = b\<lparr>pending := ms, handled := handled b @ [m]\<rparr>
        in b' = (if sprintf A < 0 then b1
                 else b1\<lparr>displayed := displayed b @ [r], orientation := rotate r (orientation b)\<rparr>)))"

definition board_step :: "ace \<Rightarrow> bool \<Rightarrow> ui_step \<Rightarrow> board \<Rightarrow> board \<Rightarrow> bool" where
  "board_step A client_mode a b b' =
     (case a of
        Net_start d \<Rightarrow> b' = b\<lparr>lost := Some d\<rparr>
      | Net_message m \<Rightarrow>
          b' = b\<lparr>pending := m # pending b\<rparr> \<or> (\<exists>d. lost b = Some d \<and> b' = b\<lparr>lost := Some (d + 1)\<rparr>)
      | Net_session_message \<Rightarrow> b' = b
      | Net_end \<Rightarrow> b' = b
      | Process \<Rightarrow> b' = b \<or> board_take A client_mode b b'
      | Calibrate \<Rightarrow>
          b' = b\<lparr>board_bias := no_bias\<rparr> \<or>
          (\<exists>m ms raw. pending b = m # ms \<and> extract_data A (block m) = Inr raw \<and> b' = b\<lparr>board_bias := bias_of raw\<rparr>)
      | Key k \<Rightarrow>
          b' = (if k = KEY_r \<or> k = KEY_R then b\<lparr>orientation := zero_camera\<lparr>zoom := OPENGL_CAMERA_DEFAULT_ZOOM\<rparr>\<rparr> else b)
      | Motion ev \<Rightarrow> b' = (if is_hint ev then b else b\<lparr>orientation := move_camera ev (orientation b)\<rparr>))"

inductive board_run :: "ace \<Rightarrow> bool \<Rightarrow> ui_step list \<Rightarrow> board \<Rightarrow> board \<Rightarrow> bool" for A client_mode where
  board_done: "board_run A client_mode [] b b"
| board_next: "board_step A client_mode a b b' \<Longrightarrow> board_run A client_mode as b' b'' \<Longrightarrow> board_run A client_mode (a # as) b b''"

inductive_cases board_run_NilE: "board_run A client_mode [] b b'"
inductive_cases board_run_ConsE: "board_run A client_mode (a # as) b b'"

definition arrivals :: "ui_step list \<Rightarrow> message multiset" where
  "arrivals as = mset (concat (map (\<lambda>a. case a of Net_message m \<Rightarrow> [m] | _ \<Rightarrow> []) as))"

lemma arrivals_simps [simp]: "arrivals [] = {#}"
  "arrivals (a # as) = (case a of Net_message m \<Rightarrow> {#m#} | _ \<Rightarrow> {#}) + arrivals as"
  by (simp_all add: arrivals_def split: ui_step.split)

definition starts :: "ui_step \<Rightarrow> bool" where
  "starts a = (case a of Net_start _ \<Rightarrow> True | _ \<Rightarrow> False)"

section \<open>The account\<close>

definition on_board :: "board \<Rightarrow> message multiset" where
  "on_board b = mset (handled b) + mset (pending b)"

lemma board_step_account:
  assumes "board_step A client_mode a b b'" "\<not> starts a" "lost b = Some d"
  shows "\<exists>D. lost b' = Some (d + size D) \<and> on_board b' + D = on_board b + arrivals [a]"
proof (cases a)
  case (Net_message m)
  with assms consider "b' = b\<lparr>pending := m # pending b\<rparr>" | "b' = b\<lparr>lost := Some (d + 1)\<rparr>"
    by (auto simp: board_step_def)
  then show ?thesis
  proof cases
    case 1
    then show ?thesis using assms(3) Net_message by (intro exI [of _ "{#}"]) (simp add: on_board_def)
  next
    case 2
    then show ?thesis using Net_message by (intro exI [of _ "{#m#}"]) (simp add: on_board_def)
  qed
qed (use assms in \<open>auto simp: board_step_def board_take_def on_board_def starts_def Let_def intro!: exI [of _ "{#}"]\<close>)

lemma board_account:
  assumes "board_run A client_mode as b b'" "list_all (\<lambda>a. \<not> starts a) as" "lost b = Some d"
  shows "\<exists>D. lost b' = Some (d + size D) \<and> on_board b' + D = on_board b + arrivals as"
  using assms
proof (induction arbitrary: d rule: board_run.induct)
  case (board_done b)
  then show ?case by (intro exI [of _ "{#}"]) simp
next
  case (board_next a b b' as b'')
  then have "\<not> starts a" "list_all (\<lambda>a. \<not> starts a) as"
    by simp_all
  from board_step_account [OF board_next.hyps(1) this(1) board_next.prems(2)]
  obtain D where D: "lost b' = Some (d + size D)" "on_board b' + D = on_board b + arrivals [a]"
    by blast
  from board_next.IH [OF \<open>list_all (\<lambda>a. \<not> starts a) as\<close> D(1)]
  obtain D' where D': "lost b'' = Some (d + size D + size D')" "on_board b'' + D' = on_board b' + arrivals as"
    by blast
  have "on_board b'' + (D + D') = on_board b + arrivals (a # as)"
    using D(2) D'(2) by (simp add: ac_simps) (metis add.assoc add.commute)
  with D' show ?case by (intro exI [of _ "D + D'"]) (simp add: ac_simps)
qed

section \<open>The client refines the board\<close>

definition readings :: "ui_call list \<Rightarrow> reading list" where
  "readings xs = concat (map (\<lambda>x. case x of Push_data r \<Rightarrow> [r] | _ \<Rightarrow> []) xs)"

definition board_of :: "client \<Rightarrow> board" where
  "board_of c = \<lparr>pending = messageQueue c, handled = released (calls c), displayed = readings (calls c),
     orientation = OpenGLCamera c, board_bias = clientSensorBias c, lost = droppedFrames c\<rparr>"

lemma readings_simps [simp]: "readings [] = []" "readings (xs @ ys) = readings xs @ readings ys"
  "readings (x # xs) = (case x of Push_data r \<Rightarrow> [r] | _ \<Rightarrow> []) @ readings xs"
  by (simp_all add: readings_def)

primrec ui_run :: "ace \<Rightarrow> ui_step list \<Rightarrow> client \<Rightarrow> ui_fault + client" where
  "ui_run A [] c = Inr c"
| "ui_run A (a # as) c = (case ui_perform A a c of Inl f \<Rightarrow> Inl f | Inr c' \<Rightarrow> ui_run A as c')"

lemma correct_corrected: "correct c r = corrected (clientMode c) (clientSensorBias c) r"
  by (simp add: correct_def corrected_def Let_def)

lemma process_refines:
  assumes c: "consistent c" and r: "process_cb A c = Inr (ok, c')"
  shows "(board_of c' = board_of c \<or> board_take A (clientMode c) (board_of c) (board_of c')) \<and>
    clientMode c' = clientMode c \<and> consoleMode c' = consoleMode c"
proof (cases "eventQueue c")
  case Nil
  then show ?thesis using r by (simp add: process_cb_def)
next
  case (Cons e es)
  show ?thesis
  proof (cases "e = EVENT_MESSAGE")
    case False
    then show ?thesis using r Cons by (cases e) (auto simp: process_cb_def Let_def board_of_def log_call_def)
  next
    case True
    then obtain m ms where q: "messageQueue c = m # ms"
      using c Cons by (cases "messageQueue c") (auto simp: consistent_def)
    let ?c = "c\<lparr>eventQueue := es, messageQueue := ms\<rparr>"
    have p: "process_message A m ?c = Inr (ok, c')" using r True Cons q by (simp add: process_cb_def Let_def)
    then have l: "length (block m) = 14" by (auto simp: process_message_def split: if_splits)
    have i: "temperatureIndex ?c = - 1" using c by (simp add: consistent_def)
    from run_process_message [OF i l, of A] p q show ?thesis
      by (auto simp: board_of_def board_take_def correct_corrected Let_def split: if_splits)
  qed
qed

lemma notify_refines:
  assumes "\<not> consoleMode c" "handler_notify_message A m c = Inr c'"
  shows "board_step A client_mode (Net_message m) (board_of c) (board_of c') \<and> clientMode c' = clientMode c \<and> consoleMode c' = consoleMode c"
  using assms duplicate_copied [of A m "msg_heap c"]
  by (auto simp: handler_notify_message_def copied_def board_step_def board_of_def split: option.splits sum.splits prod.splits)

lemma calibrate_refines:
  assumes "calibrate_clicked_gtk_cb A c = Inr (ok, c')"
  shows "board_step A client_mode Calibrate (board_of c) (board_of c') \<and> clientMode c' = clientMode c \<and> consoleMode c' = consoleMode c"
  using assms
  by (auto simp: calibrate_clicked_gtk_cb_def Let_def board_step_def board_of_def log_call_def split: if_splits list.splits sum.splits)

lemma map_sum_result: "map_sum id snd x = Inr y \<Longrightarrow> \<exists>ok. x = Inr (ok, y)"
  by (cases x) auto

lemma client_step_refines:
  assumes "consistent c" "\<not> consoleMode c" "ui_perform A a c = Inr c'"
  shows "board_step A (clientMode c) a (board_of c) (board_of c') \<and> clientMode c' = clientMode c \<and> consoleMode c' = consoleMode c"
proof (cases a)
  case Process
  then obtain ok where p: "process_cb A c = Inr (ok, c')" using assms(3) map_sum_result by fastforce
  show ?thesis using process_refines [OF assms(1) p] Process by (auto simp: board_step_def)
next
  case Calibrate
  then obtain ok where p: "calibrate_clicked_gtk_cb A c = Inr (ok, c')"
    using assms(3) map_sum_result by fastforce
  show ?thesis using calibrate_refines [OF p] Calibrate by simp
next
  case (Net_message m)
  then show ?thesis using notify_refines [OF assms(2)] assms(3) by simp
next
  case (Net_start d)
  then show ?thesis using assms by (auto simp: handler_start_def board_step_def board_of_def log_call_def)
next
  case Net_session_message
  then show ?thesis using assms by (auto simp: handler_notify_session_message_def board_step_def board_of_def)
next
  case Net_end
  then show ?thesis using assms by (auto simp: handler_end_def board_step_def board_of_def)
next
  case (Key k)
  then show ?thesis using assms by (cases k) (auto simp: key_cb_def resetCamera_def board_step_def board_of_def log_call_def)
next
  case (Motion ev)
  then show ?thesis using assms by (auto simp: motion_cb_def Let_def board_step_def board_of_def log_call_def split: if_splits)
qed

lemma run_refines:
  assumes "consistent c" "\<not> consoleMode c" "ui_run A as c = Inr c'"
  shows "board_run A (clientMode c) as (board_of c) (board_of c')"
  using assms
proof (induction as arbitrary: c)
  case Nil
  then show ?case by (simp add: board_run.board_done)
next
  case (Cons a as)
  then obtain c1 where 1: "ui_perform A a c = Inr c1" "ui_run A as c1 = Inr c'" by (auto split: sum.splits)
  from client_step_refines [OF Cons.prems(1,2) 1(1)] consistent_step [OF Cons.prems(1) 1(1)] Cons.IH [OF _ _ 1(2)] Cons.prems(2)
  show ?case by (auto intro: board_run.board_next)
qed

section \<open>A run of the client with a sample waiting\<close>

lemma demo_consistent: "consistent demo_client"
  by (rule reachable_consistent [OF demo_client_reachable consistent_new])

lemma demo_client_start: "\<not> consoleMode demo_client" "droppedFrames demo_client = Some 0" "released (calls demo_client) = []"
  by (simp_all add: demo_client_def new_client_def resetCamera_def)

lemma demo_ui_run: "\<exists>c'. ui_run demo_ace [Process, Net_message demo_message, Process] demo_client = Inr c' \<and>
    released (calls c') = [demo_message, demo_message] \<and> messageQueue c' = [] \<and> droppedFrames c' = Some 0"
  using extract_encoded [OF demo_ace(1), of demo_sample "[]"]
  by (simp add: demo_client_def new_client_def resetCamera_def process_cb_def process_message_def Let_def store_outside
    handler_notify_message_def allocate_def release_def log_call_def demo_message_def length_encode_sample)

section \<open>Properties\<close>

text \<open>C10: A client with a window refines the board: whatever steps the network and the user take, each is a step of the
  board between the boards the client stands for, so what its queues, copies and widgets add cannot be seen.\<close>

theorem client_refines_board:
  assumes "consistent c" "\<not> consoleMode c" "ui_run A as c = Inr c'"
  shows "board_run A (clientMode c) as (board_of c) (board_of c')"
  using assms by (rule run_refines)

theorem client_refines_board_witness:
  "\<exists>c'. ui_run demo_ace [Process, Net_message demo_message, Process] demo_client = Inr c' \<and> released (calls c') = [demo_message, demo_message] \<and>
     board_run demo_ace True [Process, Net_message demo_message, Process] (board_of demo_client) (board_of c')"
proof -
  from demo_ui_run obtain c' where c: "ui_run demo_ace [Process, Net_message demo_message, Process] demo_client = Inr c'"
    "released (calls c') = [demo_message, demo_message]" by blast
  from client_refines_board [OF demo_consistent demo_client_start(1) c(1)] c show ?thesis by auto
qed

text \<open>C9: Every sample is accounted for: of those on the client before a run and those that have arrived in it, each
  is afterwards handled, waiting or counted as dropped, exactly once, in any interleaving of the network and the user.\<close>

theorem samples_accounted_for:
  assumes "consistent c" "\<not> consoleMode c" "droppedFrames c = Some d" "list_all (\<lambda>a. \<not> starts a) as" "ui_run A as c = Inr c'"
  shows "\<exists>D. droppedFrames c' = Some (d + size D) \<and>
    mset (released (calls c')) + mset (messageQueue c') + D =
      mset (released (calls c)) + mset (messageQueue c) + arrivals as"
  using board_account [OF run_refines [OF assms(1,2,5)] assms(4), of d] assms(3)
  by (simp add: board_of_def on_board_def)

theorem samples_accounted_for_witness:
  "\<exists>c' D. ui_run demo_ace [Process, Net_message demo_message, Process] demo_client = Inr c' \<and> droppedFrames c' = Some (size D) \<and>
     mset (released (calls c')) + mset (messageQueue c') + D = {#demo_message, demo_message#}"
proof -
  from demo_ui_run obtain c' where c: "ui_run demo_ace [Process, Net_message demo_message, Process] demo_client = Inr c'" by blast
  from samples_accounted_for [OF demo_consistent demo_client_start(1,2) _ c] demo_client_start(3) c
  show ?thesis by (auto simp: starts_def)
qed

end
