(* ===== verification/Client_Main.thy ===== *)
theory Client_Main
  imports Sysfs
begin

text \<open>
  The client's program (src/src/test_u/olimex_mod_mpu6050.cpp) on a POSIX system: the command line,
  the choice of signals, and the order in which \<open>main\<close> and \<open>do_work\<close> set up, run and tear down the
  parts of the program.  The libraries are parameters: the parser of the command line hands over the
  options it finds, the addresses are parsed by a record of functions, and every call whose outcome
  the code tests is answered by a function of the calls before it.
\<close>

section \<open>The command line\<close>

text \<open>What \<open>ACE_Get_Opt\<close> returns, one option at a time, with its argument.\<close>

datatype option_found =
    Opt_c | Opt_g string | Opt_l | Opt_r | Opt_s string | Opt_t | Opt_u "string option" | Opt_v
  | Opt_missing_argument | Opt_unrecognized | Opt_long | Opt_other

text \<open>\<open>ACE_INET_Addr::set\<close> with an address that names a port, and with one that does not.\<close>

record 'a address_library =
  set_address_port :: "string \<Rightarrow> 'a option"
  set_address :: "string \<Rightarrow> 'a option"

record 'a settings =
  client_mode :: bool
  netlink_group :: u32
  log_to_file :: bool
  use_reactor :: bool
  peer_address :: 'a
  trace_information :: bool
  interface_file :: string
  print_version :: bool

text \<open>
  \<open>converter >> n\<close> for an \<open>unsigned int\<close>, as the standard library has it: white space is skipped, a
  sign and digits are read, a negative number wraps, a number out of range gives the largest one and a
  failure, no digits give 0 and a failure; a stream that is not good, or has nothing but white space,
  leaves the variable alone.  The stream stays good only if something follows the number.
\<close>

definition is_space :: "char \<Rightarrow> bool" where
  "is_space c \<longleftrightarrow> (of_char c :: nat) \<in> {9, 10, 11, 12, 13, 32}"

definition extract_unsigned :: "string \<Rightarrow> bool \<Rightarrow> u32 \<Rightarrow> bool \<times> u32" where
  "extract_unsigned s good n =
     (let t = dropWhile is_space s
      in if \<not> good \<or> t = [] then (False, n)
         else
           let signed = hd t \<in> {CHR ''+'', CHR ''-''}; t1 = (if signed then tl t else t);
               ds = takeWhile is_dec t1; rest = dropWhile is_dec t1; v = value_of 10 ds
           in if ds = [] then (False, 0)
              else if 2 ^ 32 \<le> v then (False, - 1)
              else (rest \<noteq> [], if hd t = CHR ''-'' then - of_nat v else of_nat v))"

text \<open>The loop over the options; the flag is the state of the one string stream all of them share.\<close>

fun argument_loop :: "'a address_library \<Rightarrow> option_found list \<Rightarrow> bool \<Rightarrow> 'a settings \<Rightarrow> 'a settings option" where
  "argument_loop L [] good s = Some s"
| "argument_loop L (a # as) good s =
     (case a of
        Opt_c \<Rightarrow> argument_loop L as good (s\<lparr>client_mode := True\<rparr>)
      | Opt_g arg \<Rightarrow>
          (case extract_unsigned arg good (netlink_group s) of
             (good1, g) \<Rightarrow> argument_loop L as good1 (s\<lparr>netlink_group := g\<rparr>))
      | Opt_l \<Rightarrow> argument_loop L as good (s\<lparr>log_to_file := True\<rparr>)
      | Opt_r \<Rightarrow> argument_loop L as good (s\<lparr>use_reactor := True\<rparr>)
      | Opt_s arg \<Rightarrow>
          (case (if CHR '':'' \<in> set arg then set_address_port L arg else set_address L arg) of
             None \<Rightarrow> None
           | Some p \<Rightarrow> argument_loop L as good (s\<lparr>peer_address := p\<rparr>))
      | Opt_t \<Rightarrow> argument_loop L as good (s\<lparr>trace_information := True\<rparr>)
      | Opt_u arg \<Rightarrow> argument_loop L as good (s\<lparr>interface_file := (case arg of None \<Rightarrow> [] | Some f \<Rightarrow> f)\<rparr>)
      | Opt_v \<Rightarrow> argument_loop L as good (s\<lparr>print_version := True\<rparr>)
      | _ \<Rightarrow> None)"

text \<open>The default group and interface file, and the peer address of the caller, are arguments.\<close>

definition do_processArguments ::
  "'a address_library \<Rightarrow> u32 \<Rightarrow> string \<Rightarrow> 'a \<Rightarrow> option_found list \<Rightarrow> 'a settings option" where
  "do_processArguments L default_group ui_file any opts =
     argument_loop L opts True
       \<lparr>client_mode = False, netlink_group = default_group, log_to_file = False, use_reactor = False,
        peer_address = any, trace_information = False, interface_file = ui_file, print_version = False\<rparr>"

section \<open>Signals\<close>

text \<open>
  A signal set is a list without repetition.  The arguments: the reactor is used, user statistics are
  allowed, whether the two sets could be emptied and the first filled, and the real time signal of the
  proactor if that is how it works.  The two sets are returned, handled and ignored signals.
\<close>

definition do_initializeSignals ::
  "nat list \<Rightarrow> bool \<Rightarrow> bool \<Rightarrow> bool \<Rightarrow> bool \<Rightarrow> bool \<Rightarrow> nat option \<Rightarrow> nat list \<times> nat list \<Rightarrow> nat list \<times> nat list" where
  "do_initializeSignals all_signals reactor allow_stats empty1 empty2 fill rt_signal sets =
     (if \<not> empty1 then sets
      else if \<not> empty2 then ([], snd sets)
      else if \<not> fill then ([], [])
      else
        let s1 = removeAll 9 all_signals;
            (s2, ignored) = (if \<not> allow_stats then (removeAll 10 s1, [10]) else (s1, []));
            s3 = removeAll 19 (removeAll 12 (removeAll 11 s2));
            s4 = (if \<not> reactor then (case rt_signal of None \<Rightarrow> s3 | Some rt \<Rightarrow> removeAll rt s3) else s3)
        in (s4, ignored))"

text \<open>No signal is both handled and ignored, and those the program must not catch are left out.\<close>

lemma signals_handled:
  assumes "do_initializeSignals all_signals reactor allow_stats True True True rt_signal sets = (handled, ignored)"
  shows "set handled = set all_signals - {9, 11, 12, 19} - (if allow_stats then {} else {10}) -
      (if reactor then {} else set_option rt_signal) \<and> set handled \<inter> set ignored = {}"
  using assms by (auto simp: do_initializeSignals_def Let_def split: if_splits option.splits)

section \<open>The run of the program\<close>

text \<open>The calls whose order matters; \<open>groups\<close> is the address the netlink connection is configured with.\<close>

datatype main_call =
    Initialize_libraries | Print_usage | Is_readable string | Getcwd | Log_initialize bool bool | Log_finalize
  | Signals_pre_initialize bool | Signals_finalize | Gtk_initialize | Print_version | Elapsed_time
  | Connections_initialize | Netlink_connections_initialize | Configure u32 bool bool
  | Dispatch_initialize bool | Handler_initialize bool | Signals_initialize bool
  | Stream_initialize | Stream_start | Stream_is_running | Stream_stop
  | Gtk_start | Gtk_is_running | Gtk_wait | Gtk_stop | Dispatch_start | Dispatch_events | Dispatch_finalize
  | Connections_stop | Netlink_connections_stop

type_synonym main_trace = "(main_call \<times> bool) list"
type_synonym outcomes = "main_trace \<Rightarrow> main_call \<Rightarrow> bool"

definition call :: "outcomes \<Rightarrow> main_call \<Rightarrow> (main_trace, bool) state" where
  "call E c = State (\<lambda>tr. (E tr c, tr @ [(c, E tr c)]))"

text \<open>\<open>do_work\<close>, from its end: the event loops and the clean up, the user interface, the stream, and all of it.\<close>

definition run_event_loops :: "outcomes \<Rightarrow> 'a settings \<Rightarrow> (main_trace, unit) state" where
  "run_event_loops E s =
     (let console = interface_file s = []
      in do {
        started \<leftarrow> call E Dispatch_start;
        if \<not> started then do {
          whenM (\<not> console) (do { call E Gtk_stop; State_Monad.return () });
          call E Stream_stop; State_Monad.return () }
        else do {
          call E (if console then Dispatch_events else Gtk_wait);
          call E Stream_stop;
          call E Connections_stop;
          call E Netlink_connections_stop;
          call E Dispatch_finalize;
          State_Monad.return () } })"

definition start_interface :: "outcomes \<Rightarrow> 'a settings \<Rightarrow> (main_trace, unit) state" where
  "start_interface E s =
     (let console = interface_file s = []
      in do {
        whenM (\<not> console) (do { call E Gtk_start; State_Monad.return () });
        gtk \<leftarrow> (if console then State_Monad.return True else call E Gtk_is_running);
        if \<not> gtk then do { call E Stream_stop; State_Monad.return () }
        else run_event_loops E s })"

definition start_stream :: "outcomes \<Rightarrow> 'a settings \<Rightarrow> (main_trace, unit) state" where
  "start_stream E s = do {
     stream \<leftarrow> call E Stream_initialize;
     if \<not> stream then State_Monad.return ()
     else do {
       call E Stream_start;
       running \<leftarrow> call E Stream_is_running;
       if \<not> running then State_Monad.return () else start_interface E s } }"

definition start_dispatch :: "outcomes \<Rightarrow> 'a settings \<Rightarrow> (main_trace, unit) state" where
  "start_dispatch E s = do {
     dispatch \<leftarrow> call E (Dispatch_initialize (use_reactor s));
     if \<not> dispatch then State_Monad.return ()
     else do {
       handler \<leftarrow> call E (Handler_initialize (use_reactor s));
       if \<not> handler then State_Monad.return ()
       else do {
         signals \<leftarrow> call E (Signals_initialize (use_reactor s));
         if \<not> signals then State_Monad.return () else start_stream E s } } }"

definition do_work :: "outcomes \<Rightarrow> u32 \<Rightarrow> 'a settings \<Rightarrow> (main_trace, unit) state" where
  "do_work E groups s = do {
     call E Connections_initialize;
     whenM (\<not> client_mode s) (do { call E Netlink_connections_initialize; State_Monad.return () });
     call E (Configure groups (\<not> use_reactor s) (interface_file s = []));
     start_dispatch E s }"

lemmas work_defs = do_work_def start_dispatch_def start_stream_def start_interface_def run_event_loops_def

text \<open>\<open>1 << (netlink_group - 1)\<close> is an \<open>int\<close>; the address keeps the group itself in client mode.\<close>

definition netlink_groups :: "'a settings \<Rightarrow> u32" where
  "netlink_groups s = (if client_mode s then netlink_group s else push_bit (unat (netlink_group s - 1)) 1)"

definition valid_group :: "u32 \<Rightarrow> bool" where
  "valid_group g \<longleftrightarrow> \<not> (g = 0 \<or> g > 32)"

text \<open>The results say whether the exit code is \<open>EXIT_SUCCESS\<close>.  First the part after the logging is set up.\<close>

definition run_program :: "outcomes \<Rightarrow> 'a settings \<Rightarrow> (main_trace, bool) state" where
  "run_program E s = do {
     pre \<leftarrow> call E (Signals_pre_initialize (use_reactor s));
     if \<not> pre then do { call E Log_finalize; State_Monad.return False }
     else do {
       call E Gtk_initialize;
       (if print_version s then do { call E Print_version; State_Monad.return () }
        else do_work E (netlink_groups s) s);
       elapsed \<leftarrow> call E Elapsed_time;
       call E Signals_finalize;
       call E Log_finalize;
       State_Monad.return elapsed } }"

definition ACE_TMAIN ::
  "outcomes \<Rightarrow> 'a address_library \<Rightarrow> u32 \<Rightarrow> string \<Rightarrow> 'a \<Rightarrow> option_found list \<Rightarrow> (main_trace, bool) state" where
  "ACE_TMAIN E L default_group ui_file any_address opts = do {
     call E Initialize_libraries;
     case do_processArguments L default_group ui_file any_address opts of
       None \<Rightarrow> do { call E Print_usage; State_Monad.return False }
     | Some s \<Rightarrow> do {
         readable \<leftarrow> (if interface_file s \<noteq> [] then call E (Is_readable (interface_file s)) else State_Monad.return True);
         if \<not> readable \<or> \<not> valid_group (netlink_group s)
         then do { call E Print_usage; State_Monad.return False }
         else do {
           cwd \<leftarrow> call E Getcwd;
           if \<not> cwd then State_Monad.return False
           else do {
             log \<leftarrow> call E (Log_initialize (log_to_file s) (trace_information s));
             if \<not> log then State_Monad.return False else run_program E s } } } }"

section \<open>What the options amount to\<close>

definition rejects :: "'a address_library \<Rightarrow> option_found \<Rightarrow> bool" where
  "rejects L a \<longleftrightarrow>
     (case a of
        Opt_s arg \<Rightarrow> (if CHR '':'' \<in> set arg then set_address_port L arg else set_address L arg) = None
      | Opt_missing_argument \<Rightarrow> True | Opt_unrecognized \<Rightarrow> True | Opt_long \<Rightarrow> True | Opt_other \<Rightarrow> True
      | _ \<Rightarrow> False)"

text \<open>A group given as a plain number.\<close>

definition plain_number :: "string \<Rightarrow> bool" where
  "plain_number a \<longleftrightarrow> a \<noteq> [] \<and> list_all is_dec a \<and> value_of 10 a < 2 ^ 32"

fun group_arguments :: "option_found list \<Rightarrow> string list" where
  "group_arguments [] = []"
| "group_arguments (Opt_g a # as) = a # group_arguments as"
| "group_arguments (_ # as) = group_arguments as"

fun interface_arguments :: "option_found list \<Rightarrow> string list" where
  "interface_arguments [] = []"
| "interface_arguments (Opt_u a # as) = (case a of None \<Rightarrow> [] | Some f \<Rightarrow> f) # interface_arguments as"
| "interface_arguments (_ # as) = interface_arguments as"

definition group_result :: "bool \<Rightarrow> u32 \<Rightarrow> string list \<Rightarrow> u32" where
  "group_result good n gs = (case gs of [] \<Rightarrow> n | a # _ \<Rightarrow> if good then of_nat (value_of 10 a) else n)"

lemma dec_not_space: "is_dec c \<Longrightarrow> \<not> is_space c \<and> c \<notin> {CHR ''+'', CHR ''-''}"
  by (auto simp: is_dec_def is_space_def)

lemma extract_plain:
  assumes "plain_number a"
  shows "extract_unsigned a good n = (False, if good then of_nat (value_of 10 a) else n)"
proof -
  obtain c cs where a: "a = c # cs" "is_dec c" "\<forall>x\<in>set cs. is_dec x" using assms by (cases a) (auto simp: plain_number_def list_all_iff)
  have "takeWhile is_dec cs = cs" "dropWhile is_dec cs = []" using a(3) by (simp_all add: takeWhile_eq_all_conv)
  note digits = this
  show ?thesis using a(1,2) dec_not_space [OF a(2)] assms by (simp add: extract_unsigned_def Let_def plain_number_def digits)
qed

lemma argument_loop_rejects: "argument_loop L as good s = None \<longleftrightarrow> (\<exists>a\<in>set as. rejects L a)"
proof (induction as arbitrary: good s)
  case (Cons a as)
  then show ?case by (cases a) (auto simp: rejects_def split: option.splits prod.splits)
qed simp

lemma argument_loop_result:
  assumes "argument_loop L as good s = Some t" "\<forall>a\<in>set (group_arguments as). plain_number a"
  shows "client_mode t = (client_mode s \<or> Opt_c \<in> set as) \<and> use_reactor t = (use_reactor s \<or> Opt_r \<in> set as) \<and>
     log_to_file t = (log_to_file s \<or> Opt_l \<in> set as) \<and> trace_information t = (trace_information s \<or> Opt_t \<in> set as) \<and>
     print_version t = (print_version s \<or> Opt_v \<in> set as) \<and>
     interface_file t = last (interface_file s # interface_arguments as) \<and>
     netlink_group t = group_result good (netlink_group s) (group_arguments as)"
  using assms
proof (induction as arbitrary: good s)
  case Nil
  then show ?case by (simp add: group_result_def)
next
  case (Cons a as)
  show ?case
  proof (cases a)
    case (Opt_g arg)
    then have "plain_number arg" using Cons.prems(2) by simp
    with Cons.prems Opt_g have "argument_loop L as False (s\<lparr>netlink_group := if good then of_nat (value_of 10 arg) else netlink_group s\<rparr>) = Some t"
      by (simp add: extract_plain)
    from Cons.IH [OF this] Cons.prems(2) Opt_g show ?thesis by (simp add: group_result_def split: list.splits)
  next
    case (Opt_s arg)
    then show ?thesis using Cons.IH Cons.prems by (auto split: option.splits)
  qed (use Cons.IH Cons.prems in force)+
qed

section \<open>What a run sets up and tears down\<close>

definition succeeded :: "main_call \<Rightarrow> main_trace \<Rightarrow> bool" where
  "succeeded c tr \<longleftrightarrow> (c, True) \<in> set tr"

definition called :: "main_call \<Rightarrow> main_trace \<Rightarrow> bool" where
  "called c tr \<longleftrightarrow> c \<in> fst ` set tr"

text \<open>What \<open>do_work\<close> owes: a running stream is stopped, a started event dispatch finalized, a running GTK manager waited for or stopped.\<close>

definition work_settled :: "main_trace \<Rightarrow> bool" where
  "work_settled tr \<longleftrightarrow>
     (called Stream_stop tr \<longleftrightarrow> succeeded Stream_is_running tr) \<and>
     (called Dispatch_finalize tr \<longleftrightarrow> succeeded Dispatch_start tr) \<and>
     (called Gtk_wait tr \<or> called Gtk_stop tr \<longleftrightarrow> succeeded Gtk_is_running tr) \<and>
     \<not> called Log_finalize tr \<and> \<not> called Signals_finalize tr"

lemma run_main_call [simp]: "run_state (call E c) tr = (E tr c, tr @ [(c, E tr c)])"
  by (simp add: call_def)

lemma called_simps [simp]:
  "called c [] = False" "called c ((d, b) # tr) \<longleftrightarrow> c = d \<or> called c tr" "called c (tr @ tr') \<longleftrightarrow> called c tr \<or> called c tr'"
  by (auto simp: called_def)

lemma succeeded_simps [simp]:
  "succeeded c [] = False" "succeeded c ((d, b) # tr) \<longleftrightarrow> c = d \<and> b \<or> succeeded c tr"
  "succeeded c (tr @ tr') \<longleftrightarrow> succeeded c tr \<or> succeeded c tr'"
  by (auto simp: succeeded_def)

definition work_events :: "outcomes \<Rightarrow> u32 \<Rightarrow> 'a settings \<Rightarrow> main_trace \<Rightarrow> main_trace" where
  "work_events E groups s tr = drop (length tr) (snd (run_state (do_work E groups s) tr))"

lemma do_work_settles:
  "\<exists>es. run_state (do_work E groups s) tr = ((), tr @ es) \<and> work_settled es \<and>
     (\<forall>g a k. called (Configure g a k) es \<longrightarrow> g = groups) \<and> \<not> called Elapsed_time es \<and>
     (\<forall>r. \<not> called (Signals_pre_initialize r) es) \<and> (\<forall>l t. \<not> called (Log_initialize l t) es)"
  by (cases "interface_file s = []"; cases "client_mode s") (simp_all add: work_defs Let_def whenM_def work_settled_def)

lemma run_do_work:
  "run_state (do_work E groups s) tr = ((), tr @ work_events E groups s tr)"
  "work_settled (work_events E groups s tr)"
  "called (Configure g a k) (work_events E groups s tr) \<Longrightarrow> g = groups" "\<not> called Elapsed_time (work_events E groups s tr)"
  "\<not> called (Signals_pre_initialize r) (work_events E groups s tr)" "\<not> called (Log_initialize l t) (work_events E groups s tr)"
proof -
  obtain es where "run_state (do_work E groups s) tr = ((), tr @ es)" and es: "work_settled es"
    "\<forall>g a k. called (Configure g a k) es \<longrightarrow> g = groups" "\<not> called Elapsed_time es"
    "\<forall>r. \<not> called (Signals_pre_initialize r) es" "\<forall>l t. \<not> called (Log_initialize l t) es"
    using do_work_settles by blast
  moreover from this(1) have "work_events E groups s tr = es" by (simp add: work_events_def)
  ultimately show "run_state (do_work E groups s) tr = ((), tr @ work_events E groups s tr)"
    "work_settled (work_events E groups s tr)"
    "called (Configure g a k) (work_events E groups s tr) \<Longrightarrow> g = groups" "\<not> called Elapsed_time (work_events E groups s tr)"
    "\<not> called (Signals_pre_initialize r) (work_events E groups s tr)" "\<not> called (Log_initialize l t) (work_events E groups s tr)"
    by simp_all blast
qed

lemma succeeded_called: "\<not> called c tr \<Longrightarrow> \<not> succeeded c tr"
  by (auto simp: called_def succeeded_def image_iff)

definition program_settled :: "main_trace \<Rightarrow> bool" where
  "program_settled tr \<longleftrightarrow>
     (called Log_finalize tr \<longleftrightarrow> (\<exists>l t. succeeded (Log_initialize l t) tr)) \<and>
     (called Signals_finalize tr \<longleftrightarrow> (\<exists>r. succeeded (Signals_pre_initialize r) tr)) \<and>
     (called Stream_stop tr \<longleftrightarrow> succeeded Stream_is_running tr) \<and>
     (called Dispatch_finalize tr \<longleftrightarrow> succeeded Dispatch_start tr) \<and>
     (called Gtk_wait tr \<or> called Gtk_stop tr \<longleftrightarrow> succeeded Gtk_is_running tr)"

lemma program_settles:
  "\<exists>es. run_state (run_program E s) (tr @ [(Log_initialize l t, True)]) = (succeeded Elapsed_time es, tr @ es) \<and> program_settled es \<and>
     (\<forall>g a k. called (Configure g a k) es \<longrightarrow> g = netlink_groups s)"
proof -
  note w = run_do_work(2,4-) [where E = E and groups = "netlink_groups s" and s = s]
  note w1 = w(1) [unfolded work_settled_def] succeeded_called [OF w(2)] succeeded_called [OF w(3)] succeeded_called [OF w(4)]
  show ?thesis
    by (cases "print_version s") (auto simp: run_program_def run_do_work(1) program_settled_def w1 w(2-) dest: run_do_work(3))
qed

definition preparing :: "main_trace \<Rightarrow> bool" where
  "preparing tr \<longleftrightarrow> (\<forall>(c, b) \<in> set tr. c \<in> {Initialize_libraries, Print_usage, Getcwd} \<union> range Is_readable)"

lemma preparing_settled:
  assumes "preparing tr"
  shows "\<not> called (Log_initialize l t) tr" "\<not> called (Signals_pre_initialize r) tr" "\<not> called Stream_stop tr"
    "\<not> called Stream_is_running tr" "\<not> called Dispatch_start tr" "\<not> called Dispatch_finalize tr" "\<not> called Gtk_is_running tr"
    "\<not> called Gtk_wait tr" "\<not> called Gtk_stop tr" "\<not> called Log_finalize tr" "\<not> called Signals_finalize tr"
    "\<not> called Elapsed_time tr" "\<not> called (Configure g a k) tr"
  using assms by (force simp: preparing_def called_def)+

lemmas preparing_not = preparing_settled preparing_settled [THEN succeeded_called]

text \<open>The program gives up before there is a log, or runs.\<close>

lemma main_outcome:
  "(\<exists>es b. run_state (ACE_TMAIN E L default_group ui_file any_address opts) [] = (False, es) \<and>
      (preparing es \<or> (\<exists>tr l t. es = tr @ [(Log_initialize l t, False)] \<and> preparing tr))) \<or>
   (\<exists>s tr l t. do_processArguments L default_group ui_file any_address opts = Some s \<and> valid_group (netlink_group s) \<and>
      run_state (ACE_TMAIN E L default_group ui_file any_address opts) [] =
        run_state (run_program E s) (tr @ [(Log_initialize l t, True)]) \<and> preparing tr)"
proof (cases "do_processArguments L default_group ui_file any_address opts")
  case None
  then show ?thesis by (simp add: ACE_TMAIN_def preparing_def)
next
  case (Some s)
  let ?i = "(Initialize_libraries, E [] Initialize_libraries)"
  let ?r = "(Is_readable (interface_file s), E [?i] (Is_readable (interface_file s)))"
  let ?pre = "if interface_file s = [] then [?i] else [?i, ?r]"
  let ?cwd = "(Getcwd, E ?pre Getcwd)"
  let ?log = "Log_initialize (log_to_file s) (trace_information s)"
  have p: "preparing (?pre @ [(Print_usage, b)])" "preparing (?pre @ [?cwd])" for b by (simp_all add: preparing_def)
  consider "(interface_file s \<noteq> [] \<and> \<not> snd ?r) \<or> \<not> valid_group (netlink_group s)"
    | "interface_file s \<noteq> [] \<longrightarrow> snd ?r" "valid_group (netlink_group s)" "\<not> snd ?cwd"
    | "interface_file s \<noteq> [] \<longrightarrow> snd ?r" "valid_group (netlink_group s)" "snd ?cwd" "\<not> E (?pre @ [?cwd]) ?log"
    | "interface_file s \<noteq> [] \<longrightarrow> snd ?r" "valid_group (netlink_group s)" "snd ?cwd" "E (?pre @ [?cwd]) ?log"
    by blast
  then show ?thesis
  proof cases
    case 1
    then have "run_state (ACE_TMAIN E L default_group ui_file any_address opts) [] = (False, ?pre @ [(Print_usage, E ?pre Print_usage)])"
      using Some by (auto simp: ACE_TMAIN_def)
    then show ?thesis using p(1) by blast
  next
    case 2
    then have "run_state (ACE_TMAIN E L default_group ui_file any_address opts) [] = (False, ?pre @ [?cwd])"
      using Some by (cases "interface_file s = []") (simp_all add: ACE_TMAIN_def)
    then show ?thesis using p(2) by blast
  next
    case 3
    then have "run_state (ACE_TMAIN E L default_group ui_file any_address opts) [] = (False, (?pre @ [?cwd]) @ [(?log, False)])"
      using Some by (cases "interface_file s = []") (simp_all add: ACE_TMAIN_def)
    then show ?thesis using p(2) by blast
  next
    case 4
    then have "run_state (ACE_TMAIN E L default_group ui_file any_address opts) [] = run_state (run_program E s) ((?pre @ [?cwd]) @ [(?log, True)])"
      using Some by (cases "interface_file s = []") (simp_all add: ACE_TMAIN_def)
    then show ?thesis using p(2) Some 4(2) by blast
  qed
qed

lemma main_settles:
  "\<exists>es. run_state (ACE_TMAIN E L default_group ui_file any_address opts) [] = (succeeded Elapsed_time es, es) \<and> program_settled es \<and>
     (\<forall>g a k. called (Configure g a k) es \<longrightarrow> (\<exists>s. do_processArguments L default_group ui_file any_address opts = Some s \<and>
        valid_group (netlink_group s) \<and> g = netlink_groups s))"
  using main_outcome [of E L default_group ui_file any_address opts]
proof (elim disjE exE conjE)
  fix s tr l t
  assume s: "do_processArguments L default_group ui_file any_address opts = Some s" "valid_group (netlink_group s)"
    and run: "run_state (ACE_TMAIN E L default_group ui_file any_address opts) [] = run_state (run_program E s) (tr @ [(Log_initialize l t, True)])"
    and tr: "preparing tr"
  obtain es where "run_state (run_program E s) (tr @ [(Log_initialize l t, True)]) = (succeeded Elapsed_time es, tr @ es)"
      "program_settled es" "\<forall>g a k. called (Configure g a k) es \<longrightarrow> g = netlink_groups s"
    using program_settles by blast
  then show ?thesis
    unfolding run using s by (intro exI [of _ "tr @ es"]) (simp add: program_settled_def preparing_not [OF tr])
qed (auto simp: program_settled_def preparing_not)

section \<open>Properties\<close>

text \<open>What a command line means. The options are refused exactly if one of them is an error of the parser or an address that cannot be parsed; otherwise a flag is set exactly if its option occurs, the last interface file counts, and of the multicast groups, if they are plain numbers in range, the first: the string stream they are all read through is never cleared after it has reached the end of the first, so every later one is ignored.\<close>

theorem arguments_result:
  assumes "\<forall>a\<in>set (group_arguments opts). plain_number a"
  shows "case do_processArguments L default_group ui_file any opts of
      None \<Rightarrow> \<exists>a\<in>set opts. rejects L a
    | Some s \<Rightarrow> (\<forall>a\<in>set opts. \<not> rejects L a) \<and>
        (client_mode s, log_to_file s, use_reactor s, trace_information s, print_version s) =
          (Opt_c \<in> set opts, Opt_l \<in> set opts, Opt_r \<in> set opts, Opt_t \<in> set opts, Opt_v \<in> set opts) \<and>
        interface_file s = last (ui_file # interface_arguments opts) \<and>
        netlink_group s = (case group_arguments opts of [] \<Rightarrow> default_group | g # _ \<Rightarrow> of_nat (value_of 10 g))"
proof (cases "do_processArguments L default_group ui_file any opts")
  case None
  then have "\<exists>a\<in>set opts. rejects L a" unfolding do_processArguments_def by (simp add: argument_loop_rejects)
  then show ?thesis using None by simp
next
  case (Some s)
  then have "\<forall>a\<in>set opts. \<not> rejects L a"
    using argument_loop_rejects unfolding do_processArguments_def by (metis option.distinct(1))
  moreover note argument_loop_result [OF Some [unfolded do_processArguments_def] assms]
  ultimately show ?thesis using Some by (simp add: group_result_def split: list.splits)
qed

definition no_addresses :: "unit address_library" where
  "no_addresses = \<lparr>set_address_port = \<lambda>a. None, set_address = \<lambda>a. None\<rparr>"

theorem arguments_result_witness:
  "case do_processArguments no_addresses 1 ''ui'' () [Opt_g ''5'', Opt_c, Opt_g ''7'', Opt_u None] of
     None \<Rightarrow> \<exists>a\<in>{Opt_g ''5'', Opt_c, Opt_g ''7'', Opt_u None}. rejects no_addresses a | Some s \<Rightarrow> netlink_group s = 5 \<and> client_mode s"
  using arguments_result [where opts = "[Opt_g ''5'', Opt_c, Opt_g ''7'', Opt_u None]" and L = no_addresses and default_group = 1
      and ui_file = "''ui''" and any = "()"]
  by (simp add: plain_number_def is_dec_def value_of_def digit_value_def split: option.splits)

text \<open>The multicast groups of a connection. Whenever the program, not in client mode, gets to configuring the netlink connection, the group it was given is one of 1 to 32 and the address has exactly the bit of that group: the shift stays within the 32 bits.\<close>

theorem netlink_group_mask:
  assumes "called (Configure groups a k) (snd (run_state (ACE_TMAIN E L default_group ui_file any opts) []))"
    and "do_processArguments L default_group ui_file any opts = Some s" "\<not> client_mode s"
  shows "1 \<le> unat (netlink_group s) \<and> unat (netlink_group s) \<le> 32 \<and>
     (\<forall>j. bit groups j \<longleftrightarrow> Suc j = unat (netlink_group s))"
proof -
  have g: "valid_group (netlink_group s)" "groups = push_bit (unat (netlink_group s - 1)) 1"
  proof -
    obtain es where "run_state (ACE_TMAIN E L default_group ui_file any opts) [] = (succeeded Elapsed_time es, es)"
      "called (Configure groups a k) es \<Longrightarrow> \<exists>s. do_processArguments L default_group ui_file any opts = Some s \<and>
        valid_group (netlink_group s) \<and> groups = netlink_groups s"
      using main_settles [of E L default_group ui_file any opts] by blast
    then have "valid_group (netlink_group s) \<and> groups = netlink_groups s" using assms(1,2) by simp
    then show "valid_group (netlink_group s)" "groups = push_bit (unat (netlink_group s - 1)) 1"
      using assms(3) by (simp_all add: netlink_groups_def)
  qed
  then have n: "1 \<le> unat (netlink_group s)" "unat (netlink_group s) \<le> 32"
    by (auto simp: valid_group_def word_le_nat_alt not_less Suc_le_eq unat_gt_0)
  moreover from n(1) have "unat (netlink_group s - 1) = unat (netlink_group s) - 1"
    by (subst unat_sub) (simp_all add: word_le_nat_alt)
  ultimately show ?thesis using g(2) by (auto simp: bit_simps)
qed

theorem netlink_group_mask_witness:
  "called (Configure 16 True True) (snd (run_state (ACE_TMAIN (\<lambda>tr c. True) no_addresses 1 ''ui'' () [Opt_g ''5'', Opt_u None]) [])) \<and>
   bit (16 :: u32) 4"
proof -
  have s: "do_processArguments no_addresses 1 ''ui'' () [Opt_g ''5'', Opt_u None] =
      Some \<lparr>client_mode = False, netlink_group = 5, log_to_file = False, use_reactor = False, peer_address = (),
        trace_information = False, interface_file = [], print_version = False\<rparr>"
    by (simp add: do_processArguments_def extract_unsigned_def is_space_def is_dec_def value_of_def digit_value_def Let_def)
  then have "called (Configure 16 True True) (snd (run_state (ACE_TMAIN (\<lambda>tr c. True) no_addresses 1 ''ui'' () [Opt_g ''5'', Opt_u None]) []))"
    by (simp add: ACE_TMAIN_def run_program_def work_defs valid_group_def netlink_groups_def whenM_def push_bit_eq_mult)
  then show ?thesis using netlink_group_mask [OF _ s, of 16 True True] by simp
qed

text \<open>C29: The program cleans up after itself. In every run of \<open>main\<close>, whatever calls fail, the log and the signal handling are finalized exactly if they were set up, a stream is stopped exactly if it was running, the event dispatch is finalized exactly if it was started, the GTK manager is waited for or stopped exactly if it came up, and the program reports success exactly if it ran to the end and its time could be taken.\<close>

theorem main_cleans_up:
  "case run_state (ACE_TMAIN E L default_group ui_file any opts) [] of (success, tr) \<Rightarrow>
     (called Log_finalize tr \<longleftrightarrow> (\<exists>l t. succeeded (Log_initialize l t) tr)) \<and>
     (called Signals_finalize tr \<longleftrightarrow> (\<exists>r. succeeded (Signals_pre_initialize r) tr)) \<and>
     (called Stream_stop tr \<longleftrightarrow> succeeded Stream_is_running tr) \<and>
     (called Dispatch_finalize tr \<longleftrightarrow> succeeded Dispatch_start tr) \<and>
     (called Gtk_wait tr \<or> called Gtk_stop tr \<longleftrightarrow> succeeded Gtk_is_running tr) \<and>
     (success \<longleftrightarrow> succeeded Elapsed_time tr)"
proof -
  obtain es where "run_state (ACE_TMAIN E L default_group ui_file any opts) [] = (succeeded Elapsed_time es, es)" "program_settled es"
    using main_settles [of E L default_group ui_file any opts] by (elim exE conjE) blast
  then show ?thesis by (simp add: program_settled_def)
qed

end
