(* ===== verification/Client_Usage.thy ===== *)
theory Client_Usage
  imports Client_Main
begin

text \<open>
  What the client prints about itself (\<open>do_printUsage\<close> and \<open>do_printVersion\<close> of
  src/src/test_u/olimex_mod_mpu6050.cpp), line by line, and how it agrees with the options the program
  takes.  The working directory, the name of the configuration directory and the default netlink group,
  which the libraries define, are arguments.
\<close>

section \<open>The usage\<close>

definition bool_text :: "bool \<Rightarrow> string" where
  "bool_text b = (if b then ''true'' else ''false'')"

definition default_interface_file :: "string \<Rightarrow> string \<Rightarrow> string" where
  "default_interface_file working_directory subdirectory =
     (let configuration_path = working_directory; path = configuration_path @ ''/'' @ subdirectory
      in path @ ''/'' @ ''olimex_mod_mpu6050.gtk2'')"

definition do_printUsage :: "string \<Rightarrow> string \<Rightarrow> string \<Rightarrow> u32 \<Rightarrow> string list" where
  "do_printUsage programName_in working_directory subdirectory default_group =
     [''usage: '' @ programName_in @ '' [OPTIONS]'',
      [],
      ''currently available options:'',
      ''-c           : client mode ['' @ bool_text False @ '']'',
      ''-g           : (netlink) multicast group ['' @ print_base 10 (unat default_group) @ '']'',
      ''-l           : log to a file ['' @ bool_text False @ '']'',
      ''-r           : use reactor ['' @ bool_text False @ '']'',
      ''-s [IPv4]    : server address[:port]'',
      ''-t           : trace information ['' @ bool_text False @ '']'',
      ''-u[[STRING]] : interface definition file ['' @ [CHR 0x22] @ default_interface_file working_directory subdirectory @
        [CHR 0x22] @ ''] {'' @ [CHR 0x22, CHR 0x22] @ '' --> no GUI}'',
      ''-v           : print version information and exit ['' @ bool_text False @ '']'']"

text \<open>The version: that of the configuration, if the build has one, and that of the library.\<close>

definition do_printVersion :: "string \<Rightarrow> (nat \<times> nat \<times> nat) option \<Rightarrow> nat \<times> nat \<times> nat \<Rightarrow> string list" where
  "do_printVersion programName_in version ace_version =
     (let dotted = (\<lambda>(major, minor, micro). print_base 10 major @ ''.'' @ print_base 10 minor @ ''.'' @ print_base 10 micro)
      in [programName_in @ '': '' @ (case version of None \<Rightarrow> ''N/A'' | Some v \<Rightarrow> dotted v),
          ''ACE: '' @ dotted ace_version])"

section \<open>The options\<close>

datatype argument = No_argument | Required_argument | Optional_argument

text \<open>The string of options, read as the documentation of \<open>ACE_Get_Opt\<close> says.\<close>

definition option_string :: string where
  "option_string = ''cg:lrs:tu::v''"

fun options_of :: "string \<Rightarrow> (char \<times> argument) list" where
  "options_of [] = []"
| "options_of [c] = [(c, No_argument)]"
| "options_of [c, d] = (if d = CHR '':'' then [(c, Required_argument)] else [(c, No_argument), (d, No_argument)])"
| "options_of (c # d # e # cs) =
     (if d = CHR '':'' then if e = CHR '':'' then (c, Optional_argument) # options_of cs
                            else (c, Required_argument) # options_of (e # cs)
      else (c, No_argument) # options_of (d # e # cs))"

text \<open>The labels of the switch in \<open>do_processArguments\<close>, for what the parser finds.\<close>

definition switch_label :: "option_found \<Rightarrow> (char \<times> argument) option" where
  "switch_label a =
     (case a of
        Opt_c \<Rightarrow> Some (CHR ''c'', No_argument)
      | Opt_g _ \<Rightarrow> Some (CHR ''g'', Required_argument)
      | Opt_l \<Rightarrow> Some (CHR ''l'', No_argument)
      | Opt_r \<Rightarrow> Some (CHR ''r'', No_argument)
      | Opt_s _ \<Rightarrow> Some (CHR ''s'', Required_argument)
      | Opt_t \<Rightarrow> Some (CHR ''t'', No_argument)
      | Opt_u _ \<Rightarrow> Some (CHR ''u'', Optional_argument)
      | Opt_v \<Rightarrow> Some (CHR ''v'', No_argument)
      | _ \<Rightarrow> None)"

text \<open>What a line of the usage says of an option: its letter, and whether it shows an argument.\<close>

definition documented :: "string list \<Rightarrow> (char \<times> bool) list" where
  "documented ls = map (\<lambda>l. (l ! 1, CHR ''['' \<in> set (takeWhile (\<lambda>c. c \<noteq> CHR '':'') l)))
     (filter (\<lambda>l. l \<noteq> [] \<and> hd l = CHR ''-'') ls)"

lemma options: "options_of option_string =
    [(CHR ''c'', No_argument), (CHR ''g'', Required_argument), (CHR ''l'', No_argument), (CHR ''r'', No_argument),
     (CHR ''s'', Required_argument), (CHR ''t'', No_argument), (CHR ''u'', Optional_argument), (CHR ''v'', No_argument)]"
  by (simp add: option_string_def)

lemma options_switched: "switch_label a = Some q \<Longrightarrow> q \<in> set (options_of option_string)"
  by (auto simp: options switch_label_def split: option_found.splits)

lemma switch_complete: "q \<in> set (options_of option_string) \<Longrightarrow> \<exists>a. switch_label a = Some q"
  by (auto simp: options switch_label_def
      intro: exI [of _ Opt_c] exI [of _ "Opt_g []"] exI [of _ Opt_l] exI [of _ Opt_r] exI [of _ "Opt_s []"] exI [of _ Opt_t]
        exI [of _ "Opt_u None"] exI [of _ Opt_v])

lemma usage_documents:
  "documented (do_printUsage program cwd sub g) =
    [(CHR ''c'', False), (CHR ''g'', False), (CHR ''l'', False), (CHR ''r'', False),
     (CHR ''s'', True), (CHR ''t'', False), (CHR ''u'', True), (CHR ''v'', False)]"
  by (simp add: documented_def do_printUsage_def)

text \<open>The loop gives up on exactly what is not a label of the switch, or an address it cannot parse.\<close>

lemma unlabelled_rejected: "switch_label a = None \<Longrightarrow> argument_loop L (a # as) good s = None"
  by (cases a) (simp_all add: switch_label_def)

section \<open>Properties\<close>

text \<open>The usage names the options the program takes, in the order of its option string, and the switch has a label for each of them and no other; only for \<open>-g\<close> it does not show the argument that the option requires.\<close>

theorem usage_matches_options:
  "map fst (documented (do_printUsage program working_directory subdirectory g)) = map fst (options_of option_string) \<and>
   ((\<exists>a. switch_label a = Some q) \<longleftrightarrow> q \<in> set (options_of option_string)) \<and>
   filter (\<lambda>((c, shown), (c', argument)). shown \<noteq> (argument \<noteq> No_argument))
     (zip (documented (do_printUsage program working_directory subdirectory g)) (options_of option_string)) =
       [((CHR ''g'', False), (CHR ''g'', Required_argument))]"
proof (intro conjI)
  show "(\<exists>a. switch_label a = Some q) \<longleftrightarrow> q \<in> set (options_of option_string)"
    using options_switched switch_complete by blast
qed (simp_all add: usage_documents options)

lemma usage_file_line:
  "(''-u[[STRING]] : interface definition file ['' @ [CHR 0x22]) @ default_interface_file working_directory subdirectory @
     ([CHR 0x22] @ ''] {'' @ [CHR 0x22, CHR 0x22] @ '' --> no GUI}'')
   \<in> set (do_printUsage program working_directory subdirectory g)"
  by (simp add: do_printUsage_def)

text \<open>Without arguments the interface file is the one the usage shows.\<close>

theorem usage_shows_default_file:
  "do_processArguments L g (default_interface_file working_directory subdirectory) any [] = Some s \<Longrightarrow>
   list_ex (\<lambda>l. \<exists>pre post. l = pre @ interface_file s @ post) (do_printUsage program working_directory subdirectory g)"
proof -
  assume "do_processArguments L g (default_interface_file working_directory subdirectory) any [] = Some s"
  then have "interface_file s = default_interface_file working_directory subdirectory"
    by (auto simp: do_processArguments_def)
  with usage_file_line [of working_directory subdirectory program g] show ?thesis
    unfolding list_ex_iff by metis
qed

end
