(* ===== verification/Client_Config.thy ===== *)
theory Client_Config
  imports Client_Ui
begin

text \<open>
  The configuration \<open>do_work\<close> (src/src/test_u/olimex_mod_mpu6050.cpp) fills before it runs the stream: the
  structures of olimex_mod_mpu6050_types.h with what their constructors set, the assignments, and the
  pointers between the objects.  The objects live on the stack of \<open>do_work\<close>; a pointer names the object it
  refers to.  A member the constructors of the framework initialise, and the code leaves alone, is
  \<open>Library_default\<close> or \<open>None\<close>.
\<close>

section \<open>Objects and pointers\<close>

text \<open>The four configurations: the stream's, the netlink one, and the copies for the connections.\<close>

datatype instance_of = First | Netlink_first | Second | Netlink_second

datatype object =
    Configuration instance_of | Connection_settings instance_of | Stream_settings instance_of
  | User_data | Netlink_user_data | Allocator_settings | Message_allocator
  | Event_handler | Event_handler_module | Synch_stream | Asynch_stream
  | Connection_manager | Connection_map

datatype pointer = Library_default | NULL | To object

datatype concurrency = ACTIVE | CONCURRENT

section \<open>The structures\<close>

text \<open>The members of the two connection configurations, for UDP and for netlink, with the address as parameter.\<close>

record 'a connection_configuration =
  allocatorConfiguration :: pointer
  address :: "'a option"
  bufferSize :: "nat option"
  protocol :: "nat option"
  streamConfiguration :: pointer
  messageAllocator :: pointer
  statisticReportingInterval :: "nat option"
  connection_userData :: pointer
  useThreadPerConnection :: "bool option"

definition new_connection_configuration :: "'a connection_configuration" where
  "new_connection_configuration =
     \<lparr>allocatorConfiguration = Library_default, address = None, bufferSize = None, protocol = None,
      streamConfiguration = Library_default, messageAllocator = Library_default, statisticReportingInterval = None,
      connection_userData = NULL, useThreadPerConnection = None\<rparr>"

record module_handler_configuration =
  concurrency :: "concurrency option"
  connection :: pointer
  connectionConfigurations :: pointer
  connectionManager :: pointer
  handler_consoleMode :: bool
  inbound :: bool
  handler_passive :: bool
  handler_printFinalReport :: bool
  pushStatisticMessages :: bool
  handler_stream :: pointer
  subscriber :: pointer

definition new_module_handler_configuration :: module_handler_configuration where
  "new_module_handler_configuration =
     \<lparr>concurrency = None, connection = NULL, connectionConfigurations = NULL, connectionManager = NULL,
      handler_consoleMode = False, inbound = True, handler_passive = False, handler_printFinalReport = True,
      pushStatisticMessages = True, handler_stream = NULL, subscriber = NULL\<rparr>"

text \<open>The netlink variant adds members, some of which hide those it inherits.\<close>

record netlink_module_handler_configuration = module_handler_configuration +
  netlink_connection :: pointer
  connectionConfiguration :: pointer
  netlink_connectionManager :: pointer

definition new_netlink_module_handler_configuration :: netlink_module_handler_configuration where
  "new_netlink_module_handler_configuration =
     module_handler_configuration.extend new_module_handler_configuration
       (netlink_module_handler_configuration.fields NULL NULL NULL)"

record stream_configuration =
  stream_messageAllocator :: pointer
  notificationStrategy :: pointer
  stream_module :: pointer
  stream_printFinalReport :: "bool option"
  stream_userData :: pointer

definition new_stream_configuration :: stream_configuration where
  "new_stream_configuration =
     \<lparr>stream_messageAllocator = Library_default, notificationStrategy = Library_default, stream_module = Library_default,
      stream_printFinalReport = None, stream_userData = NULL\<rparr>"

text \<open>
  A configuration, with the two arguments its stream configuration has been initialised with.
\<close>

record ('a, 'h) configuration =
  of_connection :: "'a connection_configuration"
  of_moduleHandler :: 'h
  of_stream :: "('h \<times> stream_configuration) option"
  userData :: pointer

definition new_configuration :: "('a, module_handler_configuration) configuration" where
  "new_configuration =
     \<lparr>of_connection = new_connection_configuration, of_moduleHandler = new_module_handler_configuration,
      of_stream = None, userData = NULL\<rparr>"

definition new_netlink_configuration :: "('n, netlink_module_handler_configuration) configuration" where
  "new_netlink_configuration =
     \<lparr>of_connection = new_connection_configuration, of_moduleHandler = new_netlink_module_handler_configuration,
      of_stream = None, userData = NULL\<rparr>"

section \<open>Filling them\<close>

text \<open>The constants the libraries define.\<close>

record library_constants =
  SOCKET_RECEIVE_BUFFER_SIZE :: nat
  NETLINK_PROTOCOL :: nat

definition fill_connection ::
  "library_constants \<Rightarrow> 'a \<Rightarrow> 'a connection_configuration \<Rightarrow> 'a connection_configuration" where
  "fill_connection K peerAddress_in c =
     c\<lparr>allocatorConfiguration := To Allocator_settings, address := Some peerAddress_in,
       bufferSize := Some (SOCKET_RECEIVE_BUFFER_SIZE K), streamConfiguration := To (Stream_settings First),
       messageAllocator := To Message_allocator, statisticReportingInterval := Some 0,
       connection_userData := To User_data, useThreadPerConnection := Some False\<rparr>"

definition fill_netlink_connection ::
  "library_constants \<Rightarrow> 'n \<Rightarrow> 'n connection_configuration \<Rightarrow> 'n connection_configuration" where
  "fill_netlink_connection K netlinkAddress_in c =
     c\<lparr>address := Some netlinkAddress_in, protocol := Some (NETLINK_PROTOCOL K),
       streamConfiguration := To (Stream_settings Netlink_first)\<rparr>"

definition fill_module_handler :: "bool \<Rightarrow> bool \<Rightarrow> module_handler_configuration \<Rightarrow> module_handler_configuration" where
  "fill_module_handler useReactor_in console h =
     (let h1 = h\<lparr>concurrency := Some ACTIVE, connectionManager := To Connection_manager, handler_consoleMode := console,
                 connectionConfigurations := To Connection_map, handler_stream := To Synch_stream\<rparr>;
          h2 = (if \<not> useReactor_in then h1\<lparr>handler_stream := To Asynch_stream\<rparr> else h1)
      in h2\<lparr>subscriber := To Event_handler\<rparr>)"

definition fill_stream :: "stream_configuration \<Rightarrow> stream_configuration" where
  "fill_stream s =
     s\<lparr>stream_messageAllocator := To Message_allocator, notificationStrategy := NULL, stream_module := To Event_handler_module,
       stream_printFinalReport := Some False\<rparr>"

definition initialize_stream :: "stream_configuration \<Rightarrow> ('a, 'h) configuration \<Rightarrow> ('a, 'h) configuration" where
  "initialize_stream s c = c\<lparr>of_stream := Some (of_moduleHandler c, s)\<rparr>"

definition fill_first :: "library_constants \<Rightarrow> 'a \<Rightarrow> bool \<Rightarrow> bool \<Rightarrow> ('a, module_handler_configuration) configuration" where
  "fill_first K peerAddress_in useReactor_in console =
     (let c1 = new_configuration\<lparr>of_connection := fill_connection K peerAddress_in (of_connection new_configuration)\<rparr>;
          c2 = c1\<lparr>of_moduleHandler := fill_module_handler useReactor_in console (of_moduleHandler c1)\<rparr>;
          c3 = initialize_stream (fill_stream new_stream_configuration) c2
      in c3\<lparr>userData := To User_data\<rparr>)"

definition fill_netlink_first :: "library_constants \<Rightarrow> 'n \<Rightarrow> ('n, netlink_module_handler_configuration) configuration" where
  "fill_netlink_first K netlinkAddress_in =
     initialize_stream (fill_stream new_stream_configuration)
       (new_netlink_configuration\<lparr>of_connection := fill_netlink_connection K netlinkAddress_in (of_connection new_netlink_configuration)\<rparr>)"

text \<open>
  The copies for the connections of a stream: what would hand a message to the interface a second time
  is taken out.
\<close>

definition fill_second :: "('a, module_handler_configuration) configuration \<Rightarrow> stream_configuration \<Rightarrow>
    ('a, module_handler_configuration) configuration" where
  "fill_second first stream_configuration_s =
     (let c1 = new_configuration\<lparr>of_connection := (of_connection first)\<lparr>streamConfiguration := To (Stream_settings Second)\<rparr>\<rparr>;
          c2 = c1\<lparr>of_moduleHandler := (of_moduleHandler first)\<lparr>concurrency := Some CONCURRENT, connectionConfigurations := NULL,
                   handler_stream := NULL, subscriber := NULL\<rparr>\<rparr>
      in initialize_stream (stream_configuration_s\<lparr>stream_module := NULL\<rparr>) c2)"

definition fill_netlink_second :: "('n, netlink_module_handler_configuration) configuration \<Rightarrow> stream_configuration \<Rightarrow>
    ('n, netlink_module_handler_configuration) configuration" where
  "fill_netlink_second first netlink_stream_configuration_s =
     (let c1 = new_netlink_configuration\<lparr>of_connection :=
                 (of_connection first)\<lparr>streamConfiguration := To (Stream_settings Netlink_second)\<rparr>\<rparr>;
          c2 = c1\<lparr>of_moduleHandler := of_moduleHandler first\<rparr>
      in initialize_stream (netlink_stream_configuration_s\<lparr>stream_module := NULL\<rparr>) c2)"

text \<open>All of it, with the map of connection configurations and the configuration of the signal handler.\<close>

record ('a, 'n) work_configuration =
  configuration_1 :: "('a, module_handler_configuration) configuration"
  netlink_configuration_1 :: "('n, netlink_module_handler_configuration) configuration"
  configuration_2 :: "('a, module_handler_configuration) configuration"
  netlink_configuration_2 :: "('n, netlink_module_handler_configuration) configuration"
  connection_configurations :: "(string \<times> object) list"

definition configure_work :: "library_constants \<Rightarrow> 'a \<Rightarrow> 'n \<Rightarrow> bool \<Rightarrow> string \<Rightarrow> ('a, 'n) work_configuration" where
  "configure_work K peerAddress_in netlinkAddress_in useReactor_in interfaceDefinitionFile_in =
     (let first = fill_first K peerAddress_in useReactor_in (interfaceDefinitionFile_in = []);
          netlink = fill_netlink_first K netlinkAddress_in
      in \<lparr>configuration_1 = first, netlink_configuration_1 = netlink,
          configuration_2 = fill_second first (fill_stream new_stream_configuration),
          netlink_configuration_2 = fill_netlink_second netlink (fill_stream new_stream_configuration),
          connection_configurations = [(''CamSource'', Connection_settings Second)]\<rparr>)"

text \<open>The configuration of the signal handler: the interface handle keeps the NULL of the constructor.\<close>

definition configure_signals :: "bool \<Rightarrow> string \<Rightarrow> signal_configuration" where
  "configure_signals useReactor_in interfaceDefinitionFile_in =
     \<lparr>interfaceHandle = False, stream = True, useReactor = useReactor_in, sigConsoleMode = (interfaceDefinitionFile_in = []),
      connect_throws = False, abort_throws = False\<rparr>"

section \<open>What refers to what\<close>

fun target :: "pointer \<Rightarrow> object list" where
  "target (To x) = [x]"
| "target NULL = []"
| "target Library_default = []"

definition connection_targets :: "'a connection_configuration \<Rightarrow> object list" where
  "connection_targets c = concat (map target
     [allocatorConfiguration c, streamConfiguration c, messageAllocator c, connection_userData c])"

definition handler_targets :: "'z module_handler_configuration_scheme \<Rightarrow> object list" where
  "handler_targets h = concat (map target
     [connection h, connectionConfigurations h, connectionManager h, handler_stream h, subscriber h])"

definition stream_targets :: "('z module_handler_configuration_scheme \<times> stream_configuration) option \<Rightarrow> object list" where
  "stream_targets x =
     (case x of
        None \<Rightarrow> []
      | Some (h, s) \<Rightarrow> handler_targets h @ concat (map target
          [stream_messageAllocator s, notificationStrategy s, stream_module s, stream_userData s]))"

definition configuration_targets :: "instance_of \<Rightarrow> ('a, 'z module_handler_configuration_scheme) configuration \<Rightarrow> object list" where
  "configuration_targets i c = [Connection_settings i, Stream_settings i] @ handler_targets (of_moduleHandler c) @ target (userData c)"

definition refers :: "('a, 'n) work_configuration \<Rightarrow> object \<Rightarrow> object list" where
  "refers W x =
     (case x of
        Configuration First \<Rightarrow> configuration_targets First (configuration_1 W)
      | Configuration Netlink_first \<Rightarrow> configuration_targets Netlink_first (netlink_configuration_1 W)
      | Configuration Second \<Rightarrow> configuration_targets Second (configuration_2 W)
      | Configuration Netlink_second \<Rightarrow> configuration_targets Netlink_second (netlink_configuration_2 W)
      | Connection_settings First \<Rightarrow> connection_targets (of_connection (configuration_1 W))
      | Connection_settings Netlink_first \<Rightarrow> connection_targets (of_connection (netlink_configuration_1 W))
      | Connection_settings Second \<Rightarrow> connection_targets (of_connection (configuration_2 W))
      | Connection_settings Netlink_second \<Rightarrow> connection_targets (of_connection (netlink_configuration_2 W))
      | Stream_settings First \<Rightarrow> stream_targets (of_stream (configuration_1 W))
      | Stream_settings Netlink_first \<Rightarrow> stream_targets (of_stream (netlink_configuration_1 W))
      | Stream_settings Second \<Rightarrow> stream_targets (of_stream (configuration_2 W))
      | Stream_settings Netlink_second \<Rightarrow> stream_targets (of_stream (netlink_configuration_2 W))
      | User_data \<Rightarrow> [Configuration First]
      | Netlink_user_data \<Rightarrow> [Configuration Netlink_first]
      | Connection_map \<Rightarrow> map snd (connection_configurations W)
      | _ \<Rightarrow> [])"

inductive within_reach :: "('a, 'n) work_configuration \<Rightarrow> object \<Rightarrow> object \<Rightarrow> bool" for W x where
  reach_self: "within_reach W x x"
| reach_step: "within_reach W x y \<Longrightarrow> z \<in> set (refers W y) \<Longrightarrow> within_reach W x z"

text \<open>What can be reached from the configuration the stream is initialised with.\<close>

definition stream_reach :: "bool \<Rightarrow> object list" where
  "stream_reach useReactor_in =
     [Stream_settings First, Connection_map, Connection_manager, if useReactor_in then Synch_stream else Asynch_stream,
      Event_handler, Event_handler_module, Message_allocator, Connection_settings Second, Stream_settings Second,
      Allocator_settings, User_data, Configuration First, Connection_settings First]"

lemmas fill_defs = configure_work_def fill_first_def fill_netlink_first_def fill_second_def fill_netlink_second_def
  fill_connection_def fill_netlink_connection_def fill_module_handler_def fill_stream_def initialize_stream_def
  new_configuration_def new_netlink_configuration_def new_connection_configuration_def new_module_handler_configuration_def
  new_netlink_module_handler_configuration_def new_stream_configuration_def
  module_handler_configuration.defs netlink_module_handler_configuration.defs

lemmas target_defs = configuration_targets_def connection_targets_def handler_targets_def stream_targets_def

text \<open>The references, object by object.\<close>

lemma configured_refers:
  "refers (configure_work K p n r f) (Stream_settings First) =
     [Connection_map, Connection_manager, if r then Synch_stream else Asynch_stream, Event_handler, Message_allocator, Event_handler_module]"
  "refers (configure_work K p n r f) (Stream_settings Second) = [Connection_manager, Message_allocator]"
  "refers (configure_work K p n r f) (Stream_settings Netlink_first) = [Message_allocator, Event_handler_module]"
  "refers (configure_work K p n r f) (Stream_settings Netlink_second) = [Message_allocator]"
  "refers (configure_work K p n r f) (Connection_settings First) = [Allocator_settings, Stream_settings First, Message_allocator, User_data]"
  "refers (configure_work K p n r f) (Connection_settings Second) = [Allocator_settings, Stream_settings Second, Message_allocator, User_data]"
  "refers (configure_work K p n r f) (Configuration First) =
     [Connection_settings First, Stream_settings First, Connection_map, Connection_manager, if r then Synch_stream else Asynch_stream,
      Event_handler, User_data]"
  "refers (configure_work K p n r f) User_data = [Configuration First]"
  "refers (configure_work K p n r f) Connection_map = [Connection_settings Second]"
  by (simp_all add: refers_def fill_defs target_defs Let_def)

lemma configured_connections:
  "connection_configurations (configure_work K p n r f) = [(''CamSource'', Connection_settings Second)]"
  by (simp add: configure_work_def Let_def)

lemma refers_nothing:
  "x \<in> {Allocator_settings, Message_allocator, Event_handler, Event_handler_module, Synch_stream, Asynch_stream, Connection_manager} \<Longrightarrow>
   refers W x = []"
  by (auto simp: refers_def)

lemma reach_closed:
  assumes "within_reach W x z" "x \<in> S" "\<And>y. y \<in> S \<Longrightarrow> set (refers W y) \<subseteq> S"
  shows "z \<in> S"
  using assms by (induction rule: within_reach.induct) blast+

section \<open>Properties\<close>


text \<open>A sample is handed to the interface once: of the stream settings, only those of the stream itself name the event handler, and those of every connection in the map name neither it nor its module.\<close>

theorem connections_deliver_once:
  "(let W = configure_work K peer netlink reactor file
    in (Event_handler \<in> set (refers W (Stream_settings i)) \<longleftrightarrow> i = First) \<and>
       list_all (\<lambda>(name, x). list_all (\<lambda>y. Event_handler \<notin> set (refers W y) \<and> Event_handler_module \<notin> set (refers W y)) (refers W x))
         (connection_configurations W))"
  by (cases i) (simp_all add: Let_def configured_refers configured_connections refers_nothing)

text \<open>The signals of a running program: the interface handle is never set, so SIGUSR1 does nothing, and the signals that end the program stop the stream and, with an interface, the GTK thread.\<close>

theorem signals_configured:
  "signal_handle (configure_signals reactor file) SIGUSR1 = []"
  "sig \<in> {SIGINT, SIGQUIT} \<Longrightarrow>
   signal_handle (configure_signals reactor file) sig = Stop_stream # (if file = [] then [] else [Stop_gtk])"
  by (auto simp: signal_handle_def signal_shutdown_def configure_signals_def)

end
