(* ===== verification/Client_Gl.thy ===== *)
theory Client_Gl
  imports Client "HOL-Library.Multiset"
begin

text \<open>
  The OpenGL widget of the client (src/src/test_u/olimex_mod_mpu6050_gtk_gl_callbacks.cpp): its
  set up, tear down, drawing and resizing, in the two configurations of the build that are complete, GTK
  3.16 and newer, and older versions of GTK 3 with the GtkGLArea library.  The calls into GTK and OpenGL
  are recorded with their answers, which a parameter gives.  What a sequence of calls binds, and what it
  holds, are functions of the record, after the documentation of OpenGL.
\<close>

section \<open>Calls\<close>

datatype gl_capability = TEXTURE_2D | BLEND | DEPTH_TEST
datatype buffer_target = ARRAY_BUFFER | ELEMENT_ARRAY_BUFFER
datatype buffer_data = Floats "rat list" | Bytes "u8 list"
datatype texture_parameter = WRAP_S_CLAMP | WRAP_T_CLAMP | MAG_LINEAR | MIN_MIPMAP_LINEAR
datatype uniform = Model rat rat rat | View_matrix | Projection int int | Texture_unit int | Time rat

text \<open>
  A frustum is given by the ratio of its width to its height; dividing by 0 in floating point gives
  infinity, \<open>None\<close>.
\<close>

datatype gl_call =
    Get_context | Attach_buffers | Make_current | Has_depth_buffer | Area_make_current
  | Glew_init | Enable gl_capability | Active_texture | Tex_parameter texture_parameter | Load_texture
  | Bind_texture u32 | Generate_mipmap | Get_allocation | Viewport int int | Glu_perspective int int
  | Frustum "rat option" | Blend_func | Shader_load | Shader_use | Shader_unuse | Shader_reset | Set_uniform uniform
  | Gen_vertex_array | Gen_buffer | Bind_vertex_array u32 | Bind_buffer buffer_target u32
  | Buffer_data buffer_target buffer_data | Enable_attribute nat | Attribute_pointer nat nat nat nat
  | Delete_texture u32 | Delete_vertex_array u32 | Delete_buffer u32
  | Clear | Draw_elements nat | Queue_render | Swap_buffers | Matrix_mode_projection | Matrix_mode_modelview
  | Load_identity
  | Get_error | Create_context | Set_error | Error_free | Set_version nat nat | Set_use_es | Realize_context | Clear_color

type_synonym gl_trace = "(gl_call \<times> u32) list"
type_synonym gl_env = "gl_trace \<Rightarrow> gl_call \<Rightarrow> u32"

text \<open>The members of the client's data the callbacks use; \<open>aborted\<close>: an assertion has failed.\<close>

record gl_widget =
  OpenGLTextureId :: u32
  VAO :: u32
  VBO :: u32
  EBO :: u32
  gl_trace :: gl_trace
  aborted :: bool

type_synonym 'a gl = "(gl_widget, 'a) state"

definition gl :: "gl_env \<Rightarrow> gl_call \<Rightarrow> u32 gl" where
  "gl E c = State (\<lambda>w. (E (gl_trace w) c, w\<lparr>gl_trace := gl_trace w @ [(c, E (gl_trace w) c)]\<rparr>))"

definition gl1 :: "gl_env \<Rightarrow> gl_call \<Rightarrow> unit gl" where
  "gl1 E c = do { gl E c; State_Monad.return () }"

definition gl_upd :: "(gl_widget \<Rightarrow> gl_widget) \<Rightarrow> unit gl" where
  "gl_upd f = State (\<lambda>w. ((), f w))"

definition gl_assert :: "bool \<Rightarrow> unit gl \<Rightarrow> unit gl" where
  "gl_assert b m = (if b then m else gl_upd (\<lambda>w. w\<lparr>aborted := True\<rparr>))"

primrec gls :: "gl_env \<Rightarrow> gl_call list \<Rightarrow> unit gl" where
  "gls E [] = State_Monad.return ()"
| "gls E (c # cs) = do { gl E c; gls E cs }"

text \<open>Every call followed by the assertion that OpenGL reports no error.\<close>

primrec gls_checked :: "gl_env \<Rightarrow> gl_call list \<Rightarrow> unit gl" where
  "gls_checked E [] = State_Monad.return ()"
| "gls_checked E (c # cs) = do {
     gl E c;
     error \<leftarrow> gl E Get_error;
     gl_assert (error = 0) (gls_checked E cs) }"

text \<open>The build: the version of GTK with the widget used, GLEW and GLU or not; the size of the widget.\<close>

datatype toolkit = Gtk_3_16 | Gtk_3_0_area

record gl_build =
  toolkit :: toolkit
  glew :: bool
  glu :: bool

record allocation =
  width :: int
  height :: int

section \<open>The cube\<close>

text \<open>Per vertex: the position, the colour with alpha, the texture coordinates.\<close>

definition cube_strip_color_texcoords :: "rat list" where
  "cube_strip_color_texcoords =
    [-(1/2), -(1/2),  1/2,   1, 0, 0, 1/2,   0, 0,
       1/2,  -(1/2),  1/2,   0, 1, 0, 1/2,   0, 1,
     -(1/2),   1/2,   1/2,   0, 0, 1, 1/2,   1, 0,
       1/2,    1/2,   1/2,   1, 1, 1, 1/2,   1, 1,

       1/2,  -(1/2),  1/2,   1, 0, 0, 1/2,   0, 0,
       1/2,  -(1/2), -(1/2), 0, 1, 0, 1/2,   0, 1,
       1/2,    1/2,   1/2,   0, 0, 1, 1/2,   1, 0,
       1/2,    1/2,  -(1/2), 1, 1, 1, 1/2,   1, 1,

       1/2,  -(1/2), -(1/2), 1, 0, 0, 1/2,   0, 0,
     -(1/2), -(1/2), -(1/2), 0, 1, 0, 1/2,   0, 1,
       1/2,    1/2,  -(1/2), 0, 0, 1, 1/2,   1, 0,
     -(1/2),   1/2,  -(1/2), 1, 1, 1, 1/2,   1, 1,

     -(1/2), -(1/2), -(1/2), 1, 0, 0, 1/2,   0, 0,
     -(1/2), -(1/2),  1/2,   0, 1, 0, 1/2,   0, 1,
     -(1/2),   1/2,  -(1/2), 0, 0, 1, 1/2,   1, 0,
     -(1/2),   1/2,   1/2,   1, 1, 1, 1/2,   1, 1,

     -(1/2), -(1/2), -(1/2), 1, 0, 0, 1/2,   0, 0,
       1/2,  -(1/2), -(1/2), 0, 1, 0, 1/2,   0, 1,
     -(1/2), -(1/2),  1/2,   0, 0, 1, 1/2,   1, 0,
       1/2,  -(1/2),  1/2,   1, 1, 1, 1/2,   1, 1,

     -(1/2),   1/2,   1/2,   1, 0, 0, 1/2,   0, 0,
       1/2,    1/2,   1/2,   0, 1, 0, 1/2,   0, 1,
     -(1/2),   1/2,  -(1/2), 0, 0, 1, 1/2,   1, 0,
       1/2,    1/2,  -(1/2), 1, 1, 1, 1/2,   1, 1]"

definition cube_indices :: "u8 list" where
  "cube_indices =
    [0, 1, 2, 3, 3,
     4, 4, 5, 6, 7, 7,
     8, 8, 9, 10, 11, 11,
     12, 12, 13, 14, 15, 15,
     16, 16, 17, 18, 19, 19,
     20, 20, 21, 22, 23]"

abbreviation (input) SIZEOF_FLOAT :: nat where "SIZEOF_FLOAT \<equiv> 4"

section \<open>Set up\<close>

text \<open>Makes the context of the widget current, if it has one; the continuation is the rest of the callback.\<close>

definition begin_gl :: "gl_env \<Rightarrow> gl_build \<Rightarrow> unit gl \<Rightarrow> unit gl" where
  "begin_gl E B m =
     (case toolkit B of
        Gtk_3_16 \<Rightarrow> do {
          context \<leftarrow> gl E Get_context;
          if context = 0 then State_Monad.return ()
          else do {
            gls E [Attach_buffers, Make_current];
            depth \<leftarrow> gl E Has_depth_buffer;
            gl_assert (depth \<noteq> 0) m } }
      | Gtk_3_0_area \<Rightarrow> do {
          current \<leftarrow> gl E Area_make_current;
          if current = 0 then State_Monad.return () else m })"

definition load_texture :: "gl_env \<Rightarrow> bool gl" where
  "load_texture E = do {
     texture \<leftarrow> gets OpenGLTextureId;
     if texture \<noteq> 0 then State_Monad.return True
     else do {
       gls E [Active_texture, Tex_parameter WRAP_S_CLAMP, Tex_parameter WRAP_T_CLAMP];
       t \<leftarrow> gl E Load_texture;
       gl_upd (\<lambda>w. w\<lparr>OpenGLTextureId := t\<rparr>);
       if t = 0 then State_Monad.return False
       else do {
         gls E [Bind_texture t, Tex_parameter MAG_LINEAR, Tex_parameter MIN_MIPMAP_LINEAR, Generate_mipmap, Bind_texture 0];
         State_Monad.return True } } }"

text \<open>\<open>fW = fH * (width / (GLdouble) height)\<close>.\<close>

definition set_perspective :: "gl_env \<Rightarrow> gl_build \<Rightarrow> allocation \<Rightarrow> unit gl \<Rightarrow> unit gl" where
  "set_perspective E B a m = do {
     gls E [Get_allocation, Viewport (width a) (height a)];
     if glu B
     then gl_assert (height a \<noteq> 0) (do { gl E (Glu_perspective (width a) (height a)); m })
     else do {
       gl E (Frustum (if height a = 0 then None else Some (of_int (width a) / of_int (height a))));
       m } }"

definition upload_cube :: "gl_env \<Rightarrow> unit gl" where
  "upload_cube E = do {
     vao \<leftarrow> gl E Gen_vertex_array;
     gl_upd (\<lambda>w. w\<lparr>VAO := vao\<rparr>);
     gl_assert (vao \<noteq> 0) (do {
       vbo \<leftarrow> gl E Gen_buffer;
       gl_upd (\<lambda>w. w\<lparr>VBO := vbo\<rparr>);
       gl_assert (vbo \<noteq> 0) (do {
         ebo \<leftarrow> gl E Gen_buffer;
         gl_upd (\<lambda>w. w\<lparr>EBO := ebo\<rparr>);
         gl_assert (ebo \<noteq> 0)
           (gls E [Bind_vertex_array vao, Bind_buffer ARRAY_BUFFER vbo,
                   Buffer_data ARRAY_BUFFER (Floats cube_strip_color_texcoords),
                   Enable_attribute 0, Attribute_pointer 0 3 (9 * SIZEOF_FLOAT) 0,
                   Enable_attribute 1, Attribute_pointer 1 4 (9 * SIZEOF_FLOAT) (3 * SIZEOF_FLOAT),
                   Enable_attribute 2, Attribute_pointer 2 2 (9 * SIZEOF_FLOAT) (7 * SIZEOF_FLOAT),
                   Bind_buffer ELEMENT_ARRAY_BUFFER ebo, Buffer_data ELEMENT_ARRAY_BUFFER (Bytes cube_indices),
                   Bind_buffer ELEMENT_ARRAY_BUFFER 0, Bind_buffer ARRAY_BUFFER 0, Bind_vertex_array 0]) }) }) }"

definition glarea_realize_cb :: "gl_env \<Rightarrow> gl_build \<Rightarrow> allocation \<Rightarrow> unit gl" where
  "glarea_realize_cb E B a = begin_gl E B (do {
     whenM (glew B) (gl1 E Glew_init);
     gl E (Enable TEXTURE_2D);
     loaded \<leftarrow> load_texture E;
     if \<not> loaded then State_Monad.return ()
     else set_perspective E B a (do {
       gls E [Enable BLEND, Blend_func, Enable DEPTH_TEST];
       shader \<leftarrow> gl E Shader_load;
       if shader = 0 then State_Monad.return ()
       else do { gl E Shader_use; upload_cube E } }) })"

definition delete_objects :: "gl_env \<Rightarrow> unit gl" where
  "delete_objects E = do {
     w \<leftarrow> gets id;
     whenM (OpenGLTextureId w \<noteq> 0) (do {
       gl E (Delete_texture (OpenGLTextureId w));
       gl_upd (\<lambda>w. w\<lparr>OpenGLTextureId := 0\<rparr>) });
     gls E [Delete_vertex_array (VAO w), Delete_buffer (VBO w), Delete_buffer (EBO w), Shader_reset] }"

definition glarea_unrealize_cb :: "gl_env \<Rightarrow> gl_build \<Rightarrow> unit gl" where
  "glarea_unrealize_cb E B = begin_gl E B (delete_objects E)"

text \<open>The result is the context, 0 if there is none.\<close>

definition glarea_create_context_cb :: "gl_env \<Rightarrow> u32 gl" where
  "glarea_create_context_cb E = do {
     context \<leftarrow> gl E Create_context;
     if context = 0 then do { gls E [Set_error, Error_free]; State_Monad.return 0 }
     else do {
       gls E [Set_version 3 2, Set_use_es];
       realized \<leftarrow> gl E Realize_context;
       if realized = 0 then do { gls E [Set_error, Error_free]; State_Monad.return 0 }
       else do {
         gls E [Make_current, Clear_color, Enable TEXTURE_2D, Enable BLEND, Blend_func, Enable DEPTH_TEST];
         State_Monad.return context } } }"

section \<open>Drawing\<close>

definition set_uniforms :: "camera \<Rightarrow> allocation \<Rightarrow> gl_call list" where
  "set_uniforms k a =
     [Set_uniform (Model (rotation_x k) (rotation_y k) (rotation_z k)), Set_uniform View_matrix,
      Set_uniform (Projection (width a) (height a)), Set_uniform (Texture_unit 0), Set_uniform (Time 0)]"

text \<open>The result: the event has been handled.\<close>

definition glarea_render_cb :: "gl_env \<Rightarrow> camera \<Rightarrow> allocation \<Rightarrow> bool gl" where
  "glarea_render_cb E k a = do {
     w \<leftarrow> gets id;
     gls E [Clear, Bind_texture (OpenGLTextureId w), Shader_use, Get_allocation];
     gls E (set_uniforms k a);
     gls E [Bind_vertex_array (VAO w), Bind_buffer ELEMENT_ARRAY_BUFFER (EBO w), Draw_elements 34,
            Bind_buffer ELEMENT_ARRAY_BUFFER 0, Bind_vertex_array 0, Bind_texture 0, Shader_unuse, Queue_render];
     State_Monad.return True }"

definition glarea_resize_cb :: "gl_env \<Rightarrow> int \<Rightarrow> int \<Rightarrow> unit gl" where
  "glarea_resize_cb E width_in height_in = do {
     gls E [Viewport width_in height_in, Matrix_mode_projection, Load_identity];
     gl_assert (height_in \<noteq> 0) (gls E [Glu_perspective width_in height_in, Matrix_mode_modelview]) }"

text \<open>The other configuration of the build.\<close>

definition glarea_configure_event_cb :: "gl_env \<Rightarrow> int \<Rightarrow> int \<Rightarrow> unit gl" where
  "glarea_configure_event_cb E width_in height_in = do {
     current \<leftarrow> gl E Area_make_current;
     if current = 0 then State_Monad.return ()
     else gls_checked E [Viewport width_in height_in, Matrix_mode_projection, Load_identity,
                         Glu_perspective width_in height_in, Matrix_mode_modelview] }"

definition glarea_expose_event_cb :: "gl_env \<Rightarrow> camera \<Rightarrow> allocation \<Rightarrow> bool gl" where
  "glarea_expose_event_cb E k a = do {
     current \<leftarrow> gl E Area_make_current;
     if current = 0 then State_Monad.return False
     else do {
       w \<leftarrow> gets id;
       gls E [Clear, Bind_vertex_array (VAO w), Bind_texture (OpenGLTextureId w), Get_allocation, Shader_use];
       gls E (set_uniforms k a);
       gls E [Bind_buffer ELEMENT_ARRAY_BUFFER (EBO w), Draw_elements 34, Bind_buffer ELEMENT_ARRAY_BUFFER 0,
              Bind_texture 0, Bind_vertex_array 0, Swap_buffers, Shader_unuse];
       State_Monad.return True } }"

section \<open>What the calls bind and hold\<close>

text \<open>
  The bindings as OpenGL documents them: the element buffer belongs to the vertex array that is bound, an
  attribute pointer remembers the vertex array and the array buffer, a parameter of a texture the
  texture bound; deleting a bound object binds 0 in its place.
\<close>

record gl_view =
  vao_bound :: u32
  array_bound :: u32
  texture_bound :: u32
  elements :: "u32 \<Rightarrow> u32"
  attributes :: "u32 \<Rightarrow> (nat \<times> nat \<times> nat \<times> nat \<times> u32) list"
  attributes_on :: "u32 \<Rightarrow> nat list"
  contents :: "u32 \<Rightarrow> buffer_data option"
  parameters :: "u32 \<Rightarrow> texture_parameter list"
  program :: bool

definition gl_reset :: gl_view where
  "gl_reset = \<lparr>vao_bound = 0, array_bound = 0, texture_bound = 0, elements = (\<lambda>v. 0), attributes = (\<lambda>v. []),
     attributes_on = (\<lambda>v. []), contents = (\<lambda>b. None), parameters = (\<lambda>t. []), program = False\<rparr>"

fun observe :: "gl_call \<Rightarrow> gl_view \<Rightarrow> gl_view" where
  "observe (Bind_texture t) v = v\<lparr>texture_bound := t\<rparr>"
| "observe (Tex_parameter p) v = v\<lparr>parameters := (parameters v)(texture_bound v := p # parameters v (texture_bound v))\<rparr>"
| "observe (Bind_vertex_array a) v = v\<lparr>vao_bound := a\<rparr>"
| "observe (Bind_buffer ARRAY_BUFFER b) v = v\<lparr>array_bound := b\<rparr>"
| "observe (Bind_buffer ELEMENT_ARRAY_BUFFER b) v = v\<lparr>elements := (elements v)(vao_bound v := b)\<rparr>"
| "observe (Buffer_data ARRAY_BUFFER d) v = v\<lparr>contents := (contents v)(array_bound v := Some d)\<rparr>"
| "observe (Buffer_data ELEMENT_ARRAY_BUFFER d) v = v\<lparr>contents := (contents v)(elements v (vao_bound v) := Some d)\<rparr>"
| "observe (Enable_attribute i) v = v\<lparr>attributes_on := (attributes_on v)(vao_bound v := i # attributes_on v (vao_bound v))\<rparr>"
| "observe (Attribute_pointer i n stride offset) v =
     v\<lparr>attributes := (attributes v)(vao_bound v :=
         (i, n, stride, offset, array_bound v) # filter (\<lambda>(j, _). j \<noteq> i) (attributes v (vao_bound v)))\<rparr>"
| "observe (Delete_texture t) v =
     v\<lparr>texture_bound := (if texture_bound v = t then 0 else texture_bound v), parameters := (parameters v)(t := [])\<rparr>"
| "observe (Delete_vertex_array a) v =
     (if a = 0 then v
      else v\<lparr>vao_bound := (if vao_bound v = a then 0 else vao_bound v), elements := (elements v)(a := 0),
             attributes := (attributes v)(a := []), attributes_on := (attributes_on v)(a := [])\<rparr>)"
| "observe (Delete_buffer b) v =
     (if b = 0 then v
      else v\<lparr>array_bound := (if array_bound v = b then 0 else array_bound v),
             elements := (if elements v (vao_bound v) = b then (elements v)(vao_bound v := 0) else elements v),
             contents := (contents v)(b := None)\<rparr>)"
| "observe Shader_use v = v\<lparr>program := True\<rparr>"
| "observe Shader_unuse v = v\<lparr>program := False\<rparr>"
| "observe c v = v"

definition view :: "gl_trace \<Rightarrow> gl_view" where
  "view tr = fold observe (map fst tr) gl_reset"

text \<open>
  A draw of \<open>n\<close> indices is within bounds if the bound vertex array has an element buffer with as many, and
  for each of them every enabled attribute lies within the data of its buffer.
\<close>

definition fetch_ok :: "gl_view \<Rightarrow> nat \<Rightarrow> nat \<times> nat \<times> nat \<times> nat \<times> u32 \<Rightarrow> bool" where
  "fetch_ok v i p =
     (case p of (k, n, stride, offset, b) \<Rightarrow>
        case contents v b of
          Some (Floats fs) \<Rightarrow> b \<noteq> 0 \<and> offset + i * stride + n * SIZEOF_FLOAT \<le> length fs * SIZEOF_FLOAT
        | _ \<Rightarrow> False)"

definition draw_ok :: "nat \<Rightarrow> gl_view \<Rightarrow> bool" where
  "draw_ok n v \<longleftrightarrow>
     vao_bound v \<noteq> 0 \<and> elements v (vao_bound v) \<noteq> 0 \<and> attributes_on v (vao_bound v) \<noteq> [] \<and>
     set (attributes_on v (vao_bound v)) \<subseteq> fst ` set (attributes v (vao_bound v)) \<and>
     (case contents v (elements v (vao_bound v)) of
        Some (Bytes is) \<Rightarrow> n \<le> length is \<and>
          (\<forall>i\<in>set (take n is). \<forall>p\<in>set (attributes v (vao_bound v)). fetch_ok v (unat i) p)
      | _ \<Rightarrow> False)"

primrec draws_from :: "gl_view \<Rightarrow> gl_call list \<Rightarrow> bool" where
  "draws_from v [] = True"
| "draws_from v (c # cs) = ((case c of Draw_elements n \<Rightarrow> draw_ok n v | _ \<Rightarrow> True) \<and> draws_from (observe c v) cs)"

definition draws_in_bounds :: "gl_trace \<Rightarrow> bool" where
  "draws_in_bounds tr = draws_from gl_reset (map fst tr)"

text \<open>The objects held: created and not deleted yet.\<close>

datatype gl_object = Texture u32 | Vertex_array u32 | Buffer u32 | Context u32

definition gl_acquired :: "gl_call \<Rightarrow> u32 \<Rightarrow> gl_object multiset" where
  "gl_acquired c r =
     (if r = 0 then {#}
      else case c of
          Load_texture \<Rightarrow> {#Texture r#}
        | Gen_vertex_array \<Rightarrow> {#Vertex_array r#}
        | Gen_buffer \<Rightarrow> {#Buffer r#}
        | Create_context \<Rightarrow> {#Context r#}
        | _ \<Rightarrow> {#})"

definition gl_given_back :: "gl_call \<Rightarrow> gl_object multiset" where
  "gl_given_back c =
     (case c of
        Delete_texture t \<Rightarrow> {#Texture t#}
      | Delete_vertex_array a \<Rightarrow> {#Vertex_array a#}
      | Delete_buffer b \<Rightarrow> {#Buffer b#}
      | _ \<Rightarrow> {#})"

definition gl_held_from :: "gl_object multiset \<Rightarrow> gl_trace \<Rightarrow> gl_object multiset" where
  "gl_held_from H tr = fold (\<lambda>(c, r) H. H + gl_acquired c r - gl_given_back c) tr H"

definition gl_held :: "gl_trace \<Rightarrow> gl_object multiset" where
  "gl_held tr = gl_held_from {#} tr"

section \<open>Running calls\<close>

text \<open>
  Weakest preconditions: \<open>wp m Q w\<close> says that the run of \<open>m\<close> from \<open>w\<close> ends with a result and widget
  that satisfy \<open>Q\<close>.  The rules replace the record of calls by one of which only the view, the objects held
  and the soundness of the draws are known.
\<close>

definition wp :: "'a gl \<Rightarrow> ('a \<Rightarrow> gl_widget \<Rightarrow> bool) \<Rightarrow> gl_widget \<Rightarrow> bool" where
  "wp m Q w = (case run_state m w of (a, w') \<Rightarrow> Q a w')"

named_theorems wp_rules \<open>weakest preconditions of the widget's callbacks\<close>

lemma wp_return [wp_rules]: "Q a w \<Longrightarrow> wp (State_Monad.return a) Q w"
  by (simp add: wp_def)

lemma wp_bind [wp_rules]: "wp m (\<lambda>a. wp (f a) Q) w \<Longrightarrow> wp (State_Monad.bind m f) Q w"
  by (simp add: wp_def split: prod.splits)

lemma wp_gets [wp_rules]: "Q (f w) w \<Longrightarrow> wp (gets f) Q w"
  by (simp add: wp_def)

lemma wp_if [wp_rules]: "(b \<Longrightarrow> wp m Q w) \<Longrightarrow> (\<not> b \<Longrightarrow> wp n Q w) \<Longrightarrow> wp (if b then m else n) Q w"
  by simp

lemma wp_upd [wp_rules]: "Q () (f w) \<Longrightarrow> wp (gl_upd f) Q w"
  by (simp add: wp_def gl_upd_def)

lemma wp_whenM [wp_rules]: "(b \<Longrightarrow> wp m Q w) \<Longrightarrow> (\<not> b \<Longrightarrow> Q () w) \<Longrightarrow> wp (whenM b m) Q w"
  by (simp add: whenM_def wp_def)

lemma wp_assert [wp_rules]: "(b \<Longrightarrow> wp m Q w) \<Longrightarrow> (\<not> b \<Longrightarrow> Q () (w\<lparr>aborted := True\<rparr>)) \<Longrightarrow> wp (gl_assert b m) Q w"
  by (simp add: gl_assert_def wp_def gl_upd_def)

lemma view_snoc: "view (tr @ [(c, r)]) = observe c (view tr)"
  by (simp add: view_def)

lemma draws_from_append: "draws_from v (cs @ ds) \<longleftrightarrow> draws_from v cs \<and> draws_from (fold observe cs v) ds"
  by (induction cs arbitrary: v) auto

lemma draws_snoc: "draws_in_bounds (tr @ [(c, r)]) \<longleftrightarrow> draws_in_bounds tr \<and> draws_from (view tr) [c]"
  by (simp add: draws_in_bounds_def draws_from_append view_def)

lemma held_snoc: "gl_held (tr @ [(c, r)]) = gl_held tr + gl_acquired c r - gl_given_back c"
  by (simp add: gl_held_def gl_held_from_def)

lemma wp_gl [wp_rules]:
  assumes "\<And>tr r. r = E (gl_trace w) c \<Longrightarrow> view tr = observe c (view (gl_trace w)) \<Longrightarrow>
      gl_held tr = gl_held (gl_trace w) + gl_acquired c r - gl_given_back c \<Longrightarrow>
      draws_in_bounds tr \<longleftrightarrow> draws_in_bounds (gl_trace w) \<and> draws_from (view (gl_trace w)) [c] \<Longrightarrow>
      Q r (w\<lparr>gl_trace := tr\<rparr>)"
  shows "wp (gl E c) Q w"
  using assms [OF refl view_snoc held_snoc draws_snoc] by (simp add: wp_def gl_def)

lemma wp_gl1 [wp_rules]: "wp (gl E c) (\<lambda>r. Q ()) w \<Longrightarrow> wp (gl1 E c) Q w"
  by (simp add: gl1_def wp_def split: prod.splits)

definition acquires_nothing :: "gl_call \<Rightarrow> bool" where
  "acquires_nothing c \<longleftrightarrow> c \<notin> {Load_texture, Gen_vertex_array, Gen_buffer, Create_context}"

lemma acquired_nothing: "acquires_nothing c \<Longrightarrow> gl_acquired c r = {#}"
  by (cases c) (simp_all add: acquires_nothing_def gl_acquired_def)

lemma wp_gls [wp_rules]:
  assumes "list_all acquires_nothing cs"
    and "\<And>tr. view tr = fold observe cs (view (gl_trace w)) \<Longrightarrow>
      gl_held tr = fold (\<lambda>c H. H - gl_given_back c) cs (gl_held (gl_trace w)) \<Longrightarrow>
      draws_in_bounds tr \<longleftrightarrow> draws_in_bounds (gl_trace w) \<and> draws_from (view (gl_trace w)) cs \<Longrightarrow>
      Q () (w\<lparr>gl_trace := tr\<rparr>)"
  shows "wp (gls E cs) Q w"
  using assms
proof (induction cs arbitrary: w)
  case Nil
  then show ?case using Nil.prems(2) [of "gl_trace w"] by (simp add: wp_def)
next
  case (Cons c cs)
  have "wp (gls E cs) Q (w\<lparr>gl_trace := tr\<rparr>)"
    if "view tr = observe c (view (gl_trace w))" "gl_held tr = gl_held (gl_trace w) + gl_acquired c r - gl_given_back c"
      "draws_in_bounds tr \<longleftrightarrow> draws_in_bounds (gl_trace w) \<and> draws_from (view (gl_trace w)) [c]" for tr r
    using that Cons.prems by (intro Cons.IH) (simp_all add: acquired_nothing)
  then show ?case unfolding gls.simps by (intro wp_bind wp_gl)
qed

end
