(* ===== verification/Client_Gl_Spec.thy ===== *)
theory Client_Gl_Spec
  imports Client_Gl
begin

text \<open>
  The OpenGL widget over its life: GTK realizes and unrealizes it in turns and draws and resizes
  it while it is realized.  Shown: nothing stays bound, what is created is deleted, every draw reads within
  the data that has been uploaded, and the data are a cube.
\<close>

section \<open>The life of the widget\<close>

datatype gl_event =
    Realize allocation | Unrealize | Render camera allocation | Resize int int
  | Configure int int | Expose camera allocation

definition gl_perform :: "gl_env \<Rightarrow> gl_build \<Rightarrow> gl_event \<Rightarrow> unit gl" where
  "gl_perform E B e =
     (case e of
        Realize a \<Rightarrow> glarea_realize_cb E B a
      | Unrealize \<Rightarrow> glarea_unrealize_cb E B
      | Render k a \<Rightarrow> do { glarea_render_cb E k a; State_Monad.return () }
      | Resize x y \<Rightarrow> glarea_resize_cb E x y
      | Configure x y \<Rightarrow> glarea_configure_event_cb E x y
      | Expose k a \<Rightarrow> do { glarea_expose_event_cb E k a; State_Monad.return () })"

definition gl_allowed :: "gl_build \<Rightarrow> bool \<Rightarrow> gl_event \<Rightarrow> bool" where
  "gl_allowed B realized e =
     (case e of
        Realize _ \<Rightarrow> \<not> realized
      | Unrealize \<Rightarrow> realized
      | Render _ _ \<Rightarrow> realized \<and> toolkit B = Gtk_3_16
      | Resize _ _ \<Rightarrow> realized \<and> toolkit B = Gtk_3_16
      | Configure _ _ \<Rightarrow> realized \<and> toolkit B = Gtk_3_0_area
      | Expose _ _ \<Rightarrow> realized \<and> toolkit B = Gtk_3_0_area)"

definition realized_after :: "gl_event \<Rightarrow> bool \<Rightarrow> bool" where
  "realized_after e realized = (case e of Realize _ \<Rightarrow> True | Unrealize \<Rightarrow> False | _ \<Rightarrow> realized)"

definition new_gl_widget :: gl_widget where
  "new_gl_widget = \<lparr>OpenGLTextureId = 0, VAO = 0, VBO = 0, EBO = 0, gl_trace = [], aborted = False\<rparr>"

inductive gl_reachable :: "gl_env \<Rightarrow> gl_build \<Rightarrow> gl_widget \<Rightarrow> bool \<Rightarrow> bool" for E B where
  gl_new: "gl_reachable E B new_gl_widget False"
| gl_step: "gl_reachable E B w realized \<Longrightarrow> \<not> aborted w \<Longrightarrow> gl_allowed B realized e \<Longrightarrow>
     gl_reachable E B (snd (run_state (gl_perform E B e) w)) (realized_after e realized)"

text \<open>
  The context can be made current; beyond that, the files can be loaded and OpenGL gives out objects,
  a buffer not the one it has given out and not taken back.
\<close>

definition gl_available :: "gl_env \<Rightarrow> bool" where
  "gl_available E \<longleftrightarrow> (\<forall>tr. E tr Get_context \<noteq> 0 \<and> E tr Has_depth_buffer \<noteq> 0 \<and> E tr Area_make_current \<noteq> 0)"

definition gl_works :: "gl_env \<Rightarrow> bool" where
  "gl_works E \<longleftrightarrow> gl_available E \<and>
     (\<forall>tr. E tr Load_texture \<noteq> 0 \<and> E tr Shader_load \<noteq> 0 \<and>
       (size (gl_held tr) \<le> 3 \<longrightarrow> Buffer (E tr Gen_buffer) \<notin># gl_held tr))"

lemmas callback_defs =
  glarea_realize_cb_def glarea_unrealize_cb_def glarea_render_cb_def glarea_resize_cb_def
  glarea_configure_event_cb_def glarea_expose_event_cb_def load_texture_def set_perspective_def upload_cube_def

text \<open>An invariant of the events is one of the reachable widgets.\<close>

lemma gl_invariant:
  assumes "gl_reachable E B w realized"
    and "P new_gl_widget False"
    and step: "\<And>w realized e. P w realized \<Longrightarrow> \<not> aborted w \<Longrightarrow> gl_allowed B realized e \<Longrightarrow>
      wp (gl_perform E B e) (\<lambda>_ w'. P w' (realized_after e realized)) w"
  shows "P w realized"
  using assms(1)
proof induction
  case (gl_step w realized e)
  show ?case using step [OF gl_step.IH gl_step.hyps(2,3)] by (simp add: wp_def case_prod_unfold)
qed (rule assms(2))

lemma wp_conseq: "wp m Q w \<Longrightarrow> (\<And>a w'. Q a w' \<Longrightarrow> R a w') \<Longrightarrow> wp m R w"
  by (simp add: wp_def split: prod.splits)

lemma wp_conj: "wp m (\<lambda>a w. Q a w \<and> R a w) w \<longleftrightarrow> wp m Q w \<and> wp m R w"
  by (simp add: wp_def split: prod.splits)

text \<open>Calls that neither bind nor draw nor create nor delete leave what is observed the same.\<close>

definition neutral :: "gl_call \<Rightarrow> bool" where
  "neutral c \<longleftrightarrow> (\<forall>v. observe c v = v) \<and> (\<forall>r. gl_acquired c r = {#}) \<and> gl_given_back c = {#} \<and> (\<forall>n. c \<noteq> Draw_elements n)"

definition same :: "gl_trace \<Rightarrow> gl_trace \<Rightarrow> bool" where
  "same tr tr' \<longleftrightarrow> view tr = view tr' \<and> gl_held tr = gl_held tr' \<and> draws_in_bounds tr = draws_in_bounds tr'"

lemma neutral_gl_calls [simp]:
  "neutral Get_context" "neutral Attach_buffers" "neutral Make_current" "neutral Has_depth_buffer" "neutral Area_make_current"
  "neutral Glew_init" "neutral (Enable k)" "neutral Active_texture" "neutral Generate_mipmap" "neutral Get_allocation"
  "neutral (Viewport x y)" "neutral (Glu_perspective x y)" "neutral (Frustum z)" "neutral Blend_func" "neutral Shader_load"
  "neutral (Set_uniform u)" "neutral Clear" "neutral Queue_render" "neutral Swap_buffers" "neutral Matrix_mode_projection"
  "neutral Matrix_mode_modelview" "neutral Load_identity" "neutral Get_error"
  by (simp_all add: neutral_def gl_acquired_def gl_given_back_def)

lemma same_refl [simp]: "same tr tr"
  by (simp add: same_def)

lemma sameD: "same tr tr' \<Longrightarrow> view tr = view tr'" "same tr tr' \<Longrightarrow> gl_held tr = gl_held tr'"
  "same tr tr' \<Longrightarrow> draws_in_bounds tr = draws_in_bounds tr'"
  by (simp_all add: same_def)

lemma same_trans: "same tr tr' \<Longrightarrow> same tr' tr'' \<Longrightarrow> same tr tr''"
  by (simp add: same_def)

lemma neutral_snoc: "neutral c \<Longrightarrow> same (tr @ [(c, r)]) tr"
  by (auto simp: same_def neutral_def view_snoc held_snoc draws_snoc split: gl_call.split)

text \<open>An assertion on the widget is stable if it does not depend on more of the record of calls.\<close>

definition stable :: "(gl_widget \<Rightarrow> bool) \<Rightarrow> bool" where
  "stable I \<longleftrightarrow> (\<forall>w tr. I w \<longrightarrow> same tr (gl_trace w) \<longrightarrow> I (w\<lparr>gl_trace := tr\<rparr>))"

lemma wp_neutral:
  assumes "stable I" "I w" "neutral c" and "\<And>w tr. I w \<Longrightarrow> Q (E tr c) w"
  shows "wp (gl E c) Q w"
proof -
  have "I (w\<lparr>gl_trace := gl_trace w @ [(c, E (gl_trace w) c)]\<rparr>)"
    using assms(1,2) neutral_snoc [OF assms(3)] by (simp add: stable_def)
  then show ?thesis using assms(4) by (simp add: wp_def gl_def)
qed

lemma wp_neutrals: "stable I \<Longrightarrow> I w \<Longrightarrow> list_all neutral cs \<Longrightarrow> (\<And>w. I w \<Longrightarrow> Q () w) \<Longrightarrow> wp (gls E cs) Q w"
proof (induction cs arbitrary: w)
  case Nil
  then show ?case by (simp add: wp_def)
next
  case (Cons c cs)
  then show ?case by (auto intro!: wp_bind wp_neutral [of I])
qed

lemma wp_neutrals_checked:
  "stable I \<Longrightarrow> I w \<Longrightarrow> list_all neutral cs \<Longrightarrow> (\<And>w. I w \<Longrightarrow> Q () w) \<Longrightarrow> (\<And>w. I w \<Longrightarrow> Q () (w\<lparr>aborted := True\<rparr>)) \<Longrightarrow>
    wp (gls_checked E cs) Q w"
proof (induction cs arbitrary: w)
  case Nil
  then show ?case by (simp add: wp_def)
next
  case (Cons c cs)
  then show ?case by (auto intro!: wp_bind wp_neutral [of I] wp_assert)
qed

lemma wp_neutral_when:
  "stable I \<Longrightarrow> I w \<Longrightarrow> neutral c \<Longrightarrow> (\<And>w. I w \<Longrightarrow> Q () w) \<Longrightarrow> wp (whenM b (gl1 E c)) Q w"
  by (auto intro!: wp_whenM wp_gl1 wp_neutral [of I])

lemma wp_begin:
  assumes "stable I" "I w" "\<And>w. I w \<Longrightarrow> wp m Q w"
    and "\<And>w. \<not> gl_available E \<Longrightarrow> I w \<Longrightarrow> Q () w" "\<And>w. \<not> gl_available E \<Longrightarrow> I w \<Longrightarrow> Q () (w\<lparr>aborted := True\<rparr>)"
  shows "wp (begin_gl E B m) Q w"
  unfolding begin_gl_def using assms
  by (cases "toolkit B")
    (auto simp: gl_available_def simp del: gls.simps
      intro!: wp_return wp_bind wp_neutral [of I] wp_neutrals [of I] wp_if wp_assert)

lemma wp_perspective:
  assumes "stable I" "I w" "\<And>w. I w \<Longrightarrow> wp m Q w" "\<And>w. I w \<Longrightarrow> Q () (w\<lparr>aborted := True\<rparr>)"
  shows "wp (set_perspective E B a m) Q w"
  unfolding set_perspective_def using assms
  by (auto simp del: gls.simps intro!: wp_bind wp_neutral [of I] wp_neutrals [of I] wp_assert)

text \<open>
  The set up, for an assertion \<open>I\<close> on the widget that its parts keep, up to the upload of the cube, which
  establishes \<open>J\<close>.
\<close>

lemma wp_realize:
  assumes I: "stable I" "I w"
    and early: "\<And>w. I w \<Longrightarrow> \<not> gl_works E \<Longrightarrow> J w" "\<And>w. I w \<Longrightarrow> J (w\<lparr>aborted := True\<rparr>)"
    and texture: "\<And>w. I w \<Longrightarrow> wp (load_texture E) (\<lambda>ok w'. I w' \<and> (gl_works E \<longrightarrow> ok)) w"
    and shader: "\<And>w. I w \<Longrightarrow> wp (gl E Shader_use) (\<lambda>_. I) w"
    and upload: "\<And>w tr. E tr Shader_load \<noteq> 0 \<Longrightarrow> I w \<Longrightarrow> wp (upload_cube E) (\<lambda>_. J) w"
  shows "wp (glarea_realize_cb E B a) (\<lambda>_. J) w"
proof -
  have rest: "wp (do { gls E [Enable BLEND, Blend_func, Enable DEPTH_TEST];
       shader \<leftarrow> gl E Shader_load;
       if shader = 0 then State_Monad.return () else do { gl E Shader_use; upload_cube E } }) (\<lambda>_. J) w" if "I w" for w
    using that I(1)
    by (auto simp: gl_works_def simp del: gls.simps intro: early(1) wp_conseq [OF shader] upload
      intro!: wp_return wp_bind wp_neutrals [of I] wp_if wp_neutral [of I _ Shader_load])
  have main: "wp (do {
       whenM (glew B) (gl1 E Glew_init);
       gl E (Enable TEXTURE_2D);
       loaded \<leftarrow> load_texture E;
       if \<not> loaded then State_Monad.return ()
       else set_perspective E B a (do {
         gls E [Enable BLEND, Blend_func, Enable DEPTH_TEST];
         shader \<leftarrow> gl E Shader_load;
         if shader = 0 then State_Monad.return ()
         else do { gl E Shader_use; upload_cube E } }) }) (\<lambda>_. J) w" if "I w" for w
    using that I(1) by (auto simp del: gls.simps intro: early intro!: wp_bind wp_neutral_when [of I] wp_neutral [of I]
      wp_conseq [OF texture] wp_if wp_return wp_perspective [of I] rest)
  show ?thesis unfolding glarea_realize_cb_def
    by (rule wp_begin [OF I main]) (auto intro: early simp: gl_works_def)
qed

section \<open>Nothing stays bound\<close>

definition nothing_bound :: "gl_view \<Rightarrow> bool" where
  "nothing_bound v \<longleftrightarrow> vao_bound v = 0 \<and> array_bound v = 0 \<and> texture_bound v = 0 \<and> elements v 0 = 0"

definition no_wrapping :: "gl_view \<Rightarrow> bool" where
  "no_wrapping v \<longleftrightarrow> (\<forall>t. t \<noteq> 0 \<longrightarrow> set (parameters v t) \<inter> {WRAP_S_CLAMP, WRAP_T_CLAMP} = {})"

definition bound_inv :: "gl_widget \<Rightarrow> bool" where
  "bound_inv w \<longleftrightarrow> nothing_bound (view (gl_trace w)) \<and> no_wrapping (view (gl_trace w))"

lemma bound_inv_stable [simp]: "stable bound_inv"
  by (simp add: stable_def bound_inv_def same_def)

lemma bound_inv_aborted [simp]: "bound_inv (w\<lparr>aborted := b\<rparr>) = bound_inv w"
  by (simp add: bound_inv_def)

lemma load_texture_bound: "bound_inv w \<Longrightarrow> wp (load_texture E) (\<lambda>ok w'. bound_inv w' \<and> (gl_works E \<longrightarrow> ok)) w"
  unfolding load_texture_def
  by (intro wp_rules)
    (auto simp: bound_inv_def nothing_bound_def no_wrapping_def acquires_nothing_def gl_works_def)

lemma upload_cube_bound: "bound_inv w \<Longrightarrow> wp (upload_cube E) (\<lambda>_. bound_inv) w"
  unfolding upload_cube_def
  by (intro wp_rules) (simp_all add: bound_inv_def nothing_bound_def no_wrapping_def acquires_nothing_def)

lemma bound_inv_step:
  assumes "bound_inv w"
  shows "wp (gl_perform E B e) (\<lambda>_. bound_inv) w"
proof (cases e)
  case (Realize a)
  show ?thesis unfolding gl_perform_def Realize gl_event.case
    by (rule wp_realize [of bound_inv]) (auto simp: assms load_texture_bound upload_cube_bound,
      (intro wp_rules, simp add: bound_inv_def nothing_bound_def no_wrapping_def))
next
  case Unrealize
  have "wp (delete_objects E) (\<lambda>_. bound_inv) w"
    if "bound_inv w" for w
    using that unfolding delete_objects_def
    by (intro wp_rules) (auto simp: bound_inv_def nothing_bound_def no_wrapping_def acquires_nothing_def)
  then show ?thesis unfolding gl_perform_def Unrealize gl_event.case glarea_unrealize_cb_def
    by (intro wp_begin [of bound_inv]) (simp_all add: assms)
next
  case (Render k a)
  show ?thesis using assms unfolding gl_perform_def Render gl_event.case callback_defs
    by (intro wp_rules)
      (simp_all add: bound_inv_def nothing_bound_def no_wrapping_def acquires_nothing_def set_uniforms_def)
next
  case (Resize x y)
  show ?thesis using assms unfolding gl_perform_def Resize gl_event.case callback_defs
    by (intro wp_bind wp_assert wp_neutrals [of bound_inv]) simp_all
next
  case (Configure x y)
  show ?thesis using assms unfolding gl_perform_def Configure gl_event.case callback_defs
    by (intro wp_bind wp_if wp_return wp_neutral [of bound_inv] wp_neutrals_checked [of bound_inv]) simp_all
next
  case (Expose k a)
  show ?thesis using assms unfolding gl_perform_def Expose gl_event.case callback_defs
    by (intro wp_rules)
      (simp_all add: bound_inv_def nothing_bound_def no_wrapping_def acquires_nothing_def set_uniforms_def)
qed

lemma reachable_bound_inv: "gl_reachable E B w realized \<Longrightarrow> bound_inv w"
proof (erule gl_invariant [where P = "\<lambda>w realized. bound_inv w"])
  show "bound_inv new_gl_widget"
    by (simp add: bound_inv_def new_gl_widget_def view_def gl_reset_def nothing_bound_def no_wrapping_def)
qed (rule bound_inv_step)

section \<open>What is created is deleted\<close>

definition texture_held :: "u32 \<Rightarrow> gl_object multiset" where
  "texture_held t = (if t = 0 then {#} else {#Texture t#})"

lemma texture_held_0 [simp]: "texture_held 0 = {#}"
  by (simp add: texture_held_def)

lemma acquired [simp]:
  "gl_acquired Load_texture r = texture_held r"
  "gl_acquired Gen_vertex_array r = (if r = 0 then {#} else {#Vertex_array r#})"
  "gl_acquired Gen_buffer r = (if r = 0 then {#} else {#Buffer r#})"
  "gl_acquired Shader_use r = {#}"
  "gl_acquired Area_make_current r = {#}"
  "gl_acquired (Delete_texture t) r = {#}"
  by (simp_all add: gl_acquired_def texture_held_def)

lemmas held_calls = acquires_nothing_def gl_given_back_def

definition held_inv :: "bool \<Rightarrow> gl_widget \<Rightarrow> bool" where
  "held_inv realized w \<longleftrightarrow> aborted w \<or>
     (if realized
      then gl_held (gl_trace w) \<subseteq># texture_held (OpenGLTextureId w) + {#Vertex_array (VAO w), Buffer (VBO w), Buffer (EBO w)#}
      else gl_held (gl_trace w) = {#} \<and> OpenGLTextureId w = 0)"

definition held_setting_up :: "gl_widget \<Rightarrow> bool" where
  "held_setting_up w \<longleftrightarrow> aborted w \<or> gl_held (gl_trace w) \<subseteq># texture_held (OpenGLTextureId w)"

lemma held_inv_stable [simp]: "stable (held_inv realized)" "stable held_setting_up"
  by (simp_all add: stable_def held_inv_def held_setting_up_def same_def)

lemma held_inv_aborted [simp]: "held_inv realized (w\<lparr>aborted := True\<rparr>)" "held_setting_up (w\<lparr>aborted := True\<rparr>)"
  by (simp_all add: held_inv_def held_setting_up_def)

lemma load_texture_held: "held_setting_up w \<Longrightarrow> wp (load_texture E) (\<lambda>ok w'. held_setting_up w' \<and> (gl_works E \<longrightarrow> ok)) w"
  unfolding load_texture_def
  by (intro wp_rules)
    (auto simp: held_setting_up_def held_calls gl_works_def)

lemma upload_cube_held: "held_setting_up w \<Longrightarrow> wp (upload_cube E) (\<lambda>_. held_inv True) w"
  unfolding upload_cube_def
  by (intro wp_rules)
    (auto simp: held_setting_up_def held_inv_def held_calls add_mset_commute)

lemma held_inv_step:
  assumes "gl_available E" "held_inv realized w" "\<not> aborted w" "gl_allowed B realized e"
  shows "wp (gl_perform E B e) (\<lambda>_. held_inv (realized_after e realized)) w"
proof (cases e)
  case (Realize a)
  have "held_setting_up w"
    using assms Realize by (auto simp: held_inv_def held_setting_up_def gl_allowed_def split: if_splits)
  then have "wp (glarea_realize_cb E B a) (\<lambda>_. held_inv True) w"
  proof (rule wp_realize [OF held_inv_stable(2)])
    show "held_inv True w" if "held_setting_up w" for w
      using that by (auto simp: held_inv_def held_setting_up_def intro: subset_mset.order_trans)
    show "wp (gl E Shader_use) (\<lambda>_. held_setting_up) w" if "held_setting_up w" for w
      using that by (intro wp_rules) (simp add: held_setting_up_def held_calls)
  qed (simp_all add: load_texture_held upload_cube_held)
  then show ?thesis by (simp add: gl_perform_def realized_after_def Realize)
next
  case Unrealize
  have "wp (delete_objects E) (\<lambda>_. held_inv False) w"
    if "held_inv True w" for w
    using that unfolding delete_objects_def
    by (intro wp_rules)
      (auto simp: held_inv_def texture_held_def held_calls Diff_eq_empty_iff_mset subset_eq_diff_conv add_mset_commute)
  then have "wp (glarea_unrealize_cb E B) (\<lambda>_. held_inv False) w"
    unfolding glarea_unrealize_cb_def
    using assms Unrealize by (intro wp_begin [of "held_inv True"]) (simp_all add: gl_allowed_def)
  then show ?thesis by (simp add: gl_perform_def realized_after_def Unrealize)
next
  case (Render k a)
  show ?thesis using assms Render unfolding gl_perform_def Render gl_event.case callback_defs
    by (intro wp_rules)
      (simp_all add: held_inv_def held_calls set_uniforms_def realized_after_def split: if_splits)
next
  case (Resize x y)
  show ?thesis using assms Resize unfolding gl_perform_def Resize gl_event.case callback_defs
    by (intro wp_bind wp_assert wp_neutrals [of "held_inv realized"]) (simp_all add: realized_after_def)
next
  case (Configure x y)
  show ?thesis using assms Configure unfolding gl_perform_def Configure gl_event.case callback_defs
    by (intro wp_bind wp_if wp_return wp_neutral [of "held_inv realized"] wp_neutrals_checked [of "held_inv realized"])
      (simp_all add: realized_after_def)
next
  case (Expose k a)
  show ?thesis using assms Expose unfolding gl_perform_def Expose gl_event.case callback_defs
    by (intro wp_rules)
      (simp_all add: held_inv_def held_calls set_uniforms_def realized_after_def split: if_splits)
qed

section \<open>Every draw is within the data\<close>

definition cube_attributes :: "u32 \<Rightarrow> (nat \<times> nat \<times> nat \<times> nat \<times> u32) list" where
  "cube_attributes vbo = [(2, 2, 36, 28, vbo), (1, 4, 36, 12, vbo), (0, 3, 36, 0, vbo)]"

definition cube_uploaded :: "gl_view \<Rightarrow> u32 \<Rightarrow> u32 \<Rightarrow> u32 \<Rightarrow> bool" where
  "cube_uploaded v vao vbo ebo \<longleftrightarrow>
     vao \<noteq> 0 \<and> vbo \<noteq> 0 \<and> ebo \<noteq> 0 \<and> vbo \<noteq> ebo \<and>
     contents v vbo = Some (Floats cube_strip_color_texcoords) \<and> contents v ebo = Some (Bytes cube_indices) \<and>
     attributes v = (\<lambda>_. [])(vao := cube_attributes vbo) \<and> attributes_on v = (\<lambda>_. [])(vao := [2, 1, 0])"

definition draws_inv :: "bool \<Rightarrow> gl_widget \<Rightarrow> bool" where
  "draws_inv realized w \<longleftrightarrow> draws_in_bounds (gl_trace w) \<and>
     (aborted w \<or>
      vao_bound (view (gl_trace w)) = 0 \<and>
      (if realized then cube_uploaded (view (gl_trace w)) (VAO w) (VBO w) (EBO w)
       else attributes (view (gl_trace w)) = (\<lambda>_. []) \<and> attributes_on (view (gl_trace w)) = (\<lambda>_. [])))"

lemma draws_inv_stable [simp]: "stable (draws_inv realized)"
  by (simp add: stable_def draws_inv_def same_def)

lemma draws_inv_aborted [intro]: "draws_inv realized w \<Longrightarrow> draws_inv realized' (w\<lparr>aborted := True\<rparr>)"
  by (simp add: draws_inv_def)

lemma indices_bounded: "i \<in> set cube_indices \<Longrightarrow> unat i \<le> 23"
  by (auto simp: cube_indices_def)

lemma cube_lengths [simp]: "length cube_strip_color_texcoords = 216" "length cube_indices = 34"
  by (simp_all add: cube_strip_color_texcoords_def cube_indices_def)

lemma cube_draw_ok:
  assumes "cube_uploaded v vao vbo ebo" "vao_bound w = vao" "elements w vao = ebo" "contents w = contents v"
    "attributes w = attributes v" "attributes_on w = attributes_on v"
  shows "draw_ok 34 w"
  using assms
  by (auto simp: draw_ok_def cube_uploaded_def cube_attributes_def fetch_ok_def dest!: in_set_takeD indices_bounded)

definition draws_setting_up :: "gl_widget \<Rightarrow> bool" where
  "draws_setting_up w \<longleftrightarrow> draws_inv False w \<and> held_setting_up w \<and> \<not> aborted w"

lemma draws_setting_up_stable [simp]: "stable draws_setting_up"
  by (auto simp: stable_def draws_setting_up_def draws_inv_def held_setting_up_def same_def)

lemma load_texture_draws: "draws_setting_up w \<Longrightarrow> wp (load_texture E) (\<lambda>ok w'. draws_setting_up w' \<and> (gl_works E \<longrightarrow> ok)) w"
  unfolding load_texture_def
  by (intro wp_rules) (auto simp: draws_setting_up_def draws_inv_def held_setting_up_def held_calls gl_works_def)

lemma upload_cube_draws:
  assumes "gl_works E" "draws_setting_up w"
  shows "wp (upload_cube E) (\<lambda>_. draws_inv True) w"
proof -
  have size: "size (gl_held (gl_trace w)) \<le> 1"
    using assms(2) size_mset_mono [of "gl_held (gl_trace w)" "texture_held (OpenGLTextureId w)"]
    by (auto simp: draws_setting_up_def held_setting_up_def texture_held_def split: if_splits)
  have fresh: "gl_held tr = add_mset (Vertex_array a) (add_mset (Buffer b) (gl_held (gl_trace w))) \<Longrightarrow> b \<noteq> E tr Gen_buffer" for tr a b
  proof -
    assume held: "gl_held tr = add_mset (Vertex_array a) (add_mset (Buffer b) (gl_held (gl_trace w)))"
    then have "size (gl_held tr) \<le> 3"
      using size by simp
    then have "Buffer (E tr Gen_buffer) \<notin># gl_held tr"
      using assms(1) by (simp add: gl_works_def)
    with held show ?thesis by auto
  qed
  have "draws_in_bounds (gl_trace w)" "vao_bound (view (gl_trace w)) = 0" "\<not> aborted w"
    "attributes (view (gl_trace w)) = (\<lambda>_. [])" "attributes_on (view (gl_trace w)) = (\<lambda>_. [])"
    using assms(2) by (auto simp: draws_setting_up_def draws_inv_def)
  then show ?thesis
    unfolding upload_cube_def
    by (intro wp_rules) (simp_all add: draws_inv_def held_calls cube_uploaded_def cube_attributes_def fresh)
qed

lemma draws_inv_step:
  assumes E: "gl_works E" and w: "draws_inv realized w" "held_inv realized w" "\<not> aborted w" "gl_allowed B realized e"
  shows "wp (gl_perform E B e) (\<lambda>_. draws_inv (realized_after e realized)) w"
proof (cases e)
  case (Realize a)
  have "draws_setting_up w"
    using w Realize by (auto simp: held_inv_def draws_setting_up_def held_setting_up_def gl_allowed_def split: if_splits)
  then have "wp (glarea_realize_cb E B a) (\<lambda>_. draws_inv True) w"
  proof (rule wp_realize [OF draws_setting_up_stable])
    show "wp (gl E Shader_use) (\<lambda>_. draws_setting_up) w" if "draws_setting_up w" for w
      using that by (intro wp_rules) (auto simp: draws_setting_up_def draws_inv_def held_setting_up_def held_calls)
    show "draws_inv True (w\<lparr>aborted := True\<rparr>)" if "draws_setting_up w" for w
      using that by (auto simp: draws_setting_up_def intro: draws_inv_aborted)
  qed (use E in \<open>blast intro: load_texture_draws upload_cube_draws\<close>)+
  then show ?thesis by (simp add: gl_perform_def realized_after_def Realize)
next
  case Unrealize
  have "wp (delete_objects E) (\<lambda>_. draws_inv False) w"
    if "draws_inv True w" for w
    using that unfolding delete_objects_def
    by (intro wp_rules) (auto simp: draws_inv_def cube_uploaded_def acquires_nothing_def fun_eq_iff)
  then have "wp (glarea_unrealize_cb E B) (\<lambda>_. draws_inv False) w"
    unfolding glarea_unrealize_cb_def
    using E w Unrealize by (intro wp_begin [of "draws_inv True"]) (simp_all add: gl_allowed_def gl_works_def)
  then show ?thesis by (simp add: gl_perform_def realized_after_def Unrealize)
next
  case (Render k a)
  have "cube_uploaded (view (gl_trace w)) (VAO w) (VBO w) (EBO w)" realized
    using w Render by (auto simp: draws_inv_def gl_allowed_def)
  then show ?thesis using w(1,3) unfolding gl_perform_def Render gl_event.case callback_defs
    by (intro wp_rules)
      (simp_all add: draws_inv_def acquires_nothing_def set_uniforms_def realized_after_def cube_draw_ok cube_uploaded_def)
next
  case (Resize x y)
  show ?thesis using w(1) Resize unfolding gl_perform_def Resize gl_event.case callback_defs
    by (intro wp_bind wp_assert wp_neutrals [of "draws_inv realized"]) (auto simp: realized_after_def)
next
  case (Configure x y)
  show ?thesis using w(1) Configure unfolding gl_perform_def Configure gl_event.case callback_defs
    by (intro wp_bind wp_if wp_return wp_neutral [of "draws_inv realized"] wp_neutrals_checked [of "draws_inv realized"])
      (auto simp: realized_after_def)
next
  case (Expose k a)
  have "cube_uploaded (view (gl_trace w)) (VAO w) (VBO w) (EBO w)" realized
    using w Expose by (auto simp: draws_inv_def gl_allowed_def)
  then show ?thesis using w(1,3) unfolding gl_perform_def Expose gl_event.case callback_defs
    by (intro wp_rules)
      (simp_all add: draws_inv_def acquires_nothing_def set_uniforms_def realized_after_def cube_draw_ok cube_uploaded_def)
qed

text \<open>Without the shaders the set up ends before the cube is uploaded.\<close>

lemma no_cube_step:
  assumes "\<forall>tr. E tr Shader_load = 0" "VAO w = 0"
  shows "wp (gl_perform E B e) (\<lambda>_ w'. VAO w' = 0) w"
proof (cases e)
  case (Realize a)
  have "wp (glarea_realize_cb E B a) (\<lambda>_ w'. VAO w' = 0) w"
    by (rule wp_realize [of "\<lambda>w. VAO w = 0"])
      (use assms in \<open>auto simp: stable_def load_texture_def acquires_nothing_def gl_works_def intro!: wp_rules\<close>)
  then show ?thesis by (simp add: gl_perform_def Realize)
next
  case Unrealize
  have "wp (glarea_unrealize_cb E B) (\<lambda>_ w'. VAO w' = 0) w" unfolding glarea_unrealize_cb_def delete_objects_def
    by (rule wp_begin [of "\<lambda>w. VAO w = 0"])
      (use assms in \<open>auto simp: stable_def acquires_nothing_def intro!: wp_rules simp del: gls.simps\<close>)
  then show ?thesis by (simp add: gl_perform_def Unrealize)
next
  case (Render k a)
  show ?thesis using assms unfolding gl_perform_def Render gl_event.case callback_defs
    by (intro wp_rules) (simp_all add: acquires_nothing_def set_uniforms_def)
next
  case (Resize x y)
  show ?thesis using assms unfolding gl_perform_def Resize gl_event.case callback_defs
    by (intro wp_rules) (simp_all add: acquires_nothing_def)
next
  case (Configure x y)
  show ?thesis using assms unfolding gl_perform_def Configure gl_event.case callback_defs
    by (intro wp_bind wp_if wp_return wp_neutral [of "\<lambda>w. VAO w = 0"] wp_neutrals_checked [of "\<lambda>w. VAO w = 0"])
      (simp_all add: stable_def)
next
  case (Expose k a)
  show ?thesis using assms unfolding gl_perform_def Expose gl_event.case callback_defs
    by (intro wp_rules) (simp_all add: acquires_nothing_def set_uniforms_def)
qed

section \<open>The cube\<close>

text \<open>
  The triangles of a strip (every second one is turned), those of the indices that are proper, and their
  edges, by the positions of the vertices; the determinant of a triangle is six times the volume it spans
  with the centre, positive if it is seen counterclockwise from outside.
\<close>

fun strip_triangles :: "bool \<Rightarrow> 'a list \<Rightarrow> ('a \<times> 'a \<times> 'a) list" where
  "strip_triangles p (a # b # c # xs) = (if p then (a, b, c) else (b, a, c)) # strip_triangles (\<not> p) (b # c # xs)"
| "strip_triangles p xs = []"

definition position :: "rat list \<Rightarrow> u8 \<Rightarrow> rat list" where
  "position vs i = take 3 (drop (9 * unat i) vs)"

definition cube_triangles :: "(rat list \<times> rat list \<times> rat list) list" where
  "cube_triangles =
     map (\<lambda>(i, j, k). (position cube_strip_color_texcoords i, position cube_strip_color_texcoords j, position cube_strip_color_texcoords k))
       (filter (\<lambda>(i, j, k). distinct [i, j, k]) (strip_triangles True cube_indices))"

definition edges :: "('a \<times> 'a \<times> 'a) list \<Rightarrow> ('a \<times> 'a) list" where
  "edges ts = concat (map (\<lambda>(a, b, c). [(a, b), (b, c), (c, a)]) ts)"

fun orientation :: "rat list \<times> rat list \<times> rat list \<Rightarrow> rat" where
  "orientation ([a, b, c], [d, e, f], [g, h, i]) = a * (e * i - f * h) - b * (d * i - f * g) + c * (d * h - e * g)"
| "orientation _ = 0"

section \<open>Properties\<close>

text \<open>An environment in which everything succeeds: buffers get the least free name.\<close>

definition fresh_env :: gl_env where
  "fresh_env tr c =
     (if c = Gen_buffer
      then (if Buffer 1 \<notin># gl_held tr then 1 else if Buffer 2 \<notin># gl_held tr then 2
            else if Buffer 3 \<notin># gl_held tr then 3 else 4)
      else if c = Get_error then 0 else 1)"

lemma card_le_size: "A \<subseteq> set_mset M \<Longrightarrow> card A \<le> size M"
  using card_mono [of "set_mset M" A] size_mset_mono [OF mset_set_set_mset_msubset [of M]] by simp

lemma fresh_env_works: "gl_works fresh_env"
proof -
  have "Buffer 4 \<notin># gl_held tr"
    if "Buffer 1 \<in># gl_held tr" "Buffer 2 \<in># gl_held tr" "Buffer 3 \<in># gl_held tr" "size (gl_held tr) \<le> 3" for tr
    using that card_le_size [of "{Buffer 1, Buffer 2, Buffer 3, Buffer 4}" "gl_held tr"] by auto
  then show ?thesis by (simp add: gl_works_def gl_available_def fresh_env_def)
qed

abbreviation (input) gl_run :: "gl_env \<Rightarrow> gl_build \<Rightarrow> gl_event \<Rightarrow> gl_widget \<Rightarrow> gl_widget" where
  "gl_run E B e w \<equiv> snd (run_state (gl_perform E B e) w)"

lemma realize_completes:
  assumes "gl_available E" "\<forall>tr. E tr Gen_vertex_array \<noteq> 0 \<and> E tr Gen_buffer \<noteq> 0" "height a \<noteq> 0" "\<not> aborted w"
  shows "\<not> aborted (gl_run E B (Realize a) w)"
proof -
  define I where "I w = (\<not> aborted w)" for w :: gl_widget
  have [simp]: "stable I"
    by (simp add: I_def stable_def)
  have texture: "wp (load_texture E) (\<lambda>ok. I) w" if "I w" for w
    using that unfolding load_texture_def
    by (intro wp_rules) (auto simp: I_def acquires_nothing_def)
  have upload: "wp (upload_cube E) (\<lambda>_. I) w" if "I w" for w
    using that assms(2) unfolding upload_cube_def
    by (intro wp_rules) (auto simp: I_def acquires_nothing_def)
  have shader: "wp (gl E Shader_use) (\<lambda>_. I) w" if "I w" for w
    using that by (intro wp_rules) (simp add: I_def)
  have "wp (glarea_realize_cb E B a) (\<lambda>_. I) w"
    unfolding glarea_realize_cb_def set_perspective_def gl_assert_def using assms
    by (auto simp: I_def [of w] simp del: gls.simps intro: upload
      intro!: wp_begin [of I] wp_bind wp_neutral_when [of I] wp_neutral [of I] wp_neutrals [of I]
        wp_conseq [OF texture] wp_conseq [OF shader] wp_if wp_return)
  then show ?thesis by (simp add: wp_def gl_perform_def case_prod_unfold I_def)
qed

lemma render_completes: "\<not> aborted w \<Longrightarrow> \<not> aborted (gl_run E B (Render k a) w)"
proof -
  assume "\<not> aborted w"
  then have "wp (gl_perform E B (Render k a)) (\<lambda>_ w'. \<not> aborted w') w"
    unfolding gl_perform_def gl_event.case callback_defs
    by (intro wp_rules) (simp_all add: acquires_nothing_def set_uniforms_def)
  then show ?thesis by (simp add: wp_def case_prod_unfold)
qed

lemma unrealize_completes:
  assumes "gl_available E" "\<not> aborted w"
  shows "\<not> aborted (gl_run E B Unrealize w)"
proof -
  have "wp (delete_objects E) (\<lambda>_ w'. \<not> aborted w') w"
    if "\<not> aborted w" for w
    using that unfolding delete_objects_def by (intro wp_rules) (simp_all add: acquires_nothing_def)
  then have "wp (glarea_unrealize_cb E B) (\<lambda>_ w'. \<not> aborted w') w"
    unfolding glarea_unrealize_cb_def
    using assms by (intro wp_begin [of "\<lambda>w. \<not> aborted w"]) (simp_all add: stable_def)
  then show ?thesis by (simp add: wp_def gl_perform_def case_prod_unfold)
qed

text \<open>A life: realize, draw, unrealize.\<close>

definition some_build :: gl_build where
  "some_build = \<lparr>toolkit = Gtk_3_16, glew = True, glu = True\<rparr>"

definition some_size :: allocation where
  "some_size = \<lparr>width = 640, height = 480\<rparr>"

definition realized_widget :: "gl_env \<Rightarrow> gl_widget" where
  "realized_widget E = gl_run E some_build (Realize some_size) new_gl_widget"

definition drawn_widget :: "gl_env \<Rightarrow> gl_widget" where
  "drawn_widget E = gl_run E some_build (Render zero_camera some_size) (realized_widget E)"

definition closed_widget :: "gl_env \<Rightarrow> gl_widget" where
  "closed_widget E = gl_run E some_build Unrealize (drawn_widget E)"

lemma widget_life:
  assumes "gl_available E" "\<forall>tr. E tr Gen_vertex_array \<noteq> 0 \<and> E tr Gen_buffer \<noteq> 0"
  shows "gl_reachable E some_build (realized_widget E) True" "\<not> aborted (realized_widget E)"
    "gl_reachable E some_build (drawn_widget E) True" "\<not> aborted (drawn_widget E)"
    "gl_reachable E some_build (closed_widget E) False" "\<not> aborted (closed_widget E)"
proof -
  have new: "\<not> aborted new_gl_widget" "height some_size \<noteq> 0"
    by (simp_all add: new_gl_widget_def some_size_def)
  show 1: "gl_reachable E some_build (realized_widget E) True" "\<not> aborted (realized_widget E)"
    using gl_step [OF gl_new new(1), where e = "Realize some_size"] realize_completes [OF assms new(2,1)]
    by (simp_all add: realized_widget_def gl_allowed_def realized_after_def)
  show 2: "gl_reachable E some_build (drawn_widget E) True" "\<not> aborted (drawn_widget E)"
    using gl_step [OF 1, where e = "Render zero_camera some_size"] 1
    by (auto simp: drawn_widget_def gl_allowed_def realized_after_def some_build_def intro!: render_completes)
  show "gl_reachable E some_build (closed_widget E) False" "\<not> aborted (closed_widget E)"
    using gl_step [OF 2, where e = "Unrealize"] unrealize_completes [OF assms(1) 2(2)]
    by (simp_all add: closed_widget_def gl_allowed_def realized_after_def)
qed

lemma fresh_env_life: "gl_available fresh_env" "\<forall>tr. fresh_env tr Gen_vertex_array \<noteq> 0 \<and> fresh_env tr Gen_buffer \<noteq> 0"
  using fresh_env_works by (simp_all add: gl_works_def fresh_env_def)

text \<open>C30: Whatever OpenGL answers, no callback of the widget leaves a vertex array, a buffer or a texture bound:
  in every state the widget can reach, by realizing, unrealizing, drawing and resizing in any order GTK allows, each binding
  is 0, even after a set up that has failed or been cut off by an assertion.
\<close>

theorem widget_leaves_nothing_bound:
  assumes "gl_reachable E B w realized"
  shows "nothing_bound (view (gl_trace w))"
  using reachable_bound_inv [OF assms] by (simp add: bound_inv_def)

theorem widget_leaves_nothing_bound_witness: "nothing_bound (view (gl_trace (closed_widget fresh_env)))"
  by (rule widget_leaves_nothing_bound [OF widget_life(5) [OF fresh_env_life]])

text \<open>C13: If the context, the texture and the shaders are available and OpenGL gives out unused buffers, every draw in the life of the
  widget is sound: a vertex array is bound, it has an element buffer of at least 34 indices, and for
  each index every enabled attribute (position, colour, texture coordinates) lies within the uploaded data,
  over any number of realizations.
\<close>

theorem widget_draws_in_bounds:
  assumes "gl_works E" "gl_reachable E B w realized"
  shows "draws_in_bounds (gl_trace w)"
proof -
  have "draws_inv realized w \<and> held_inv realized w"
    using assms(2)
  proof (rule gl_invariant [where P = "\<lambda>w realized. draws_inv realized w \<and> held_inv realized w"])
    show "draws_inv False new_gl_widget \<and> held_inv False new_gl_widget"
      by (simp add: draws_inv_def held_inv_def new_gl_widget_def view_def gl_reset_def gl_held_def gl_held_from_def draws_in_bounds_def)
  next
    fix w realized e
    assume "draws_inv realized w \<and> held_inv realized w" "\<not> aborted w" "gl_allowed B realized e"
    then show "wp (gl_perform E B e) (\<lambda>_ w'. draws_inv (realized_after e realized) w' \<and> held_inv (realized_after e realized) w') w"
      using draws_inv_step [OF assms(1)] held_inv_step assms(1) by (simp add: wp_conj gl_works_def)
  qed
  then show ?thesis by (simp add: draws_inv_def)
qed

theorem widget_draws_in_bounds_witness: "draws_in_bounds (gl_trace (drawn_widget fresh_env))"
  by (rule widget_draws_in_bounds [OF fresh_env_works widget_life(3) [OF fresh_env_life]])

text \<open>C14: What the widget has created it deletes: as long as its context can be made current, an unrealized widget holds no texture,
  vertex array or buffer, however often it has been realized and whether or not its files could be loaded.
\<close>

theorem widget_objects_deleted:
  assumes "gl_available E" "gl_reachable E B w False" "\<not> aborted w"
  shows "gl_held (gl_trace w) = {#}"
proof -
  have "held_inv False w"
    using assms(2)
    by (rule gl_invariant [where P = "\<lambda>w realized. held_inv realized w"])
      (simp_all add: held_inv_step assms(1), simp add: held_inv_def new_gl_widget_def gl_held_def gl_held_from_def)
  then show ?thesis using assms(3) by (simp add: held_inv_def)
qed

theorem widget_objects_deleted_witness: "gl_held (gl_trace (closed_widget fresh_env)) = {#}"
  by (rule widget_objects_deleted [OF fresh_env_life(1) widget_life(5,6) [OF fresh_env_life]])

text \<open>The indices and vertices describe a cube: the strip has 12 proper triangles, no two of them run along an edge in the same
  direction and every edge is run along in both (the surface is closed and consistently oriented), and
  each triangle is seen counterclockwise from outside and spans a twelfth of the volume.
\<close>

theorem cube_closed:
  "let es = edges cube_triangles in
     length cube_triangles = 12 \<and> distinct es \<and> list_all (\<lambda>(a, b). (b, a) \<in> set es) es \<and>
     list_all (\<lambda>t. orientation t = 1 / 2) cube_triangles"
  by code_simp


definition no_shader_env :: gl_env where
  "no_shader_env tr c = (if c = Shader_load then 0 else 1)"


text \<open>The parameters for wrapping are set before the texture is bound, on the default one.\<close>

lemma texture_never_clamped:
  assumes "gl_reachable E B w realized" "t \<noteq> 0"
  shows "WRAP_S_CLAMP \<notin> set (parameters (view (gl_trace w)) t)" "WRAP_T_CLAMP \<notin> set (parameters (view (gl_trace w)) t)"
  using reachable_bound_inv [OF assms(1)] assms(2) by (auto simp: bound_inv_def no_wrapping_def)

text \<open>A context that cannot be realized is neither returned nor released.\<close>

lemma create_context_leaks:
  assumes "\<forall>tr. E tr Create_context = c" "c \<noteq> 0" "\<forall>tr. E tr Realize_context = 0"
  shows "wp (glarea_create_context_cb E) (\<lambda>r w'. r = 0 \<and> gl_held (gl_trace w') = gl_held (gl_trace w) + {#Context c#}) w"
  unfolding glarea_create_context_cb_def using assms
  by (intro wp_rules) (auto simp: held_calls gl_acquired_def)

end
