(* ===== verification/Client_Setup.thy ===== *)
theory Client_Setup
  imports Client_Ui Client_Gl_Spec
begin

text \<open>
  The set up of the client's user interface (idle_initialize_ui_cb in
  src/src/test_u/olimex_mod_mpu6050_gtk_callbacks.cpp): the widgets it needs, the drawing area it replaces, the signals it connects,
  those of the definition file (src/src/test_u/etc/olimex_mod_mpu6050.gtk2) included, and
  the timer that polls the event queue.  A click runs the handlers connected, in their order.
\<close>

section \<open>Widgets, signals and handlers\<close>

datatype ui_object =
    Main_window | About_dialog | Drawing_area | Curve | Status_bar | Vbox | Gl_area | Menu_quit | Menu_calibrate | Menu_about

datatype gtk_signal =
    Destroy | Activate | Response | Button_press_event | Configure_event | Draw | Expose_event | Key_press_event
  | Motion_notify_event | Realize_signal | Unrealize_signal | Create_context_signal | Render_signal | Resize_signal

datatype handler =
    Quit_clicked | Calibrate_clicked | About_clicked | Hide_about | Button_cb | Configure_cb | Expose_cb | Key_cb | Motion_cb
  | Glarea_realize | Glarea_unrealize | Glarea_create_context | Glarea_render | Glarea_resize
  | Glarea_configure_event | Glarea_expose_event

type_synonym connection = "ui_object \<times> gtk_signal \<times> handler"

text \<open>
  The build: OpenGL with a widget of GTK 3, or none, with GTK 3 or 2 (no other configuration compiles).
\<close>

datatype ui_build = With_gl toolkit | Without_gl_gtk3 | Without_gl_gtk2

text \<open>
  The answers of GTK: the objects the definition file has, whether an area can be created, the status bar's
  context ids, the clock, and the id of the timer, 0 if it cannot be added.
\<close>

record gtk =
  builder_has :: "ui_object \<Rightarrow> bool"
  area_created :: bool
  context_id_data :: nat
  context_id_information :: nat
  clock :: int
  timer_id :: nat

record ui =
  data :: client
  contextIdData :: nat
  contextIdInformation :: nat
  timestamp :: int
  eventSourceIds :: "nat set"
  connections :: "connection list"
  destroyed :: "ui_object set"
  packed :: "ui_object list"
  shown :: bool
  ui_failed :: bool

type_synonym 'a ui_setup = "(ui, 'a) state"

definition ui_upd :: "(ui \<Rightarrow> ui) \<Rightarrow> unit ui_setup" where
  "ui_upd f = State (\<lambda>u. ((), f u))"

text \<open>\<open>gtk_builder_get_object\<close> with its assertions; the continuation is the rest of the function.\<close>

definition objects :: "gtk \<Rightarrow> ui_object list \<Rightarrow> unit ui_setup \<Rightarrow> unit ui_setup" where
  "objects G xs m = (if list_all (builder_has G) xs then m else ui_upd (\<lambda>u. u\<lparr>ui_failed := True\<rparr>))"

definition g_signal_connect :: "connection list \<Rightarrow> unit ui_setup" where
  "g_signal_connect cs = ui_upd (\<lambda>u. u\<lparr>connections := connections u @ cs\<rparr>)"

text \<open>The signals of the definition file, which \<open>gtk_builder_connect_signals\<close> connects.\<close>

definition definition_file_signals :: "connection list" where
  "definition_file_signals =
     [(Menu_quit, Activate, Quit_clicked), (Menu_calibrate, Activate, Calibrate_clicked), (Menu_about, Activate, About_clicked)]"

section \<open>The set up\<close>

text \<open>
  With OpenGL, the drawing area of the definition file is destroyed and an OpenGL area packed into its box; its context
  does not exist yet.  An area that cannot be created: the newer GTK asserts, the older one returns.
\<close>

definition create_gl_area :: "gtk \<Rightarrow> ui_build \<Rightarrow> unit ui_setup \<Rightarrow> unit ui_setup" where
  "create_gl_area G b m =
     (case b of
        With_gl t \<Rightarrow>
          objects G [Vbox]
            (if \<not> area_created G
             then (case t of
                     Gtk_3_16 \<Rightarrow> ui_upd (\<lambda>u. u\<lparr>ui_failed := True\<rparr>)
                   | Gtk_3_0_area \<Rightarrow> State_Monad.return ())
             else do {
               ui_upd (\<lambda>u. u\<lparr>data := (data u)\<lparr>OpenGLContexts := OpenGLContexts (data u) + 1\<rparr>\<rparr>);
               objects G [Drawing_area] (do {
                 ui_upd (\<lambda>u. u\<lparr>destroyed := insert Drawing_area (destroyed u), packed := packed u @ [Gl_area]\<rparr>);
                 m }) })
      | _ \<Rightarrow> m)"

definition connect_menus :: "gtk \<Rightarrow> unit ui_setup \<Rightarrow> unit ui_setup" where
  "connect_menus G m = do {
     g_signal_connect definition_file_signals;
     g_signal_connect [(Main_window, Destroy, Quit_clicked)];
     objects G [Menu_quit] (do {
       g_signal_connect [(Menu_quit, Activate, Quit_clicked)];
       objects G [Menu_calibrate] (do {
         g_signal_connect [(Menu_calibrate, Activate, Calibrate_clicked)];
         objects G [Menu_about] (do {
           g_signal_connect [(Menu_about, Activate, About_clicked), (About_dialog, Response, Hide_about)];
           m }) }) }) }"

definition drawing_object :: "ui_build \<Rightarrow> ui_object" where
  "drawing_object b = (case b of With_gl _ \<Rightarrow> Gl_area | _ \<Rightarrow> Drawing_area)"

definition drawing_signals :: "ui_build \<Rightarrow> connection list" where
  "drawing_signals b =
     (let a = drawing_object b in
        [(a, Button_press_event, Button_cb)] @
        (case b of
           With_gl _ \<Rightarrow> []
         | Without_gl_gtk3 \<Rightarrow> [(a, Configure_event, Configure_cb), (a, Draw, Expose_cb)]
         | Without_gl_gtk2 \<Rightarrow> [(a, Configure_event, Configure_cb), (a, Expose_event, Expose_cb)]) @
        [(a, Key_press_event, Key_cb), (a, Motion_notify_event, Motion_cb)] @
        (case b of
           With_gl Gtk_3_16 \<Rightarrow>
             [(a, Realize_signal, Glarea_realize), (a, Unrealize_signal, Glarea_unrealize),
              (a, Create_context_signal, Glarea_create_context), (a, Render_signal, Glarea_render), (a, Resize_signal, Glarea_resize)]
         | With_gl Gtk_3_0_area \<Rightarrow>
             [(a, Realize_signal, Glarea_realize), (a, Unrealize_signal, Glarea_unrealize),
              (a, Configure_event, Glarea_configure_event), (a, Draw, Glarea_expose_event)]
         | _ \<Rightarrow> []))"

definition schedule_refresh :: "gtk \<Rightarrow> ui_build \<Rightarrow> unit ui_setup" where
  "schedule_refresh G b = do {
     ui_upd (\<lambda>u. u\<lparr>timestamp := clock G\<rparr>);
     (case b of
        With_gl _ \<Rightarrow> do {
          ui_upd (\<lambda>u. u\<lparr>data := (data u)\<lparr>OpenGLRefreshId := timer_id G\<rparr>\<rparr>);
          whenM (timer_id G \<noteq> 0) (ui_upd (\<lambda>u. u\<lparr>eventSourceIds := insert (timer_id G) (eventSourceIds u)\<rparr>)) }
      | _ \<Rightarrow> State_Monad.return ()) }"

definition idle_initialize_ui_cb :: "gtk \<Rightarrow> ui_build \<Rightarrow> unit ui_setup" where
  "idle_initialize_ui_cb G b =
     objects G ([Main_window, About_dialog, Drawing_area] @ (if b = Without_gl_gtk2 then [Curve] else []) @ [Status_bar]) (do {
       ui_upd (\<lambda>u. u\<lparr>contextIdData := context_id_data G, contextIdInformation := context_id_information G\<rparr>);
       create_gl_area G b (connect_menus G (do {
         g_signal_connect (drawing_signals b);
         ui_upd (\<lambda>u. u\<lparr>shown := True\<rparr>);
         schedule_refresh G b })) })"

definition new_ui :: "client \<Rightarrow> ui" where
  "new_ui c = \<lparr>data = c, contextIdData = 0, contextIdInformation = 0, timestamp = 0, eventSourceIds = {}, connections = [],
     destroyed = {}, packed = [], shown = False, ui_failed = False\<rparr>"

section \<open>The remaining callbacks\<close>

text \<open>\<open>gtk_widget_grab_focus\<close> on the widget clicked.\<close>

definition button_cb :: "ui_object \<Rightarrow> bool \<times> ui_object option" where
  "button_cb widget_in = (True, Some widget_in)"

text \<open>Whether the dialog is visible; the handler connected to its response hides it.\<close>

definition about_clicked_gtk_cb :: "gtk \<Rightarrow> bool \<Rightarrow> (bool \<times> bool) option" where
  "about_clicked_gtk_cb G visible = (if builder_has G About_dialog then Some (True, True) else None)"

section \<open>Clicks\<close>

definition handlers :: "connection list \<Rightarrow> ui_object \<Rightarrow> gtk_signal \<Rightarrow> handler list" where
  "handlers cs x s = map (\<lambda>(_, _, h). h) (filter (\<lambda>(y, t, _). y = x \<and> t = s) cs)"

text \<open>Handlers of the menus on the client's data.\<close>

fun run_handlers :: "ace \<Rightarrow> handler list \<Rightarrow> client \<Rightarrow> ui_fault + client" where
  "run_handlers A [] c = Inr c"
| "run_handlers A (Quit_clicked # hs) c = run_handlers A hs (snd (quit_clicked_gtk_cb c))"
| "run_handlers A (Calibrate_clicked # hs) c =
     (case calibrate_clicked_gtk_cb A c of Inl f \<Rightarrow> Inl f | Inr (_, c') \<Rightarrow> run_handlers A hs c')"
| "run_handlers A (h # hs) c = run_handlers A hs c"

definition click :: "ace \<Rightarrow> ui_object \<Rightarrow> ui \<Rightarrow> ui_fault + client" where
  "click A x u = run_handlers A (handlers (connections u) x Activate) (data u)"

section \<open>The interface once set up\<close>

definition required :: "ui_build \<Rightarrow> ui_object set" where
  "required b = {Main_window, About_dialog, Drawing_area, Status_bar, Menu_quit, Menu_calibrate, Menu_about} \<union>
     (case b of With_gl _ \<Rightarrow> {Vbox} | Without_gl_gtk3 \<Rightarrow> {} | Without_gl_gtk2 \<Rightarrow> {Curve})"

definition set_up :: "gtk \<Rightarrow> ui_build \<Rightarrow> client \<Rightarrow> ui" where
  "set_up G b c = snd (run_state (idle_initialize_ui_cb G b) (new_ui c))"

definition menu_connections :: "connection list" where
  "menu_connections = definition_file_signals @
     [(Main_window, Destroy, Quit_clicked), (Menu_quit, Activate, Quit_clicked), (Menu_calibrate, Activate, Calibrate_clicked),
      (Menu_about, Activate, About_clicked), (About_dialog, Response, Hide_about)]"

lemma run_ui_upd [simp]: "run_state (ui_upd f) u = ((), f u)"
  by (simp add: ui_upd_def)

lemma run_objects [simp]:
  "run_state (objects G xs m) u =
     (if list_all (builder_has G) xs then run_state m u else ((), u\<lparr>ui_failed := True\<rparr>))"
  by (simp add: objects_def)

lemma run_connect [simp]: "run_state (g_signal_connect cs) u = ((), u\<lparr>connections := connections u @ cs\<rparr>)"
  by (simp add: g_signal_connect_def)

lemmas set_up_defs =
  set_up_def idle_initialize_ui_cb_def create_gl_area_def connect_menus_def schedule_refresh_def new_ui_def

lemma set_up_with_gl:
  assumes "required (With_gl t) \<subseteq> Collect (builder_has G)" "area_created G"
  shows "set_up G (With_gl t) c =
    \<lparr>data = c\<lparr>OpenGLContexts := OpenGLContexts c + 1, OpenGLRefreshId := timer_id G\<rparr>,
     contextIdData = context_id_data G, contextIdInformation = context_id_information G, timestamp = clock G,
     eventSourceIds = (if timer_id G = 0 then {} else {timer_id G}),
     connections = menu_connections @ drawing_signals (With_gl t), destroyed = {Drawing_area}, packed = [Gl_area],
     shown = True, ui_failed = False\<rparr>"
  using assms by (simp add: set_up_defs required_def menu_connections_def whenM_def)

lemma set_up_without_gl:
  assumes "required b \<subseteq> Collect (builder_has G)" "b = Without_gl_gtk3 \<or> b = Without_gl_gtk2"
  shows "set_up G b c =
    \<lparr>data = c, contextIdData = context_id_data G, contextIdInformation = context_id_information G, timestamp = clock G,
     eventSourceIds = {}, connections = menu_connections @ drawing_signals b, destroyed = {}, packed = [],
     shown = True, ui_failed = False\<rparr>"
  using assms by (auto simp: set_up_defs required_def menu_connections_def)

lemma set_up_connections:
  assumes "required b \<subseteq> Collect (builder_has G)" "area_created G"
  shows "connections (set_up G b c) = menu_connections @ drawing_signals b" "shown (set_up G b c)"
    "\<not> ui_failed (set_up G b c)" "destroyed (set_up G b c) \<subseteq> {Drawing_area} - {drawing_object b}"
  using assms by (cases b; simp add: set_up_with_gl set_up_without_gl drawing_object_def)+

definition event_connection :: "gl_event \<Rightarrow> gtk_signal \<times> handler" where
  "event_connection e =
     (case e of
        Realize _ \<Rightarrow> (Realize_signal, Glarea_realize)
      | Unrealize \<Rightarrow> (Unrealize_signal, Glarea_unrealize)
      | Render _ _ \<Rightarrow> (Render_signal, Glarea_render)
      | Resize _ _ \<Rightarrow> (Resize_signal, Glarea_resize)
      | Configure _ _ \<Rightarrow> (Configure_event, Glarea_configure_event)
      | Expose _ _ \<Rightarrow> (Draw, Glarea_expose_event))"

section \<open>Properties\<close>

text \<open>A definition file with every object, and the interface of the finished client.\<close>

definition full_gtk :: gtk where
  "full_gtk = \<lparr>builder_has = (\<lambda>_. True), area_created = True, context_id_data = 1, context_id_information = 2, clock = 0, timer_id = 7\<rparr>"

text \<open>C31: With OpenGL, the set up interface calls the handlers of the widget for exactly the events of its life in the configuration
  built, each once, on the area that replaces the drawing area; the callbacks for drawing without the widget, which are the ones that
  count the frames, are not connected to anything.
\<close>

theorem drawing_handlers:
  assumes "required (With_gl (toolkit B)) \<subseteq> Collect (builder_has G)" "area_created G"
    "cs = connections (set_up G (With_gl (toolkit B)) c)"
  shows "((\<exists>realized. gl_allowed B realized e) \<longleftrightarrow>
      handlers cs Gl_area (fst (event_connection e)) = [snd (event_connection e)]) \<and>
    list_all (\<lambda>(x, s, h). x \<noteq> Drawing_area \<and> h \<noteq> Expose_cb \<and> h \<noteq> Configure_cb) cs"
  using set_up_connections(1) [OF assms(1,2)] assms(3)
  by (cases "toolkit B"; cases e)
    (auto simp: gl_allowed_def event_connection_def handlers_def menu_connections_def definition_file_signals_def
      drawing_signals_def drawing_object_def)

theorem drawing_handlers_witness:
  "((\<exists>realized. gl_allowed some_build realized (Render zero_camera some_size)) \<longleftrightarrow>
      handlers (connections (set_up full_gtk (With_gl (toolkit some_build)) (new_client False True))) Gl_area
        (fst (event_connection (Render zero_camera some_size))) = [snd (event_connection (Render zero_camera some_size))]) \<and>
    list_all (\<lambda>(x, s, h). x \<noteq> Drawing_area \<and> h \<noteq> Expose_cb \<and> h \<noteq> Configure_cb)
      (connections (set_up full_gtk (With_gl (toolkit some_build)) (new_client False True)))"
  by (rule drawing_handlers [OF _ _ refl, where G = full_gtk]) (simp_all add: full_gtk_def)

text \<open>The menus' handlers are connected twice, by the definition file and by name, so that one click on \<open>quit\<close> raises the
  signal twice: the timer is removed once, the second run only kills again.
\<close>

theorem quit_runs_twice:
  assumes "required b \<subseteq> Collect (builder_has G)" "area_created G"
  shows "click A Menu_quit (set_up G b c) =
    Inr (let d = data (set_up G b c)
         in d\<lparr>OpenGLRefreshId := 0,
              calls := calls d @ (if OpenGLRefreshId d = 0 then [] else [Source_remove (OpenGLRefreshId d)]) @ [Kill_sigint, Kill_sigint]\<rparr>)"
  using set_up_connections [OF assms]
  by (cases b) (simp_all add: click_def handlers_def menu_connections_def definition_file_signals_def drawing_signals_def
    drawing_object_def quit_clicked_gtk_cb_def log_call_def Let_def split: toolkit.splits)

theorem quit_runs_twice_witness:
  "click demo_ace Menu_quit (set_up full_gtk (With_gl Gtk_3_16) (new_client False True)) =
    Inr (let d = data (set_up full_gtk (With_gl Gtk_3_16) (new_client False True))
         in d\<lparr>OpenGLRefreshId := 0,
              calls := calls d @ (if OpenGLRefreshId d = 0 then [] else [Source_remove (OpenGLRefreshId d)]) @ [Kill_sigint, Kill_sigint]\<rparr>)"
  by (rule quit_runs_twice) (simp_all add: full_gtk_def)

lemma calibrate_again:
  assumes "calibrate_clicked_gtk_cb A c = Inr (True, d)"
  shows "calibrate_clicked_gtk_cb A d = Inr (True, log_call (Push_bias (clientSensorBias d)) d)"
  using assms
  by (auto simp: calibrate_clicked_gtk_cb_def log_call_def Let_def split: if_splits list.splits sum.splits)

lemma calibrate_runs_twice:
  assumes "required b \<subseteq> Collect (builder_has G)" "area_created G"
    "calibrate_clicked_gtk_cb A (data (set_up G b c)) = Inr (True, d)"
  shows "click A Menu_calibrate (set_up G b c) = Inr (log_call (Push_bias (clientSensorBias d)) d)"
  using set_up_connections(1) [OF assms(1,2)] assms(3) calibrate_again [OF assms(3)]
  by (cases b) (simp_all add: click_def handlers_def menu_connections_def definition_file_signals_def drawing_signals_def
    drawing_object_def split: toolkit.splits)

text \<open>If the definition file lacks any of the objects the build needs, the set up stops at an assertion: the window is not
  shown, no timer runs and no source is registered, whichever object it is.
\<close>

theorem set_up_fails:
  assumes "\<not> required b \<subseteq> Collect (builder_has G)" "area_created G"
  shows "ui_failed (set_up G b c) \<and> \<not> shown (set_up G b c) \<and> eventSourceIds (set_up G b c) = {} \<and>
    OpenGLRefreshId (data (set_up G b c)) = OpenGLRefreshId c"
  using assms by (cases b) (auto simp: set_up_defs required_def)

theorem set_up_fails_witness:
  "ui_failed (set_up (full_gtk\<lparr>builder_has := (\<lambda>x. x \<noteq> Menu_about)\<rparr>) (With_gl Gtk_3_16) (new_client False True)) \<and>
   \<not> shown (set_up (full_gtk\<lparr>builder_has := (\<lambda>x. x \<noteq> Menu_about)\<rparr>) (With_gl Gtk_3_16) (new_client False True)) \<and>
   eventSourceIds (set_up (full_gtk\<lparr>builder_has := (\<lambda>x. x \<noteq> Menu_about)\<rparr>) (With_gl Gtk_3_16) (new_client False True)) = {} \<and>
   OpenGLRefreshId (data (set_up (full_gtk\<lparr>builder_has := (\<lambda>x. x \<noteq> Menu_about)\<rparr>) (With_gl Gtk_3_16) (new_client False True))) =
     OpenGLRefreshId (new_client False True)"
  by (rule set_up_fails) (auto simp: full_gtk_def required_def)

end
