(* ===== verification/Client_Draw.thy ===== *)
theory Client_Draw
  imports Client
begin

text \<open>
  The drawing with the fixed pipeline of OpenGL: configure_cb and expose_cb in
  src/src/test_u/olimex_mod_mpu6050_gtk_callbacks.cpp, as built with GTK 3 and GTKGL_SUPPORT, with
  draw_teapot and frames_per_second of olimex_mod_mpu6050_opengl.cpp.  Matrices are terms over the
  transformations applied; the stacks have the depths OpenGL guarantees.
\<close>

section \<open>The canvas\<close>

datatype matrix_mode = Modelview | Projection_mode

text \<open>
  \<open>At m x y z\<close>: \<open>m\<close> with its elements 12 to 14 replaced.  \<open>Perspective q\<close>: a frustum of which the width is
  \<open>q\<close> times the height.
\<close>

datatype transformation = Translate rat rat rat | Rotate rat rat rat rat | Perspective int | Ortho rat rat rat rat

datatype matrix = Identity | Times matrix transformation | At matrix rat rat rat

datatype shape = Teapot bool rat | Text "rat option"

type_synonym viewport = "int \<times> int \<times> int \<times> int"

record drawing =
  shape :: shape
  at_modelview :: matrix
  at_projection :: matrix
  at_viewport :: viewport
  lit :: bool

record canvas =
  mode :: matrix_mode
  modelview :: "matrix list"
  projection :: "matrix list"
  viewport :: viewport
  lighting :: bool
  colour :: "rat list"
  gl_errors :: nat
  drawn :: "drawing list"
  eye :: camera
  frameCounter :: u32
  timestamp :: int
  first_invokation :: bool

datatype draw_fault = Division_by_zero

definition stack :: "canvas \<Rightarrow> matrix list" where
  "stack c = (case mode c of Modelview \<Rightarrow> modelview c | Projection_mode \<Rightarrow> projection c)"

definition set_stack :: "matrix list \<Rightarrow> canvas \<Rightarrow> canvas" where
  "set_stack ms c = (case mode c of Modelview \<Rightarrow> c\<lparr>modelview := ms\<rparr> | Projection_mode \<Rightarrow> c\<lparr>projection := ms\<rparr>)"

definition stack_limit :: "matrix_mode \<Rightarrow> nat" where
  "stack_limit m = (case m of Modelview \<Rightarrow> 32 | Projection_mode \<Rightarrow> 2)"

definition gl_error :: "canvas \<Rightarrow> canvas" where
  "gl_error c = c\<lparr>gl_errors := gl_errors c + 1\<rparr>"

definition glMatrixMode :: "matrix_mode \<Rightarrow> canvas \<Rightarrow> canvas" where
  "glMatrixMode m c = c\<lparr>mode := m\<rparr>"

definition glPushMatrix :: "canvas \<Rightarrow> canvas" where
  "glPushMatrix c = (if length (stack c) < stack_limit (mode c) then set_stack (hd (stack c) # stack c) c else gl_error c)"

definition glPopMatrix :: "canvas \<Rightarrow> canvas" where
  "glPopMatrix c = (if 1 < length (stack c) then set_stack (tl (stack c)) c else gl_error c)"

definition glLoadMatrix :: "matrix \<Rightarrow> canvas \<Rightarrow> canvas" where
  "glLoadMatrix m c = set_stack (m # tl (stack c)) c"

definition glMultMatrix :: "transformation \<Rightarrow> canvas \<Rightarrow> canvas" where
  "glMultMatrix t c = set_stack (Times (hd (stack c)) t # tl (stack c)) c"

text \<open>A frustum without width is an error and leaves the matrix.\<close>

definition glFrustum :: "int \<Rightarrow> canvas \<Rightarrow> canvas" where
  "glFrustum q c = (if q = 0 then gl_error c else glMultMatrix (Perspective q) c)"

definition glViewport :: "viewport \<Rightarrow> canvas \<Rightarrow> canvas" where
  "glViewport v c = c\<lparr>viewport := v\<rparr>"

definition draw :: "shape \<Rightarrow> canvas \<Rightarrow> canvas" where
  "draw x c = c\<lparr>drawn := drawn c @
     [\<lparr>shape = x, at_modelview = hd (modelview c), at_projection = hd (projection c), at_viewport = viewport c, lit = lighting c\<rparr>]\<rparr>"

section \<open>Callbacks\<close>

definition draw_teapot :: "bool \<Rightarrow> rat \<Rightarrow> canvas \<Rightarrow> canvas" where
  "draw_teapot solid scale = draw (Teapot solid scale)"

text \<open>\<open>formatted\<close>: \<open>sprintf\<close> succeeds; \<open>None\<close> is an infinite number.\<close>

definition frames_per_second :: "bool \<Rightarrow> rat option \<Rightarrow> canvas \<Rightarrow> canvas" where
  "frames_per_second formatted fps c = (if formatted then draw (Text fps) c else c)"

text \<open>Division of \<open>int\<close> as C has it, which traps on 0.\<close>

definition c_div :: "int \<Rightarrow> int \<Rightarrow> draw_fault + int" where
  "c_div a b = (if b = 0 then Inl Division_by_zero else Inr (sgn a * sgn b * (\<bar>a\<bar> div \<bar>b\<bar>)))"

definition configure_cb :: "int \<Rightarrow> int \<Rightarrow> canvas \<Rightarrow> draw_fault + (bool \<times> canvas)" where
  "configure_cb w h c =
     (let c1 = glLoadMatrix Identity (glViewport (0, 0, w, h) (glMatrixMode Projection_mode c))
      in case c_div w h of
           Inl f \<Rightarrow> Inl f
         | Inr q \<Rightarrow>
             let c2 = glMatrixMode Modelview (glFrustum q c1);
                 c3 = (if first_invokation c2
                       then c2\<lparr>eye := zero_camera\<lparr>zoom := OPENGL_CAMERA_DEFAULT_ZOOM\<rparr>, lighting := True\<rparr> else c2)
             in Inr (True, c3\<lparr>first_invokation := False\<rparr>))"

definition view_camera :: "camera \<Rightarrow> canvas \<Rightarrow> canvas" where
  "view_camera k c =
     glMultMatrix (Rotate 90 1 0 0) (glMultMatrix (Rotate 90 0 0 1)
       (glMultMatrix (Rotate (rotation_z k) 0 0 1) (glMultMatrix (Rotate (rotation_y k) 0 1 0)
         (glMultMatrix (Rotate (rotation_x k) 1 0 0) (glMultMatrix (Translate 0 0 (- zoom k)) c)))))"

text \<open>The axes have no list to call with GTK 3; what is set up around the call remains.\<close>

definition draw_axes :: "int \<Rightarrow> int \<Rightarrow> canvas \<Rightarrow> canvas" where
  "draw_axes w h c =
     (let axes_height = \<lfloor>of_int h * (1 / 5 :: rat)\<rfloor>;
          c1 = glViewport (0, h - axes_height, \<lfloor>of_int w * (1 / 5 :: rat)\<rfloor>, axes_height) c;
          color = colour c1;
          c2 = glPushMatrix (c1\<lparr>lighting := False\<rparr>);
          c3 = glLoadMatrix (At (hd (modelview c2)) 0 0 (- OPENGL_CAMERA_DEFAULT_ZOOM)) c2;
          c4 = (glPopMatrix c3)\<lparr>colour := take 3 color @ [1], lighting := True\<rparr>
      in glViewport (0, 0, w, h) c4)"

text \<open>
  The frames per second, from the time elapsed in microseconds; \<open>to_usec\<close> has 64 bits, and the quotient is in floating point.
\<close>

definition fps :: "u32 \<Rightarrow> int \<Rightarrow> rat option" where
  "fps frames elapsed =
     (let elapsed_usec = (word_of_int elapsed :: u64);
          usec = (if elapsed > 1000000 then elapsed_usec - 1000000 else elapsed_usec)
      in if usec = 0 then None else Some (of_nat (unat frames) * (1000000 / of_nat (unat usec))))"

definition count_frame :: "bool \<Rightarrow> int \<Rightarrow> canvas \<Rightarrow> canvas" where
  "count_frame formatted now c =
     (let c1 = c\<lparr>frameCounter := frameCounter c + 1\<rparr>
      in frames_per_second formatted (fps (frameCounter c1) (now - timestamp c1)) c1)"

definition draw_hud :: "bool \<Rightarrow> int \<Rightarrow> int \<Rightarrow> int \<Rightarrow> canvas \<Rightarrow> canvas" where
  "draw_hud formatted now w h c =
     (let c1 = glMultMatrix (Ortho 0 (of_int w) 0 (of_int h)) (glLoadMatrix Identity (glPushMatrix (glMatrixMode Projection_mode c)));
          c2 = glLoadMatrix Identity (glPushMatrix (glMatrixMode Modelview c1));
          c3 = count_frame formatted now c2
      in glMatrixMode Modelview (glPopMatrix (glMatrixMode Projection_mode (glPopMatrix c3))))"

definition advance_window :: "int \<Rightarrow> canvas \<Rightarrow> canvas" where
  "advance_window elapsed c =
     (if elapsed \<ge> 1000000 then c\<lparr>frameCounter := 0, timestamp := timestamp c + 1000000\<rparr> else c)"

definition expose_cb :: "bool \<Rightarrow> int \<Rightarrow> int \<Rightarrow> int \<Rightarrow> canvas \<Rightarrow> bool \<times> canvas" where
  "expose_cb formatted now w h c =
     (let c1 = draw_teapot True 1 (view_camera (eye c) (glPushMatrix c));
          c2 = glPopMatrix (draw_axes w h c1);
          c3 = draw_hud formatted now w h c2
      in (True, advance_window (now - timestamp c3) c3))"

text \<open>
  The display list of the axes (\<open>axes\<close>); only builds with GTK 2 call it.  The first argument is what
  \<open>glGenLists\<close> answers.
\<close>

datatype list_call =
    New_list u32 | End_list | Begin_line_strip | End_strip | Color rat rat rat | Vertex rat rat rat
  | Scale rat rat rat | Move rat rat rat | Stroke char

definition axes :: "u32 \<Rightarrow> u32 \<times> list_call list" where
  "axes axes_list = (axes_list,
     [New_list axes_list,
      Begin_line_strip,
      Color 1 1 1, Vertex 0 0 0,
      Color 0 1 0, Vertex 1 0 0, Vertex (3/4) (1/4) 0, Vertex (3/4) (-(1/4)) 0, Vertex 1 0 0,
      Vertex (3/4) 0 (1/4), Vertex (3/4) 0 (-(1/4)), Vertex 1 0 0,
      End_strip,
      Begin_line_strip,
      Color 1 1 1, Vertex 0 0 0,
      Color 0 0 1, Vertex 0 1 0, Vertex 0 (3/4) (1/4), Vertex 0 (3/4) (-(1/4)), Vertex 0 1 0,
      Vertex (1/4) (3/4) 0, Vertex (-(1/4)) (3/4) 0, Vertex 0 1 0,
      End_strip,
      Begin_line_strip,
      Color 1 1 1, Vertex 0 0 0,
      Color 1 0 0, Vertex 0 0 1, Vertex (1/4) 0 (3/4), Vertex (-(1/4)) 0 (3/4), Vertex 0 0 1,
      Vertex 0 (1/4) (3/4), Vertex 0 (-(1/4)) (3/4), Vertex 0 0 1,
      End_strip,
      Scale (5/1000) (5/1000) (5/1000),
      Move 220 (-30) 0, Color 0 1 0, Stroke (CHR ''y''),
      Move (-380) 300 0, Color 0 0 1, Stroke (CHR ''z''),
      Move (-105) (-305) 250, Color 1 0 0, Stroke (CHR ''x''),
      End_list])"

text \<open>Turning x to y, y to z and z to x takes each arrow and its colour to the next.\<close>

fun turn :: "list_call \<Rightarrow> list_call" where
  "turn (Vertex x y z) = Vertex z x y"
| "turn (Color r g b) = Color b r g"
| "turn c = c"

definition arrow :: "nat \<Rightarrow> u32 \<Rightarrow> list_call list" where
  "arrow i l = take 12 (drop (1 + 12 * i) (snd (axes l)))"

lemma arrows_turn: "map turn (arrow 0 l) = arrow 1 l" "map turn (arrow 1 l) = arrow 2 l" "map turn (arrow 2 l) = arrow 0 l"
  by (simp_all add: arrow_def axes_def)

section \<open>Frames\<close>

text \<open>What happens to the canvas: it is resized, the camera changes, it is drawn at a time.\<close>

datatype canvas_event = Resized int int | Camera camera | Exposed bool int int int

definition canvas_step :: "canvas_event \<Rightarrow> canvas \<Rightarrow> draw_fault + canvas" where
  "canvas_step e c =
     (case e of
        Resized w h \<Rightarrow> map_sum id snd (configure_cb w h c)
      | Camera k \<Rightarrow> Inr (c\<lparr>eye := k\<rparr>)
      | Exposed formatted now w h \<Rightarrow> Inr (snd (expose_cb formatted now w h c)))"

inductive canvas_reachable :: "canvas \<Rightarrow> canvas \<Rightarrow> bool" for c0 where
  canvas_start: "canvas_reachable c0 c0"
| canvas_next: "canvas_reachable c0 c \<Longrightarrow> canvas_step e c = Inr c' \<Longrightarrow> canvas_reachable c0 c'"

definition new_canvas :: "int \<Rightarrow> canvas" where
  "new_canvas now = \<lparr>mode = Modelview, modelview = [Identity], projection = [Identity], viewport = (0, 0, 0, 0), lighting = False,
     colour = [1, 1, 1, 1], gl_errors = 0, drawn = [], eye = zero_camera\<lparr>zoom := OPENGL_CAMERA_DEFAULT_ZOOM\<rparr>, frameCounter = 0,
     timestamp = now, first_invokation = True\<rparr>"

definition camera_matrix :: "camera \<Rightarrow> matrix" where
  "camera_matrix k = foldl Times Identity
     [Translate 0 0 (- zoom k), Rotate (rotation_x k) 1 0 0, Rotate (rotation_y k) 0 1 0, Rotate (rotation_z k) 0 0 1,
      Rotate 90 0 0 1, Rotate 90 1 0 0]"

definition at_rest :: "canvas \<Rightarrow> bool" where
  "at_rest c \<longleftrightarrow> mode c = Modelview \<and> modelview c = [Identity] \<and> (\<exists>p. projection c = [p])"

lemmas canvas_defs =
  stack_def set_stack_def stack_limit_def gl_error_def glMatrixMode_def glPushMatrix_def glPopMatrix_def glLoadMatrix_def
  glMultMatrix_def glViewport_def

lemma matrix_ops:
  "mode c = Modelview \<Longrightarrow> modelview c = m # ms \<Longrightarrow> length ms < 31 \<Longrightarrow> glPushMatrix c = c\<lparr>modelview := m # m # ms\<rparr>"
  "mode c = Projection_mode \<Longrightarrow> projection c = [m] \<Longrightarrow> glPushMatrix c = c\<lparr>projection := [m, m]\<rparr>"
  "mode c = Modelview \<Longrightarrow> modelview c = m # m' # ms \<Longrightarrow> glPopMatrix c = c\<lparr>modelview := m' # ms\<rparr>"
  "mode c = Projection_mode \<Longrightarrow> projection c = m # m' # ms \<Longrightarrow> glPopMatrix c = c\<lparr>projection := m' # ms\<rparr>"
  "mode c = Modelview \<Longrightarrow> modelview c = m # ms \<Longrightarrow> glLoadMatrix n c = c\<lparr>modelview := n # ms\<rparr>"
  "mode c = Projection_mode \<Longrightarrow> projection c = m # ms \<Longrightarrow> glLoadMatrix n c = c\<lparr>projection := n # ms\<rparr>"
  "mode c = Modelview \<Longrightarrow> modelview c = m # ms \<Longrightarrow> glMultMatrix t c = c\<lparr>modelview := Times m t # ms\<rparr>"
  "mode c = Projection_mode \<Longrightarrow> projection c = m # ms \<Longrightarrow> glMultMatrix t c = c\<lparr>projection := Times m t # ms\<rparr>"
  by (simp_all add: canvas_defs)

lemmas simple_ops = glMatrixMode_def glViewport_def draw_def frames_per_second_def

lemma view_camera_run:
  assumes "mode c = Modelview" "modelview c = m # ms"
  shows "view_camera k c = c\<lparr>modelview := foldl Times m
     [Translate 0 0 (- zoom k), Rotate (rotation_x k) 1 0 0, Rotate (rotation_y k) 0 1 0, Rotate (rotation_z k) 0 0 1,
      Rotate 90 0 0 1, Rotate 90 1 0 0] # ms\<rparr>"
  using assms by (simp add: view_camera_def matrix_ops)

lemma draw_axes_run:
  assumes "mode c = Modelview" "modelview c = m # ms" "length ms < 31"
  shows "draw_axes w h c = c\<lparr>viewport := (0, 0, w, h), colour := take 3 (colour c) @ [1], lighting := True\<rparr>"
  using assms by (cases c) (simp add: draw_axes_def matrix_ops simple_ops Let_def)

lemma count_frame_run:
  "count_frame formatted now c = c\<lparr>frameCounter := frameCounter c + 1,
    drawn := drawn c @
      (if formatted
       then [\<lparr>shape = Text (fps (frameCounter c + 1) (now - timestamp c)), at_modelview = hd (modelview c),
              at_projection = hd (projection c), at_viewport = viewport c, lit = lighting c\<rparr>] else [])\<rparr>"
  by (cases c) (simp add: count_frame_def simple_ops)

lemma draw_hud_run:
  assumes "mode c = Modelview" "modelview c = [m]" "projection c = [p]"
  shows "draw_hud formatted now w h c = c\<lparr>frameCounter := frameCounter c + 1,
    drawn := drawn c @
      (if formatted
       then [\<lparr>shape = Text (fps (frameCounter c + 1) (now - timestamp c)), at_modelview = Identity,
              at_projection = Times Identity (Ortho 0 (of_int w) 0 (of_int h)), at_viewport = viewport c, lit = lighting c\<rparr>] else [])\<rparr>"
  using assms by (cases c) (simp add: draw_hud_def count_frame_run matrix_ops simple_ops)

lemma expose_cb_run:
  assumes "at_rest c"
  shows "snd (expose_cb formatted now w h c) =
    (let elapsed = now - timestamp c in
     c\<lparr>viewport := (0, 0, w, h), lighting := True, colour := take 3 (colour c) @ [1],
       drawn := drawn c @
         [\<lparr>shape = Teapot True 1, at_modelview = camera_matrix (eye c), at_projection = hd (projection c),
           at_viewport = viewport c, lit = lighting c\<rparr>] @
         (if formatted
          then [\<lparr>shape = Text (fps (frameCounter c + 1) elapsed), at_modelview = Identity,
                 at_projection = Times Identity (Ortho 0 (of_int w) 0 (of_int h)),
                 at_viewport = (0, 0, w, h), lit = True\<rparr>] else []),
       frameCounter := (if elapsed \<ge> 1000000 then 0 else frameCounter c + 1),
       timestamp := (if elapsed \<ge> 1000000 then timestamp c + 1000000 else timestamp c)\<rparr>)"
proof -
  obtain p where c: "mode c = Modelview" "modelview c = [Identity]" "projection c = [p]"
    using assms by (auto simp: at_rest_def)
  have push: "glPushMatrix c = c\<lparr>modelview := [Identity, Identity]\<rparr>"
    using c by (simp add: matrix_ops)
  let ?c1 = "c\<lparr>modelview := [camera_matrix (eye c), Identity], drawn := drawn c @
         [\<lparr>shape = Teapot True 1, at_modelview = camera_matrix (eye c), at_projection = p,
           at_viewport = viewport c, lit = lighting c\<rparr>]\<rparr>"
  have 1: "draw_teapot True 1 (view_camera (eye c) (glPushMatrix c)) = ?c1"
    using c by (subst push, subst view_camera_run [where m = Identity and ms = "[Identity]"])
      (simp_all add: draw_teapot_def draw_def camera_matrix_def)
  let ?c2 = "c\<lparr>viewport := (0, 0, w, h), colour := take 3 (colour c) @ [1], lighting := True, drawn := drawn ?c1\<rparr>"
  have 2: "glPopMatrix (draw_axes w h ?c1) = ?c2"
    using c by (subst draw_axes_run [where m = "camera_matrix (eye c)" and ms = "[Identity]"]) (simp_all add: matrix_ops)
  have 3: "draw_hud formatted now w h ?c2 = ?c2\<lparr>frameCounter := frameCounter c + 1,
    drawn := drawn ?c2 @
      (if formatted
       then [\<lparr>shape = Text (fps (frameCounter c + 1) (now - timestamp c)), at_modelview = Identity,
              at_projection = Times Identity (Ortho 0 (of_int w) 0 (of_int h)), at_viewport = (0, 0, w, h), lit = True\<rparr>] else [])\<rparr>"
    using c by (subst draw_hud_run [where m = Identity and p = p]) simp_all
  show ?thesis
    unfolding expose_cb_def Let_def 1 2 3 using c(3) by (simp add: advance_window_def)
qed

section \<open>Reachable canvases\<close>

lemma configure_cb_run:
  assumes "at_rest c" "h \<noteq> 0"
  shows "\<exists>k l b. configure_cb w h c = Inr (True, c\<lparr>viewport := (0, 0, w, h), eye := k, lighting := l, first_invokation := b,
    projection := [if c_div w h = Inr 0 then Identity else Times Identity (Perspective (sgn w * sgn h * (\<bar>w\<bar> div \<bar>h\<bar>)))],
    gl_errors := (if c_div w h = Inr 0 then gl_errors c + 1 else gl_errors c)\<rparr>)"
proof -
  obtain p where c: "mode c = Modelview" "modelview c = [Identity]" "projection c = [p]"
    using assms by (auto simp: at_rest_def)
  have 1: "glLoadMatrix Identity (glViewport (0, 0, w, h) (glMatrixMode Projection_mode c)) =
      c\<lparr>viewport := (0, 0, w, h), mode := Projection_mode, projection := [Identity]\<rparr>"
    using c by (simp add: matrix_ops simple_ops)
  have 2: "glMatrixMode Modelview (glFrustum q (c\<lparr>viewport := (0, 0, w, h), mode := Projection_mode, projection := [Identity]\<rparr>)) =
      c\<lparr>viewport := (0, 0, w, h), projection := [if q = 0 then Identity else Times Identity (Perspective q)],
        gl_errors := (if q = 0 then gl_errors c + 1 else gl_errors c)\<rparr>" for q
    using c by (cases c) (simp add: glFrustum_def gl_error_def matrix_ops simple_ops)
  let ?q = "sgn w * sgn h * (\<bar>w\<bar> div \<bar>h\<bar>)"
  let ?c2 = "c\<lparr>viewport := (0, 0, w, h), projection := [if ?q = 0 then Identity else Times Identity (Perspective ?q)],
        gl_errors := (if ?q = 0 then gl_errors c + 1 else gl_errors c)\<rparr>"
  have q: "c_div w h = Inr ?q"
    using assms(2) by (simp add: c_div_def)
  have run: "configure_cb w h c = Inr (True, (if first_invokation c
      then ?c2\<lparr>eye := zero_camera\<lparr>zoom := OPENGL_CAMERA_DEFAULT_ZOOM\<rparr>, lighting := True\<rparr> else ?c2)\<lparr>first_invokation := False\<rparr>)"
    unfolding configure_cb_def Let_def 1 q sum.case 2 by simp
  show ?thesis
  proof (cases "first_invokation c")
    case True
    then show ?thesis unfolding run q
      by (intro exI [of _ "zero_camera\<lparr>zoom := OPENGL_CAMERA_DEFAULT_ZOOM\<rparr>"] exI [of _ True] exI [of _ False]) (cases c, simp)
  next
    case False
    then show ?thesis unfolding run q
      by (intro exI [of _ "eye c"] exI [of _ "lighting c"] exI [of _ False]) (cases c, simp)
  qed
qed

lemma at_rest_step:
  assumes "at_rest c" "canvas_step e c = Inr c'"
  shows "at_rest c'"
proof (cases e)
  case (Resized w h)
  have "h \<noteq> 0"
    using assms(2) Resized by (auto simp: canvas_step_def configure_cb_def c_div_def Let_def split: if_splits)
  from configure_cb_run [OF assms(1) this, of w] show ?thesis
    using assms Resized by (auto simp: canvas_step_def at_rest_def)
next
  case (Camera k)
  then show ?thesis using assms by (auto simp: canvas_step_def at_rest_def)
next
  case (Exposed formatted now w h)
  then have "c' = snd (expose_cb formatted now w h c)"
    using assms(2) by (simp add: canvas_step_def)
  then show ?thesis using assms(1) by (simp add: expose_cb_run) (simp add: at_rest_def Let_def)
qed

lemma reachable_at_rest: "canvas_reachable (new_canvas t) c \<Longrightarrow> at_rest c"
proof (induction rule: canvas_reachable.induct)
  case canvas_start
  show ?case by (simp add: at_rest_def new_canvas_def)
next
  case (canvas_next c e c')
  then show ?case by (blast intro: at_rest_step)
qed

lemma fps_value:
  assumes "0 < elapsed" "elapsed < 2 ^ 63"
  shows "fps n elapsed = (if elapsed \<le> 1000000 then Some (of_nat (unat n) * (1000000 / of_int elapsed))
    else Some (of_nat (unat n) * (1000000 / of_int (elapsed - 1000000))))"
proof -
  have nat: "unat (word_of_int k :: u64) = nat k" if "0 \<le> k" "k < 2 ^ 63" for k :: int
    using that by (simp add: unat_eq_nat_uint uint_word_of_int)
  have sub: "(word_of_int elapsed :: u64) - 1000000 = word_of_int (elapsed - 1000000)"
    by (metis wi_hom_sub word_of_int_numeral)
  have zero: "(word_of_int k :: u64) = 0 \<longleftrightarrow> k = 0" if "0 \<le> k" "k < 2 ^ 63" for k :: int
    using nat [OF that] that unat_eq_zero [of "word_of_int k :: u64"] by linarith
  show ?thesis
  proof (cases "elapsed \<le> 1000000")
    case True
    then show ?thesis using assms nat [of elapsed] zero [of elapsed]
      by (simp add: fps_def Let_def)
  next
    case False
    then show ?thesis using assms nat [of "elapsed - 1000000"] zero [of "elapsed - 1000000"]
      unfolding fps_def Let_def sub by simp
  qed
qed

text \<open>
  Just after a full second the frames of that second are shown as those of the moment since.
\<close>

lemma frame_rate_spike: "0 < k \<Longrightarrow> k \<le> 1000000 \<Longrightarrow> fps n (1000000 + k) = fps n k"
  by (simp add: fps_value)

section \<open>Properties\<close>

text \<open>However the canvas has been resized, turned and drawn before, a frame is drawn by the camera alone: the teapot under the camera's
  transformations of the identity, the text under a plain orthogonal projection of the widget's size over
  its whole area, and both matrix stacks, their mode and the number of errors are as before.
\<close>

theorem frame_self_contained:
  assumes "canvas_reachable (new_canvas t) c"
  shows "let c' = snd (expose_cb True now w h c) in
    mode c' = mode c \<and> modelview c' = modelview c \<and> projection c' = projection c \<and> gl_errors c' = gl_errors c \<and>
    viewport c' = (0, 0, w, h) \<and>
    drawn c' = drawn c @
      [\<lparr>shape = Teapot True 1, at_modelview = camera_matrix (eye c), at_projection = hd (projection c),
        at_viewport = viewport c, lit = lighting c\<rparr>,
       \<lparr>shape = Text (fps (frameCounter c + 1) (now - timestamp c)), at_modelview = Identity,
        at_projection = Times Identity (Ortho 0 (of_int w) 0 (of_int h)), at_viewport = (0, 0, w, h), lit = True\<rparr>]"
  using reachable_at_rest [OF assms] by (simp add: expose_cb_run Let_def)

definition first_frame :: canvas where
  "first_frame = snd (expose_cb True 400000 640 480 (new_canvas 0))"

theorem frame_self_contained_witness:
  "let c' = snd (expose_cb True 900000 320 200 first_frame) in
    mode c' = mode first_frame \<and> modelview c' = modelview first_frame \<and> projection c' = projection first_frame \<and>
    gl_errors c' = gl_errors first_frame \<and> viewport c' = (0, 0, 320, 200) \<and>
    drawn c' = drawn first_frame @
      [\<lparr>shape = Teapot True 1, at_modelview = camera_matrix (eye first_frame), at_projection = hd (projection first_frame),
        at_viewport = viewport first_frame, lit = lighting first_frame\<rparr>,
       \<lparr>shape = Text (fps (frameCounter first_frame + 1) (900000 - timestamp first_frame)), at_modelview = Identity,
        at_projection = Times Identity (Ortho 0 (of_int 320) 0 (of_int 200)), at_viewport = (0, 0, 320, 200), lit = True\<rparr>]"
  by (rule frame_self_contained [of 0], rule canvas_next [OF canvas_start, of "Exposed True 400000 640 480"])
    (simp add: canvas_step_def first_frame_def)

text \<open>The window over which the frames are counted keeps up: as long as no two frames are more than a second apart, after
  each of them the window has started less than a second ago.
\<close>

theorem frame_window:
  assumes "at_rest c" "sorted (t0 # ts)" "\<forall>i < length ts. ts ! i - (t0 # ts) ! i \<le> 1000000"
    "0 \<le> t0 - timestamp c" "t0 - timestamp c < 1000000"
  shows "let c' = fold (\<lambda>now c. snd (expose_cb formatted now w h c)) ts c
    in 0 \<le> last (t0 # ts) - timestamp c' \<and> last (t0 # ts) - timestamp c' < 1000000"
  using assms
proof (induction ts arbitrary: c t0)
  case Nil
  then show ?case by simp
next
  case (Cons now ts)
  let ?c = "snd (expose_cb formatted now w h c)"
  have gap: "t0 \<le> now" "now - t0 \<le> 1000000"
    using Cons.prems(2,3) by (auto dest: spec [of _ 0])
  have step: "at_rest ?c" "0 \<le> now - timestamp ?c" "now - timestamp ?c < 1000000"
    using Cons.prems(1,4,5) gap by (auto simp: expose_cb_run Let_def at_rest_def)
  have "\<forall>i < length ts. ts ! i - (now # ts) ! i \<le> 1000000"
    using Cons.prems(3) by (metis Suc_less_eq length_Cons nth_Cons_Suc)
  then show ?case
    using Cons.IH [OF step(1) _ _ step(2,3)] Cons.prems(2) by simp
qed

theorem frame_window_witness:
  "let c' = fold (\<lambda>now c. snd (expose_cb True now 640 480 c)) [400000, 1200000, 2100000] (new_canvas 0)
    in 0 \<le> last [0, 400000, 1200000, 2100000] - timestamp c' \<and> last [0, 400000, 1200000, 2100000] - timestamp c' < 1000000"
  by (rule frame_window) (auto simp: at_rest_def new_canvas_def less_Suc_eq nth_Cons split: nat.split)

text \<open>The projection is set up with a division of integers: a widget that is less wide than high gets no perspective at all, the
  frustum being without width, and for one of no height the division traps.
\<close>

theorem perspective_division:
  assumes "at_rest c" "0 \<le> w" "0 \<le> h"
  shows "case configure_cb w h c of
      Inl f \<Rightarrow> h = 0
    | Inr (r, c') \<Rightarrow> 0 < h \<and> r \<and> at_rest c' \<and>
        (if w < h then projection c' = [Identity] \<and> gl_errors c' = gl_errors c + 1
         else projection c' = [Times Identity (Perspective (w div h))] \<and> gl_errors c' = gl_errors c)"
proof (cases "h = 0")
  case True
  then show ?thesis by (simp add: configure_cb_def c_div_def Let_def)
next
  case False
  with assms(2,3) have q: "sgn w * sgn h * (\<bar>w\<bar> div \<bar>h\<bar>) = w div h" "w div h = 0 \<longleftrightarrow> w < h"
    by (auto simp: sgn_if zdiv_eq_0_iff)
  show ?thesis
    using configure_cb_run [OF assms(1) False, of w] assms False q
    by (auto simp: c_div_def at_rest_def)
qed

theorem perspective_division_witness:
  "case configure_cb 320 480 (new_canvas 0) of
      Inl f \<Rightarrow> (480 :: int) = 0
    | Inr (r, c') \<Rightarrow> (0 :: int) < 480 \<and> r \<and> at_rest c' \<and>
        (if (320 :: int) < 480 then projection c' = [Identity] \<and> gl_errors c' = gl_errors (new_canvas 0) + 1
         else projection c' = [Times Identity (Perspective (320 div 480))] \<and> gl_errors c' = gl_errors (new_canvas 0))"
  by (rule perspective_division) (simp_all add: at_rest_def new_canvas_def)

end
