(* ===== verification/Client_Stream.thy ===== *)
theory Client_Stream
  imports Client
begin

text \<open>
  The client's stream (src/src/test_u/olimex_mod_mpu6050_stream.inl) and the copies of its session messages
  (olimex_mod_mpu6050_sessionmessage.cpp): the layout of its modules, its initialization around that of the
  library's base class, and the collection of statistics.  The library's answers are arguments.
\<close>

section \<open>Layout and initialization\<close>

datatype stream_module = Cam_source | Runtime_statistic

text \<open>
  The arguments say which of the two allocations succeed; the results are the return value, the
  layout and the value of \<open>delete_out\<close>, if it has been set.
\<close>

definition stream_load :: "bool \<Rightarrow> bool \<Rightarrow> stream_module list \<Rightarrow> bool \<times> stream_module list \<times> bool option" where
  "stream_load source_ok statistic_ok layout =
     (if \<not> source_ok then (False, layout, None)
      else if \<not> statistic_ok then (False, layout @ [Cam_source], None)
      else (True, layout @ [Cam_source] @ [Runtime_statistic], Some True))"

datatype stream_call = Base_initialize bool | Setup | Shutdown

record stream_state =
  setupPipeline :: bool
  isInitialized :: bool
  stream_calls :: "stream_call list"

definition stream_log :: "stream_call \<Rightarrow> stream_state \<Rightarrow> stream_state" where
  "stream_log c s = s\<lparr>stream_calls := stream_calls s @ [c]\<rparr>"

text \<open>
  \<open>inherited::initialize\<close> sees the configuration with \<open>setupPipeline\<close> cleared and keeps a pointer to it.
\<close>

definition stream_initialize :: "bool \<Rightarrow> bool \<Rightarrow> stream_state \<Rightarrow> bool \<times> stream_state" where
  "stream_initialize base_ok setup_ok s =
     (let setup_pipeline = setupPipeline s;
          s1 = s\<lparr>setupPipeline := False\<rparr>;
          s2 = stream_log (Base_initialize (setupPipeline s1)) s1
      in if \<not> base_ok then (False, s2\<lparr>setupPipeline := setup_pipeline\<rparr>)
         else
           let s3 = s2\<lparr>setupPipeline := setup_pipeline\<rparr>
           in if setupPipeline s3
              then (let s4 = stream_log Setup s3
                    in if \<not> setup_ok then (False, s4) else (True, s4\<lparr>isInitialized := True\<rparr>))
              else (True, s3\<lparr>isInitialized := True\<rparr>))"

definition stream_destroy :: "stream_state \<Rightarrow> stream_state" where
  "stream_destroy s = stream_log Shutdown s"

lemma stream_initialize_result:
  "stream_initialize base_ok setup_ok s =
     (base_ok \<and> (setupPipeline s \<longrightarrow> setup_ok),
      s\<lparr>isInitialized := (if base_ok \<and> (setupPipeline s \<longrightarrow> setup_ok) then True else isInitialized s),
        stream_calls := stream_calls s @ [Base_initialize False] @ (if base_ok \<and> setupPipeline s then [Setup] else [])\<rparr>)"
  by (cases s) (simp add: stream_initialize_def stream_log_def Let_def)

section \<open>Statistics\<close>

record statistic =
  timeStamp :: int
  dataMessages :: nat
  droppedFrames :: nat
  bytes :: rat

text \<open>The statistic module: absent, of another type, or there; what it answers, or what it leaves when it throws.\<close>

datatype statistic_module = No_module | Other_module | Statistic_module

datatype collected = Returned bool statistic | Thrown statistic

record collect_env =
  module_found :: statistic_module
  has_lock :: bool
  acquire_ok :: bool
  release_ok :: bool
  current_time :: int
  collected :: collected

record session =
  currentStatistic :: statistic
  lock_depth :: int

text \<open>
  \<open>result\<close> is that of the lock, -1 at first; the arguments after the environment are the session and the caller's data.
\<close>

definition stream_collect :: "collect_env \<Rightarrow> session \<Rightarrow> statistic \<Rightarrow> bool \<times> session \<times> statistic" where
  "stream_collect G s data_out =
     (if module_found G \<noteq> Statistic_module then (False, s, data_out)
      else
        let result = (if has_lock G then (if acquire_ok G then 0 else - 1 :: int) else - 1);
            s1 = (if has_lock G \<and> acquire_ok G then s\<lparr>lock_depth := lock_depth s + 1\<rparr> else s)
        in if has_lock G \<and> result = - 1 then (False, s1, data_out)
           else
             let s2 = s1\<lparr>currentStatistic := (currentStatistic s1)\<lparr>timeStamp := current_time G\<rparr>\<rparr>;
                 (result_2, data) = (case collected G of Returned r d \<Rightarrow> (r, d) | Thrown d \<Rightarrow> (False, d));
                 s3 = (if result = 0 then s2 else s2\<lparr>currentStatistic := data\<rparr>);
                 s4 = (if has_lock G \<and> release_ok G then s3\<lparr>lock_depth := lock_depth s3 - 1\<rparr> else s3)
             in (result_2, s4, data))"

section \<open>Session messages\<close>

text \<open>One block, with a reference to the data of the original.\<close>

definition session_message_duplicate :: "ace \<Rightarrow> 'a \<Rightarrow> heap \<Rightarrow> ui_fault + ('a option \<times> heap)" where
  "session_message_duplicate A m h =
     (case allocate A h of
        Inl f \<Rightarrow> Inl f
      | Inr (ok, h1) \<Rightarrow> Inr (if ok then Some m else None, h1))"

lemma session_message_copied:
  "case session_message_duplicate A m h of
     Inl f \<Rightarrow> f = Assertion_failed \<and> \<not> has_allocator A \<and> \<not> allocates A (attempts h)
   | Inr (None, h') \<Rightarrow> live h' = live h \<and> has_allocator A \<and> \<not> allocates A (attempts h)
   | Inr (Some d, h') \<Rightarrow> d = m \<and> live h' = live h + 1 \<and> allocates A (attempts h)"
  by (simp add: session_message_duplicate_def allocate_def Let_def)

section \<open>Properties\<close>

text \<open>C38: The session's statistic is kept exactly when it should not be: the test is on the result of the lock, so for a
  session with a lock only the time is updated, however the collection ends, and without a lock whatever the module has
  left is kept, even if it has failed or thrown.  The caller gets the module's answer, and the lock is given back.
\<close>

theorem collect_tests_the_lock:
  assumes "module_found G = Statistic_module" "has_lock G \<Longrightarrow> acquire_ok G \<and> release_ok G"
  shows "let (r, s', d) = stream_collect G s data_out in
    (r, d) = (case collected G of Returned r d \<Rightarrow> (r, d) | Thrown d \<Rightarrow> (False, d)) \<and>
    lock_depth s' = lock_depth s \<and>
    currentStatistic s' = (if has_lock G then (currentStatistic s)\<lparr>timeStamp := current_time G\<rparr> else d)"
  using assms by (auto simp: stream_collect_def Let_def split: collected.split prod.split)

definition demo_statistic :: "nat \<Rightarrow> statistic" where
  "demo_statistic n = \<lparr>timeStamp = 0, dataMessages = n, droppedFrames = 0, bytes = of_nat (14 * n)\<rparr>"

definition demo_collect_env :: collect_env where
  "demo_collect_env = \<lparr>module_found = Statistic_module, has_lock = True, acquire_ok = True, release_ok = True, current_time = 5,
     collected = Returned True (demo_statistic 7)\<rparr>"

theorem collect_tests_the_lock_witness:
  "let (r, s', d) = stream_collect demo_collect_env \<lparr>currentStatistic = demo_statistic 0, lock_depth = 0\<rparr> (demo_statistic 0) in
    (r, d) = (case collected demo_collect_env of Returned r d \<Rightarrow> (r, d) | Thrown d \<Rightarrow> (False, d)) \<and>
    lock_depth s' = lock_depth \<lparr>currentStatistic = demo_statistic 0, lock_depth = 0\<rparr> \<and>
    currentStatistic s' = (if has_lock demo_collect_env
      then (currentStatistic \<lparr>currentStatistic = demo_statistic 0, lock_depth = 0\<rparr>)\<lparr>timeStamp := current_time demo_collect_env\<rparr> else d)"
  by (rule collect_tests_the_lock) (simp_all add: demo_collect_env_def)

lemma collect_lock_released:
  assumes "release_ok G"
  shows "lock_depth (fst (snd (stream_collect G s data_out))) = lock_depth s"
  using assms by (auto simp: stream_collect_def Let_def split: collected.split prod.split)

end
