(* ===== verification/Msp430_Clock.thy ===== *)
theory Msp430_Clock
  imports Prelude
begin

text \<open>
  The millisecond clock of the MSP430 board (3rd_party/msp430/msp430_clock.c): the timer interrupt,
  the delay loop, the slow mode and the one callback.  \<open>unsigned long\<close> has 32 bits there and
  \<open>unsigned short\<close> 16.  The registers of the clock system and their bits belong to the vendor's
  header: an access is recorded under their names; the compare register TBCCR0, which the code
  computes with, is kept.
\<close>

section \<open>The clock\<close>

datatype clock_register = UCSCTL3 | UCSCTL4 | UCSCTL6 | UCSCTL8 | TBCTL | TBCCTL0 | P5SEL | SR

datatype register_access =
    Clear_bits clock_register "string list"
  | Set_bits clock_register "string list"
  | Assign clock_register "string list"
  | Set_mask clock_register u8
  | Init_FLL_Settle u32 u32
  | XT1_Start | XT2_Start

datatype clock_fault = Division_by_zero | Null_callback

text \<open>A callback is a number; \<open>called\<close> records the calls.  \<open>unhandled\<close> is the first fault.\<close>

record msp430_clock =
  timestamp :: u32
  mclk :: u32
  smclk :: u32
  aclk :: u32
  ms_per_interrupt :: u16
  enabled :: bool
  ticks_per_interrupt :: u16
  timer_remaining_ms :: u32
  timer_cb :: "nat option"
  TBCCR0 :: u16
  accesses :: "register_access list"
  called :: "nat list"
  clock_fault :: "clock_fault option"

definition initial_clock :: msp430_clock where
  "initial_clock = \<lparr>timestamp = 0, mclk = 0, smclk = 0, aclk = 0, ms_per_interrupt = 0, enabled = False,
     ticks_per_interrupt = 0, timer_remaining_ms = 0, timer_cb = None, TBCCR0 = 0, accesses = [], called = [],
     clock_fault = None\<rparr>"

definition access :: "register_access list \<Rightarrow> msp430_clock \<Rightarrow> msp430_clock" where
  "access rs c = c\<lparr>accesses := accesses c @ rs\<rparr>"

text \<open>\<open>a % b\<close> and \<open>a / b\<close> fault on 0.\<close>

definition checked_divisor :: "u32 \<Rightarrow> msp430_clock \<Rightarrow> msp430_clock" where
  "checked_divisor d c = (if d = 0 \<and> clock_fault c = None then c\<lparr>clock_fault := Some Division_by_zero\<rparr> else c)"

section \<open>The timer interrupt\<close>

text \<open>What the callback does to the clock is the argument \<open>f\<close>.\<close>

definition call_timer_cb :: "(nat \<Rightarrow> msp430_clock \<Rightarrow> msp430_clock) \<Rightarrow> msp430_clock \<Rightarrow> msp430_clock" where
  "call_timer_cb f c =
     (case timer_cb c of
        None \<Rightarrow> c\<lparr>clock_fault := Some Null_callback\<rparr>
      | Some g \<Rightarrow> f g (c\<lparr>called := called c @ [g]\<rparr>))"

definition TIMERB0_ISR :: "(nat \<Rightarrow> msp430_clock \<Rightarrow> msp430_clock) \<Rightarrow> msp430_clock \<Rightarrow> msp430_clock" where
  "TIMERB0_ISR f c =
     (let c1 = c\<lparr>TBCCR0 := TBCCR0 c + ticks_per_interrupt c\<rparr>;
          c2 = c1\<lparr>timestamp := timestamp c1 + ucast (ms_per_interrupt c1)\<rparr>
      in if timer_remaining_ms c2 \<noteq> 0
         then let c3 = c2\<lparr>timer_remaining_ms := timer_remaining_ms c2 - ucast (ms_per_interrupt c2)\<rparr>
              in if timer_remaining_ms c3 = 0 then call_timer_cb f c3 else c3
         else c2)"

section \<open>Control\<close>

text \<open>
  \<open>timer_remaining_ms += timer_remaining_ms % ms_per_interrupt\<close>, in the two places that change the
  length of the interrupt's period.
\<close>

definition pad_remaining :: "msp430_clock \<Rightarrow> msp430_clock" where
  "pad_remaining c =
     (let m = ucast (ms_per_interrupt c); c1 = checked_divisor m c
      in c1\<lparr>timer_remaining_ms := timer_remaining_ms c1 + timer_remaining_ms c1 mod m\<rparr>)"

definition msp430_clock_enable :: "msp430_clock \<Rightarrow> s32 \<times> msp430_clock" where
  "msp430_clock_enable c =
     (if enabled c then (0, c)
      else
        let c1 = access [Clear_bits UCSCTL4 [''SELA_7''], Set_bits UCSCTL4 [''SELA_2''],
                   Set_bits UCSCTL8 [''SMCLKREQEN'', ''MCLKREQEN'', ''ACLKREQEN''], Assign TBCCTL0 [''CCIE'']] c;
            c2 = c1\<lparr>aclk := 32768\<rparr>;
            c3 = c2\<lparr>ticks_per_interrupt := ucast (aclk c2 div 1000)\<rparr>;
            c4 = access [Assign TBCTL [''TBSSEL_1'', ''MC_2'', ''TBCLR'']] (c3\<lparr>TBCCR0 := ticks_per_interrupt c3\<rparr>);
            c5 = pad_remaining (c4\<lparr>ms_per_interrupt := 1\<rparr>)
        in (0, access [Set_bits SR [''GIE'']] (c5\<lparr>enabled := True\<rparr>)))"

definition msp430_clock_disable :: "msp430_clock \<Rightarrow> s32 \<times> msp430_clock" where
  "msp430_clock_disable c =
     (if \<not> enabled c then (0, c)
      else (0, (access [Clear_bits UCSCTL4 [''SELA_7''], Set_bits UCSCTL4 [''SELA_1''],
                  Clear_bits TBCTL [''MC_3''], Clear_bits TBCCTL0 [''CCIE''], Clear_bits TBCTL [''TBIFG''],
                  Clear_bits UCSCTL8 [''SMCLKREQEN'', ''MCLKREQEN'', ''ACLKREQEN'']] c)\<lparr>enabled := False\<rparr>))"

definition msp430_clock_init :: "u32 \<Rightarrow> u8 \<Rightarrow> msp430_clock \<Rightarrow> s32 \<times> msp430_clock" where
  "msp430_clock_init mclk_in xt c =
     (let xt1 = xt AND 0x01 \<noteq> 0; xt2 = xt AND 0x02 \<noteq> 0;
          c1 = access ((if xt1 then [Set_mask P5SEL 0x30] else []) @ (if xt2 then [Set_mask P5SEL 0x0C] else []) @
                 [Clear_bits UCSCTL3 [''SELREF_7''], Set_bits UCSCTL3 [''SELREF_2''],
                  Clear_bits UCSCTL4 [''SELA_7'', ''SELS_7'', ''SELM_7''], Set_bits UCSCTL4 [''SELA_2'', ''SELS_4'', ''SELM_4''],
                  Init_FLL_Settle (mclk_in div 1000) (mclk_in div 32768),
                  if xt1 then XT1_Start else Clear_bits UCSCTL6 [''XT1DRIVE_3''],
                  if xt2 then XT2_Start else Clear_bits UCSCTL6 [''XT2DRIVE_3'']]) c;
          c2 = snd (msp430_clock_enable (c1\<lparr>mclk := mclk_in, smclk := mclk_in, aclk := 32768\<rparr>))
      in (0, c2\<lparr>timestamp := 0, timer_cb := None, timer_remaining_ms := 0\<rparr>))"

definition msp430_get_mclk_freq :: "msp430_clock \<Rightarrow> s32 \<times> u32" where
  "msp430_get_mclk_freq c = (0, mclk c)"

definition msp430_get_smclk_freq :: "msp430_clock \<Rightarrow> s32 \<times> u32" where
  "msp430_get_smclk_freq c = (0, smclk c)"

definition msp430_get_aclk_freq :: "msp430_clock \<Rightarrow> s32 \<times> u32" where
  "msp430_get_aclk_freq c = (0, aclk c)"

text \<open>The argument says whether the pointer is set.\<close>

definition msp430_get_clock_ms :: "bool \<Rightarrow> msp430_clock \<Rightarrow> s32 \<times> u32 option" where
  "msp430_get_clock_ms count c = (if count then (0, Some (timestamp c)) else (1, None))"

text \<open>
  The delay sleeps until the next interrupt and looks at the clock again.  The fuel bounds the
  number of interrupts it waits for; \<open>None\<close>: it is still waiting.
\<close>

fun delay_loop :: "nat \<Rightarrow> (nat \<Rightarrow> msp430_clock \<Rightarrow> msp430_clock) \<Rightarrow> u32 \<Rightarrow> u32 \<Rightarrow> msp430_clock \<Rightarrow> msp430_clock option" where
  "delay_loop fuel f start_time num_ms c =
     (if timestamp c - start_time < num_ms
      then (case fuel of 0 \<Rightarrow> None | Suc n \<Rightarrow> delay_loop n f start_time num_ms (TIMERB0_ISR f c))
      else Some c)"

declare delay_loop.simps [simp del]

definition msp430_delay_ms :: "nat \<Rightarrow> (nat \<Rightarrow> msp430_clock \<Rightarrow> msp430_clock) \<Rightarrow> u32 \<Rightarrow> msp430_clock \<Rightarrow> (s32 \<times> msp430_clock) option" where
  "msp430_delay_ms fuel f num_ms c =
     (let start_time = timestamp c
      in if \<not> enabled c then Some (- 1, c)
         else map_option (Pair 0) (delay_loop fuel f start_time num_ms c))"

definition msp430_slow_timer :: "bool \<Rightarrow> msp430_clock \<Rightarrow> s32 \<times> msp430_clock" where
  "msp430_slow_timer slow c =
     (if slow then
        let c1 = c\<lparr>ticks_per_interrupt := 0xFFFF\<rparr>;
            c2 = checked_divisor (aclk c1) (c1\<lparr>TBCCR0 := ticks_per_interrupt c1\<rparr>);
            c3 = c2\<lparr>ms_per_interrupt := ucast (0xFFFF * 1000 div aclk c2)\<rparr>
        in (0, pad_remaining c3)
      else
        let c1 = c\<lparr>ticks_per_interrupt := ucast (aclk c div 1000)\<rparr>
        in (0, c1\<lparr>TBCCR0 := ticks_per_interrupt c1, ms_per_interrupt := 1\<rparr>))"

definition msp430_register_timer_cb :: "nat option \<Rightarrow> u32 \<Rightarrow> msp430_clock \<Rightarrow> s32 \<times> msp430_clock" where
  "msp430_register_timer_cb cb num_ms c =
     (if cb = None \<or> num_ms = 0 then (0, c\<lparr>timer_cb := None, timer_remaining_ms := 0\<rparr>)
      else
        let m = ucast (ms_per_interrupt c); c1 = checked_divisor m c
        in (0, c1\<lparr>timer_remaining_ms := num_ms + timer_remaining_ms c1 mod m, timer_cb := cb\<rparr>))"

section \<open>Counting interrupts\<close>

text \<open>
  The state after \<open>n\<close> interrupts of which none has called back: everything is linear in \<open>n\<close>, and
  the timer has run out exactly when \<open>n\<close> periods are the remaining time modulo \<open>2 ^ 32\<close>.
\<close>

definition elapsed :: "nat \<Rightarrow> msp430_clock \<Rightarrow> msp430_clock" where
  "elapsed n c = c\<lparr>TBCCR0 := TBCCR0 c + of_nat n * ticks_per_interrupt c,
     timestamp := timestamp c + of_nat n * ucast (ms_per_interrupt c),
     timer_remaining_ms := (if timer_remaining_ms c = 0 then 0 else timer_remaining_ms c - of_nat n * ucast (ms_per_interrupt c))\<rparr>"

definition runs_out :: "nat \<Rightarrow> msp430_clock \<Rightarrow> bool" where
  "runs_out n c \<longleftrightarrow> timer_remaining_ms c \<noteq> 0 \<and> of_nat n * ucast (ms_per_interrupt c) = timer_remaining_ms c"

lemma elapsed_0 [simp]: "elapsed 0 c = c"
  by (simp add: elapsed_def)

lemma ISR_elapsed:
  assumes "\<not> runs_out n c"
  shows "TIMERB0_ISR f (elapsed n c) = (if runs_out (Suc n) c then call_timer_cb f (elapsed (Suc n) c) else elapsed (Suc n) c)"
  using assms by (auto simp: TIMERB0_ISR_def elapsed_def runs_out_def Let_def algebra_simps)

lemma interrupts_before_timer:
  assumes "\<And>k. 0 < k \<Longrightarrow> k \<le> n \<Longrightarrow> \<not> runs_out k c"
  shows "(TIMERB0_ISR f ^^ n) c = elapsed n c"
  using assms
proof (induction n)
  case (Suc n)
  then have "(TIMERB0_ISR f ^^ n) c = elapsed n c" by simp
  moreover have "\<not> runs_out n c" using Suc.prems [of n] by (cases "n = 0") (auto simp: runs_out_def)
  ultimately show ?case using ISR_elapsed [of n c f] Suc.prems [of "Suc n"] by simp
qed simp

text \<open>The interrupt at which the timer first runs out calls back.\<close>

lemma interrupt_of_timer:
  assumes "0 < n" "runs_out n c" "\<And>k. 0 < k \<Longrightarrow> k < n \<Longrightarrow> \<not> runs_out k c"
  shows "(TIMERB0_ISR f ^^ n) c = call_timer_cb f (elapsed n c)"
proof -
  obtain m where m: "n = Suc m" using assms(1) by (cases n) auto
  have "(TIMERB0_ISR f ^^ m) c = elapsed m c" using assms(3) m by (intro interrupts_before_timer) simp
  moreover have "\<not> runs_out m c" using assms(3) [of m] m by (cases "m = 0") (auto simp: runs_out_def)
  ultimately show ?thesis using ISR_elapsed [of m c f] assms(2) m by simp
qed

lemma elapsed_sel [simp]:
  "called (elapsed n c) = called c" "clock_fault (elapsed n c) = clock_fault c" "timer_cb (elapsed n c) = timer_cb c"
  "ms_per_interrupt (elapsed n c) = ms_per_interrupt c" "ticks_per_interrupt (elapsed n c) = ticks_per_interrupt c"
  "timestamp (elapsed n c) = timestamp c + of_nat n * ucast (ms_per_interrupt c)"
  by (simp_all add: elapsed_def)

section \<open>The operations as a system\<close>

datatype clock_step =
    Clock_enable | Clock_disable | Clock_init u32 u8 | Slow_timer bool | Register_timer_cb "nat option" u32 | Timer_interrupt

fun clock_perform :: "(nat \<Rightarrow> msp430_clock \<Rightarrow> msp430_clock) \<Rightarrow> clock_step \<Rightarrow> msp430_clock \<Rightarrow> msp430_clock" where
  "clock_perform f Clock_enable c = snd (msp430_clock_enable c)"
| "clock_perform f Clock_disable c = snd (msp430_clock_disable c)"
| "clock_perform f (Clock_init m xt) c = snd (msp430_clock_init m xt c)"
| "clock_perform f (Slow_timer b) c = snd (msp430_slow_timer b c)"
| "clock_perform f (Register_timer_cb cb n) c = snd (msp430_register_timer_cb cb n c)"
| "clock_perform f Timer_interrupt c = (if enabled c then TIMERB0_ISR f c else c)"

inductive clock_reachable :: "(nat \<Rightarrow> msp430_clock \<Rightarrow> msp430_clock) \<Rightarrow> msp430_clock \<Rightarrow> msp430_clock \<Rightarrow> bool" for f c0 where
  clock_start: "clock_reachable f c0 c0"
| clock_step: "clock_reachable f c0 c \<Longrightarrow> clock_reachable f c0 (clock_perform f a c)"

text \<open>
  After an initialisation: the period is one of two, a timer that is counting has a callback, and
  nothing has gone wrong.
\<close>

definition clock_ok :: "msp430_clock \<Rightarrow> bool" where
  "clock_ok c \<longleftrightarrow> aclk c = 32768 \<and>
     (ms_per_interrupt c = 1 \<and> ticks_per_interrupt c = 32 \<or> ms_per_interrupt c = 1999 \<and> ticks_per_interrupt c = 0xFFFF) \<and>
     (timer_remaining_ms c \<noteq> 0 \<longrightarrow> timer_cb c \<noteq> None) \<and> clock_fault c = None"

lemmas clock_ok_defs = clock_ok_def msp430_clock_enable_def msp430_clock_disable_def msp430_clock_init_def
  msp430_slow_timer_def msp430_register_timer_cb_def pad_remaining_def checked_divisor_def access_def

lemma clock_ok_init: "clock_fault c = None \<Longrightarrow> enabled c = False \<Longrightarrow> clock_ok (snd (msp430_clock_init m xt c))"
  by (simp add: clock_ok_defs Let_def)

lemma clock_ok_ISR:
  assumes "clock_ok c" "\<And>g c. clock_ok c \<Longrightarrow> clock_ok (f g c)"
  shows "clock_ok (TIMERB0_ISR f c)"
proof (cases "timer_remaining_ms c \<noteq> 0 \<and> timer_remaining_ms c = ucast (ms_per_interrupt c)")
  case True
  then obtain g where g: "timer_cb c = Some g" using assms(1) by (auto simp: clock_ok_def)
  let ?c = "c\<lparr>TBCCR0 := TBCCR0 c + ticks_per_interrupt c, timestamp := timestamp c + ucast (ms_per_interrupt c),
    timer_remaining_ms := 0, called := called c @ [g]\<rparr>"
  have "clock_ok ?c" using assms(1) by (auto simp: clock_ok_def)
  moreover have "ucast (ms_per_interrupt c) \<noteq> (0 :: u32)" "timer_remaining_ms c = ucast (ms_per_interrupt c)" using True by auto
  ultimately show ?thesis using g assms(2) by (simp add: TIMERB0_ISR_def call_timer_cb_def Let_def)
next
  case False
  then show ?thesis using assms(1) by (auto simp: TIMERB0_ISR_def Let_def clock_ok_def)
qed

lemma clock_ok_perform:
  assumes "clock_ok c" "\<And>g c. clock_ok c \<Longrightarrow> clock_ok (f g c)"
  shows "clock_ok (clock_perform f a c)"
proof (cases a)
  case Timer_interrupt
  then show ?thesis using clock_ok_ISR [OF assms] assms(1) by simp
qed (use assms(1) in \<open>auto simp: clock_ok_defs Let_def\<close>)

lemma periods_word: "of_nat n * (ucast m :: u32) = of_nat (n * unat m)" for m :: u16
  by simp

lemma unat_periods:
  fixes m :: u16
  assumes "j * unat m < 2 ^ 32"
  shows "unat (of_nat j * ucast m :: u32) = j * unat m"
  using assms by (simp only: periods_word unat_of_nat) (simp add: take_bit_nat_eq_self)

section \<open>The delay\<close>

lemma delay_loop_rounds:
  assumes m_def: "m = ms_per_interrupt c"
  assumes "timer_remaining_ms c = 0" "m \<noteq> 0" "unat num_ms + unat m \<le> 2 ^ 32"
    and "n = (unat num_ms + unat m - 1) div unat m" "j \<le> n"
  shows "delay_loop fuel f (timestamp c) num_ms (elapsed j c) = (if n - j \<le> fuel then Some (elapsed n c) else None)"
  using assms(6)
proof (induction fuel arbitrary: j)
  have m0: "0 < unat m" using assms(3) by (simp add: unat_gt_0)
  have nm: "n * unat m < 2 ^ 32"
  proof -
    have "n * unat m \<le> unat num_ms + unat m - 1" unfolding assms(5) by (rule div_times_less_eq_dividend)
    then show ?thesis using assms(4) m0 by linarith
  qed
  have cond: "timestamp (elapsed j c) - timestamp c < num_ms \<longleftrightarrow> j < n" if "j \<le> n" for j
  proof -
    have "j * unat m < 2 ^ 32" using that nm by (meson le_less_trans mult_le_mono1)
    then have u: "unat (of_nat j * ucast m :: u32) = j * unat m" by (rule unat_periods)
    have "timestamp (elapsed j c) - timestamp c = of_nat j * ucast m" by (simp add: m_def)
    then have "timestamp (elapsed j c) - timestamp c < num_ms \<longleftrightarrow> j * unat m < unat num_ms"
      by (simp only: word_less_nat_alt u)
    also have "\<dots> \<longleftrightarrow> j < n" unfolding assms(5) using m0
      by (auto simp: less_eq_div_iff_mult_less_eq Suc_le_eq [symmetric])
    finally show ?thesis .
  qed
  have isr: "TIMERB0_ISR f (elapsed j c) = elapsed (Suc j) c" for j
    using ISR_elapsed [of j c f] assms(2) by (simp add: runs_out_def)
  { case 0
    then show ?case using cond [of j] by (subst delay_loop.simps) auto
  next
    case (Suc fuel)
    then show ?case using cond [of j] Suc.IH [of "Suc j"] by (subst delay_loop.simps) (auto simp: isr) }
qed

section \<open>Properties\<close>



text \<open>C27: A timer of whole periods fires on time. When a callback is registered for \<open>k\<close> periods of the clock (with no time remaining from before), the next \<open>k - 1\<close> interrupts do not call it, and the \<open>k\<close>-th calls it, once, with the clock advanced by exactly the time asked for.\<close>

theorem timer_fires_on_time:
  assumes "0 < k" "ms_per_interrupt c \<noteq> 0" "k * unat (ms_per_interrupt c) < 2 ^ 32" "timer_remaining_ms c = 0" "clock_fault c = None"
  shows "let num = of_nat k * ucast (ms_per_interrupt c); c1 = snd (msp430_register_timer_cb (Some g) num c)
     in (\<forall>j<k. called ((TIMERB0_ISR f ^^ j) c1) = called c) \<and>
        (TIMERB0_ISR f ^^ k) c1 = f g (c1\<lparr>TBCCR0 := TBCCR0 c + of_nat k * ticks_per_interrupt c, timestamp := timestamp c + num,
          timer_remaining_ms := 0, called := called c @ [g]\<rparr>)"
proof -
  let ?m = "ms_per_interrupt c" and ?num = "of_nat k * ucast (ms_per_interrupt c) :: u32"
  let ?c1 = "snd (msp430_register_timer_cb (Some g) ?num c)"
  have m0: "unat ?m \<noteq> 0" using assms(2) by (simp add: unat_eq_0)
  have u: "unat (of_nat j * ucast ?m :: u32) = j * unat ?m" if "j \<le> k" for j
    using that assms(3) by (intro unat_periods) (meson le_less_trans mult_le_mono1)
  have num0: "?num \<noteq> 0" using u [of k] assms(1) m0 by (auto simp flip: unat_eq_0)
  have mz: "ucast ?m \<noteq> (0 :: u32)" using num0 by auto
  have c1: "?c1 = c\<lparr>timer_remaining_ms := ?num, timer_cb := Some g\<rparr>"
    using assms(4) num0 mz by (simp add: msp430_register_timer_cb_def checked_divisor_def Let_def)
  have out: "runs_out j ?c1 \<longleftrightarrow> j = k" if "j \<le> k" for j
  proof -
    have "runs_out j ?c1 \<longleftrightarrow> unat (of_nat j * ucast ?m :: u32) = unat (of_nat k * ucast ?m :: u32)"
      using num0 by (simp add: runs_out_def c1 word_eq_iff_unsigned)
    then show ?thesis using u [OF that] u [of k] m0 by simp
  qed
  have before: "(TIMERB0_ISR f ^^ j) ?c1 = elapsed j ?c1" if "j < k" for j
    using that out by (intro interrupts_before_timer) simp
  have "(TIMERB0_ISR f ^^ k) ?c1 = call_timer_cb f (elapsed k ?c1)"
    using assms(1) out by (intro interrupt_of_timer) auto
  then show ?thesis using before by (simp add: Let_def c1 call_timer_cb_def elapsed_def)
qed

theorem timer_fires_on_time_witness:
  "let c = snd (msp430_clock_init 20000000 0 initial_clock)
   in called ((TIMERB0_ISR (\<lambda>g c. c) ^^ 5) (snd (msp430_register_timer_cb (Some 7) 5 c))) = [7]"
  using timer_fires_on_time [of 5 "snd (msp430_clock_init 20000000 0 initial_clock)" 7 "\<lambda>g c. c"]
  by (simp add: clock_ok_defs initial_clock_def Let_def)

text \<open>A timer in slow mode is late by years. The comment asks for a count that is divisible by the period, but nothing rounds it: with the clock slowed down, a callback registered after 1000 ms wraps below zero at the first interrupt and is called by none of the first 191221655 interrupts, of two seconds each; the next one calls it.\<close>

theorem slow_timer_late:
  assumes "ms_per_interrupt c = 1999" "timer_remaining_ms c = 0" "clock_fault c = None"
  shows "let c1 = snd (msp430_register_timer_cb (Some g) 1000 c)
     in timer_remaining_ms (TIMERB0_ISR f c1) = - 999 \<and>
        (\<forall>j<191221656. called ((TIMERB0_ISR f ^^ j) c1) = called c) \<and>
        (\<exists>c2. (TIMERB0_ISR f ^^ 191221656) c1 = f g (c2\<lparr>called := called c @ [g]\<rparr>))"
proof -
  let ?c1 = "snd (msp430_register_timer_cb (Some g) 1000 c)"
  have c1: "?c1 = c\<lparr>timer_remaining_ms := 1000, timer_cb := Some g\<rparr>"
    using assms by (simp add: msp430_register_timer_cb_def checked_divisor_def Let_def)
  have out: "runs_out j ?c1 \<longleftrightarrow> j = 191221656" if "j < 2 ^ 32" for j
  proof
    assume "runs_out j ?c1"
    then have "of_nat j * 1999 = (1000 :: u32)" by (simp add: runs_out_def c1 assms(1))
    then have "of_nat j * 1999 * 382443311 = (1000 * 382443311 :: u32)" by simp
    moreover have "(1999 * 382443311 :: u32) = 1" "(1000 * 382443311 :: u32) = 191221656" by simp_all
    ultimately have "of_nat j = (191221656 :: u32)" by (simp only: mult.assoc mult_1_right)
    then have "unat (of_nat j :: u32) = 191221656" by simp
    then show "j = 191221656" using that by (simp add: unat_of_nat take_bit_nat_eq_self)
  qed (simp add: runs_out_def c1 assms(1))
  have before: "(TIMERB0_ISR f ^^ j) ?c1 = elapsed j ?c1" if "j < 191221656" for j
    using that out by (intro interrupts_before_timer) simp
  have "(TIMERB0_ISR f ^^ 191221656) ?c1 = call_timer_cb f (elapsed 191221656 ?c1)"
    using out by (intro interrupt_of_timer) auto
  moreover have "timer_remaining_ms (TIMERB0_ISR f ?c1) = - 999" by (simp add: TIMERB0_ISR_def c1 assms(1) Let_def)
  ultimately show ?thesis using before by (auto simp: Let_def c1 call_timer_cb_def elapsed_def assms(1))
qed

theorem slow_timer_late_witness:
  "let c = snd (msp430_slow_timer True (snd (msp430_clock_init 20000000 0 initial_clock)))
   in called ((TIMERB0_ISR (\<lambda>g c. c) ^^ 1000) (snd (msp430_register_timer_cb (Some 7) 1000 c))) = []"
  using slow_timer_late [of "snd (msp430_slow_timer True (snd (msp430_clock_init 20000000 0 initial_clock)))" 7 "\<lambda>g c. c"]
  by (simp add: clock_ok_defs initial_clock_def Let_def)

text \<open>C26: A delay waits for exactly the time asked for, across the wrap of the clock. With the clock enabled and no timer counting, a delay returns 0 after exactly as many interrupts as there are periods in it, rounded up, whatever the time on the clock, as long as the last period does not pass 2^32 ms; with one interrupt less it is still waiting. On a disabled clock it returns -1 at once.\<close>

theorem delay_exact:
  assumes "enabled c" "timer_remaining_ms c = 0" "ms_per_interrupt c \<noteq> 0" "unat num_ms + unat (ms_per_interrupt c) \<le> 2 ^ 32"
  shows "let n = (unat num_ms + unat (ms_per_interrupt c) - 1) div unat (ms_per_interrupt c)
     in (n \<le> fuel \<longrightarrow> msp430_delay_ms fuel f num_ms c = Some (0, (TIMERB0_ISR f ^^ n) c)) \<and>
        (fuel < n \<longrightarrow> msp430_delay_ms fuel f num_ms c = None)"
proof -
  let ?n = "(unat num_ms + unat (ms_per_interrupt c) - 1) div unat (ms_per_interrupt c)"
  have "(TIMERB0_ISR f ^^ ?n) c = elapsed ?n c" using assms(2) by (intro interrupts_before_timer) (simp add: runs_out_def)
  with delay_loop_rounds [OF refl assms(2-4) refl, of 0 fuel f] assms(1) show ?thesis
    by (simp add: msp430_delay_ms_def Let_def)
qed

text \<open>The clock of the witness is about to wrap.\<close>

theorem delay_exact_witness:
  "let c = (snd (msp430_clock_init 20000000 0 initial_clock))\<lparr>timestamp := - 2\<rparr>
   in map_option fst (msp430_delay_ms 5 (\<lambda>g c. c) 5 c) = Some 0 \<and> msp430_delay_ms 4 (\<lambda>g c. c) 5 c = None"
  using delay_exact [of "(snd (msp430_clock_init 20000000 0 initial_clock))\<lparr>timestamp := - 2\<rparr>" 5 5 "\<lambda>g c. c"]
    delay_exact [of "(snd (msp430_clock_init 20000000 0 initial_clock))\<lparr>timestamp := - 2\<rparr>" 5 4 "\<lambda>g c. c"]
  by (simp add: clock_ok_defs initial_clock_def Let_def)

end
