(* ===== verification/Msp430_I2c.thy ===== *)
theory Msp430_I2c
  imports Msp430_Clock
begin

text \<open>
  The I2C master of the MSP430 board (3rd_party/msp430/msp430_i2c.c): transfers started by the
  main program and carried out by the interrupt handler, with a timeout kept by the millisecond
  clock.  The accesses to the peripheral are recorded in the order they are made.  Interrupts
  arrive while the main program sleeps; the wait for the start condition inside the handler is
  taken to end.
\<close>

section \<open>The driver's data\<close>

datatype i2c_state = STATE_WAITING | STATE_READING | STATE_WRITING

datatype bus_access =
    Reset_on | Reset_off | I2C_MODE | GPIO_MODE | SET_SCL | CLEAR_SCL | SET_SDA | CLEAR_SDA
  | Master_mode | Submaster_clock | Set_BR u8 u8 | Enable_interrupts
  | Set_slave_address u8 | Start | Stop | Send u8 | Start_receiving | Clear_rx_flag | Clear_tx_flag

datatype i2c_fault = Null_data | Data_out_of_bounds

text \<open>
  The data pointer is the buffer it points into, if any, and the position in it; for a read the
  buffer is the caller's.
\<close>

record msp430_i2c =
  state :: i2c_state
  slave_reg :: u8
  slave_reg_written :: bool
  buffer :: "u8 list option"
  position :: nat
  len :: u16
  i2c_enabled :: bool
  bus :: "bus_access list"
  i2c_fault :: "i2c_fault option"

record board =
  clock :: msp430_clock
  i2c :: msp430_i2c

definition on_bus :: "bus_access list \<Rightarrow> msp430_i2c \<Rightarrow> msp430_i2c" where
  "on_bus xs p = p\<lparr>bus := bus p @ xs\<rparr>"

section \<open>Enabling and disabling\<close>

definition msp430_i2c_enable :: "msp430_clock \<Rightarrow> msp430_i2c \<Rightarrow> s32 \<times> msp430_i2c" where
  "msp430_i2c_enable c p =
     (if i2c_enabled p then (0, p)
      else
        let br = ucast (snd (msp430_get_smclk_freq c) div 400000) :: u16;
            p1 = on_bus [Reset_on, I2C_MODE, Master_mode, Submaster_clock,
                   Set_BR (ucast (br AND 0xFF)) (ucast (drop_bit 8 br AND 0xFF)), Reset_off, Enable_interrupts] p
        in (0, p1\<lparr>state := STATE_WAITING, slave_reg := 0, slave_reg_written := False, buffer := None, position := 0,
                 len := 0, i2c_enabled := True\<rparr>))"

definition msp430_i2c_disable :: "msp430_i2c \<Rightarrow> s32 \<times> msp430_i2c" where
  "msp430_i2c_disable p =
     (if \<not> i2c_enabled p then (0, p)
      else (0, (on_bus [Reset_on, GPIO_MODE, SET_SCL, SET_SDA] p)\<lparr>i2c_enabled := False\<rparr>))"

section \<open>The interrupt handler\<close>

text \<open>\<open>*data++ = b\<close>, and \<open>data[0]\<close> with the increment.\<close>

definition store_data :: "u8 \<Rightarrow> msp430_i2c \<Rightarrow> msp430_i2c" where
  "store_data b p =
     (case buffer p of
        None \<Rightarrow> p\<lparr>i2c_fault := Some Null_data\<rparr>
      | Some bs \<Rightarrow>
          if position p < length bs then p\<lparr>buffer := Some (bs[position p := b]), position := position p + 1\<rparr>
          else p\<lparr>i2c_fault := Some Data_out_of_bounds\<rparr>)"

definition load_data :: "msp430_i2c \<Rightarrow> u8 \<times> msp430_i2c" where
  "load_data p =
     (case buffer p of
        None \<Rightarrow> (0, p\<lparr>i2c_fault := Some Null_data\<rparr>)
      | Some bs \<Rightarrow>
          if position p < length bs then (bs ! position p, p\<lparr>position := position p + 1\<rparr>)
          else (0, p\<lparr>i2c_fault := Some Data_out_of_bounds\<rparr>))"

definition receive_interrupt :: "u8 \<Rightarrow> msp430_i2c \<Rightarrow> msp430_i2c" where
  "receive_interrupt rxbuf p =
     (let p1 = on_bus [Clear_rx_flag] p;
          p2 = p1\<lparr>len := len p1 - 1\<rparr>;
          p3 = (if len p2 \<noteq> 0 then (if len p2 = 1 then on_bus [Stop] p2 else p2) else p2\<lparr>state := STATE_WAITING\<rparr>)
      in store_data rxbuf p3)"

definition transmit_interrupt :: "msp430_i2c \<Rightarrow> msp430_i2c" where
  "transmit_interrupt p =
     (let p1 = on_bus [Clear_tx_flag] p
      in case state p1 of
           STATE_WRITING \<Rightarrow>
             if \<not> slave_reg_written p1 then on_bus [Send (slave_reg p1)] (p1\<lparr>slave_reg_written := True\<rparr>)
             else if len p1 \<noteq> 0 then
               let (next, p2) = load_data p1 in on_bus [Send next] (p2\<lparr>len := len p2 - 1\<rparr>)
             else on_bus [Stop] (p1\<lparr>state := STATE_WAITING\<rparr>)
         | STATE_READING \<Rightarrow>
             if \<not> slave_reg_written p1 then on_bus [Send (slave_reg p1)] (p1\<lparr>slave_reg_written := True\<rparr>)
             else
               let p2 = on_bus [Start_receiving] p1
               in if len p2 = 1 then on_bus [Stop] p2 else p2
         | STATE_WAITING \<Rightarrow> p1)"

text \<open>The argument is the value of the interrupt vector register, with the byte in the receive buffer.\<close>

definition I2C_ISR :: "nat \<Rightarrow> u8 \<Rightarrow> msp430_i2c \<Rightarrow> msp430_i2c" where
  "I2C_ISR iv rxbuf p =
     (if iv = 4 then on_bus [Stop] (p\<lparr>state := STATE_WAITING\<rparr>)
      else if iv = 10 then receive_interrupt rxbuf p
      else if iv = 12 then transmit_interrupt p
      else p)"

section \<open>Transfers\<close>

text \<open>What ends the sleep of the main program.\<close>

datatype wake = I2c_interrupt nat u8 | Timer_tick

type_synonym callbacks = "nat \<Rightarrow> msp430_clock \<Rightarrow> msp430_clock"

fun run_wake :: "callbacks \<Rightarrow> wake \<Rightarrow> board \<Rightarrow> board" where
  "run_wake f (I2c_interrupt iv rxbuf) b = b\<lparr>i2c := I2C_ISR iv rxbuf (i2c b)\<rparr>"
| "run_wake f Timer_tick b = b\<lparr>clock := TIMERB0_ISR f (clock b)\<rparr>"

abbreviation (input) I2C_TIMEOUT_MS :: u32 where "I2C_TIMEOUT_MS \<equiv> 2500"

text \<open>
  The path of the timeout; its two delays wait for the timer only, since the peripheral is in
  reset by then.
\<close>

definition i2c_recover :: "nat \<Rightarrow> callbacks \<Rightarrow> board \<Rightarrow> (s32 \<times> board) option" where
  "i2c_recover fuel f b =
     (let p1 = (on_bus [Stop] (i2c b))\<lparr>state := STATE_WAITING\<rparr>;
          p2 = snd (msp430_i2c_disable p1)
      in case msp430_delay_ms fuel f 1 (clock b) of
           None \<Rightarrow> None
         | Some (_, c1) \<Rightarrow>
             (case msp430_delay_ms fuel f 1 c1 of
                None \<Rightarrow> None
              | Some (_, c2) \<Rightarrow>
                  Some (- 1, \<lparr>clock = c2,
                    i2c = snd (msp430_i2c_enable c2 (on_bus [CLEAR_SCL, CLEAR_SDA, SET_SCL, SET_SDA] p2))\<rparr>)))"

text \<open>
  The loop sleeps, looks at the clock, and gives up when the time is over; \<open>None\<close>: it still sleeps
  when the interrupts are used up.  The interrupts left over are part of the result.
\<close>

fun wait_transfer :: "nat \<Rightarrow> callbacks \<Rightarrow> u32 \<Rightarrow> wake list \<Rightarrow> board \<Rightarrow> (s32 \<times> board \<times> wake list) option" where
  "wait_transfer fuel f start [] b = (if state (i2c b) \<noteq> STATE_WAITING then None else Some (0, b, []))"
| "wait_transfer fuel f start (w # ws) b =
     (if state (i2c b) \<noteq> STATE_WAITING
      then
        let b1 = run_wake f w b; cur = timestamp (clock b1)
        in if start + I2C_TIMEOUT_MS \<le> cur
           then map_option (\<lambda>(r, b2). (r, b2, ws)) (i2c_recover fuel f b1)
           else wait_transfer fuel f start ws b1
      else Some (0, b, w # ws))"

definition i2c_transfer ::
  "i2c_state \<Rightarrow> u8 \<Rightarrow> u8 \<Rightarrow> u8 \<Rightarrow> u8 list \<Rightarrow> nat \<Rightarrow> callbacks \<Rightarrow> wake list \<Rightarrow> board \<Rightarrow> (s32 \<times> board \<times> wake list) option" where
  "i2c_transfer st slave_addr reg_addr length_in data_in fuel f ws b =
     (if \<not> i2c_enabled (i2c b) then Some (- 1, b, ws)
      else if length_in = 0 then Some (0, b, ws)
      else
        let p1 = (i2c b)\<lparr>state := st, slave_reg := reg_addr, slave_reg_written := False, buffer := Some data_in,
                   position := 0, len := ucast length_in\<rparr>;
            p2 = on_bus [Set_slave_address slave_addr, Start] p1
        in wait_transfer fuel f (timestamp (clock b)) ws (b\<lparr>i2c := p2\<rparr>))"

definition msp430_i2c_write ::
  "u8 \<Rightarrow> u8 \<Rightarrow> u8 \<Rightarrow> u8 list \<Rightarrow> nat \<Rightarrow> callbacks \<Rightarrow> wake list \<Rightarrow> board \<Rightarrow> (s32 \<times> board \<times> wake list) option" where
  "msp430_i2c_write = i2c_transfer STATE_WRITING"

definition msp430_i2c_read ::
  "u8 \<Rightarrow> u8 \<Rightarrow> u8 \<Rightarrow> u8 list \<Rightarrow> nat \<Rightarrow> callbacks \<Rightarrow> wake list \<Rightarrow> board \<Rightarrow> (s32 \<times> board \<times> wake list) option" where
  "msp430_i2c_read = i2c_transfer STATE_READING"

section \<open>The transfer apart from the clock\<close>

text \<open>What the peripheral's interrupts alone make of a transfer.\<close>

fun i2c_run :: "(nat \<times> u8) list \<Rightarrow> msp430_i2c \<Rightarrow> msp430_i2c option" where
  "i2c_run [] p = (if state p \<noteq> STATE_WAITING then None else Some p)"
| "i2c_run ((iv, rxbuf) # es) p = (if state p \<noteq> STATE_WAITING then i2c_run es (I2C_ISR iv rxbuf p) else Some p)"

fun i2c_events :: "wake list \<Rightarrow> (nat \<times> u8) list" where
  "i2c_events [] = []"
| "i2c_events (I2c_interrupt iv rxbuf # ws) = (iv, rxbuf) # i2c_events ws"
| "i2c_events (Timer_tick # ws) = i2c_events ws"

fun ticks :: "wake list \<Rightarrow> nat" where
  "ticks [] = 0"
| "ticks (I2c_interrupt iv rxbuf # ws) = ticks ws"
| "ticks (Timer_tick # ws) = Suc (ticks ws)"

text \<open>Callbacks that leave the time alone.\<close>

definition keeps_time :: "callbacks \<Rightarrow> bool" where
  "keeps_time f \<longleftrightarrow> (\<forall>g c. timestamp (f g c) = timestamp c \<and> ms_per_interrupt (f g c) = ms_per_interrupt c \<and> enabled (f g c) = enabled c)"

lemma unat_ucast32: "unat (ucast m :: u32) = unat m" for m :: u16
proof -
  have "unat m < 2 ^ 16" using unsigned_less [of m] by simp
  then show ?thesis using unat_periods [of 1 m] by simp
qed

lemma unat_ucast16: "unat (ucast b :: u16) = unat b" for b :: u8
proof -
  have "unat b < 2 ^ 8" using unsigned_less [of b] by simp
  then show ?thesis by (simp add: unsigned_ucast_eq take_bit_nat_eq_self)
qed

lemma tick_time:
  assumes "keeps_time f"
  shows "timestamp (TIMERB0_ISR f c) = timestamp c + ucast (ms_per_interrupt c)"
    "ms_per_interrupt (TIMERB0_ISR f c) = ms_per_interrupt c" "enabled (TIMERB0_ISR f c) = enabled c"
  using assms by (auto simp: TIMERB0_ISR_def call_timer_cb_def keeps_time_def Let_def split: option.splits)

lemma i2c_run_waiting [simp]: "state p = STATE_WAITING \<Longrightarrow> i2c_run es p = Some p"
  by (cases es) auto

lemma wait_transfer_waiting [simp]: "state (i2c b) = STATE_WAITING \<Longrightarrow> wait_transfer fuel f start ws b = Some (0, b, ws)"
  by (cases ws) simp_all

lemma wait_transfer_run:
  assumes f: "keeps_time f" and lim: "unat start + 2500 < 2 ^ 32"
    and t: "unat (timestamp (clock b)) + ticks ws * unat (ms_per_interrupt (clock b)) < unat start + 2500"
    and r: "i2c_run (i2c_events ws) (i2c b) = Some p"
  shows "\<exists>c ws'. wait_transfer fuel f start ws b = Some (0, \<lparr>clock = c, i2c = p\<rparr>, ws')"
  using t r
proof (induction ws arbitrary: b)
  case Nil
  then show ?case by (cases b) (auto split: if_splits)
next
  case (Cons w ws)
  show ?case
  proof (cases "state (i2c b) = STATE_WAITING")
    case True
    then show ?thesis using Cons.prems(2) by (cases b) simp
  next
    case run: False
    have in_time: "\<not> start + 2500 \<le> x" if "unat x < unat start + 2500" for x :: u32
      using that lim by (simp add: word_le_nat_alt unat_word_ariths)
    show ?thesis
    proof (cases w)
      case (I2c_interrupt iv rxbuf)
      have "unat (timestamp (clock b)) < unat start + 2500" using Cons.prems(1) by linarith
      then show ?thesis using Cons.IH [of "run_wake f w b"] Cons.prems run in_time I2c_interrupt by simp
    next
      case Timer_tick
      let ?m = "ms_per_interrupt (clock b)"
      have le: "unat (timestamp (clock b)) + unat ?m + ticks ws * unat ?m < unat start + 2500"
        using Cons.prems(1) Timer_tick by simp
      have m: "unat (ucast ?m :: u32) = unat ?m" by (rule unat_ucast32)
      have u: "unat (timestamp (clock b) + ucast ?m) = unat (timestamp (clock b)) + unat ?m"
        using le lim by (subst unat_word_ariths) (simp add: m)
      show ?thesis
        using Cons.IH [of "run_wake f w b"] Cons.prems(2) run in_time [of "timestamp (clock b) + ucast ?m"] le u Timer_tick
        by (simp add: tick_time [OF f])
    qed
  qed
qed

section \<open>What a transfer puts on the bus\<close>

lemma on_bus_sel [simp]:
  "state (on_bus xs p) = state p" "slave_reg (on_bus xs p) = slave_reg p" "slave_reg_written (on_bus xs p) = slave_reg_written p"
  "buffer (on_bus xs p) = buffer p" "position (on_bus xs p) = position p" "len (on_bus xs p) = len p"
  "i2c_enabled (on_bus xs p) = i2c_enabled p" "i2c_fault (on_bus xs p) = i2c_fault p" "bus (on_bus xs p) = bus p @ xs"
  by (simp_all add: on_bus_def)

text \<open>The bytes a write still has to send.\<close>

definition to_send :: "msp430_i2c \<Rightarrow> u8 list" where
  "to_send p = (if slave_reg_written p then [] else [slave_reg p]) @ take (unat (len p)) (drop (position p) (the (buffer p)))"

definition sends :: "u8 list \<Rightarrow> bus_access list" where
  "sends bs = concat (map (\<lambda>b. [Clear_tx_flag, Send b]) bs)"

lemma sends_simps [simp]: "sends [] = []" "sends (b # bs) = Clear_tx_flag # Send b # sends bs"
  by (simp_all add: sends_def)

definition writing :: "msp430_i2c \<Rightarrow> bool" where
  "writing p \<longleftrightarrow> state p = STATE_WRITING \<and> buffer p \<noteq> None \<and> position p + unat (len p) \<le> length (the (buffer p))"

lemma unat_minus_one: "x \<noteq> 0 \<Longrightarrow> unat (x - 1) = unat x - 1" for x :: u16
  by (simp add: unat_sub_if_size unat_gt_0 Suc_le_eq)

lemma transmit_writing:
  assumes "writing p"
  shows "(case to_send p of
      [] \<Rightarrow> state (transmit_interrupt p) = STATE_WAITING \<and> bus (transmit_interrupt p) = bus p @ [Clear_tx_flag, Stop]
    | b # bs \<Rightarrow> writing (transmit_interrupt p) \<and> to_send (transmit_interrupt p) = bs \<and>
        bus (transmit_interrupt p) = bus p @ [Clear_tx_flag, Send b]) \<and>
    i2c_fault (transmit_interrupt p) = i2c_fault p \<and> i2c_enabled (transmit_interrupt p) = i2c_enabled p \<and>
    buffer (transmit_interrupt p) = buffer p"
proof -
  obtain bs where bs: "buffer p = Some bs" using assms by (auto simp: writing_def)
  consider "\<not> slave_reg_written p" | "slave_reg_written p" "len p = 0" | "slave_reg_written p" "len p \<noteq> 0" by blast
  then show ?thesis
  proof cases
    case 3
    then have l: "position p < length bs" "unat (len p) = Suc (unat (len p - 1))"
      using assms bs by (auto simp: writing_def unat_minus_one unat_gt_0 Suc_diff_1 simp flip: unat_gt_0)
    then have "drop (position p) bs = bs ! position p # drop (Suc (position p)) bs" by (simp add: Cons_nth_drop_Suc)
    then show ?thesis using 3 l assms bs
      by (simp add: transmit_interrupt_def Let_def writing_def to_send_def load_data_def)
  qed (use assms bs in \<open>auto simp: transmit_interrupt_def Let_def writing_def to_send_def\<close>)
qed

lemma write_run:
  assumes "writing p" "length (to_send p) < length xs"
  shows "\<exists>p'. i2c_run (map (Pair 12) xs) p = Some p' \<and> state p' = STATE_WAITING \<and>
     bus p' = bus p @ sends (to_send p) @ [Clear_tx_flag, Stop] \<and> i2c_fault p' = i2c_fault p \<and>
     i2c_enabled p' = i2c_enabled p \<and> buffer p' = buffer p"
  using assms
proof (induction xs arbitrary: p)
  case (Cons x xs)
  have w: "state p \<noteq> STATE_WAITING" using Cons.prems(1) by (simp add: writing_def)
  note t = transmit_writing [OF Cons.prems(1)]
  show ?case
  proof (cases "to_send p")
    case Nil
    then show ?thesis using w t by (simp add: I2C_ISR_def)
  next
    case (Cons b bs)
    then have "writing (transmit_interrupt p)" "length (to_send (transmit_interrupt p)) < length xs"
      using t Cons.prems(2) by simp_all
    from Cons.IH [OF this] show ?thesis using w t Cons by (auto simp: I2C_ISR_def)
  qed
qed simp

text \<open>The accesses of a read that still expects \<open>n\<close> bytes.\<close>

primrec receives :: "nat \<Rightarrow> bus_access list" where
  "receives 0 = []"
| "receives (Suc n) = Clear_rx_flag # (if n = 1 then [Stop] else []) @ receives n"

lemma read_run:
  assumes "state p = STATE_READING" "buffer p = Some bs" "length rs = unat (len p)" "rs \<noteq> []" "position p + unat (len p) \<le> length bs"
  shows "\<exists>p'. i2c_run (map (Pair 10) rs @ es) p = Some p' \<and> state p' = STATE_WAITING \<and>
     bus p' = bus p @ receives (length rs) \<and> i2c_fault p' = i2c_fault p \<and> i2c_enabled p' = i2c_enabled p \<and>
     buffer p' = Some (take (position p) bs @ rs @ drop (position p + length rs) bs)"
  using assms
proof (induction rs arbitrary: p bs)
  case (Cons r rs)
  let ?p = "receive_interrupt r p"
  have ln: "len p \<noteq> 0" using Cons.prems(3) by auto
  have l: "unat (len p - 1) = length rs" using Cons.prems(3) unat_minus_one [OF ln] by simp
  have l0: "len p - 1 = 0 \<longleftrightarrow> rs = []" using l by (metis length_0_conv unat_eq_0)
  have l1: "len p - 1 = 1 \<longleftrightarrow> length rs = 1" by (metis l unat_1 unsigned_word_eqI)
  have pos: "position p < length bs" using Cons.prems by simp
  have p: "state ?p = (if rs = [] then STATE_WAITING else STATE_READING)" "buffer ?p = Some (bs[position p := r])"
      "len ?p = len p - 1" "position ?p = Suc (position p)" "i2c_fault ?p = i2c_fault p" "i2c_enabled ?p = i2c_enabled p"
      "bus ?p = bus p @ Clear_rx_flag # (if length rs = 1 then [Stop] else [])"
    using Cons.prems pos l0 l1 by (auto simp: receive_interrupt_def store_data_def Let_def)
  have upd: "take (Suc (position p)) (bs[position p := r]) = take (position p) bs @ [r]"
    using pos by (simp add: take_Suc_conv_app_nth)
  show ?case
  proof (cases "rs = []")
    case True
    then show ?thesis using Cons.prems(1) p pos
      by (simp add: I2C_ISR_def upd_conv_take_nth_drop)
  next
    case False
    have "position ?p + unat (len ?p) \<le> length (bs[position p := r])" using Cons.prems p l by simp
    from Cons.IH [OF _ p(2) _ False this] show ?thesis
      using Cons.prems(1) p False l upd by (auto simp: I2C_ISR_def)
  qed
qed simp

section \<open>The timeout\<close>

lemma delay_one:
  assumes f: "keeps_time f" and m: "ms_per_interrupt c \<noteq> 0" and fuel: "0 < fuel"
  shows "\<exists>r c'. msp430_delay_ms fuel f 1 c = Some (r, c') \<and> ms_per_interrupt c' \<noteq> 0"
proof (cases "enabled c")
  case True
  obtain n where n: "fuel = Suc n" using fuel by (cases fuel) auto
  have "unat (ucast (ms_per_interrupt c) :: u32) \<noteq> 0" using m by (simp add: unat_ucast32 unat_eq_0)
  then have "\<not> ucast (ms_per_interrupt c) < (1 :: u32)" by (simp add: word_less_nat_alt)
  then have "delay_loop fuel f (timestamp c) 1 c = Some (TIMERB0_ISR f c)"
    unfolding n by (subst delay_loop.simps, simp, subst delay_loop.simps) (simp add: tick_time [OF f])
  then show ?thesis using True m by (simp add: msp430_delay_ms_def tick_time [OF f])
qed (simp add: msp430_delay_ms_def m)

lemma recover_returns:
  assumes f: "keeps_time f" and m: "ms_per_interrupt (clock b) \<noteq> 0" and fuel: "0 < fuel"
  shows "\<exists>b'. i2c_recover fuel f b = Some (- 1, b') \<and> state (i2c b') = STATE_WAITING \<and> (i2c_enabled (i2c b) \<longrightarrow> i2c_enabled (i2c b'))"
proof -
  obtain r c1 where 1: "msp430_delay_ms fuel f 1 (clock b) = Some (r, c1)" "ms_per_interrupt c1 \<noteq> 0"
    using delay_one [OF assms] by blast
  obtain r2 c2 where "msp430_delay_ms fuel f 1 c1 = Some (r2, c2)" using delay_one [OF f 1(2) fuel] by blast
  with 1 show ?thesis
    by (auto simp: i2c_recover_def Let_def msp430_i2c_disable_def msp430_i2c_enable_def)
qed

text \<open>With enough ticks the loop ends, whatever the peripheral does.\<close>

lemma wait_transfer_returns:
  assumes f: "keeps_time f" and lim: "unat start + 2500 + unat (ms_per_interrupt (clock b)) < 2 ^ 32"
    and m: "ms_per_interrupt (clock b) \<noteq> 0" and fuel: "0 < fuel"
    and t: "unat start + 2500 \<le> unat (timestamp (clock b)) + ticks ws * unat (ms_per_interrupt (clock b))"
    and b: "unat (timestamp (clock b)) < unat start + 2500"
  shows "\<exists>r b' ws'. wait_transfer fuel f start ws b = Some (r, b', ws') \<and> state (i2c b') = STATE_WAITING"
  using t b m lim
proof (induction ws arbitrary: b)
  case (Cons w ws)
  show ?case
  proof (cases "state (i2c b) = STATE_WAITING")
    case run: False
    show ?thesis
    proof (cases "start + 2500 \<le> timestamp (clock (run_wake f w b))")
      case True
      have "ms_per_interrupt (clock (run_wake f w b)) \<noteq> 0" using Cons.prems(3) by (cases w) (simp_all add: tick_time [OF f])
      from recover_returns [OF f this fuel] show ?thesis using True run by (auto simp: Let_def)
    next
      case False
      then have late: "unat (timestamp (clock (run_wake f w b))) < unat start + 2500"
        using Cons.prems(4) by (simp add: word_le_nat_alt unat_word_ariths not_le)
      show ?thesis
      proof (cases w)
        case (I2c_interrupt iv rxbuf)
        then show ?thesis using Cons.IH [of "run_wake f w b"] Cons.prems run False by simp
      next
        case Timer_tick
        let ?m = "ms_per_interrupt (clock b)"
        have u: "unat (timestamp (clock b) + ucast ?m) = unat (timestamp (clock b)) + unat ?m"
          using Cons.prems(2,4) by (subst unat_word_ariths) (simp add: unat_ucast32)
        show ?thesis
          using Cons.IH [of "run_wake f w b"] Cons.prems run False late u Timer_tick by (simp add: tick_time [OF f])
      qed
    qed
  qed simp
qed simp

section \<open>Properties\<close>

text \<open>A board with its clock and I2C port enabled.\<close>

definition demo_board :: board where
  "demo_board = (let c = snd (msp430_clock_init 20000000 0 initial_clock)
     in \<lparr>clock = c, i2c = snd (msp430_i2c_enable c \<lparr>state = STATE_WAITING, slave_reg = 0, slave_reg_written = False,
        buffer = None, position = 0, len = 0, i2c_enabled = False, bus = [], i2c_fault = None\<rparr>)\<rparr>)"

lemma demo_board [simp]: "i2c_enabled (i2c demo_board)" "timestamp (clock demo_board) = 0" "ms_per_interrupt (clock demo_board) = 1"
  "i2c_fault (i2c demo_board) = None" "keeps_time (\<lambda>g c. c)"
  by (simp_all add: demo_board_def msp430_i2c_enable_def clock_ok_defs initial_clock_def Let_def keeps_time_def)

text \<open>C15: A write sends the register and exactly the data. On an enabled port, when the peripheral asks for a byte often enough, with timer ticks in between that stay below 2.5 s, a write of \<open>length\<close> bytes returns 0 and has put on the bus: the slave address, a start, the register number, the first \<open>length\<close> bytes of the buffer in order, and one stop; it has read only inside the buffer, and left it as it was.\<close>

theorem write_protocol:
  fixes b :: board
  assumes "i2c_enabled (i2c b)" "0 < length_in" "unat length_in \<le> length data_in"
    and "keeps_time f" "unat (timestamp (clock b)) + 2500 < 2 ^ 32" "ticks ws * unat (ms_per_interrupt (clock b)) < 2500"
    and "i2c_events ws = map (Pair 12) xs" "unat length_in + 1 < length xs"
  shows "\<exists>b' ws'. msp430_i2c_write slave_addr reg_addr length_in data_in fuel f ws b = Some (0, b', ws') \<and>
     bus (i2c b') = bus (i2c b) @ [Set_slave_address slave_addr, Start] @
       sends (reg_addr # take (unat length_in) data_in) @ [Clear_tx_flag, Stop] \<and>
     i2c_fault (i2c b') = i2c_fault (i2c b) \<and> buffer (i2c b') = Some data_in \<and> i2c_enabled (i2c b')"
proof -
  let ?p = "on_bus [Set_slave_address slave_addr, Start] ((i2c b)\<lparr>state := STATE_WRITING, slave_reg := reg_addr,
    slave_reg_written := False, buffer := Some data_in, position := 0, len := ucast length_in\<rparr>)"
  have n: "unat (ucast length_in :: u16) = unat length_in" by (rule unat_ucast16)
  have "writing ?p" "length (to_send ?p) < length xs" and s: "to_send ?p = reg_addr # take (unat length_in) data_in"
    using assms(3,8) by (simp_all add: writing_def to_send_def n)
  from write_run [OF this(1,2)] obtain p' where p': "i2c_run (i2c_events ws) ?p = Some p'"
    "bus p' = bus ?p @ sends (to_send ?p) @ [Clear_tx_flag, Stop]" "i2c_fault p' = i2c_fault ?p" "i2c_enabled p' = i2c_enabled ?p"
    "buffer p' = buffer ?p" using assms(7) by auto
  have "unat (timestamp (clock (b\<lparr>i2c := ?p\<rparr>))) + ticks ws * unat (ms_per_interrupt (clock (b\<lparr>i2c := ?p\<rparr>))) < unat (timestamp (clock b)) + 2500"
    using assms(6) by simp
  from wait_transfer_run [OF assms(4,5) this, of p' fuel] p' s assms(1,2) show ?thesis
    by (auto simp: msp430_i2c_write_def i2c_transfer_def Let_def)
qed

theorem write_protocol_witness:
  "\<exists>b' ws'. msp430_i2c_write 0x68 0x6B 2 [1, 2] 1 (\<lambda>g c. c)
       (map (\<lambda>e. I2c_interrupt (fst e) (snd e)) [(12, 0), (12, 0)] @ Timer_tick # map (\<lambda>e. I2c_interrupt (fst e) (snd e)) [(12, 0), (12, 0)]) demo_board
     = Some (0, b', ws') \<and>
     bus (i2c b') = bus (i2c demo_board) @ [Set_slave_address 0x68, Start, Clear_tx_flag, Send 0x6B, Clear_tx_flag, Send 1, Clear_tx_flag, Send 2,
       Clear_tx_flag, Stop]"
  using write_protocol [of demo_board 2 "[1, 2]" "\<lambda>g c. c"
      "map (\<lambda>e. I2c_interrupt (fst e) (snd e)) [(12, 0), (12, 0)] @ Timer_tick # map (\<lambda>e. I2c_interrupt (fst e) (snd e)) [(12, 0), (12, 0)]"
      "[0, 0, 0, 0]" "0x68" "0x6B" 1]
  by auto

text \<open>C16: A read stores exactly the bytes received, in order. When the peripheral asks twice for a byte (the register number, then the repeated start) and then delivers \<open>length\<close> bytes, within 2.5 s, a read returns 0, the buffer begins with these bytes and is otherwise unchanged, nothing is written outside it, and one stop is requested: with the repeated start when a single byte is read, otherwise when the last but one byte arrives.\<close>

theorem read_protocol:
  fixes b :: board
  assumes "i2c_enabled (i2c b)" "rs \<noteq> []" "unat length_in = length rs" "length rs \<le> length data_in"
    and "keeps_time f" "unat (timestamp (clock b)) + 2500 < 2 ^ 32" "ticks ws * unat (ms_per_interrupt (clock b)) < 2500"
    and "i2c_events ws = (12, x) # (12, y) # map (Pair 10) rs @ es"
  shows "\<exists>b' ws'. msp430_i2c_read slave_addr reg_addr length_in data_in fuel f ws b = Some (0, b', ws') \<and>
     buffer (i2c b') = Some (rs @ drop (length rs) data_in) \<and> i2c_fault (i2c b') = i2c_fault (i2c b) \<and>
     bus (i2c b') = bus (i2c b) @ [Set_slave_address slave_addr, Start, Clear_tx_flag, Send reg_addr, Clear_tx_flag, Start_receiving] @
       (if length rs = 1 then [Stop] else []) @ receives (length rs)"
proof -
  let ?p = "on_bus [Set_slave_address slave_addr, Start] ((i2c b)\<lparr>state := STATE_READING, slave_reg := reg_addr,
    slave_reg_written := False, buffer := Some data_in, position := 0, len := ucast length_in\<rparr>)"
  let ?q = "I2C_ISR 12 y (I2C_ISR 12 x ?p)"
  have n: "unat (ucast length_in :: u16) = length rs" using assms(3) by (simp add: unat_ucast16)
  have n1: "ucast length_in = (1 :: u16) \<longleftrightarrow> length rs = 1" by (metis n unat_1 unsigned_word_eqI)
  have n0: "length_in \<noteq> 0" using assms(2,3) by auto
  have q: "state ?q = STATE_READING" "buffer ?q = Some data_in" "len ?q = ucast length_in" "position ?q = 0"
      "i2c_fault ?q = i2c_fault (i2c b)" "state (I2C_ISR 12 x ?p) = STATE_READING"
      "bus ?q = bus (i2c b) @ [Set_slave_address slave_addr, Start, Clear_tx_flag, Send reg_addr, Clear_tx_flag, Start_receiving] @
        (if length rs = 1 then [Stop] else [])"
    using n1 by (simp_all add: I2C_ISR_def transmit_interrupt_def Let_def)
  have "length rs = unat (len ?q)" "position ?q + unat (len ?q) \<le> length data_in" using n assms(4) q by simp_all
  from read_run [OF q(1,2) this(1) assms(2) this(2), of es] obtain p' where p': "i2c_run (i2c_events ws) ?p = Some p'"
    "bus p' = bus ?q @ receives (length rs)" "i2c_fault p' = i2c_fault ?q" "buffer p' = Some (rs @ drop (length rs) data_in)"
    using q assms(8) by auto
  have "unat (timestamp (clock (b\<lparr>i2c := ?p\<rparr>))) + ticks ws * unat (ms_per_interrupt (clock (b\<lparr>i2c := ?p\<rparr>))) < unat (timestamp (clock b)) + 2500"
    using assms(7) by simp
  from wait_transfer_run [OF assms(5,6) this, of p' fuel] p' q(5,7) assms(1) n0 show ?thesis
    by (auto simp: msp430_i2c_read_def i2c_transfer_def Let_def)
qed

theorem read_protocol_witness:
  "\<exists>b' ws'. msp430_i2c_read 0x68 0x3B 2 [0, 0, 9] 1 (\<lambda>g c. c)
       [I2c_interrupt 12 0, I2c_interrupt 12 0, Timer_tick, I2c_interrupt 10 7, I2c_interrupt 10 8] demo_board = Some (0, b', ws') \<and>
     buffer (i2c b') = Some [7, 8, 9]"
  using read_protocol [of demo_board "[7, 8]" 2 "[0, 0, 9]" "\<lambda>g c. c"
      "[I2c_interrupt 12 0, I2c_interrupt 12 0, Timer_tick, I2c_interrupt 10 7, I2c_interrupt 10 8]" 0 0 "[]" "0x68" "0x3B" 1]
  by auto



text \<open>A device that does not answer goes unnoticed. The handler ends the transfer on a NAK without recording it, so a write or read whose address no device acknowledges returns 0, the code of success: nothing but the address and the stop have been on the bus, and the caller's buffer is as it was.\<close>

theorem nak_reported_as_success:
  fixes b :: board
  assumes "i2c_enabled (i2c b)" "length_in \<noteq> 0" "st \<noteq> STATE_WAITING" "unat (timestamp (clock b)) + 2500 < 2 ^ 32"
  shows "\<exists>b'. i2c_transfer st slave_addr reg_addr length_in data_in fuel f (I2c_interrupt 4 rxbuf # ws) b = Some (0, b', ws) \<and>
     bus (i2c b') = bus (i2c b) @ [Set_slave_address slave_addr, Start, Stop] \<and> buffer (i2c b') = Some data_in"
proof -
  have "\<not> timestamp (clock b) + 2500 \<le> timestamp (clock b)"
    using assms(4) by (simp add: word_le_nat_alt unat_word_ariths)
  then show ?thesis using assms(1-3) by (simp add: i2c_transfer_def Let_def I2C_ISR_def)
qed

theorem nak_reported_as_success_witness:
  "\<exists>b'. msp430_i2c_read 0x68 0x3B 14 (replicate 14 0) 1 (\<lambda>g c. c) [I2c_interrupt 4 0] demo_board = Some (0, b', []) \<and>
     buffer (i2c b') = Some (replicate 14 0)"
  using nak_reported_as_success [of demo_board 14 STATE_READING "0x68" "0x3B" "replicate 14 0" 1 "\<lambda>g c. c" 0 "[]"]
  by (auto simp: msp430_i2c_read_def)

text \<open>C32: Shortly before the clock wraps, transfers time out at once. In the last 2.5 s of the 2^32 ms the sum of the start time and the timeout wraps to a small number, so the first interrupt of a transfer, whichever it is, ends it with -1 (unless the clock itself wraps at that interrupt), although no time has passed; the delay, which subtracts, has no such hole.\<close>

theorem timeout_at_wrap:
  fixes b :: board
  assumes "i2c_enabled (i2c b)" "length_in \<noteq> 0" "st \<noteq> STATE_WAITING" "2 ^ 32 \<le> unat (timestamp (clock b)) + 2500"
    and "keeps_time f" "ms_per_interrupt (clock b) \<noteq> 0" "0 < fuel"
  shows "\<exists>b'. i2c_transfer st slave_addr reg_addr length_in data_in fuel f (I2c_interrupt iv rxbuf # ws) b = Some (- 1, b', ws)"
proof -
  have "(unat (timestamp (clock b)) + 2500) mod 2 ^ 32 = unat (timestamp (clock b)) + 2500 - 2 ^ 32"
    using assms(4) unsigned_less [of "timestamp (clock b)", where 'a = nat] by (simp add: le_mod_geq)
  then have late: "timestamp (clock b) + 2500 \<le> timestamp (clock b)"
    by (simp add: word_le_nat_alt unat_word_ariths)
  let ?b = "b\<lparr>i2c := on_bus [Set_slave_address slave_addr, Start] ((i2c b)\<lparr>state := st, slave_reg := reg_addr,
    slave_reg_written := False, buffer := Some data_in, position := 0, len := ucast length_in\<rparr>)\<rparr>"
  have "ms_per_interrupt (clock (run_wake f (I2c_interrupt iv rxbuf) ?b)) \<noteq> 0" using assms(6) by simp
  then obtain b' where "i2c_recover fuel f (run_wake f (I2c_interrupt iv rxbuf) ?b) = Some (- 1, b')"
    using recover_returns [OF assms(5) _ assms(7)] by blast
  then have "wait_transfer fuel f (timestamp (clock b)) (I2c_interrupt iv rxbuf # ws) ?b = Some (- 1, b', ws)"
    using late assms(3) by (simp add: Let_def)
  then show ?thesis using assms(1,2) by (simp add: i2c_transfer_def Let_def del: wait_transfer.simps)
qed

theorem timeout_at_wrap_witness:
  "\<exists>b'. msp430_i2c_write 0x68 0x6B 1 [0] 1 (\<lambda>g c. c) [I2c_interrupt 12 0]
       (demo_board\<lparr>clock := (clock demo_board)\<lparr>timestamp := 0xFFFFFFFF\<rparr>\<rparr>) = Some (- 1, b', [])"
  using timeout_at_wrap [of "demo_board\<lparr>clock := (clock demo_board)\<lparr>timestamp := 0xFFFFFFFF\<rparr>\<rparr>" 1 STATE_WRITING "\<lambda>g c. c" 1 "0x68" "0x6B" "[0]" 12 0 "[]"]
  by (simp add: msp430_i2c_write_def)

end
