(* ===== verification/Msp430_Int.thy ===== *)
theory Msp430_Int
  imports Prelude
begin

text \<open>
  The GPIO interrupts of the MSP430 board (3rd_party/msp430/msp430_interrupt.c): the callbacks of
  the pins of ports 1 and 2, their registration, and the handlers of the two shared vectors.  The
  registers of a port are bytes; the vector register a handler reads, with the number of the pin, is
  its argument.  \<open>int\<close> has 16 bits there.
\<close>

section \<open>Ports\<close>

text \<open>
  The part of \<open>msp430_int_s\<close> that belongs to a port, and the port's registers.  A callback is a number.
\<close>

record port =
  cbs :: "nat option list"
  exits :: "u8 list"
  active_low :: u8
  IFG :: u8
  IE :: u8
  OUT :: u8
  IES :: u8
  DIR :: u8
  REN :: u8

datatype sys_access = Clear_oscillator_faults | Clear_OFIFG | Clear_SYSBERRIV | USB_disable

text \<open>
  \<open>ran\<close> records the callbacks called, \<open>on_exit\<close> the low-power modes left on exit, \<open>int_fault\<close> an index
  outside of the arrays.
\<close>

record interrupts =
  p1 :: port
  p2 :: port
  ran :: "nat list"
  on_exit :: "nat list"
  sys :: "sys_access list"
  int_fault :: "u8 option"

abbreviation (input) INT_PORT_P1 :: u16 where "INT_PORT_P1 \<equiv> 0x100"
abbreviation (input) INT_PORT_P2 :: u16 where "INT_PORT_P2 \<equiv> 0x200"
abbreviation (input) INT_EXIT_NONE :: u8 where "INT_EXIT_NONE \<equiv> 0"

definition int_pin_to_index :: "u16 \<Rightarrow> u8" where
  "int_pin_to_index pin = ucast (drop_bit 1 (pin AND 0x1F) - 1)"

definition index_to_bit :: "u8 \<Rightarrow> u8" where
  "index_to_bit index = ucast (push_bit (unat index) (1 :: u16))"

section \<open>The interrupt handlers\<close>

datatype SYSUNIV = SYSUNIV_NONE | SYSUNIV_NMIIFG | SYSUNIV_OFIFG | SYSUNIV_ACCVIFG | SYSUNIV_BUSIFG

text \<open>The argument \<open>usb\<close>: built with \<open>CONFIG_INTERFACE_USB\<close>.\<close>

definition UNMI_ISR :: "bool \<Rightarrow> SYSUNIV \<Rightarrow> interrupts \<Rightarrow> interrupts" where
  "UNMI_ISR usb v s =
     (case v of
        SYSUNIV_OFIFG \<Rightarrow> s\<lparr>sys := sys s @ [Clear_oscillator_faults, Clear_OFIFG]\<rparr>
      | SYSUNIV_BUSIFG \<Rightarrow> s\<lparr>sys := sys s @ Clear_SYSBERRIV # (if usb then [USB_disable] else [])\<rparr>
      | _ \<Rightarrow> s)"

definition low_power_mode :: "u8 \<Rightarrow> nat option" where
  "low_power_mode e = (if e = 1 then Some 0 else if e = 2 then Some 1 else if e = 3 then Some 2 else if e = 4 then Some 3
     else if e = 5 then Some 4 else None)"

definition leave :: "u8 \<Rightarrow> interrupts \<Rightarrow> interrupts" where
  "leave e s = (case low_power_mode e of None \<Rightarrow> s | Some m \<Rightarrow> s\<lparr>on_exit := on_exit s @ [m]\<rparr>)"

text \<open>The two handlers differ in the port alone.  What a callback does is the argument \<open>f\<close>.\<close>

definition port_isr ::
  "(interrupts \<Rightarrow> port) \<Rightarrow> ((port \<Rightarrow> port) \<Rightarrow> interrupts \<Rightarrow> interrupts) \<Rightarrow>
   (nat \<Rightarrow> interrupts \<Rightarrow> interrupts) \<Rightarrow> u16 \<Rightarrow> interrupts \<Rightarrow> interrupts" where
  "port_isr get upd f iv s =
     (let index = int_pin_to_index iv; bit = index_to_bit index
      in if unat index \<ge> 8 then s\<lparr>int_fault := Some index\<rparr>
         else
           let s1 = (case cbs (get s) ! unat index of None \<Rightarrow> s | Some cb \<Rightarrow> f cb (s\<lparr>ran := ran s @ [cb]\<rparr>));
               s2 = upd (\<lambda>p. p\<lparr>IFG := IFG p AND NOT bit\<rparr>) s1
           in leave (exits (get s2) ! unat index) s2)"

definition P1_ISR :: "(nat \<Rightarrow> interrupts \<Rightarrow> interrupts) \<Rightarrow> u16 \<Rightarrow> interrupts \<Rightarrow> interrupts" where
  "P1_ISR = port_isr p1 p1_update"

definition P2_ISR :: "(nat \<Rightarrow> interrupts \<Rightarrow> interrupts) \<Rightarrow> u16 \<Rightarrow> interrupts \<Rightarrow> interrupts" where
  "P2_ISR = port_isr p2 p2_update"

section \<open>Enabling and disabling\<close>

definition mask_port :: "port \<Rightarrow> port" where
  "mask_port p = p\<lparr>IFG := IFG p AND NOT 0xFF, IE := IE p AND NOT 0xFF\<rparr>"

definition flag_pin :: "nat \<Rightarrow> port \<Rightarrow> port" where
  "flag_pin index p =
     (let bit = index_to_bit (of_nat index)
      in if cbs p ! index \<noteq> None then p\<lparr>IFG := IFG p OR bit, IE := IE p OR bit\<rparr> else p)"

definition msp430_int_enable :: "interrupts \<Rightarrow> s32 \<times> interrupts" where
  "msp430_int_enable s =
     (0, fold (\<lambda>index s. p2_update (flag_pin index) (p1_update (flag_pin index) s)) [0..<8]
           (p2_update mask_port (p1_update mask_port s)))"

definition msp430_int_disable :: "interrupts \<Rightarrow> s32 \<times> interrupts" where
  "msp430_int_disable s = (0, p2_update mask_port (p1_update mask_port s))"

definition clear_port :: "port \<Rightarrow> port" where
  "clear_port p = p\<lparr>cbs := replicate 8 None, exits := replicate 8 0, active_low := 0\<rparr>"

definition msp430_int_init :: "interrupts \<Rightarrow> s32 \<times> interrupts" where
  "msp430_int_init s = (0, snd (msp430_int_enable (p2_update clear_port (p1_update clear_port s))))"

section \<open>Registration\<close>

definition register_on_port :: "nat option \<Rightarrow> nat \<Rightarrow> u8 \<Rightarrow> u8 \<Rightarrow> u8 \<Rightarrow> port \<Rightarrow> port" where
  "register_on_port cb index pin_bit lp_exit low p =
     (let q = p\<lparr>cbs := (cbs p)[index := cb]\<rparr>;
          r = (if low \<noteq> 0 then q\<lparr>OUT := OUT q OR pin_bit, IES := IES q OR pin_bit, active_low := active_low q OR pin_bit\<rparr>
               else q\<lparr>OUT := OUT q AND NOT pin_bit, active_low := active_low q AND NOT pin_bit\<rparr>)
      in if cb = None
         then r\<lparr>DIR := DIR r OR pin_bit, REN := REN r AND NOT pin_bit, IFG := IFG r AND NOT pin_bit, IE := IE r AND NOT pin_bit,
                exits := (exits r)[index := INT_EXIT_NONE]\<rparr>
         else r\<lparr>DIR := DIR r AND NOT pin_bit, REN := REN r OR pin_bit, IFG := IFG r AND NOT pin_bit, IE := IE r OR pin_bit,
                exits := (exits r)[index := lp_exit]\<rparr>)"

definition msp430_reg_int_cb :: "nat option \<Rightarrow> u16 \<Rightarrow> u8 \<Rightarrow> u8 \<Rightarrow> interrupts \<Rightarrow> s32 \<times> interrupts" where
  "msp430_reg_int_cb cb pin lp_exit low s =
     (let index = int_pin_to_index pin; bit = index_to_bit index;
          register = (\<lambda>upd. if unat index \<ge> 8 then s\<lparr>int_fault := Some index\<rparr>
                            else upd (register_on_port cb (unat index) bit lp_exit low) s)
      in (0, if pin AND INT_PORT_P1 \<noteq> 0 then register p1_update
             else if pin AND INT_PORT_P2 \<noteq> 0 then register p2_update
             else s))"

section \<open>Pins, indices and bits\<close>

lemma less_8: "i < 8 \<Longrightarrow> i = 0 \<or> i = 1 \<or> i = 2 \<or> i = 3 \<or> i = 4 \<or> i = 5 \<or> i = 6 \<or> i = (7 :: nat)"
  by linarith

lemma index_of_vector: "i < 8 \<Longrightarrow> int_pin_to_index (of_nat (2 * i + 2)) = of_nat i"
  by (drule less_8) (elim disjE; simp add: int_pin_to_index_def)

lemma bit_index: "i < 8 \<Longrightarrow> j < 8 \<Longrightarrow> bit (index_to_bit (of_nat i)) j \<longleftrightarrow> i = j"
  by (simp add: index_to_bit_def bit_simps take_bit_nat_eq_self unat_of_nat) (auto simp: bit_simps)

lemma unat_small: "i < 8 \<Longrightarrow> unat (of_nat i :: u8) = i"
  by (simp add: unat_of_nat)

text \<open>The index of a pin lies within the arrays exactly when the low five bits of the pin number are 2 to 17, the numbers of the header and, for the last bit, their successors; every other number makes an index outside of them, 0 and 1 the index 255.\<close>

theorem pin_index_bounds:
  "unat (int_pin_to_index pin) < 8 \<longleftrightarrow> 2 \<le> unat pin mod 32 \<and> unat pin mod 32 < 18"
proof -
  have m: "unat (pin AND 0x1F) = unat pin mod 32"
  proof -
    have "pin AND 0x1F = take_bit 5 pin" by (simp add: take_bit_eq_mask mask_eq_exp_minus_1)
    then show ?thesis by (simp add: take_bit_eq_mod unat_mod)
  qed
  have d: "unat (drop_bit 1 (pin AND 0x1F)) = unat pin mod 32 div 2"
    using m by (simp add: drop_bit_eq_div unat_div)
  show ?thesis
  proof (cases "unat pin mod 32 div 2 = 0")
    case True
    then have "drop_bit 1 (pin AND 0x1F) = 0" using d by (metis unsigned_eq_0_iff)
    moreover have "ucast (- 1 :: u16) = (255 :: u8)" by code_simp
    ultimately have "int_pin_to_index pin = 255" by (simp add: int_pin_to_index_def)
    then show ?thesis using True by simp
  next
    case False
    then have "unat (drop_bit 1 (pin AND 0x1F) - 1) = unat pin mod 32 div 2 - 1"
      using d by (subst unat_sub) (simp_all add: word_le_nat_alt)
    then have "unat (int_pin_to_index pin) = unat pin mod 32 div 2 - 1"
      by (simp add: int_pin_to_index_def unsigned_ucast_eq take_bit_nat_eq_self)
    then show ?thesis using False by linarith
  qed
qed

section \<open>What every sequence of calls and interrupts keeps\<close>

text \<open>
  Of every pin: it interrupts only with a callback; a pin with a callback is an input with its resistor
  on, pulled to the level it is inactive at, and if it is active low it looks for the falling edge; a pin
  without one leaves no low-power mode.
\<close>

definition pin_ok :: "port \<Rightarrow> nat \<Rightarrow> bool" where
  "pin_ok p i \<longleftrightarrow>
     (bit (IE p) i \<longrightarrow> cbs p ! i \<noteq> None) \<and>
     (cbs p ! i \<noteq> None \<longrightarrow> \<not> bit (DIR p) i \<and> bit (REN p) i \<and> (bit (OUT p) i \<longleftrightarrow> bit (active_low p) i) \<and>
        (bit (active_low p) i \<longrightarrow> bit (IES p) i)) \<and>
     (cbs p ! i = None \<longrightarrow> exits p ! i = INT_EXIT_NONE)"

definition port_ok :: "port \<Rightarrow> bool" where
  "port_ok p \<longleftrightarrow> length (cbs p) = 8 \<and> length (exits p) = 8 \<and> (\<forall>i<8. pin_ok p i)"

definition interrupts_ok :: "interrupts \<Rightarrow> bool" where
  "interrupts_ok s \<longleftrightarrow> port_ok (p1 s) \<and> port_ok (p2 s) \<and> int_fault s = None"

text \<open>The calls with pins of the header, the interrupts of enabled pins, and edges at the pins.\<close>

inductive int_step :: "(nat \<Rightarrow> interrupts \<Rightarrow> interrupts) \<Rightarrow> interrupts \<Rightarrow> interrupts \<Rightarrow> bool"
  for f where
  enable: "int_step f s (snd (msp430_int_enable s))"
| disable: "int_step f s (snd (msp430_int_disable s))"
| register: "unat (int_pin_to_index pin) < 8 \<Longrightarrow> int_step f s (snd (msp430_reg_int_cb cb pin lp_exit low s))"
| port1: "i < 8 \<Longrightarrow> bit (IE (p1 s)) i \<Longrightarrow> int_step f s (P1_ISR f (of_nat (2 * i + 2)) s)"
| port2: "i < 8 \<Longrightarrow> bit (IE (p2 s)) i \<Longrightarrow> int_step f s (P2_ISR f (of_nat (2 * i + 2)) s)"
| edge1: "int_step f s (s\<lparr>p1 := (p1 s)\<lparr>IFG := v\<rparr>\<rparr>)"
| edge2: "int_step f s (s\<lparr>p2 := (p2 s)\<lparr>IFG := v\<rparr>\<rparr>)"
| unmi: "int_step f s (UNMI_ISR usb v s)"

definition int_reachable :: "(nat \<Rightarrow> interrupts \<Rightarrow> interrupts) \<Rightarrow> interrupts \<Rightarrow> bool" where
  "int_reachable f s \<longleftrightarrow> (\<exists>s0. int_fault s0 = None \<and> (int_step f)\<^sup>*\<^sup>* (snd (msp430_int_init s0)) s)"

lemma port_okI: "length (cbs p) = 8 \<Longrightarrow> length (exits p) = 8 \<Longrightarrow> (\<And>i. i < 8 \<Longrightarrow> pin_ok p i) \<Longrightarrow> port_ok p"
  by (simp add: port_ok_def)

lemma pin_ok_IFG [simp]: "pin_ok (p\<lparr>IFG := v\<rparr>) i \<longleftrightarrow> pin_ok p i"
  by (simp add: pin_ok_def)

lemma port_ok_IFG [simp]: "port_ok (p\<lparr>IFG := v\<rparr>) \<longleftrightarrow> port_ok p"
  by (simp add: port_ok_def)

lemma mask_port_ok: "port_ok p \<Longrightarrow> port_ok (mask_port p)"
  by (auto simp: port_ok_def pin_ok_def mask_port_def bit_simps)

lemma clear_port_ok: "port_ok (mask_port (clear_port p))"
proof (rule port_okI)
  fix i :: nat assume i: "i < 8"
  have "\<not> bit (0xFF :: u8) i \<longleftrightarrow> False" using less_8 [OF i] by (elim disjE) simp_all
  then show "pin_ok (mask_port (clear_port p)) i"
    using i by (simp add: pin_ok_def mask_port_def clear_port_def bit_simps)
qed (simp_all add: mask_port_def clear_port_def)

lemma flag_pin_ok:
  assumes "port_ok p" "index < 8"
  shows "port_ok (flag_pin index p)"
  using assms by (auto simp: port_ok_def pin_ok_def flag_pin_def Let_def bit_simps bit_index)

lemma register_on_port_ok:
  assumes "port_ok p" "index < 8"
  shows "port_ok (register_on_port cb index (index_to_bit (of_nat index)) lp_exit low p)"
proof (rule port_okI)
  fix i :: nat assume i: "i < 8"
  have "pin_ok p i" "length (cbs p) = 8" "length (exits p) = 8" using assms(1) i by (simp_all add: port_ok_def)
  then show "pin_ok (register_on_port cb index (index_to_bit (of_nat index)) lp_exit low p) i"
    using i assms(2) by (cases "i = index") (auto simp: pin_ok_def register_on_port_def Let_def bit_simps bit_index)
qed (use assms(1) in \<open>simp_all add: port_ok_def register_on_port_def Let_def\<close>)

lemma disable_ok: "interrupts_ok s \<Longrightarrow> interrupts_ok (snd (msp430_int_disable s))"
  by (simp add: msp430_int_disable_def interrupts_ok_def mask_port_ok)

lemma flags_ok:
  assumes "interrupts_ok s" "\<forall>i \<in> set xs. i < 8"
  shows "interrupts_ok (fold (\<lambda>index s. p2_update (flag_pin index) (p1_update (flag_pin index) s)) xs s)"
  using assms
proof (induction xs arbitrary: s)
  case (Cons x xs)
  then have "interrupts_ok (p2_update (flag_pin x) (p1_update (flag_pin x) s))"
    by (simp add: interrupts_ok_def flag_pin_ok)
  then show ?case using Cons by simp
qed simp

lemma enable_ok: "interrupts_ok s \<Longrightarrow> interrupts_ok (snd (msp430_int_enable s))"
  unfolding msp430_int_enable_def snd_conv by (rule flags_ok) (simp_all add: interrupts_ok_def mask_port_ok)

lemma init_ok:
  assumes "int_fault s = None"
  shows "interrupts_ok (snd (msp430_int_init s))"
proof -
  have "interrupts_ok (p2_update mask_port (p1_update mask_port (p2_update clear_port (p1_update clear_port s))))"
    using assms by (simp add: interrupts_ok_def clear_port_ok)
  then show ?thesis
    unfolding msp430_int_init_def msp430_int_enable_def snd_conv by (rule flags_ok) simp
qed

lemma register_ok:
  assumes "interrupts_ok s" "unat (int_pin_to_index pin) < 8"
  shows "interrupts_ok (snd (msp430_reg_int_cb cb pin lp_exit low s))"
proof -
  let ?i = "int_pin_to_index pin"
  have "port_ok p \<Longrightarrow> port_ok (register_on_port cb (unat ?i) (index_to_bit ?i) lp_exit low p)" for p
    using register_on_port_ok [of p "unat ?i"] assms(2) by simp
  then show ?thesis using assms by (simp add: msp430_reg_int_cb_def Let_def interrupts_ok_def)
qed

lemma unmi_ok: "interrupts_ok s \<Longrightarrow> interrupts_ok (UNMI_ISR usb v s)"
  by (cases v) (simp_all add: UNMI_ISR_def interrupts_ok_def)

lemma edge_ok:
  "interrupts_ok s \<Longrightarrow> interrupts_ok (s\<lparr>p1 := (p1 s)\<lparr>IFG := v\<rparr>\<rparr>)"
  "interrupts_ok s \<Longrightarrow> interrupts_ok (s\<lparr>p2 := (p2 s)\<lparr>IFG := v\<rparr>\<rparr>)"
  by (simp_all add: interrupts_ok_def)

lemmas call_ok = enable_ok disable_ok register_ok unmi_ok edge_ok

lemma leave_sel [simp]: "p1 (leave e s) = p1 s" "p2 (leave e s) = p2 s" "int_fault (leave e s) = int_fault s" "ran (leave e s) = ran s"
  by (simp_all add: leave_def split: option.splits)

text \<open>
  What the two handlers have in common, with the port as the interface: its laws are those of a field of
  the state.
\<close>

locale gpio_port =
  fixes get :: "interrupts \<Rightarrow> port" and upd :: "(port \<Rightarrow> port) \<Rightarrow> interrupts \<Rightarrow> interrupts"
  assumes get_upd: "get (upd g s) = g (get s)"
    and get_leave: "get (leave e s) = get s"
    and get_ok: "interrupts_ok s \<Longrightarrow> port_ok (get s)"
    and upd_ok: "interrupts_ok s \<Longrightarrow> port_ok (g (get s)) \<Longrightarrow> interrupts_ok (upd g s)"
begin

lemma isr_runs:
  assumes "interrupts_ok s" "i < 8" "bit (IE (get s)) i"
  shows "\<exists>cb. cbs (get s) ! i = Some cb \<and>
     (let s1 = f cb (s\<lparr>ran := ran s @ [cb]\<rparr>)
      in port_isr get upd f (of_nat (2 * i + 2)) s =
           leave (exits (get s1) ! i) (upd (\<lambda>p. p\<lparr>IFG := IFG p AND NOT (index_to_bit (of_nat i))\<rparr>) s1))"
proof -
  have "pin_ok (get s) i" using get_ok [OF assms(1)] assms(2) by (simp add: port_ok_def)
  then obtain cb where "cbs (get s) ! i = Some cb" using assms(3) by (auto simp: pin_ok_def)
  then show ?thesis using index_of_vector [OF assms(2)] assms(2) by (simp add: port_isr_def Let_def unat_small get_upd)
qed

lemma isr_ok:
  assumes "interrupts_ok s" "i < 8" "bit (IE (get s)) i" and f: "\<And>g s. interrupts_ok s \<Longrightarrow> interrupts_ok (f g s)"
  shows "interrupts_ok (port_isr get upd f (of_nat (2 * i + 2)) s)"
proof -
  obtain cb where isr: "port_isr get upd f (of_nat (2 * i + 2)) s =
      leave (exits (get (f cb (s\<lparr>ran := ran s @ [cb]\<rparr>))) ! i)
        (upd (\<lambda>p. p\<lparr>IFG := IFG p AND NOT (index_to_bit (of_nat i))\<rparr>) (f cb (s\<lparr>ran := ran s @ [cb]\<rparr>)))"
    using isr_runs [OF assms(1-3), of f] by (auto simp: Let_def)
  have "interrupts_ok (f cb (s\<lparr>ran := ran s @ [cb]\<rparr>))"
    using assms(1) by (intro f) (simp add: interrupts_ok_def)
  then have "interrupts_ok (upd (\<lambda>p. p\<lparr>IFG := IFG p AND NOT (index_to_bit (of_nat i))\<rparr>) (f cb (s\<lparr>ran := ran s @ [cb]\<rparr>)))"
    by (simp add: upd_ok get_ok)
  then show ?thesis unfolding isr by (simp add: interrupts_ok_def)
qed

lemma isr_clears:
  assumes "interrupts_ok s" "i < 8" "bit (IE (get s)) i"
  shows "\<not> bit (IFG (get (port_isr get upd f (of_nat (2 * i + 2)) s))) i"
  using isr_runs [OF assms, of f] assms(2) by (auto simp: Let_def get_leave get_upd bit_simps bit_index)

end

interpretation port1: gpio_port p1 p1_update
  by unfold_locales (simp_all add: interrupts_ok_def)

interpretation port2: gpio_port p2 p2_update
  by unfold_locales (simp_all add: interrupts_ok_def)

lemma int_step_ok:
  assumes "int_step f s t" "interrupts_ok s" "\<And>g s. interrupts_ok s \<Longrightarrow> interrupts_ok (f g s)"
  shows "interrupts_ok t"
  using assms(1)
proof cases
  case (port1 i)
  show ?thesis unfolding port1(1) P1_ISR_def by (rule port1.isr_ok [OF assms(2) port1(2,3)]) (rule assms(3))
next
  case (port2 i)
  show ?thesis unfolding port2(1) P2_ISR_def by (rule port2.isr_ok [OF assms(2) port2(2,3)]) (rule assms(3))
qed (simp_all add: call_ok assms(2))

lemma int_reachable_ok:
  assumes "int_reachable f s" "\<And>g s. interrupts_ok s \<Longrightarrow> interrupts_ok (f g s)"
  shows "interrupts_ok s"
proof -
  obtain s0 where s0: "int_fault s0 = None" "(int_step f)\<^sup>*\<^sup>* (snd (msp430_int_init s0)) s"
    using assms(1) by (auto simp: int_reachable_def)
  from s0(2) init_ok [OF s0(1)] show ?thesis
    by (induction rule: rtranclp_induct) (auto intro: int_step_ok assms(2))
qed

section \<open>Properties\<close>

definition idle_port :: port where
  "idle_port = \<lparr>cbs = replicate 8 None, exits = replicate 8 0, active_low = 0, IFG = 0, IE = 0, OUT = 0, IES = 0, DIR = 0, REN = 0\<rparr>"

definition idle_interrupts :: interrupts where
  "idle_interrupts = \<lparr>p1 = idle_port, p2 = idle_port, ran = [], on_exit = [], sys = [], int_fault = None\<rparr>"

text \<open>A callback that ends the interrupts of its own pin, the first of port 1.\<close>

definition one_shot :: "nat \<Rightarrow> interrupts \<Rightarrow> interrupts" where
  "one_shot g s = snd (msp430_reg_int_cb None 0x102 0 0 s)"

lemma one_shot_ok: "interrupts_ok s \<Longrightarrow> interrupts_ok (one_shot g s)"
  unfolding one_shot_def by (rule register_ok) (simp_all add: int_pin_to_index_def)

definition armed :: interrupts where
  "armed = snd (msp430_reg_int_cb (Some 3) 0x102 1 1 (snd (msp430_int_init idle_interrupts)))"

lemma armed_reachable: "int_reachable one_shot armed"
proof -
  have "int_step one_shot (snd (msp430_int_init idle_interrupts)) armed"
    unfolding armed_def by (rule int_step.register) (simp add: int_pin_to_index_def)
  moreover have "int_fault idle_interrupts = None" by (simp add: idle_interrupts_def)
  ultimately show ?thesis by (auto simp: int_reachable_def)
qed

text \<open>C20: Pins and callbacks stay consistent. In every state the calls, the interrupts and the edges at the pins can lead to, whatever the registers held at the start, a pin interrupts only if it has a callback, a pin with a callback is an input pulled to its inactive level and, if it is active low, waits for the falling edge, and no index has left the arrays; provided the callbacks themselves keep this.\<close>

theorem interrupt_invariant:
  fixes s :: interrupts
  assumes "int_reachable f s" "\<And>g s. interrupts_ok s \<Longrightarrow> interrupts_ok (f g s)"
  shows "interrupts_ok s"
  using assms by (rule int_reachable_ok)

theorem interrupt_invariant_witness: "interrupts_ok armed"
  by (rule interrupt_invariant [OF armed_reachable one_shot_ok])

text \<open>An interrupt runs the callback of its pin. In every reachable state, the handler of a port called for an enabled pin finds a callback, records and runs exactly that one, clears the flag of that pin alone and leaves the low-power mode registered for the pin by then; the flag stays cleared even when the callback has set it again.\<close>

theorem interrupt_runs_callback:
  fixes s :: interrupts
  assumes "int_reachable f s" "\<And>g s. interrupts_ok s \<Longrightarrow> interrupts_ok (f g s)" "i < 8"
  shows "(bit (IE (p1 s)) i \<longrightarrow>
       (\<exists>cb s1. cbs (p1 s) ! i = Some cb \<and> s1 = f cb (s\<lparr>ran := ran s @ [cb]\<rparr>) \<and>
          P1_ISR f (of_nat (2 * i + 2)) s =
            leave (exits (p1 s1) ! i) (p1_update (\<lambda>p. p\<lparr>IFG := IFG p AND NOT (index_to_bit (of_nat i))\<rparr>) s1)) \<and>
       \<not> bit (IFG (p1 (P1_ISR f (of_nat (2 * i + 2)) s))) i) \<and>
     (bit (IE (p2 s)) i \<longrightarrow>
       (\<exists>cb s1. cbs (p2 s) ! i = Some cb \<and> s1 = f cb (s\<lparr>ran := ran s @ [cb]\<rparr>) \<and>
          P2_ISR f (of_nat (2 * i + 2)) s =
            leave (exits (p2 s1) ! i) (p2_update (\<lambda>p. p\<lparr>IFG := IFG p AND NOT (index_to_bit (of_nat i))\<rparr>) s1)) \<and>
       \<not> bit (IFG (p2 (P2_ISR f (of_nat (2 * i + 2)) s))) i)"
  using int_reachable_ok [OF assms(1,2)] assms(3) port1.isr_runs [of s i f] port2.isr_runs [of s i f]
    port1.isr_clears [of s i f] port2.isr_clears [of s i f]
  unfolding P1_ISR_def P2_ISR_def Let_def by blast

theorem interrupt_runs_callback_witness:
  "\<not> bit (IFG (p1 (P1_ISR one_shot 2 armed))) 0 \<and> bit (IE (p1 armed)) 0"
proof -
  have "bit (IE (p1 armed)) 0"
    by (simp add: armed_def msp430_reg_int_cb_def Let_def int_pin_to_index_def index_to_bit_def register_on_port_def bit_simps)
  then show ?thesis using interrupt_runs_callback [OF armed_reachable one_shot_ok, of 0] by simp
qed

lemma flags_set:
  assumes "\<forall>k \<in> set xs. k < 8" "j < 8"
  shows "let t = fold (\<lambda>index s. p2_update (flag_pin index) (p1_update (flag_pin index) s)) xs s
    in cbs (p1 t) = cbs (p1 s) \<and> cbs (p2 t) = cbs (p2 s) \<and>
       (bit (IFG (p1 t)) j \<longleftrightarrow> bit (IFG (p1 s)) j \<or> j \<in> set xs \<and> cbs (p1 s) ! j \<noteq> None) \<and>
       (bit (IFG (p2 t)) j \<longleftrightarrow> bit (IFG (p2 s)) j \<or> j \<in> set xs \<and> cbs (p2 s) ! j \<noteq> None)"
  using assms
proof (induction xs arbitrary: s)
  case (Cons x xs)
  then show ?case
    using Cons.IH [of "p2_update (flag_pin x) (p1_update (flag_pin x) s)"]
    by (auto simp: flag_pin_def Let_def bit_simps bit_index)
qed simp

text \<open>Enabling the interrupts raises them. The loop that enables the pins also sets their flags after all flags were cleared, so that after \<open>msp430_int_enable\<close> the flag of a pin is set exactly if it has a callback: every registered callback is called although nothing happened at its pin.\<close>

theorem enable_raises_interrupts:
  fixes s :: interrupts
  assumes "j < 8"
  shows "let t = snd (msp430_int_enable s)
    in (bit (IFG (p1 t)) j \<longleftrightarrow> cbs (p1 s) ! j \<noteq> None) \<and> (bit (IFG (p2 t)) j \<longleftrightarrow> cbs (p2 s) ! j \<noteq> None)"
proof -
  have "bit (0xFF :: u8) j" using less_8 [OF assms] by (elim disjE) simp_all
  then show ?thesis
    using flags_set [of "[0..<8]" j "p2_update mask_port (p1_update mask_port s)"] assms
    unfolding msp430_int_enable_def snd_conv Let_def by (simp add: mask_port_def bit_simps)
qed

theorem enable_raises_interrupts_witness:
  "let t = snd (msp430_int_enable armed) in bit (IFG (p1 t)) 0 \<longleftrightarrow> cbs (p1 armed) ! 0 \<noteq> None"
  using enable_raises_interrupts [of 0 armed] by (simp add: Let_def)

text \<open>A pin keeps its falling edge. Registering a callback as active high never clears the edge select bit which an earlier registration as active low has set, so the pin still interrupts on the falling edge: the registration changes the resistor and the recorded level and leaves the edge as it was.\<close>

theorem falling_edge_stays:
  fixes s :: interrupts
  assumes "i < 8"
  shows "let t = snd (msp430_reg_int_cb cb' (0x100 + of_nat (2 * i + 2)) lp' 0
                 (snd (msp430_reg_int_cb cb (0x100 + of_nat (2 * i + 2)) lp 1 s)))
    in bit (IES (p1 t)) i \<and> \<not> bit (active_low (p1 t)) i \<and> \<not> bit (OUT (p1 t)) i"
proof -
  have "int_pin_to_index (0x100 + of_nat (2 * i + 2)) = of_nat i" "(0x100 + of_nat (2 * i + 2)) AND 0x100 \<noteq> (0 :: u16)"
    using less_8 [OF assms] by (elim disjE; simp add: int_pin_to_index_def)+
  then show ?thesis
    using assms by (auto simp: msp430_reg_int_cb_def Let_def register_on_port_def unat_small bit_simps bit_index)
qed

theorem falling_edge_stays_witness:
  "bit (IES (p1 (snd (msp430_reg_int_cb (Some 1) 0x102 0 0 (snd (msp430_reg_int_cb (Some 1) 0x102 0 1 idle_interrupts)))))) 0"
  using falling_edge_stays [of 0 "Some 1" 0 "Some 1" 0 idle_interrupts] by (simp add: Let_def)

end
